(* ===== verification/JsNumber.thy ===== *)
theory JsNumber
  imports Complex_Main
begin

text \<open>
  The numbers of the program are JavaScript numbers, IEEE 754 double precision values.
  \<open>jsnum\<close> is such a value: a finite one is an exact rational, and every arithmetic
  operation rounds its exact result with \<open>fl\<close>, round to nearest with ties to even on 53
  significant bits (with gradual underflow at 2 to the power -1074) and overflow to an
  infinity. The two zeros are one value: no code that is modelled divides by a zero whose
  sign it could tell, and comparison and printing do not see the sign.

  The lemmas say what the development uses of this arithmetic: rounding is monotone, exact
  on every value that fits in 53 bits, and hence exact on integers up to 2 to the power 53.
\<close>

section \<open>Rounding\<close>

fun blen :: "int \<Rightarrow> nat" where
  "blen n = (if n \<le> 0 then 0 else Suc (blen (n div 2)))"

declare blen.simps [simp del]

lemma blen_bounds: "0 < n \<Longrightarrow> 2 ^ (blen n - 1) \<le> n \<and> n < 2 ^ blen n"
proof (induction n rule: blen.induct)
  case (1 n)
  have e: "blen n = Suc (blen (n div 2))" using "1.prems" by (subst blen.simps) simp
  show ?case
  proof (cases "n div 2 \<le> 0")
    case True
    with "1.prems" have n: "n = 1" by linarith
    show ?thesis by (simp add: n blen.simps [of 1] blen.simps [of 0])
  next
    case False
    with 1 have ih: "2 ^ (blen (n div 2) - 1) \<le> n div 2" "n div 2 < 2 ^ blen (n div 2)"
      by auto
    have pos: "0 < blen (n div 2)" using False by (subst blen.simps) simp
    have "2 ^ blen (n div 2) = 2 * (2::int) ^ (blen (n div 2) - 1)"
      using pos by (cases "blen (n div 2)") auto
    with ih have "2 ^ blen (n div 2) \<le> n" by linarith
    moreover have "n < 2 * 2 ^ blen (n div 2)" using ih(2) by linarith
    ultimately show ?thesis by (simp add: e)
  qed
qed

definition ilog2 :: "rat \<Rightarrow> int" where
  "ilog2 x = (let (n, d) = quotient_of x; k = int (blen n) - int (blen d)
    in if 2 powi k \<le> x then k else k - 1)"

lemma ilog2_bounds:
  assumes "0 < x"
  shows "2 powi (ilog2 x) \<le> x" and "x < 2 powi (ilog2 x + 1)"
proof -
  obtain n d where q: "quotient_of x = (n, d)" by (cases "quotient_of x") auto
  have d: "0 < d" using quotient_of_denom_pos [OF q] .
  have x: "x = of_int n / of_int d" using quotient_of_div [OF q] .
  have n: "0 < n" using assms x d by (simp add: zero_less_divide_iff)
  note bn = blen_bounds [OF n] and bd = blen_bounds [OF d]
  have pn: "0 < blen n" and pd: "0 < blen d"
    using n d by (auto simp: blen.simps [of n] blen.simps [of d])
  define j where "j = int (blen n) - int (blen d)"
  have ub: "(of_int a :: rat) < 2 ^ k" if "a < 2 ^ k" for a k
    using that by (metis of_int_less_iff of_int_numeral of_int_power)
  have lb: "(2 ^ k :: rat) \<le> of_int a" if "2 ^ k \<le> a" for a k
    using that by (metis of_int_le_iff of_int_numeral of_int_power)
  have "x < 2 ^ blen n / 2 ^ (blen d - 1)"
    unfolding x using bn bd n d by (intro frac_less) (auto intro: ub lb)
  also have "\<dots> = 2 powi (j + 1)"
    using pd by (simp add: j_def power_int_diff power_int_add power_diff)
  finally have up: "x < 2 powi (j + 1)" .
  have "2 ^ (blen n - 1) / 2 ^ blen d < x"
    unfolding x using bn bd n d by (intro frac_less2) (auto intro: ub lb)
  moreover have "(2 ^ (blen n - 1) / 2 ^ blen d :: rat) = 2 powi (j - 1)"
    using pn by (simp add: j_def power_int_diff power_int_add power_diff)
  ultimately have lo: "2 powi (j - 1) \<le> x" by simp
  have l: "ilog2 x = (if 2 powi j \<le> x then j else j - 1)"
    by (simp add: ilog2_def q j_def)
  show "2 powi (ilog2 x) \<le> x" "x < 2 powi (ilog2 x + 1)" using l up lo by auto
qed

lemma ilog2_mono:
  assumes "0 < x" "x \<le> y"
  shows "ilog2 x \<le> ilog2 y"
proof (rule ccontr)
  assume "\<not> ?thesis"
  then have "ilog2 y + 1 \<le> ilog2 x" by simp
  then have "(2::rat) powi (ilog2 y + 1) \<le> 2 powi (ilog2 x)"
    by (intro power_int_increasing) auto
  with ilog2_bounds [of x] ilog2_bounds [of y] assms show False by auto
qed

text \<open>Round half to even, on the integers.\<close>

definition rhe :: "rat \<Rightarrow> int" where
  "rhe x = (let f = \<lfloor>x\<rfloor>; r = x - of_int f in
    if r < 1/2 then f else if r > 1/2 then f + 1 else if even f then f else f + 1)"

lemma rhe_of_int [simp]: "rhe (of_int n) = n"
  by (simp add: rhe_def)

lemma rhe_floor: "\<lfloor>x\<rfloor> \<le> rhe x" "rhe x \<le> \<lfloor>x\<rfloor> + 1"
  by (auto simp: rhe_def Let_def)

lemma rhe_mono: "x \<le> y \<Longrightarrow> rhe x \<le> rhe y"
proof -
  assume le: "x \<le> y"
  then have f: "\<lfloor>x\<rfloor> \<le> \<lfloor>y\<rfloor>" by (rule floor_mono)
  show ?thesis
  proof (cases "\<lfloor>x\<rfloor> = \<lfloor>y\<rfloor>")
    case True
    with le show ?thesis by (auto simp: rhe_def Let_def)
  next
    case False
    with f have "\<lfloor>x\<rfloor> + 1 \<le> \<lfloor>y\<rfloor>" by simp
    with rhe_floor(2) [of x] rhe_floor(1) [of y] show ?thesis by linarith
  qed
qed

lemma rhe_ge: "of_int n \<le> x \<Longrightarrow> n \<le> rhe x"
  using rhe_mono [of "of_int n" x] by simp

lemma rhe_le: "x \<le> of_int n \<Longrightarrow> rhe x \<le> n"
  using rhe_mono [of x "of_int n"] by simp

lemma rhe_minus: "rhe (- x) = - rhe x"
proof (cases "x = of_int \<lfloor>x\<rfloor>")
  case True
  then show ?thesis by (metis of_int_minus rhe_of_int)
next
  case False
  then have c: "\<lceil>x\<rceil> = \<lfloor>x\<rfloor> + 1" by (simp add: ceiling_altdef)
  show ?thesis using False by (auto simp: rhe_def Let_def floor_minus c)
qed

text \<open>The spacing of the doubles at a value, and rounding to it.\<close>

definition ulp :: "rat \<Rightarrow> rat" where
  "ulp x = 2 powi (max (ilog2 \<bar>x\<bar> - 52) (-1074))"

definition fl :: "rat \<Rightarrow> rat" where
  "fl x = (if x = 0 then 0 else of_int (rhe (x / ulp x)) * ulp x)"

lemma ulp_pos [simp]: "0 < ulp x"
  by (simp add: ulp_def)

lemma ulp_nonneg [simp]: "0 \<le> ulp x"
  by (rule less_imp_le [OF ulp_pos])

lemma ulp_neq_0 [simp]: "ulp x \<noteq> 0"
  using less_imp_neq [OF ulp_pos] by metis

lemma ulp_mono: "0 < x \<Longrightarrow> x \<le> y \<Longrightarrow> ulp x \<le> ulp y"
  by (auto simp: ulp_def intro!: power_int_increasing dest: ilog2_mono)

lemma fl_0 [simp]: "fl 0 = 0"
  by (simp add: fl_def)

lemma fl_minus: "fl (- x) = - fl x"
  by (simp add: fl_def ulp_def rhe_minus)

lemma powi_in_ulp:
  assumes "ilog2 \<bar>x\<bar> - 52 \<le> e" "-1074 \<le> e"
  shows "\<exists>k. (2::rat) powi e = of_int k * ulp x"
proof -
  define u where "u = max (ilog2 \<bar>x\<bar> - 52) (-1074)"
  have "u \<le> e" using assms by (simp add: u_def)
  then have "(2::rat) powi e = 2 powi (e - u) * 2 powi u" by (simp flip: power_int_add)
  also have "2 powi (e - u) = (of_int (2 ^ nat (e - u)) :: rat)"
    using \<open>u \<le> e\<close> by (simp add: power_int_def)
  finally show ?thesis unfolding ulp_def u_def by blast
qed

lemma fl_multiple:
  assumes "x = of_int k * ulp x"
  shows "fl x = x"
proof -
  have "x / ulp x = of_int k" by (subst assms) simp
  then show ?thesis using assms by (simp add: fl_def)
qed

text \<open>A value with 53 significant bits, not below the smallest subnormal, is not changed.\<close>

lemma fl_exact:
  assumes x: "x = of_int m * 2 powi e" and m: "\<bar>m\<bar> \<le> 2 ^ 53" and e: "-1074 \<le> e"
  shows "fl x = x"
proof (cases "x = 0")
  case False
  have ax: "\<bar>x\<bar> = of_int \<bar>m\<bar> * 2 powi e" by (simp add: x abs_mult power_int_abs)
  have ax0: "0 < \<bar>x\<bar>" using False by simp
  have "(of_int \<bar>m\<bar> :: rat) \<le> of_int (2 ^ 53)" using m by (rule of_int_le_iff [THEN iffD2])
  then have "\<bar>x\<bar> \<le> 2 ^ 53 * 2 powi e" by (simp add: ax mult_right_mono del: of_int_abs)
  then have up: "\<bar>x\<bar> \<le> 2 powi (53 + e)" by (simp add: power_int_add)
  show ?thesis
  proof (cases "ilog2 \<bar>x\<bar> \<le> 52 + e")
    case True
    then obtain k where k: "(2::rat) powi e = of_int k * ulp x"
      using powi_in_ulp [of x e] e by auto
    have "of_int m * 2 powi e = of_int (m * k) * ulp x" unfolding k by simp
    with x have "x = of_int (m * k) * ulp x" by (rule trans)
    then show ?thesis by (rule fl_multiple)
  next
    case False
    then have "(2::rat) powi (53 + e) \<le> 2 powi (ilog2 \<bar>x\<bar>)" by (intro power_int_increasing) auto
    with ilog2_bounds(1) [OF ax0] up have eq: "\<bar>x\<bar> = 2 powi (53 + e)"
      and l: "(2::rat) powi (ilog2 \<bar>x\<bar>) = 2 powi (53 + e)" by auto
    have "\<not> 53 + e < ilog2 \<bar>x\<bar>"
      using power_int_strict_increasing [of "53 + e" "ilog2 \<bar>x\<bar>" "2::rat"] l by auto
    with False have il: "ilog2 \<bar>x\<bar> = 53 + e" by simp
    obtain k where k: "(2::rat) powi (53 + e) = of_int k * ulp x"
      using powi_in_ulp [of x "53 + e"] il e by auto
    define s where "s = (if x < 0 then - k else k)"
    have "x = of_int s * ulp x" using eq k by (auto simp: s_def abs_if split: if_splits)
    then show ?thesis by (rule fl_multiple)
  qed
qed simp

lemma fl_of_int: "\<bar>m\<bar> \<le> 2 ^ 53 \<Longrightarrow> fl (of_int m) = of_int m"
  by (rule fl_exact [of _ m 0]) auto

lemma fl_numeral [simp]: "(numeral k :: int) \<le> 2 ^ 53 \<Longrightarrow> fl (numeral k) = numeral k"
  using fl_of_int [of "numeral k"] by simp

lemma fl_1 [simp]: "fl 1 = 1"
  using fl_of_int [of 1] by simp

lemma fl_powi: "-1074 \<le> e \<Longrightarrow> fl (2 powi e) = 2 powi e"
  by (rule fl_exact [of _ 1 e]) auto

lemma fl_nonneg: "0 \<le> x \<Longrightarrow> 0 \<le> fl x"
proof -
  assume "0 \<le> x"
  then have "0 \<le> x / ulp x" by (rule divide_nonneg_pos) simp
  then have "0 \<le> rhe (x / ulp x)" using rhe_ge [of 0] by simp
  then show ?thesis by (simp add: fl_def)
qed

text \<open>The binade of the result: rounding does not leave it, except to its upper end.\<close>

lemma fl_binade:
  assumes x: "0 < x" and e: "-1022 \<le> ilog2 x"
  shows "2 powi (ilog2 x) \<le> fl x" "fl x \<le> 2 powi (ilog2 x + 1)"
proof -
  define l where "l = ilog2 x"
  have u: "ulp x = 2 powi (l - 52)" using x e by (simp add: ulp_def l_def)
  have b: "2 powi l \<le> x" "x < 2 powi (l + 1)" using ilog2_bounds [OF x] by (auto simp: l_def)
  have q: "(2::rat) powi l = of_int (2 ^ 52) * ulp x" "(2::rat) powi (l + 1) = of_int (2 ^ 53) * ulp x"
    by (simp_all add: u power_int_diff power_int_add)
  have "of_int (2 ^ 52) \<le> x / ulp x" "x / ulp x \<le> of_int (2 ^ 53)"
    using b unfolding q by (simp_all only: pos_le_divide_eq pos_divide_le_eq ulp_pos less_imp_le)
  then have "2 ^ 52 \<le> rhe (x / ulp x)" "rhe (x / ulp x) \<le> 2 ^ 53"
    by (auto intro: rhe_ge rhe_le)
  then have "(of_int (2 ^ 52) :: rat) \<le> of_int (rhe (x / ulp x))"
      "(of_int (rhe (x / ulp x)) :: rat) \<le> of_int (2 ^ 53)"
    by (simp_all only: of_int_le_iff)
  then show "2 powi (ilog2 x) \<le> fl x" "fl x \<le> 2 powi (ilog2 x + 1)"
    using x unfolding l_def [symmetric] q fl_def by (auto intro: mult_right_mono)
qed

lemma fl_mono_pos:
  assumes x: "0 < x" and xy: "x \<le> y"
  shows "fl x \<le> fl y"
proof (cases "ulp x = ulp y")
  case True
  have "x / ulp x \<le> y / ulp x" using xy by (rule divide_right_mono) simp
  then have "(of_int (rhe (x / ulp x)) :: rat) \<le> of_int (rhe (y / ulp x))"
    using rhe_mono of_int_le_iff by blast
  then show ?thesis using x xy by (auto simp: fl_def True [symmetric])
next
  case False
  have y: "0 < y" using x xy by simp
  have m: "ilog2 x \<le> ilog2 y" by (rule ilog2_mono [OF x xy])
  have "ilog2 x \<noteq> ilog2 y" using False x y by (auto simp: ulp_def)
  moreover have "-1022 < ilog2 y" using False x y m by (auto simp: ulp_def max_def split: if_splits)
  ultimately have lt: "ilog2 x < ilog2 y" "-1022 < ilog2 y" using m by simp_all
  have up: "fl x \<le> 2 powi (ilog2 y)"
  proof (cases "-1022 \<le> ilog2 x")
    case True
    have "fl x \<le> 2 powi (ilog2 x + 1)" by (rule fl_binade [OF x True])
    also have "\<dots> \<le> 2 powi (ilog2 y)" using lt by (intro power_int_increasing) auto
    finally show ?thesis .
  next
    case False
    have u: "ulp x = 2 powi (-1074)" using x False by (simp add: ulp_def)
    have "(2::rat) powi (-1022) = 2 powi 52 * 2 powi (-1074)" by (simp flip: power_int_add)
    then have s52: "(2::rat) powi (-1022) = 4503599627370496 * 2 powi (-1074)" by simp
    have "x \<le> 2 powi (ilog2 x + 1)" using ilog2_bounds(2) [OF x] by simp
    also have "\<dots> \<le> 2 powi (-1022)" using False by (intro power_int_increasing) auto
    also have "\<dots> = of_int (2 ^ 52) * ulp x" by (simp add: u s52)
    finally have "x / ulp x \<le> of_int (2 ^ 52)" by (simp only: pos_divide_le_eq ulp_pos)
    then have "rhe (x / ulp x) \<le> 2 ^ 52" by (rule rhe_le)
    then have "(of_int (rhe (x / ulp x)) :: rat) \<le> of_int (2 ^ 52)" by (simp only: of_int_le_iff)
    then have "fl x \<le> of_int (2 ^ 52) * ulp x" using x by (simp add: fl_def mult_right_mono)
    also have "\<dots> = 2 powi (-1022)" by (simp add: u s52)
    also have "\<dots> \<le> 2 powi (ilog2 y)" using lt by (intro power_int_increasing) auto
    finally show ?thesis .
  qed
  also have "\<dots> \<le> fl y" using lt by (intro fl_binade(1) [OF y]) auto
  finally show ?thesis .
qed

lemma fl_mono: "x \<le> y \<Longrightarrow> fl x \<le> fl y"
proof -
  assume le: "x \<le> y"
  consider "0 < x" | "x \<le> 0" "0 \<le> y" | "y < 0" by linarith
  then show ?thesis
  proof cases
    case 1
    with le show ?thesis by (blast intro: fl_mono_pos)
  next
    case 2
    then have "fl x \<le> 0" using fl_nonneg [of "- x"] by (simp add: fl_minus)
    with 2 fl_nonneg [of y] show ?thesis by linarith
  next
    case 3
    then have "fl (- y) \<le> fl (- x)" using le by (intro fl_mono_pos) auto
    then show ?thesis by (simp add: fl_minus)
  qed
qed

lemma fl_ge_int: "of_int m \<le> x \<Longrightarrow> \<bar>m\<bar> \<le> 2 ^ 53 \<Longrightarrow> of_int m \<le> fl x"
  using fl_mono [of "of_int m" x] fl_of_int [of m] by simp

lemma fl_le_int: "x \<le> of_int m \<Longrightarrow> \<bar>m\<bar> \<le> 2 ^ 53 \<Longrightarrow> fl x \<le> of_int m"
  using fl_mono [of x "of_int m"] fl_of_int [of m] by simp

section \<open>Values and operations\<close>

datatype jsnum = Fin rat | PInf | NInf | NaN

text \<open>The result of an operation whose exact value is a rational.\<close>

definition num_of :: "rat \<Rightarrow> jsnum" where
  "num_of x = (let y = fl x in
    if y \<noteq> 0 \<and> 1024 \<le> ilog2 \<bar>y\<bar> then (if 0 < y then PInf else NInf) else Fin y)"

lemma small_no_overflow:
  assumes "\<bar>y\<bar> \<le> 2 ^ 53" and "y \<noteq> 0"
  shows "\<not> 1024 \<le> ilog2 \<bar>y\<bar>"
proof
  assume "1024 \<le> ilog2 \<bar>y\<bar>"
  then have "(2::rat) powi 54 \<le> 2 powi (ilog2 \<bar>y\<bar>)" by (intro power_int_increasing) auto
  also have "\<dots> \<le> \<bar>y\<bar>" using assms(2) by (intro ilog2_bounds) simp
  finally show False using assms(1) by simp
qed

fun num_neg :: "jsnum \<Rightarrow> jsnum" where
  "num_neg (Fin x) = Fin (- x)"
| "num_neg PInf = NInf"
| "num_neg NInf = PInf"
| "num_neg NaN = NaN"

fun num_add :: "jsnum \<Rightarrow> jsnum \<Rightarrow> jsnum" where
  "num_add (Fin x) (Fin y) = num_of (x + y)"
| "num_add NaN _ = NaN"
| "num_add _ NaN = NaN"
| "num_add PInf NInf = NaN"
| "num_add NInf PInf = NaN"
| "num_add PInf _ = PInf"
| "num_add NInf _ = NInf"
| "num_add _ PInf = PInf"
| "num_add _ NInf = NInf"

definition num_sub :: "jsnum \<Rightarrow> jsnum \<Rightarrow> jsnum" where
  "num_sub a b = num_add a (num_neg b)"

definition inf_times :: "bool \<Rightarrow> rat \<Rightarrow> jsnum" where
  "inf_times pos x = (if x = 0 then NaN else if (0 < x) = pos then PInf else NInf)"

fun num_mul :: "jsnum \<Rightarrow> jsnum \<Rightarrow> jsnum" where
  "num_mul (Fin x) (Fin y) = num_of (x * y)"
| "num_mul NaN _ = NaN"
| "num_mul _ NaN = NaN"
| "num_mul PInf (Fin y) = inf_times True y"
| "num_mul NInf (Fin y) = inf_times False y"
| "num_mul (Fin x) PInf = inf_times True x"
| "num_mul (Fin x) NInf = inf_times False x"
| "num_mul PInf PInf = PInf"
| "num_mul NInf NInf = PInf"
| "num_mul PInf NInf = NInf"
| "num_mul NInf PInf = NInf"

fun num_div :: "jsnum \<Rightarrow> jsnum \<Rightarrow> jsnum" where
  "num_div (Fin x) (Fin y) = (if y = 0 then inf_times True x else num_of (x / y))"
| "num_div NaN _ = NaN"
| "num_div _ NaN = NaN"
| "num_div (Fin _) _ = Fin 0"
| "num_div PInf (Fin y) = (if y < 0 then NInf else PInf)"
| "num_div NInf (Fin y) = (if y < 0 then PInf else NInf)"
| "num_div _ _ = NaN"

fun num_lt :: "jsnum \<Rightarrow> jsnum \<Rightarrow> bool" where
  "num_lt (Fin x) (Fin y) = (x < y)"
| "num_lt NaN _ = False"
| "num_lt _ NaN = False"
| "num_lt PInf _ = False"
| "num_lt _ NInf = False"
| "num_lt _ _ = True"

text \<open>\<open>===\<close> on numbers: \<open>NaN\<close> equals nothing.\<close>

definition num_eq :: "jsnum \<Rightarrow> jsnum \<Rightarrow> bool" where
  "num_eq a b = (a = b \<and> a \<noteq> NaN)"

definition num_le :: "jsnum \<Rightarrow> jsnum \<Rightarrow> bool" where
  "num_le a b = (num_lt a b \<or> num_eq a b)"

definition isNaN :: "jsnum \<Rightarrow> bool" where
  "isNaN a = (a = NaN)"

fun Math_round :: "jsnum \<Rightarrow> jsnum" where
  "Math_round (Fin x) = Fin (of_int \<lfloor>x + 1/2\<rfloor>)"
| "Math_round a = a"

fun Math_floor :: "jsnum \<Rightarrow> jsnum" where
  "Math_floor (Fin x) = Fin (of_int \<lfloor>x\<rfloor>)"
| "Math_floor a = a"

fun Math_ceil :: "jsnum \<Rightarrow> jsnum" where
  "Math_ceil (Fin x) = Fin (of_int \<lceil>x\<rceil>)"
| "Math_ceil a = a"

definition Math_min :: "jsnum \<Rightarrow> jsnum \<Rightarrow> jsnum" where
  "Math_min a b = (if a = NaN \<or> b = NaN then NaN else if num_lt b a then b else a)"

text \<open>A number is falsy when it is zero or \<open>NaN\<close>.\<close>

definition num_truthy :: "jsnum \<Rightarrow> bool" where
  "num_truthy a = (a \<noteq> Fin 0 \<and> a \<noteq> NaN)"

lemma num_of_int [simp]: "\<bar>m\<bar> \<le> 2 ^ 53 \<Longrightarrow> num_of (of_int m) = Fin (of_int m)"
proof -
  assume m: "\<bar>m\<bar> \<le> 2 ^ 53"
  then have "(of_int \<bar>m\<bar> :: rat) \<le> of_int (2 ^ 53)" by (simp only: of_int_le_iff)
  then have "\<bar>of_int m :: rat\<bar> \<le> 2 ^ 53" by simp
  then have "of_int m \<noteq> (0::rat) \<Longrightarrow> \<not> 1024 \<le> ilog2 \<bar>of_int m\<bar>" by (rule small_no_overflow)
  then show ?thesis using fl_of_int [OF m] by (auto simp: num_of_def Let_def simp del: of_int_abs)
qed

lemma num_of_Fin: "num_of x = Fin y \<Longrightarrow> y = fl x"
  by (auto simp: num_of_def Let_def split: if_splits)

lemma num_lt_irrefl [simp]: "\<not> num_lt a a"
  by (cases a) auto

lemma num_lt_trans: "num_lt a b \<Longrightarrow> num_lt b c \<Longrightarrow> num_lt a c"
  by (cases a; cases b; cases c) auto

lemma num_le_Fin [simp]: "num_le (Fin x) (Fin y) = (x \<le> y)"
  by (auto simp: num_le_def num_eq_def)

lemma num_of_bound:
  assumes "0 \<le> x" and "x \<le> of_int m" and "\<bar>m\<bar> \<le> 2 ^ 53"
  shows "\<exists>y. num_of x = Fin y \<and> y = fl x \<and> 0 \<le> y \<and> y \<le> of_int m"
proof -
  have b: "0 \<le> fl x" "fl x \<le> of_int m" using assms by (auto intro: fl_nonneg fl_le_int)
  have "(of_int m :: rat) \<le> of_int (2 ^ 53)" using assms(3) by (simp only: of_int_le_iff abs_le_iff)
  then have "\<bar>fl x\<bar> \<le> 2 ^ 53" using b by simp
  then have "fl x \<noteq> 0 \<Longrightarrow> \<not> 1024 \<le> ilog2 \<bar>fl x\<bar>" by (rule small_no_overflow)
  then have "num_of x = Fin (fl x)" by (cases "fl x = 0") (auto simp: num_of_def Let_def abs_if)
  with b show ?thesis by blast
qed

lemma num_of_nonneg: "0 \<le> x \<Longrightarrow> num_of x = PInf \<or> (\<exists>y \<ge> 0. num_of x = Fin y)"
  using fl_nonneg [of x] by (auto simp: num_of_def Let_def)

lemma num_of_ge:
  assumes "of_int m \<le> x" "0 \<le> m" "m \<le> 2 ^ 53"
  shows "num_of x = PInf \<or> (\<exists>y \<ge> of_int m. num_of x = Fin y)"
proof -
  have "of_int m \<le> fl x" using fl_ge_int [OF assms(1)] assms(2,3) by simp
  moreover have "0 \<le> (of_int m :: rat)" using assms(2) by simp
  ultimately show ?thesis by (auto simp: num_of_def Let_def)
qed

end
