(* ===== verification/JsString.thy ===== *)
theory JsString
  imports JsNumber
begin

text \<open>
  The string operations of the language the program uses. A string is a list of \<open>char\<close>,
  one per UTF-16 code unit, so the strings of the development are those whose code units
  are below 256; every operation of the program treats a code unit above that as it treats
  a letter it does not know. Case mapping is that of the ASCII letters.

  The conversions between numbers and strings follow the algorithms of the language's
  specification: \<open>toFixed\<close> rounds the exact value of the double half up,
  \<open>Number.toString\<close> prints the shortest decimal that reads back as the same double, and
  \<open>parseFloat\<close> reads the longest prefix that is a decimal literal.
\<close>

section \<open>Slicing, searching, padding\<close>

definition substring :: "string \<Rightarrow> nat \<Rightarrow> nat \<Rightarrow> string" where
  "substring s a b = take (b - a) (drop a s)"

definition startsWith :: "string \<Rightarrow> string \<Rightarrow> bool" where
  "startsWith s p = (take (length p) s = p)"

fun str_includes :: "string \<Rightarrow> string \<Rightarrow> bool" where
  "str_includes [] p = (p = [])"
| "str_includes (c # s) p = (startsWith (c # s) p \<or> str_includes s p)"

text \<open>\<open>s.split(c)\<close> for a separator of one character.\<close>

fun split_on :: "char \<Rightarrow> string \<Rightarrow> string list" where
  "split_on c [] = [[]]"
| "split_on c (x # xs) =
     (if x = c then [] # split_on c xs
      else case split_on c xs of [] \<Rightarrow> [[x]] | y # ys \<Rightarrow> (x # y) # ys)"

fun join :: "string \<Rightarrow> string list \<Rightarrow> string" where
  "join sep [] = []"
| "join sep [x] = x"
| "join sep (x # y # ys) = x @ sep @ join sep (y # ys)"

definition padStart :: "string \<Rightarrow> nat \<Rightarrow> char \<Rightarrow> string" where
  "padStart s n c = replicate (n - length s) c @ s"

definition padEnd :: "string \<Rightarrow> nat \<Rightarrow> char \<Rightarrow> string" where
  "padEnd s n c = s @ replicate (n - length s) c"

definition is_space :: "char \<Rightarrow> bool" where
  "is_space c = (of_char c = (32::int) \<or> (9::int) \<le> of_char c \<and> (of_char c :: int) \<le> 13 \<or> of_char c = (160::int))"

definition trim :: "string \<Rightarrow> string" where
  "trim s = rev (dropWhile is_space (rev (dropWhile is_space s)))"

definition char_code :: "char \<Rightarrow> int" where
  "char_code c = of_char c"

definition is_digit :: "char \<Rightarrow> bool" where
  "is_digit c = (48 \<le> char_code c \<and> char_code c \<le> 57)"

definition is_upper :: "char \<Rightarrow> bool" where
  "is_upper c = (65 \<le> char_code c \<and> char_code c \<le> 90)"

definition is_lower :: "char \<Rightarrow> bool" where
  "is_lower c = (97 \<le> char_code c \<and> char_code c \<le> 122)"

definition upper_char :: "char \<Rightarrow> char" where
  "upper_char c = (if is_lower c then char_of (char_code c - 32) else c)"

definition lower_char :: "char \<Rightarrow> char" where
  "lower_char c = (if is_upper c then char_of (char_code c + 32) else c)"

definition toUpperCase :: "string \<Rightarrow> string" where
  "toUpperCase s = map upper_char s"

definition toLowerCase :: "string \<Rightarrow> string" where
  "toLowerCase s = map lower_char s"

lemma length_padStart [simp]: "length (padStart s n c) = max n (length s)"
  by (simp add: padStart_def)

lemma length_padEnd [simp]: "length (padEnd s n c) = max n (length s)"
  by (simp add: padEnd_def)

lemma length_substring [simp]: "length (substring s a b) = min (b - a) (length s - a)"
  by (simp add: substring_def)

lemma length_toUpperCase [simp]: "length (toUpperCase s) = length s"
  by (simp add: toUpperCase_def)

lemma substring_all [simp]: "length s \<le> n \<Longrightarrow> substring s 0 n = s"
  by (simp add: substring_def)

lemma startsWith_append [simp]: "startsWith (p @ s) p"
  by (simp add: startsWith_def)

lemma startsWith_Nil [simp]: "startsWith s []"
  by (simp add: startsWith_def)

lemma startsWith_Cons [simp]: "startsWith (c # s) (d # p) = (c = d \<and> startsWith s p)"
  by (auto simp: startsWith_def)

lemma startsWith_Nil_Cons [simp]: "\<not> startsWith [] (d # p)"
  by (simp add: startsWith_def)

lemma startsWith_drop: "startsWith s p \<Longrightarrow> s = p @ drop (length p) s"
  by (metis append_take_drop_id startsWith_def)

lemma dropWhile_head: "s \<noteq> [] \<Longrightarrow> \<not> P (hd s) \<Longrightarrow> dropWhile P s = s"
  by (cases s) auto

text \<open>A text without blanks at its ends is not changed by \<open>trim\<close>.\<close>

lemma trim_ends: "s \<noteq> [] \<Longrightarrow> \<not> is_space (hd s) \<Longrightarrow> \<not> is_space (last s) \<Longrightarrow> trim s = s"
  by (simp add: trim_def dropWhile_head hd_rev)

lemma split_on_nonempty [simp]: "split_on c s \<noteq> []"
  by (induction s) (auto split: list.splits)

lemma split_on_absent: "c \<notin> set s \<Longrightarrow> split_on c s = [s]"
  by (induction s) auto

lemma split_on_append: "c \<notin> set s \<Longrightarrow> split_on c (s @ c # t) = s # split_on c t"
  by (induction s) auto

lemma join_split_on: "join [c] (split_on c s) = s"
proof (induction s)
  case (Cons x s)
  obtain y ys where y: "split_on c s = y # ys"
    using split_on_nonempty [of c s] by (cases "split_on c s") auto
  show ?case using Cons.IH by (cases ys) (auto simp: y)
qed simp

lemma upper_char_idem [simp]: "upper_char (upper_char c) = upper_char c"
proof (cases "is_lower c")
  case True
  then have "\<not> is_lower (char_of (char_code c - 32))"
    by (auto simp: is_lower_def char_code_def)
  with True show ?thesis by (simp add: upper_char_def)
qed (simp add: upper_char_def)

lemma toUpperCase_idem [simp]: "toUpperCase (toUpperCase s) = toUpperCase s"
  by (simp add: toUpperCase_def)

section \<open>Decimal digits\<close>

definition digit_val :: "char \<Rightarrow> int" where
  "digit_val c = char_code c - 48"

definition digit_char :: "int \<Rightarrow> char" where
  "digit_char n = char_of (48 + n)"

fun show_nat :: "int \<Rightarrow> string" where
  "show_nat n = (if n < 10 then [digit_char n] else show_nat (n div 10) @ [digit_char (n mod 10)])"

declare show_nat.simps [simp del]

definition digits_val :: "string \<Rightarrow> int" where
  "digits_val = foldl (\<lambda>a c. 10 * a + digit_val c) 0"

definition show_int :: "int \<Rightarrow> string" where
  "show_int i = (if i < 0 then CHR ''-'' # show_nat (- i) else show_nat i)"

lemma char_code_digit: "0 \<le> n \<Longrightarrow> n < 10 \<Longrightarrow> char_code (digit_char n) = 48 + n"
  by (simp add: char_code_def digit_char_def)

lemma digit_char_val [simp]: "0 \<le> n \<Longrightarrow> n < 10 \<Longrightarrow> digit_val (digit_char n) = n"
  by (simp add: digit_val_def char_code_digit)

lemma is_digit_char [simp]: "0 \<le> n \<Longrightarrow> n < 10 \<Longrightarrow> is_digit (digit_char n)"
  by (simp add: is_digit_def char_code_digit)

lemma digit_val_less: "is_digit c \<Longrightarrow> 0 \<le> digit_val c \<and> digit_val c < 10"
  by (simp add: digit_val_def is_digit_def)

lemma digits_val_Nil [simp]: "digits_val [] = 0"
  by (simp add: digits_val_def)

lemma digits_val_snoc [simp]: "digits_val (s @ [c]) = 10 * digits_val s + digit_val c"
  by (simp add: digits_val_def)

lemma digits_val_append: "digits_val (s @ t) = digits_val s * 10 ^ length t + digits_val t"
proof (induction t rule: rev_induct)
  case (snoc c t)
  then show ?case by (simp flip: append_assoc)
qed simp

lemma digits_val_show_nat [simp]: "0 \<le> n \<Longrightarrow> digits_val (show_nat n) = n"
proof (induction n rule: show_nat.induct)
  case (1 n)
  show ?case
  proof (cases "n < 10")
    case True
    with "1.prems" show ?thesis by (subst show_nat.simps) (simp add: digits_val_def)
  next
    case False
    with 1 show ?thesis by (subst show_nat.simps) simp
  qed
qed

lemma show_nat_digits: "0 \<le> n \<Longrightarrow> list_all is_digit (show_nat n)"
proof (induction n rule: show_nat.induct)
  case (1 n)
  then show ?case by (cases "n < 10") (simp_all add: show_nat.simps [of n])
qed

lemma show_nat_nonempty [simp]: "show_nat n \<noteq> []"
  by (subst show_nat.simps) simp

lemma length_show_nat: "0 < k \<Longrightarrow> n < 10 ^ k \<Longrightarrow> length (show_nat n) \<le> k"
proof (induction n arbitrary: k rule: show_nat.induct)
  case (1 n)
  show ?case
  proof (cases "n < 10")
    case True
    with "1.prems" show ?thesis by (simp add: show_nat.simps [of n])
  next
    case False
    then obtain j where k: "k = Suc j" "0 < j"
      using "1.prems" by (cases k; cases "k - 1") auto
    then have "n div 10 < 10 ^ j" using "1.prems" by simp
    with "1.IH" [OF False k(2)] k False show ?thesis by (simp add: show_nat.simps [of n])
  qed
qed

section \<open>Numbers to strings\<close>

text \<open>\<open>Number.prototype.toString\<close>: the fewest significant digits that read back.\<close>

definition dec_exp :: "rat \<Rightarrow> int" where
  "dec_exp x = (let (n, d) = quotient_of x;
      k = int (length (show_nat n)) - int (length (show_nat d))
    in if 10 powi k \<le> x then k + 1 else k)"

definition shortest_at :: "rat \<Rightarrow> int \<Rightarrow> nat \<Rightarrow> int option" where
  "shortest_at x n k = (let u = 10 powi (n - int k); f = \<lfloor>x / u\<rfloor>;
      ok = (\<lambda>s. 10 ^ (k - 1) \<le> s \<and> s < 10 ^ k \<and> fl (of_int s * u) = x)
    in if ok f \<and> ok (f + 1)
       then Some (if x - of_int f * u \<le> of_int (f + 1) * u - x then f else f + 1)
       else if ok f then Some f else if ok (f + 1) then Some (f + 1) else None)"

fun shortest :: "rat \<Rightarrow> int \<Rightarrow> nat list \<Rightarrow> nat \<times> int" where
  "shortest x n [] = (17, \<lfloor>x / 10 powi (n - 17)\<rfloor>)"
| "shortest x n (k # ks) = (case shortest_at x n k of Some s \<Rightarrow> (k, s) | None \<Rightarrow> shortest x n ks)"

definition show_pos_num :: "rat \<Rightarrow> string" where
  "show_pos_num x = (let n = dec_exp x; (k, s) = shortest x n [1..<18]; ds = show_nat s in
     if int k \<le> n \<and> n \<le> 21 then ds @ replicate (nat n - k) (CHR ''0'')
     else if 0 < n \<and> n \<le> 21 then take (nat n) ds @ ''.'' @ drop (nat n) ds
     else if -6 < n \<and> n \<le> 0 then ''0.'' @ replicate (nat (- n)) (CHR ''0'') @ ds
     else (if k = 1 then ds else take 1 ds @ ''.'' @ drop 1 ds) @ ''e'' @
       (if 0 < n then ''+'' @ show_int (n - 1) else show_int (n - 1)))"

fun num_to_string :: "jsnum \<Rightarrow> string" where
  "num_to_string NaN = ''NaN''"
| "num_to_string PInf = ''Infinity''"
| "num_to_string NInf = ''-Infinity''"
| "num_to_string (Fin x) =
     (if x = 0 then ''0'' else if x < 0 then CHR ''-'' # show_pos_num (- x) else show_pos_num x)"

text \<open>\<open>toFixed(2)\<close>: the exact value is rounded, a tie goes up in magnitude.\<close>

definition cents :: "rat \<Rightarrow> int" where
  "cents x = \<lfloor>\<bar>x\<bar> * 100 + 1/2\<rfloor>"

definition show_cents :: "int \<Rightarrow> string" where
  "show_cents c = show_nat (c div 100) @ ''.'' @ padStart (show_nat (c mod 100)) 2 (CHR ''0'')"

fun toFixed2 :: "jsnum \<Rightarrow> string" where
  "toFixed2 (Fin x) = (if 10 ^ 21 \<le> \<bar>x\<bar> then num_to_string (Fin x)
     else (if x < 0 then ''-'' else []) @ show_cents (cents x))"
| "toFixed2 a = num_to_string a"

section \<open>Strings to numbers\<close>

text \<open>A decimal literal at the front of a string: its value and what follows it.\<close>

definition exp_part :: "string \<Rightarrow> int \<times> string" where
  "exp_part s = (case s of [] \<Rightarrow> (0, s) | c # t \<Rightarrow>
     if c \<noteq> CHR ''e'' \<and> c \<noteq> CHR ''E'' then (0, s)
     else let (sg, u) = (case t of [] \<Rightarrow> (1, t) | d # t' \<Rightarrow>
                if d = CHR ''-'' then (-1, t') else if d = CHR ''+'' then (1, t') else (1, t));
              ds = takeWhile is_digit u
          in if ds = [] then (0, s) else (sg * digits_val ds, dropWhile is_digit u))"

definition unsigned_literal :: "string \<Rightarrow> (jsnum \<times> string) option" where
  "unsigned_literal s =
    (if startsWith s ''Infinity'' then Some (PInf, drop 8 s)
     else let ds = takeWhile is_digit s; r = dropWhile is_digit s;
              (fs, r') = (case r of [] \<Rightarrow> ([], r) | c # t \<Rightarrow>
                 if c = CHR ''.'' then (takeWhile is_digit t, dropWhile is_digit t) else ([], r))
          in if ds = [] \<and> fs = [] then None
             else let (e, r'') = exp_part r' in
               Some (num_of (of_int (digits_val (ds @ fs)) * 10 powi (e - int (length fs))), r''))"

definition signed_literal :: "string \<Rightarrow> (jsnum \<times> string) option" where
  "signed_literal s = (case s of [] \<Rightarrow> None | c # t \<Rightarrow>
     if c = CHR ''-'' then map_option (\<lambda>(v, r). (num_neg v, r)) (unsigned_literal t)
     else if c = CHR ''+'' then unsigned_literal t else unsigned_literal s)"

definition parseFloat :: "string \<Rightarrow> jsnum" where
  "parseFloat s = (case signed_literal (dropWhile is_space s) of None \<Rightarrow> NaN | Some (v, _) \<Rightarrow> v)"

definition parseInt10 :: "string \<Rightarrow> jsnum" where
  "parseInt10 s = (let t = dropWhile is_space s;
      (neg, u) = (case t of [] \<Rightarrow> (False, t) | c # t' \<Rightarrow>
         if c = CHR ''-'' then (True, t') else if c = CHR ''+'' then (False, t') else (False, t));
      ds = takeWhile is_digit u
    in if ds = [] then NaN
       else let v = num_of (of_int (digits_val ds)) in if neg then num_neg v else v)"

text \<open>\<open>Number(s)\<close>: the whole trimmed string is a literal, and the empty string is 0.\<close>

definition radix_digit :: "int \<Rightarrow> char \<Rightarrow> int option" where
  "radix_digit b c = (let d = (if is_digit c then digit_val c
       else if is_lower c then char_code c - 87 else if is_upper c then char_code c - 55 else b)
     in if d < b then Some d else None)"

fun radix_val :: "int \<Rightarrow> int \<Rightarrow> string \<Rightarrow> int option" where
  "radix_val b a [] = Some a"
| "radix_val b a (c # s) =
     (case radix_digit b c of None \<Rightarrow> None | Some d \<Rightarrow> radix_val b (b * a + d) s)"

definition radix_literal :: "int \<Rightarrow> string \<Rightarrow> jsnum" where
  "radix_literal b s = (if s = [] then NaN else
     case radix_val b 0 s of None \<Rightarrow> NaN | Some v \<Rightarrow> num_of (of_int v))"

definition Number_of_string :: "string \<Rightarrow> jsnum" where
  "Number_of_string s = (let t = trim s; p = toLowerCase (take 2 t) in
     if t = [] then Fin 0
     else if p = ''0x'' then radix_literal 16 (drop 2 t)
     else if p = ''0o'' then radix_literal 8 (drop 2 t)
     else if p = ''0b'' then radix_literal 2 (drop 2 t)
     else case signed_literal t of Some (v, []) \<Rightarrow> v | _ \<Rightarrow> NaN)"

text \<open>What \<open>toFixed(2)\<close> prints is read back by \<open>parseFloat\<close> as the rounded value.\<close>

lemma takeWhile_digits: "list_all is_digit s \<Longrightarrow> takeWhile is_digit s = s"
  by (induction s) auto

lemma takeWhile_digits_append:
  "list_all is_digit s \<Longrightarrow> \<not> is_digit c \<Longrightarrow> takeWhile is_digit (s @ c # t) = s"
  by (induction s) auto

lemma dropWhile_digits_append:
  "list_all is_digit s \<Longrightarrow> \<not> is_digit c \<Longrightarrow> dropWhile is_digit (s @ c # t) = c # t"
  by (induction s) auto

lemma dropWhile_digits: "list_all is_digit s \<Longrightarrow> dropWhile is_digit s = []"
  by (induction s) auto

lemma list_all_padStart: "list_all P s \<Longrightarrow> P c \<Longrightarrow> list_all P (padStart s n c)"
  by (auto simp: padStart_def list_all_iff)

lemma digits_val_zeros [simp]: "digits_val (replicate n (CHR ''0'')) = 0"
  by (induction n) (simp_all add: digits_val_def digit_val_def char_code_def)

lemma digits_val_padStart [simp]: "digits_val (padStart s n (CHR ''0'')) = digits_val s"
  by (simp add: padStart_def digits_val_append)

lemma is_digit_0 [simp]: "is_digit (CHR ''0'')" and not_digit_dot [simp]: "\<not> is_digit (CHR ''.'')"
  by (simp_all add: is_digit_def char_code_def)

lemma not_digit_I: "is_digit c \<Longrightarrow> c \<noteq> CHR ''I'' \<and> c \<noteq> CHR ''-'' \<and> c \<noteq> CHR ''+'' \<and> \<not> is_space c"
  by (auto simp: is_digit_def is_space_def char_code_def)

lemma unsigned_literal_cents:
  "0 \<le> c \<Longrightarrow> unsigned_literal (show_cents c) = Some (num_of (of_int c / 100), [])"
proof -
  assume c: "0 \<le> c"
  define a where "a = show_nat (c div 100)"
  define b where "b = padStart (show_nat (c mod 100)) 2 (CHR ''0'')"
  have da: "list_all is_digit a" and db: "list_all is_digit b"
    using c by (simp_all add: a_def b_def show_nat_digits list_all_padStart)
  have "length (show_nat (c mod 100)) \<le> 2" by (rule length_show_nat) auto
  then have lb: "length b = 2" by (simp add: b_def)
  have "\<not> startsWith (a @ ''.'' @ b) ''Infinity''"
    using da not_digit_I by (cases a) (auto simp: a_def)
  moreover have "digits_val (a @ b) = c"
    using lb c by (simp add: digits_val_append) (simp add: a_def b_def)
  moreover have "a \<noteq> []" by (simp add: a_def)
  ultimately show ?thesis
    using da db lb
    by (simp add: unsigned_literal_def show_cents_def flip: a_def b_def)
      (simp add: takeWhile_digits_append dropWhile_digits_append takeWhile_digits dropWhile_digits
        exp_part_def power_int_def power2_eq_square)
qed

lemma parseFloat_show_cents: "0 \<le> c \<Longrightarrow> parseFloat (show_cents c) = num_of (of_int c / 100)"
proof -
  assume c: "0 \<le> c"
  obtain d ds where s: "show_cents c = d # ds" "is_digit d"
    using c show_nat_digits [of "c div 100"] show_nat_nonempty [of "c div 100"]
    by (cases "show_nat (c div 100)") (auto simp: show_cents_def)
  then have "dropWhile is_space (show_cents c) = show_cents c"
    using not_digit_I [OF s(2)] by simp
  moreover have "signed_literal (show_cents c) = unsigned_literal (show_cents c)"
    using not_digit_I [OF s(2)] by (simp add: signed_literal_def s(1))
  ultimately show ?thesis by (simp add: parseFloat_def unsigned_literal_cents c)
qed

lemma parseFloat_toFixed2:
  "0 \<le> x \<Longrightarrow> x < 10 ^ 21 \<Longrightarrow> parseFloat (toFixed2 (Fin x)) = num_of (of_int (cents x) / 100)"
  by (simp add: parseFloat_show_cents cents_def)

section \<open>Printing an integer\<close>

lemma show_nat_bounds: "0 \<le> n \<Longrightarrow> n < 10 ^ length (show_nat n) \<and> (0 < n \<longrightarrow> 10 ^ (length (show_nat n) - 1) \<le> n)"
proof (induction n rule: show_nat.induct)
  case (1 n)
  show ?case
  proof (cases "n < 10")
    case False
    define l where "l = length (show_nat (n div 10))"
    have l: "length (show_nat n) = Suc l" "0 < l"
      using False by (simp_all add: show_nat.simps [of n] l_def)
    have "n div 10 < 10 ^ l" "10 ^ (l - 1) \<le> n div 10"
      using "1.IH" [OF False] False "1.prems" by (auto simp: l_def)
    then have "n < 10 * 10 ^ l" "10 * 10 ^ (l - 1) \<le> n" by linarith+
    moreover have "10 * 10 ^ (l - 1) = (10 ^ l :: int)" using l(2) by (cases l) auto
    ultimately show ?thesis by (simp add: l(1))
  qed (use 1 in \<open>simp add: show_nat.simps [of n]\<close>)
qed

lemma length_show_nat_ge: "10 ^ k \<le> n \<Longrightarrow> k < length (show_nat n)"
proof (rule ccontr)
  assume n: "10 ^ k \<le> n" "\<not> k < length (show_nat n)"
  then have "(0::int) \<le> n" by (meson order_trans zero_le_numeral zero_le_power)
  then have "n < 10 ^ length (show_nat n)" using show_nat_bounds by blast
  also have "\<dots> \<le> 10 ^ k" using n(2) by (intro power_increasing) auto
  finally show False using n(1) by simp
qed

lemma digit_char_0: "digit_char 0 = CHR ''0''"
  by code_simp

lemma show_nat_shift: "0 < s \<Longrightarrow> show_nat (s * 10 ^ k) = show_nat s @ replicate k (CHR ''0'')"
proof (induction k)
  case (Suc k)
  have "show_nat (10 * (s * 10 ^ k)) = show_nat (s * 10 ^ k) @ [digit_char 0]"
  proof -
    have "0 < s * 10 ^ k" using Suc.prems by simp
    then have "\<not> 10 * (s * 10 ^ k) < 10" by linarith
    then show ?thesis by (subst show_nat.simps) simp
  qed
  moreover have "digit_char 0 = CHR ''0''" by (rule digit_char_0)
  moreover have "s * 10 ^ Suc k = 10 * (s * 10 ^ k)" by simp
  ultimately show ?case
    using Suc by (simp only: append_assoc replicate_append_same flip: replicate_Suc)
qed simp

lemma dec_exp_int:
  assumes "0 < n" shows "dec_exp (of_int n) = int (length (show_nat n))"
proof -
  have l: "0 < length (show_nat n)" by simp
  have "(10::int) ^ (length (show_nat n) - 1) \<le> n" using show_nat_bounds [of n] assms by simp
  then have "(10::rat) ^ (length (show_nat n) - 1) \<le> of_int n"
    by (metis of_int_le_iff of_int_numeral of_int_power)
  moreover have "(10::rat) powi (int (length (show_nat n)) - 1) = 10 ^ (length (show_nat n) - 1)"
    using l by (simp add: power_int_def nat_diff_distrib)
  ultimately show ?thesis
    by (simp add: dec_exp_def quotient_of_int show_nat.simps [of 1])
qed

lemma shortest_at_int:
  assumes n: "0 < n" "n \<le> 2 ^ 52" and k: "0 < k" "k \<le> length (show_nat n)"
    and s: "shortest_at (of_int n) (int (length (show_nat n))) k = Some s"
  shows "s * 10 ^ (length (show_nat n) - k) = n \<and> 0 < s"
proof -
  define d where "d = length (show_nat n) - k"
  define u where "u = (10::rat) powi (int (length (show_nat n)) - int k)"
  have u: "u = of_int (10 ^ d)" using k(2) by (simp add: u_def d_def power_int_def nat_diff_distrib)
  define f where "f = \<lfloor>of_int n / u\<rfloor>"
  have ok: "10 ^ (k - 1) \<le> s" "fl (of_int s * u) = of_int n" and sf: "s = f \<or> s = f + 1"
    using s unfolding shortest_at_def Let_def u_def [symmetric] f_def [symmetric] by (auto split: if_splits)
  have pos: "0 < s" using ok(1) by (meson less_le_trans zero_less_numeral zero_less_power)
  have uu: "1 \<le> (10::int) ^ d" by simp
  have "of_int s * u = (of_int (s * 10 ^ d) :: rat)" by (simp add: u)
  moreover have "f * 10 ^ d \<le> n"
  proof -
    have "of_int f \<le> of_int n / u" by (simp add: f_def)
    then have "of_int f * u \<le> of_int n" using uu by (simp add: u pos_le_divide_eq)
    then show ?thesis by (metis of_int_le_iff of_int_mult u)
  qed
  moreover have "10 ^ d \<le> n"
  proof -
    have "(10::int) ^ d \<le> 10 ^ (length (show_nat n) - 1)" using k by (intro power_increasing) (auto simp: d_def)
    also have "\<dots> \<le> n" using show_nat_bounds [of n] n(1) by simp
    finally show ?thesis .
  qed
  ultimately have "s * 10 ^ d \<le> 2 * n \<and> of_int s * u = of_int (s * 10 ^ d)" using sf n(1) by (auto simp: algebra_simps)
  then have le: "s * 10 ^ d \<le> 2 * n" and su: "of_int s * u = of_int (s * 10 ^ d)" by simp_all
  then have "\<bar>s * 10 ^ d\<bar> \<le> 2 ^ 53" using n(2) pos by (simp add: abs_mult)
  then have "fl (of_int (s * 10 ^ d)) = of_int (s * 10 ^ d)" by (rule fl_of_int)
  then have "(of_int (s * 10 ^ d) :: rat) = of_int n" using ok(2) su by simp
  then show ?thesis using pos by (simp only: of_int_eq_iff d_def)
qed

lemma shortest_first:
  assumes "\<And>k s. k \<in> set ks \<Longrightarrow> shortest_at x n k = Some s \<Longrightarrow> k \<le> m \<Longrightarrow> P k s"
    and "m \<in> set ks" "shortest_at x n m \<noteq> None" "sorted ks"
  shows "case shortest x n ks of (k, s) \<Rightarrow> k \<le> m \<and> k \<in> set ks \<and> P k s"
  using assms
proof (induction ks)
  case (Cons k ks)
  show ?case
  proof (cases "shortest_at x n k")
    case None
    then have "m \<in> set ks" using Cons.prems(2,3) by auto
    with Cons None show ?thesis by (auto split: prod.splits)
  qed (use Cons.prems in auto)
qed simp

lemma num_to_string_int:
  assumes "0 \<le> n" "n \<le> 2 ^ 49"
  shows "num_to_string (Fin (of_int n)) = show_nat n"
proof (cases "n = 0")
  case False
  define L where "L = length (show_nat n)"
  have n: "0 < n" "n \<le> 2 ^ 52" using assms False by (simp_all add: order_trans [OF assms(2)])
  have "n < 10 ^ 15" using assms(2) by simp
  then have L: "0 < L" "L \<le> 15" using length_show_nat [of 15 n] by (simp_all add: L_def)
  have "10 ^ (L - 1) \<le> n" "n < 10 ^ L" using show_nat_bounds [of n] n by (simp_all add: L_def)
  moreover have "fl (of_int n) = of_int n" using n by (intro fl_of_int) simp
  ultimately have at: "shortest_at (of_int n) (int L) L \<noteq> None" by (simp add: shortest_at_def Let_def)
  have "case shortest (of_int n) (int L) [1..<18] of (k, s) \<Rightarrow>
      k \<le> L \<and> k \<in> set [1..<18] \<and> s * 10 ^ (L - k) = n \<and> 0 < s"
    using L at by (intro shortest_first) (auto dest: shortest_at_int [OF n, folded L_def, rotated 2])
  then obtain k s where ks: "shortest (of_int n) (int L) [1..<18] = (k, s)" "k \<le> L" "s * 10 ^ (L - k) = n" "0 < s"
    by (auto split: prod.splits)
  have "show_pos_num (of_int n) = show_nat s @ replicate (L - k) (CHR ''0'')"
    using ks(1,2) L dec_exp_int [OF n(1)] by (simp add: show_pos_num_def L_def [symmetric])
  also have "\<dots> = show_nat n" using show_nat_shift [OF ks(4), of "L - k"] ks(3) by simp
  finally show ?thesis using n by simp
qed (simp add: show_nat.simps [of 0] digit_char_0)

end
