(* ===== verification/JsValue.thy ===== *)
theory JsValue
  imports JsString
begin

text \<open>
  The dynamic values of the language, for the places where the program handles data it has
  no static knowledge of (request bodies, rail payloads, mapped fields): \<open>jsval\<close> with
  objects as association lists in property order. Reading a property of \<open>undefined\<close> or
  \<open>null\<close> raises a \<open>TypeError\<close>, reading one that is absent gives \<open>undefined\<close>.

  A computation that can raise is a sum, \<open>Inl\<close> the error raised; the errors are those of
  the program: the language's own, a plain \<open>Error\<close> and the \<open>AppError\<close> hierarchy of
  \<open>domain/errors\<close>.
\<close>

datatype jsval = JUndef | JNull | JBool bool | JNum jsnum | JStr string
  | JArr "jsval list" | JObj "(string \<times> jsval) list"

section \<open>Errors\<close>

record app_error =
  err_code :: string
  err_message :: string
  err_status :: nat
  err_details :: "(string \<times> jsval) list option"

datatype js_error = TypeError | PlainError string | AppError app_error

definition ValidationError :: "string \<Rightarrow> js_error" where
  "ValidationError msg = AppError \<lparr>err_code = ''VALIDATION_ERROR'', err_message = msg,
     err_status = 400, err_details = None\<rparr>"

definition NotFoundError :: "string \<Rightarrow> string \<Rightarrow> js_error" where
  "NotFoundError resource i = AppError \<lparr>err_code = ''NOT_FOUND'',
     err_message = resource @ '' '' @ i @ '' not found'', err_status = 404, err_details = None\<rparr>"

definition IdempotencyConflictError :: js_error where
  "IdempotencyConflictError = AppError \<lparr>err_code = ''IDEMPOTENCY_CONFLICT'',
     err_message = ''Idempotency-Key already used with a different payload'',
     err_status = 409, err_details = None\<rparr>"

definition TranslationError :: "string \<Rightarrow> string \<Rightarrow> (string \<times> jsval) list \<Rightarrow> js_error" where
  "TranslationError rail msg details = AppError \<lparr>err_code = ''TRANSLATION_ERROR'',
     err_message = msg, err_status = 422, err_details = Some ((''rail'', JStr rail) # details)\<rparr>"

definition RoutingError :: "string \<Rightarrow> (string \<times> jsval) list \<Rightarrow> js_error" where
  "RoutingError msg details = AppError \<lparr>err_code = ''ROUTING_ERROR'', err_message = msg,
     err_status = 422, err_details = Some details\<rparr>"

definition RailCommunicationError :: "string \<Rightarrow> string \<Rightarrow> js_error" where
  "RailCommunicationError rail msg = AppError \<lparr>err_code = ''RAIL_COMMUNICATION_ERROR'',
     err_message = msg, err_status = 502, err_details = Some [(''rail'', JStr rail)]\<rparr>"

text \<open>\<open>err instanceof TranslationError\<close>: the class is known by its code.\<close>

fun is_TranslationError :: "js_error \<Rightarrow> bool" where
  "is_TranslationError (AppError e) = (err_code e = ''TRANSLATION_ERROR'')"
| "is_TranslationError _ = False"

fun error_message :: "js_error \<Rightarrow> string" where
  "error_message TypeError = ''TypeError''"
| "error_message (PlainError m) = m"
| "error_message (AppError e) = err_message e"

section \<open>Computations that can raise\<close>

fun bindr :: "'e + 'a \<Rightarrow> ('a \<Rightarrow> 'e + 'b) \<Rightarrow> 'e + 'b" where
  "bindr (Inl e) f = Inl e"
| "bindr (Inr a) f = f a"

lemma bindr_Inr_iff: "bindr m f = Inr b \<longleftrightarrow> (\<exists>a. m = Inr a \<and> f a = Inr b)"
  by (cases m) auto

lemma bindr_Inl_iff: "bindr m f = Inl e \<longleftrightarrow> m = Inl e \<or> (\<exists>a. m = Inr a \<and> f a = Inl e)"
  by (cases m) auto

lemma bindr_assoc: "bindr (bindr m f) g = bindr m (\<lambda>a. bindr (f a) g)"
  by (cases m) auto

section \<open>Reading values\<close>

fun truthy :: "jsval \<Rightarrow> bool" where
  "truthy JUndef = False"
| "truthy JNull = False"
| "truthy (JBool b) = b"
| "truthy (JNum n) = num_truthy n"
| "truthy (JStr s) = (s \<noteq> [])"
| "truthy _ = True"

definition is_nullish :: "jsval \<Rightarrow> bool" where
  "is_nullish v = (v = JUndef \<or> v = JNull)"

text \<open>\<open>a ?? b\<close>\<close>

definition nullish :: "jsval \<Rightarrow> jsval \<Rightarrow> jsval" where
  "nullish a b = (if is_nullish a then b else a)"

fun typeof :: "jsval \<Rightarrow> string" where
  "typeof JUndef = ''undefined''"
| "typeof (JBool _) = ''boolean''"
| "typeof (JNum _) = ''number''"
| "typeof (JStr _) = ''string''"
| "typeof _ = ''object''"

fun array_index :: "string \<Rightarrow> nat option" where
  "array_index s = (if s \<noteq> [] \<and> list_all is_digit s \<and> show_nat (digits_val s) = s
     then Some (nat (digits_val s)) else None)"

text \<open>\<open>o[k]\<close> for a value that is an object, an array or a primitive.\<close>

fun own_prop :: "jsval \<Rightarrow> string \<Rightarrow> jsval option" where
  "own_prop (JObj o1) k = map_of o1 k"
| "own_prop (JArr vs) k = (if k = ''length'' then Some (JNum (num_of (of_nat (length vs))))
     else case array_index k of Some i \<Rightarrow> if i < length vs then Some (vs ! i) else None | None \<Rightarrow> None)"
| "own_prop (JStr s) k = (if k = ''length'' then Some (JNum (num_of (of_nat (length s)))) else None)"
| "own_prop _ k = None"

definition get_prop :: "jsval \<Rightarrow> string \<Rightarrow> js_error + jsval" where
  "get_prop v k = (if is_nullish v then Inl TypeError
     else Inr (case own_prop v k of Some w \<Rightarrow> w | None \<Rightarrow> JUndef))"

text \<open>\<open>v?.k\<close>\<close>

definition opt_prop :: "jsval \<Rightarrow> string \<Rightarrow> jsval" where
  "opt_prop v k = (if is_nullish v then JUndef
     else case own_prop v k of Some w \<Rightarrow> w | None \<Rightarrow> JUndef)"

lemma get_prop_obj [simp]: "get_prop (JObj o1) k = Inr (case map_of o1 k of Some w \<Rightarrow> w | None \<Rightarrow> JUndef)"
  by (simp add: get_prop_def is_nullish_def)

lemma get_prop_nullish [simp]: "get_prop JUndef k = Inl TypeError" "get_prop JNull k = Inl TypeError"
  by (simp_all add: get_prop_def is_nullish_def)

lemma opt_prop_obj [simp]: "opt_prop (JObj o1) k = (case map_of o1 k of Some w \<Rightarrow> w | None \<Rightarrow> JUndef)"
  by (simp add: opt_prop_def is_nullish_def)

lemma opt_prop_nullish [simp]: "opt_prop JUndef k = JUndef" "opt_prop JNull k = JUndef"
  by (simp_all add: opt_prop_def is_nullish_def)

lemma nullish_simps [simp]:
  "nullish JUndef b = b" "nullish JNull b = b" "nullish (JStr s) b = JStr s"
  "nullish (JNum n) b = JNum n" "nullish (JObj o1) b = JObj o1" "nullish (JArr vs) b = JArr vs"
  "nullish (JBool c) b = JBool c"
  by (simp_all add: nullish_def is_nullish_def)

text \<open>Calling a string method on a value that is not a string raises.\<close>

fun as_string :: "jsval \<Rightarrow> js_error + string" where
  "as_string (JStr s) = Inr s"
| "as_string _ = Inl TypeError"

definition opt_map_string :: "(string \<Rightarrow> string) \<Rightarrow> jsval \<Rightarrow> js_error + jsval" where
  "opt_map_string f v = (if is_nullish v then Inr JUndef
     else bindr (as_string v) (\<lambda>s. Inr (JStr (f s))))"

fun to_string :: "jsval \<Rightarrow> string" where
  "to_string JUndef = ''undefined''"
| "to_string JNull = ''null''"
| "to_string (JBool b) = (if b then ''true'' else ''false'')"
| "to_string (JNum n) = num_to_string n"
| "to_string (JStr s) = s"
| "to_string (JArr vs) = join '','' (map (\<lambda>v. case v of JUndef \<Rightarrow> [] | JNull \<Rightarrow> [] | _ \<Rightarrow> to_string v) vs)"
| "to_string (JObj _) = ''[object Object]''"

text \<open>\<open>parseFloat(v)\<close> reads the string of the value; a number prints and reads back as itself.\<close>

fun parseFloat_val :: "jsval \<Rightarrow> jsnum" where
  "parseFloat_val (JNum n) = n"
| "parseFloat_val v = parseFloat (to_string v)"

fun Number_val :: "jsval \<Rightarrow> jsnum" where
  "Number_val JUndef = NaN"
| "Number_val JNull = Fin 0"
| "Number_val (JBool b) = (if b then Fin 1 else Fin 0)"
| "Number_val (JNum n) = n"
| "Number_val v = Number_of_string (to_string v)"

section \<open>Writing values\<close>

text \<open>\<open>o[k] = v\<close>: a present key keeps its place, a new one goes to the end.\<close>

fun alist_set :: "(string \<times> 'a) list \<Rightarrow> string \<Rightarrow> 'a \<Rightarrow> (string \<times> 'a) list" where
  "alist_set [] k v = [(k, v)]"
| "alist_set ((j, w) # r) k v = (if j = k then (k, v) # r else (j, w) # alist_set r k v)"

lemma map_of_alist_set [simp]: "map_of (alist_set o1 k v) = (map_of o1)(k \<mapsto> v)"
  by (induction o1 k v rule: alist_set.induct) auto

lemma distinct_alist_set: "distinct (map fst o1) \<Longrightarrow> distinct (map fst (alist_set o1 k v))"
proof (induction o1 k v rule: alist_set.induct)
  case (2 j w r k v)
  have "fst ` set (alist_set r k v) = insert k (fst ` set r)"
    by (metis dom_fun_upd dom_map_of_conv_image_fst map_of_alist_set option.distinct(1))
  with 2 show ?case by auto
qed simp

end
