(* ===== verification/MipitConstants.thy ===== *)
theory MipitConstants
  imports JsValue
begin

text \<open>
  The constants of \<open>src/config/constants.ts\<close> and the enumerations of the domain model:
  payment statuses, rails, alias types, the broker's exchanges, keys and queues, the
  operating hours and the rate limits of the rails. The code passes statuses and rails
  around as strings, so each constructor has its code.
\<close>

section \<open>Statuses and rails\<close>

datatype payment_status = RECEIVED | VALIDATED | CANONICALIZED | NORMALIZED | ROUTED | QUEUED
  | SENT_TO_DESTINATION | ACKED_BY_RAIL | COMPLETED | FAILED | REJECTED | DUPLICATE
  | COMPENSATING | COMPENSATED | DEAD_LETTER

primrec status_code :: "payment_status \<Rightarrow> string" where
  "status_code RECEIVED = ''RECEIVED''"
| "status_code VALIDATED = ''VALIDATED''"
| "status_code CANONICALIZED = ''CANONICALIZED''"
| "status_code NORMALIZED = ''NORMALIZED''"
| "status_code ROUTED = ''ROUTED''"
| "status_code QUEUED = ''QUEUED''"
| "status_code SENT_TO_DESTINATION = ''SENT_TO_DESTINATION''"
| "status_code ACKED_BY_RAIL = ''ACKED_BY_RAIL''"
| "status_code COMPLETED = ''COMPLETED''"
| "status_code FAILED = ''FAILED''"
| "status_code REJECTED = ''REJECTED''"
| "status_code DUPLICATE = ''DUPLICATE''"
| "status_code COMPENSATING = ''COMPENSATING''"
| "status_code COMPENSATED = ''COMPENSATED''"
| "status_code DEAD_LETTER = ''DEAD_LETTER''"

datatype rail = PIX | SPEI | SWIFT_MT103 | ISO20022_MX | ACH_NACHA | FEDNOW | BRE_B

primrec rail_code :: "rail \<Rightarrow> string" where
  "rail_code PIX = ''PIX''"
| "rail_code SPEI = ''SPEI''"
| "rail_code SWIFT_MT103 = ''SWIFT_MT103''"
| "rail_code ISO20022_MX = ''ISO20022_MX''"
| "rail_code ACH_NACHA = ''ACH_NACHA''"
| "rail_code FEDNOW = ''FEDNOW''"
| "rail_code BRE_B = ''BRE_B''"

definition SUPPORTED_RAILS :: "rail list" where
  "SUPPORTED_RAILS = [PIX, SPEI, SWIFT_MT103, ISO20022_MX, ACH_NACHA, FEDNOW, BRE_B]"

definition rail_of :: "string \<Rightarrow> rail option" where
  "rail_of s = find (\<lambda>r. rail_code r = s) SUPPORTED_RAILS"

datatype alias_type = PIX_KEY | CLABE | IBAN | ACCOUNT | ABA_ROUTING | BIC | LLAVE_BREB

primrec alias_code :: "alias_type \<Rightarrow> string" where
  "alias_code PIX_KEY = ''PIX_KEY''"
| "alias_code CLABE = ''CLABE''"
| "alias_code IBAN = ''IBAN''"
| "alias_code ACCOUNT = ''ACCOUNT''"
| "alias_code ABA_ROUTING = ''ABA_ROUTING''"
| "alias_code BIC = ''BIC''"
| "alias_code LLAVE_BREB = ''LLAVE_BREB''"

definition ALIAS_TYPES :: "alias_type list" where
  "ALIAS_TYPES = [PIX_KEY, CLABE, IBAN, ACCOUNT, ABA_ROUTING, BIC, LLAVE_BREB]"

definition alias_of :: "string \<Rightarrow> alias_type option" where
  "alias_of s = find (\<lambda>a. alias_code a = s) ALIAS_TYPES"

lemma status_code_inj [simp]: "status_code s = status_code t \<longleftrightarrow> s = t"
  by (cases s; cases t) auto

lemma status_code_nonempty [simp]: "status_code s \<noteq> []"
  by (cases s) auto

lemma rail_code_inj [simp]: "rail_code r = rail_code q \<longleftrightarrow> r = q"
  by (cases r; cases q) auto

lemma rail_of_code [simp]: "rail_of (rail_code r) = Some r"
  by (cases r) (simp_all add: rail_of_def SUPPORTED_RAILS_def)

lemma rail_of_Some: "rail_of s = Some r \<longleftrightarrow> s = rail_code r"
proof
  assume "rail_of s = Some r"
  then show "s = rail_code r" by (auto simp: rail_of_def find_Some_iff)
qed simp

lemma alias_of_code [simp]: "alias_of (alias_code a) = Some a"
  by (cases a) (simp_all add: alias_of_def ALIAS_TYPES_def)

lemma trim_status_code [simp]: "trim (status_code s) \<noteq> []"
  by (cases s) (simp_all add: trim_def is_space_def)

section \<open>Rail metadata\<close>

record rail_metadata =
  rm_name :: string
  rm_country :: string
  rm_currency :: string
  rm_region :: string
  rm_hasAdapter :: bool
  rm_standard :: string

primrec RAIL_METADATA :: "rail \<Rightarrow> rail_metadata" where
  "RAIL_METADATA PIX = \<lparr>rm_name = ''PIX'', rm_country = ''BR'', rm_currency = ''BRL'',
     rm_region = ''LATAM'', rm_hasAdapter = True, rm_standard = ''ISO 20022 / BACEN SPI''\<rparr>"
| "RAIL_METADATA SPEI = \<lparr>rm_name = ''SPEI'', rm_country = ''MX'', rm_currency = ''MXN'',
     rm_region = ''LATAM'', rm_hasAdapter = True, rm_standard = ''CECOBAN / BANXICO''\<rparr>"
| "RAIL_METADATA SWIFT_MT103 = \<lparr>rm_name = ''SWIFT MT103'', rm_country = ''GLOBAL'',
     rm_currency = ''USD'', rm_region = ''GLOBAL'', rm_hasAdapter = False,
     rm_standard = ''SWIFT MT (legacy FIN)''\<rparr>"
| "RAIL_METADATA ISO20022_MX = \<lparr>rm_name = ''ISO 20022 MX'', rm_country = ''GLOBAL'',
     rm_currency = ''USD'', rm_region = ''GLOBAL'', rm_hasAdapter = False,
     rm_standard = ''ISO 20022 pacs.008.001.08 XML''\<rparr>"
| "RAIL_METADATA ACH_NACHA = \<lparr>rm_name = ''ACH NACHA'', rm_country = ''US'',
     rm_currency = ''USD'', rm_region = ''USA'', rm_hasAdapter = False,
     rm_standard = ''NACHA ACH CCD/PPD''\<rparr>"
| "RAIL_METADATA FEDNOW = \<lparr>rm_name = ''FedNow'', rm_country = ''US'', rm_currency = ''USD'',
     rm_region = ''USA'', rm_hasAdapter = False,
     rm_standard = ''ISO 20022 JSON (Federal Reserve)''\<rparr>"
| "RAIL_METADATA BRE_B = \<lparr>rm_name = ''Bre-B'', rm_country = ''CO'', rm_currency = ''COP'',
     rm_region = ''LATAM'', rm_hasAdapter = True,
     rm_standard = ''ISO 20022 JSON (Banco de la Rep'' @ [char_of (250::nat)] @ ''blica Colombia)''\<rparr>"

section \<open>Broker topology and limits\<close>

definition EXCHANGE_PAYMENTS :: string where "EXCHANGE_PAYMENTS = ''mipit.payments''"
definition EXCHANGE_DLX :: string where "EXCHANGE_DLX = ''mipit.dlx''"

definition ROUTE_PIX :: string where "ROUTE_PIX = ''route.pix''"
definition ROUTE_SPEI :: string where "ROUTE_SPEI = ''route.spei''"
definition ROUTE_BREB :: string where "ROUTE_BREB = ''route.breb''"
definition ACK_PIX :: string where "ACK_PIX = ''ack.pix''"
definition ACK_SPEI :: string where "ACK_SPEI = ''ack.spei''"
definition ACK_BREB :: string where "ACK_BREB = ''ack.breb''"
definition DLQ_KEY :: string where "DLQ_KEY = ''dlq.#''"

definition QUEUE_ACK :: string where "QUEUE_ACK = ''payments.ack''"
definition QUEUE_DLQ :: string where "QUEUE_DLQ = ''payments.dlq''"

definition DLQ_MAX_RETRIES :: int where "DLQ_MAX_RETRIES = 3"

record operating_hours =
  oh_days :: "int list"
  oh_start :: int
  oh_end :: int
  oh_tz :: int

definition RAIL_OPERATING_HOURS :: "string \<Rightarrow> operating_hours option" where
  "RAIL_OPERATING_HOURS = map_of
    [(''PIX'', \<lparr>oh_days = [1, 2, 3, 4, 5, 6], oh_start = 700, oh_end = 2359, oh_tz = -3\<rparr>),
     (''SPEI'', \<lparr>oh_days = [1, 2, 3, 4, 5], oh_start = 700, oh_end = 1730, oh_tz = -6\<rparr>),
     (''BRE_B'', \<lparr>oh_days = [1, 2, 3, 4, 5], oh_start = 600, oh_end = 2200, oh_tz = -5\<rparr>)]"

record rate_limit =
  rl_maxPerMinute :: int
  rl_maxPerSecond :: int

definition RAIL_RATE_LIMITS :: "(string \<times> rate_limit) list" where
  "RAIL_RATE_LIMITS =
    [(''PIX'', \<lparr>rl_maxPerMinute = 600, rl_maxPerSecond = 20\<rparr>),
     (''SPEI'', \<lparr>rl_maxPerMinute = 300, rl_maxPerSecond = 10\<rparr>),
     (''BRE_B'', \<lparr>rl_maxPerMinute = 200, rl_maxPerSecond = 8\<rparr>),
     (''SWIFT_MT103'', \<lparr>rl_maxPerMinute = 100, rl_maxPerSecond = 5\<rparr>),
     (''ISO20022_MX'', \<lparr>rl_maxPerMinute = 100, rl_maxPerSecond = 5\<rparr>),
     (''ACH_NACHA'', \<lparr>rl_maxPerMinute = 100, rl_maxPerSecond = 5\<rparr>),
     (''FEDNOW'', \<lparr>rl_maxPerMinute = 300, rl_maxPerSecond = 10\<rparr>)]"

end
