(* ===== verification/Prelude.thy ===== *)
theory Prelude
  imports Complex_Main
begin

text \<open>
  What the components share: the collections of facts their proofs use and generic lemmas
  on lists and options. \<open>io_frame\<close> collects, for each effectful operation, the relations
  between the states before and after it that it keeps; \<open>io_eval\<close> the equations that
  evaluate an effectful operation on the path where no query rejects.
\<close>

named_theorems io_frame \<open>relations that effectful operations keep\<close>
named_theorems io_eval \<open>evaluation of effectful operations\<close>

section \<open>Lists\<close>

lemma find_append: "find P (xs @ ys) = (case find P xs of None \<Rightarrow> find P ys | Some x \<Rightarrow> Some x)"
  by (induction xs) auto

lemma find_map: "find P (map f xs) = map_option f (find (\<lambda>x. P (f x)) xs)"
  by (induction xs) auto

lemma find_cong_set: "(\<And>x. x \<in> set xs \<Longrightarrow> P x = Q x) \<Longrightarrow> find P xs = find Q xs"
  by (induction xs) auto

lemma find_SomeD: "find P xs = Some x \<Longrightarrow> x \<in> set xs \<and> P x"
  by (induction xs) (auto split: if_splits)

lemma find_exists: "x \<in> set xs \<Longrightarrow> P x \<Longrightarrow> \<exists>y. find P xs = Some y"
  by (induction xs) auto

text \<open>Every element of a list is less than a bound for the sum of a function over it.\<close>

lemma filter_length_partition: "length (filter P xs) + length (filter (\<lambda>x. \<not> P x) xs) = length xs"
  by (induction xs) auto

end
