(* ===== verification/World.thy ===== *)
theory World
  imports MipitConstants Prelude
begin

text \<open>
  The state the service shares with the outside, and effectful code over it. The tables of
  the database and the messages handed to the broker are lists in insertion order; the
  environment says which external call rejects, what the clock reads and which identifiers
  \<open>ulid()\<close> draws, each as a function of the number of external steps taken so far. An
  effectful computation takes the environment and the state and returns an error or a value
  together with the new state: an error does not undo the changes made before it.

  Relations between the state before and after a computation are proved compositionally in
  the locale \<open>io_relation\<close>, once for every reflexive and transitive relation.
\<close>

section \<open>Tables\<close>

record payment =
  p_id :: string
  p_idem_key :: "string option"
  p_status :: string
  p_origin_rail :: string
  p_destination_rail :: "string option"
  p_amount :: jsnum
  p_currency :: string
  p_debtor_alias :: string
  p_debtor_name :: "string option"
  p_creditor_alias :: string
  p_creditor_name :: "string option"
  p_purpose :: "string option"
  p_reference :: "string option"
  p_origin_payload :: "jsval option"
  p_canonical :: "jsval option"
  p_translated :: "jsval option"
  p_rail_ack :: "jsval option"
  p_rule :: "string option"
  p_trace_id :: "string option"
  p_created_at :: int
  p_validated_at :: "int option"
  p_canonicalized_at :: "int option"
  p_routed_at :: "int option"
  p_queued_at :: "int option"
  p_sent_at :: "int option"
  p_acked_at :: "int option"
  p_completed_at :: "int option"
  p_failed_at :: "int option"
  p_compensated_at :: "int option"
  p_dead_letter_at :: "int option"
  p_updated_at :: "int option"

record audit_event =
  ae_id :: string
  ae_payment_id :: string
  ae_event_type :: string
  ae_actor :: string
  ae_detail :: "(string \<times> jsval) list"
  ae_trace_id :: "string option"
  ae_created_at :: int

record idem_record =
  ir_key :: string
  ir_payment_id :: string
  ir_hash :: string
  ir_status :: "int option"
  ir_body :: "jsval option"
  ir_created_at :: int
  ir_expires_at :: int

record route_rule =
  rr_id :: int
  rr_name :: string
  rr_field :: string
  rr_value :: string
  rr_destination :: string
  rr_priority :: int
  rr_active :: bool

record mapping_entry =
  me_rail :: string
  me_direction :: string
  me_source :: string
  me_target :: string
  me_transformation :: string
  me_validation :: "string option"
  me_active :: bool

record webhook_sub =
  ws_id :: string
  ws_payment_id :: string
  ws_url :: string
  ws_events :: "string list"
  ws_secret :: "string option"
  ws_created_at :: int
  ws_fired_at :: "int option"
  ws_last_http_status :: "int option"
  ws_attempts :: nat
  ws_last_error :: "string option"

record bus_message =
  bm_exchange :: string
  bm_key :: string
  bm_body :: jsval

text \<open>A delivery of a webhook: the URL, the body and the signature header.\<close>

record http_post =
  hp_url :: string
  hp_body :: string
  hp_signature :: "string option"

section \<open>The state\<close>

text \<open>
  Besides the tables, the state holds the messages handed to the broker, the deliveries of
  the webhooks, the events broadcast to the SSE clients, and the caches of the process: the
  routing rules, the mappings by rail and direction, the exchange rates. A cache entry is
  the value with the time it was loaded at.
\<close>

record mapping_transform =
  mt_targetField :: string
  mt_transformation :: string
  mt_validation :: "string option"

record world =
  w_payments :: "payment list"
  w_audit :: "audit_event list"
  w_idem :: "idem_record list"
  w_rules :: "route_rule list"
  w_mappings :: "mapping_entry list"
  w_webhooks :: "webhook_sub list"
  w_bus :: "bus_message list"
  w_posts :: "http_post list"
  w_sse :: "jsval list"
  w_rule_cache :: "(route_rule list \<times> int) option"
  w_map_cache :: "(string \<times> ((string \<times> mapping_transform) list \<times> int)) list"
  w_fx_cache :: "((string \<times> jsval) list \<times> int) option"
  w_tick :: nat

text \<open>
  What the program gets from outside. At each external step: whether a query rejects
  (\<open>e_fail\<close>), the clock (\<open>e_now\<close>), the next \<open>ulid()\<close> (\<open>e_ulid\<close>), the text of
  \<open>Math.random().toString(36)\<close> (\<open>e_rand36\<close>), the value of another \<open>Math.random()\<close>
  (\<open>e_random\<close>), what \<open>fetch\<close> answers (\<open>e_fetch\<close>: an error,
  or the HTTP status, its text and the parsed body). Then the libraries the program calls:
  \<open>e_datetime\<close> and \<open>e_url\<close> are zod's tests of a date-time and of a URL, \<open>e_zod_errors\<close> the
  report zod makes of a rejected value, \<open>e_regex\<close> a pattern of the mapping table applied to
  a string (\<open>None\<close>: the pattern does not compile), \<open>e_date_legacy\<close> the reading of a date
  text outside the standard format, \<open>e_stack\<close> the text of an error's stack, \<open>e_json_parse\<close> the
  reading of a JSON text (\<open>None\<close>: not JSON), \<open>e_sha256\<close> and \<open>e_hmac\<close> the hex digests,
  \<open>e_expiry\<close> the default the database gives to \<open>expires_at\<close> from the time of insertion
  \<open>e_uuid\<close> the key it gives to a row and \<open>e_param_text\<close> the text its driver makes of a value
  for a text column. Last the configuration: the FX application id
  and the webhook secret.
\<close>

record environment =
  e_fail :: "nat \<Rightarrow> bool"
  e_now :: "nat \<Rightarrow> int"
  e_ulid :: "nat \<Rightarrow> string"
  e_rand36 :: "nat \<Rightarrow> string"
  e_random :: "nat \<Rightarrow> rat"
  e_fetch :: "nat \<Rightarrow> string + (int \<times> string \<times> jsval)"
  e_datetime :: "string \<Rightarrow> bool"
  e_url :: "string \<Rightarrow> bool"
  e_zod_errors :: "jsval \<Rightarrow> jsval"
  e_regex :: "string \<Rightarrow> string \<Rightarrow> bool option"
  e_date_legacy :: "string \<Rightarrow> int option"
  e_stack :: "js_error \<Rightarrow> string"
  e_json_parse :: "string \<Rightarrow> jsval option"
  e_sha256 :: "string \<Rightarrow> string"
  e_hmac :: "string \<Rightarrow> string \<Rightarrow> string"
  e_expiry :: "int \<Rightarrow> int"
  e_uuid :: "nat \<Rightarrow> string"
  e_param_text :: "jsval \<Rightarrow> string"
  e_appId :: "string option"
  e_webhook_secret :: "string option"

section \<open>Effectful computations\<close>

type_synonym 'a io = "environment \<Rightarrow> world \<Rightarrow> (js_error + 'a) \<times> world"

definition io_return :: "'a \<Rightarrow> 'a io" where
  "io_return a = (\<lambda>e w. (Inr a, w))"

definition io_throw :: "js_error \<Rightarrow> 'a io" where
  "io_throw x = (\<lambda>e w. (Inl x, w))"

definition io_bind :: "'a io \<Rightarrow> ('a \<Rightarrow> 'b io) \<Rightarrow> 'b io" where
  "io_bind m f = (\<lambda>e w. case m e w of (Inl x, w') \<Rightarrow> (Inl x, w') | (Inr a, w') \<Rightarrow> f a e w')"

definition io_then :: "'a io \<Rightarrow> 'b io \<Rightarrow> 'b io" where
  "io_then m n = io_bind m (\<lambda>_. n)"

text \<open>\<open>try m catch (x) h\<close>\<close>

definition io_try :: "'a io \<Rightarrow> (js_error \<Rightarrow> 'a io) \<Rightarrow> 'a io" where
  "io_try m h = (\<lambda>e w. case m e w of (Inl x, w') \<Rightarrow> h x e w' | (Inr a, w') \<Rightarrow> (Inr a, w'))"

definition io_result :: "js_error + 'a \<Rightarrow> 'a io" where
  "io_result r = (\<lambda>e w. (r, w))"

definition tick :: "world \<Rightarrow> world" where
  "tick w = w\<lparr>w_tick := Suc (w_tick w)\<rparr>"

definition date_now :: "int io" where
  "date_now = (\<lambda>e w. (Inr (e_now e (w_tick w)), tick w))"

definition random36 :: "string io" where
  "random36 = (\<lambda>e w. (Inr (e_rand36 e (w_tick w)), tick w))"

definition math_random :: "jsnum io" where
  "math_random = (\<lambda>e w. (Inr (Fin (e_random e (w_tick w))), tick w))"

definition http_fetch :: "(string + (int \<times> string \<times> jsval)) io" where
  "http_fetch = (\<lambda>e w. (Inr (e_fetch e (w_tick w)), tick w))"

text \<open>A part of the environment, and a part of the state.\<close>

definition io_env :: "(environment \<Rightarrow> 'a) \<Rightarrow> 'a io" where
  "io_env f = (\<lambda>e w. (Inr (f e), w))"

definition io_get :: "(world \<Rightarrow> 'a) \<Rightarrow> 'a io" where
  "io_get f = (\<lambda>e w. (Inr (f w), w))"

definition io_modify :: "(world \<Rightarrow> world) \<Rightarrow> unit io" where
  "io_modify f = (\<lambda>e w. (Inr (), f w))"

definition fresh_ulid :: "string io" where
  "fresh_ulid = (\<lambda>e w. (Inr (e_ulid e (w_tick w)), tick w))"

text \<open>A query: it rejects when the environment says so, else it runs at the database's time.\<close>

definition query_rejected :: js_error where
  "query_rejected = PlainError ''query rejected''"

definition db_query :: "(environment \<Rightarrow> int \<Rightarrow> world \<Rightarrow> 'a \<times> world) \<Rightarrow> 'a io" where
  "db_query q = (\<lambda>e w. if e_fail e (w_tick w) then (Inl query_rejected, tick w)
     else let (a, w') = q e (e_now e (w_tick w)) (tick w) in (Inr a, w'))"

lemmas io_defs = io_return_def io_throw_def io_bind_def io_then_def io_try_def io_result_def
  io_env_def io_get_def io_modify_def

lemma tick_simps [simp]:
  "w_payments (tick w) = w_payments w" "w_audit (tick w) = w_audit w" "w_idem (tick w) = w_idem w"
  "w_rules (tick w) = w_rules w" "w_mappings (tick w) = w_mappings w"
  "w_webhooks (tick w) = w_webhooks w" "w_bus (tick w) = w_bus w" "w_posts (tick w) = w_posts w"
  "w_sse (tick w) = w_sse w" "w_rule_cache (tick w) = w_rule_cache w"
  "w_map_cache (tick w) = w_map_cache w" "w_fx_cache (tick w) = w_fx_cache w"
  "w_tick (tick w) = Suc (w_tick w)"
  by (simp_all add: tick_def)

lemma io_bind_return [simp]: "io_bind (io_return a) f = f a"
  by (simp add: io_defs)

lemma io_bind_throw [simp]: "io_bind (io_throw x) f = io_throw x"
  by (simp add: io_defs)

lemma io_bind_assoc: "io_bind (io_bind m f) g = io_bind m (\<lambda>a. io_bind (f a) g)"
  by (auto simp: io_bind_def fun_eq_iff split: prod.splits sum.splits)

lemma io_run [io_eval]:
  "io_return a e w = (Inr a, w)" "io_throw x e w = (Inl x, w)"
  "io_bind (io_get g) f e w = f (g w) e w" "io_bind (io_env h) f e w = f (h e) e w"
  "io_bind (io_modify u) k e w = k () e (u w)" "io_then (io_modify u) n e w = n e (u w)"
  "io_bind date_now d e w = d (e_now e (w_tick w)) e (tick w)"
  "io_bind fresh_ulid l e w = l (e_ulid e (w_tick w)) e (tick w)"
  "io_bind random36 l e w = l (e_rand36 e (w_tick w)) e (tick w)"
  "io_bind math_random q e w = q (Fin (e_random e (w_tick w))) e (tick w)"
  "io_bind http_fetch r e w = r (e_fetch e (w_tick w)) e (tick w)"
  "io_bind (io_result v) f e w = (case v of Inl x \<Rightarrow> (Inl x, w) | Inr a \<Rightarrow> f a e w)"
  "io_get g e w = (Inr (g w), w)" "io_result v e w = (v, w)"
  by (simp_all add: io_defs date_now_def fresh_ulid_def random36_def math_random_def http_fetch_def split: sum.split)

lemma db_query_run [io_eval]:
  "\<not> e_fail e (w_tick w) \<Longrightarrow>
   io_bind (db_query q) f e w = (case q e (e_now e (w_tick w)) (tick w) of (a, w') \<Rightarrow> f a e w')"
  by (auto simp: db_query_def io_bind_def split: prod.splits)

lemma io_try_run: "io_try m h e w = (case m e w of (Inl x, w') \<Rightarrow> h x e w' | (Inr a, w') \<Rightarrow> (Inr a, w'))"
  by (simp add: io_try_def)

lemma io_bind_Inr_iff:
  "io_bind m f e w = (Inr b, w'') \<longleftrightarrow> (\<exists>a w'. m e w = (Inr a, w') \<and> f a e w' = (Inr b, w''))"
  by (auto simp: io_bind_def split: prod.splits sum.splits)

lemma io_bind_Inl_iff:
  "io_bind m f e w = (Inl x, w'') \<longleftrightarrow>
     m e w = (Inl x, w'') \<or> (\<exists>a w'. m e w = (Inr a, w') \<and> f a e w' = (Inl x, w''))"
  by (auto simp: io_bind_def split: prod.splits sum.splits)

section \<open>Relations every computation keeps\<close>

text \<open>
  \<open>io_keeps R m\<close>: whatever the environment, the state after \<open>m\<close> is related to the state
  before it, whether \<open>m\<close> returned or raised.
\<close>

definition io_keeps :: "(world \<Rightarrow> world \<Rightarrow> bool) \<Rightarrow> 'a io \<Rightarrow> bool" where
  "io_keeps R m = (\<forall>e w. R w (snd (m e w)))"

lemma io_keepsD: "io_keeps R m \<Longrightarrow> m e w = (r, w') \<Longrightarrow> R w w'"
  by (metis io_keeps_def snd_conv)

locale io_relation =
  fixes R :: "world \<Rightarrow> world \<Rightarrow> bool"
  assumes refl: "R w w"
    and trans: "R u v \<Longrightarrow> R v w \<Longrightarrow> R u w"
    and step: "R w (tick w)"
begin

lemma return: "io_keeps R (io_return a)"
  by (simp add: io_keeps_def io_defs refl)

lemma throw: "io_keeps R (io_throw x)"
  by (simp add: io_keeps_def io_defs refl)

lemma result: "io_keeps R (io_result r)"
  by (simp add: io_keeps_def io_defs refl)

lemma bind: "io_keeps R m \<Longrightarrow> (\<And>a. io_keeps R (f a)) \<Longrightarrow> io_keeps R (io_bind m f)"
  unfolding io_keeps_def io_bind_def
  by (auto split: prod.splits sum.splits) (metis snd_conv trans)+

lemma andthen: "io_keeps R m \<Longrightarrow> io_keeps R n \<Longrightarrow> io_keeps R (io_then m n)"
  by (simp add: io_then_def bind)

lemma catch_error: "io_keeps R m \<Longrightarrow> (\<And>x. io_keeps R (h x)) \<Longrightarrow> io_keeps R (io_try m h)"
  unfolding io_keeps_def io_try_def
  by (auto split: prod.splits sum.splits) (metis snd_conv trans)+

lemma now: "io_keeps R date_now"
  by (simp add: io_keeps_def date_now_def step)

lemma ulid: "io_keeps R fresh_ulid"
  by (simp add: io_keeps_def fresh_ulid_def step)

lemma random: "io_keeps R random36"
  by (simp add: io_keeps_def random36_def step)

lemma random_value: "io_keeps R math_random"
  by (simp add: io_keeps_def math_random_def step)

lemma fetch: "io_keeps R http_fetch"
  by (simp add: io_keeps_def http_fetch_def step)

lemma env: "io_keeps R (io_env f)"
  by (simp add: io_keeps_def io_env_def refl)

lemma get: "io_keeps R (io_get f)"
  by (simp add: io_keeps_def io_get_def refl)

lemma modify: "(\<And>w. R w (f w)) \<Longrightarrow> io_keeps R (io_modify f)"
  by (simp add: io_keeps_def io_modify_def)

lemma query: "(\<And>e n w. R w (snd (q e n w))) \<Longrightarrow> io_keeps R (db_query q)"
  unfolding io_keeps_def db_query_def
  by (auto simp: Let_def step split: prod.splits) (metis snd_conv step trans)

lemma cond: "(b \<Longrightarrow> io_keeps R m) \<Longrightarrow> (\<not> b \<Longrightarrow> io_keeps R n) \<Longrightarrow> io_keeps R (if b then m else n)"
  by simp

lemma option_case:
  "io_keeps R m \<Longrightarrow> (\<And>a. io_keeps R (f a)) \<Longrightarrow> io_keeps R (case x of None \<Rightarrow> m | Some a \<Rightarrow> f a)"
  by (cases x) simp_all

lemma sum_case:
  "(\<And>a. io_keeps R (f a)) \<Longrightarrow> (\<And>b. io_keeps R (g b)) \<Longrightarrow> io_keeps R (case x of Inl a \<Rightarrow> f a | Inr b \<Rightarrow> g b)"
  by (cases x) simp_all

lemmas rules = return throw result bind andthen catch_error now ulid random random_value fetch env get cond option_case sum_case

end

text \<open>
  The scope of an operation on one payment: audit events and messages are only appended, the
  configuration tables and the idempotency records are only read, only the row of that
  payment changes and it does not disappear.
\<close>

definition appends :: "(world \<Rightarrow> 'a list) \<Rightarrow> world \<Rightarrow> world \<Rightarrow> bool" where
  "appends f w w' = (\<exists>xs. f w' = f w @ xs)"

definition same_config :: "world \<Rightarrow> world \<Rightarrow> bool" where
  "same_config w w' = (w_rules w' = w_rules w \<and> w_mappings w' = w_mappings w \<and> w_idem w' = w_idem w)"

definition payment_row :: "world \<Rightarrow> string \<Rightarrow> payment option" where
  "payment_row w i = find (\<lambda>r. p_id r = i) (w_payments w)"

definition only_payment :: "string \<Rightarrow> world \<Rightarrow> world \<Rightarrow> bool" where
  "only_payment i w w' = ((\<forall>j. j \<noteq> i \<longrightarrow> payment_row w' j = payment_row w j) \<and>
     (payment_row w i \<noteq> None \<longrightarrow> payment_row w' i \<noteq> None))"

definition payment_scope :: "string \<Rightarrow> world \<Rightarrow> world \<Rightarrow> bool" where
  "payment_scope i w w' = (appends w_audit w w' \<and> appends w_bus w w' \<and> same_config w w' \<and> only_payment i w w')"

lemmas payment_scope_defs = payment_scope_def appends_def same_config_def only_payment_def payment_row_def

interpretation scope: io_relation "payment_scope i" for i
  by unfold_locales (auto simp: payment_scope_defs)

lemmas scope_rules [io_frame] = scope.rules

lemma payment_scope_unchanged:
  "w_payments w' = w_payments w \<Longrightarrow> w_audit w' = w_audit w \<Longrightarrow> w_bus w' = w_bus w \<Longrightarrow>
   w_rules w' = w_rules w \<Longrightarrow> w_mappings w' = w_mappings w \<Longrightarrow> w_idem w' = w_idem w \<Longrightarrow> payment_scope i w w'"
  by (simp add: payment_scope_defs)

text \<open>
  A quiet computation changes nothing but the caches and the number of external steps. It is
  in the scope of every payment.
\<close>

definition quiet :: "world \<Rightarrow> world \<Rightarrow> bool" where
  "quiet w w' = (w_payments w' = w_payments w \<and> w_audit w' = w_audit w \<and> w_bus w' = w_bus w \<and>
     w_sse w' = w_sse w \<and> w_idem w' = w_idem w \<and> w_webhooks w' = w_webhooks w \<and> w_posts w' = w_posts w \<and>
     w_rules w' = w_rules w \<and> w_mappings w' = w_mappings w)"

interpretation quiet: io_relation quiet
  by unfold_locales (auto simp: quiet_def)

lemmas quiet_rules [io_frame] = quiet.rules

lemma quiet_scope: "io_keeps quiet m \<Longrightarrow> io_keeps (payment_scope i) m"
  by (simp add: io_keeps_def quiet_def payment_scope_unchanged)

section \<open>Sample data\<close>

text \<open>An environment in which no query is rejected, and a database with two rules, for concrete runs.\<close>

definition sample_rules :: "route_rule list" where
  "sample_rules =
    [\<lparr>rr_id = 2, rr_name = ''fallback'', rr_field = ''availability'', rr_value = ''always'',
       rr_destination = ''PIX'', rr_priority = 99, rr_active = True\<rparr>,
     \<lparr>rr_id = 1, rr_name = ''clabe'', rr_field = ''alias.type'', rr_value = ''CLABE'',
       rr_destination = ''SPEI'', rr_priority = 1, rr_active = True\<rparr>]"

definition sample_env :: environment where
  "sample_env = \<lparr>e_fail = \<lambda>n. False, e_now = \<lambda>n. 1773397800000, e_ulid = \<lambda>n. ''01ARZ3NDEKTSV4RRFFQ'' @ show_nat (int n),
     e_rand36 = \<lambda>n. ''0.4fzyo82mvyr'', e_random = \<lambda>n. 1 / 2, e_fetch = \<lambda>n. Inl ''offline'', e_datetime = \<lambda>s. True, e_url = \<lambda>s. True,
     e_zod_errors = \<lambda>v. JNull, e_regex = \<lambda>p s. Some True, e_date_legacy = \<lambda>s. None, e_stack = \<lambda>x. [],
     e_json_parse = \<lambda>s. None, e_sha256 = \<lambda>s. s, e_hmac = \<lambda>k s. k @ s, e_expiry = \<lambda>n. n + 86400000,
     e_uuid = \<lambda>n. show_nat (int n), e_param_text = to_string,
     e_appId = None, e_webhook_secret = None\<rparr>"

definition sample_world :: world where
  "sample_world = \<lparr>w_payments = [], w_audit = [], w_idem = [], w_rules = sample_rules, w_mappings = [],
     w_webhooks = [], w_bus = [], w_posts = [], w_sse = [], w_rule_cache = None, w_map_cache = [],
     w_fx_cache = None, w_tick = 0\<rparr>"

lemma sample_env_simps [simp]:
  "e_fail sample_env n = False" "e_now sample_env n = 1773397800000" "e_datetime sample_env = (\<lambda>s. True)"
  "e_url sample_env = (\<lambda>s. True)" "w_tick sample_world = 0"
  by (simp_all add: sample_env_def sample_world_def)

end
