(* ===== verification/JsDate.thy ===== *)
theory JsDate
  imports JsString
begin

text \<open>
  Dates: an instant is its number of milliseconds since the epoch, in UTC. Years follow the
  specification's \<open>DayFromYear\<close>; \<open>toISOString\<close> prints an instant and \<open>date_parse\<close> is
  \<open>new Date(s).getTime()\<close> for the standard format (a date, or a date and a time with an
  offset), any other text being read by a parameter. The main fact is the round trip of
  printing and reading, with the field of the instant that each part of the text holds.
\<close>

section \<open>Days, years and months\<close>

definition day_from_year :: "int \<Rightarrow> int" where
  "day_from_year y = 365 * (y - 1970) + (y - 1969) div 4 - (y - 1901) div 100 + (y - 1601) div 400"

definition leap_year :: "int \<Rightarrow> bool" where
  "leap_year y = (y mod 4 = 0 \<and> (y mod 100 \<noteq> 0 \<or> y mod 400 = 0))"

definition year_of_day :: "int \<Rightarrow> int" where
  "year_of_day d = (let y = d * 400 div 146097 + 1970 in
     if d < day_from_year y then y - 1 else if day_from_year (y + 1) \<le> d then y + 1 else y)"

definition month_lengths :: "int \<Rightarrow> int list" where
  "month_lengths y = [31, if leap_year y then 29 else 28, 31, 30, 31, 30, 31, 31, 30, 31, 30, 31]"

fun month_split :: "int list \<Rightarrow> int \<Rightarrow> nat \<times> int" where
  "month_split [] d = (0, d)"
| "month_split (l # ls) d = (if d < l then (0, d) else let (m, r) = month_split ls (d - l) in (Suc m, r))"

definition day_number :: "int \<Rightarrow> nat \<Rightarrow> int \<Rightarrow> int" where
  "day_number y m d = day_from_year y + sum_list (take m (month_lengths y)) + d"

lemma year_length: "day_from_year (y + 1) - day_from_year y = (if leap_year y then 366 else 365)"
proof -
  have d: "(a + 1) div n = a div n + (if (a + 1) mod n = 0 then 1 else 0)" if "0 < n" for a n :: int
  proof -
    have a: "a = n * (a div n) + a mod n" by simp
    have r: "0 \<le> a mod n" "a mod n < n" using that by simp_all
    show ?thesis
    proof (cases "a mod n = n - 1")
      case True
      with a have "a + 1 = n * (a div n + 1)" by (simp add: algebra_simps)
      then have "(a + 1) div n = a div n + 1" "(a + 1) mod n = 0"
        using that by (metis nonzero_mult_div_cancel_left less_irrefl, metis mod_mult_self1_is_0)
      then show ?thesis by simp
    next
      case False
      with r have "a mod n + 1 < n" by simp
      moreover have "a + 1 = n * (a div n) + (a mod n + 1)" by simp
      ultimately have "(a + 1) div n = a div n" "(a + 1) mod n = a mod n + 1"
        using r int_div_pos_eq [of "a + 1" n "a div n" "a mod n + 1"]
          int_mod_pos_eq [of "a + 1" n "a div n" "a mod n + 1"] by simp_all
      then show ?thesis using r by simp
    qed
  qed
  have m: "(y - 1969 + 1) mod 4 = 0 \<longleftrightarrow> y mod 4 = 0" "(y - 1901 + 1) mod 100 = 0 \<longleftrightarrow> y mod 100 = 0"
    "(y - 1601 + 1) mod 400 = 0 \<longleftrightarrow> y mod 400 = 0"
    using mod_mult_self1 [of y "-492" 4] mod_mult_self1 [of y "-19" 100] mod_mult_self1 [of y "-4" 400]
    by simp_all
  have "y mod 400 mod 100 = y mod 100" "y mod 100 mod 4 = y mod 4" by (simp_all add: mod_mod_cancel)
  then have dv: "y mod 400 = 0 \<longrightarrow> y mod 100 = 0" "y mod 100 = 0 \<longrightarrow> y mod 4 = 0" by auto
  have diff: "day_from_year (y + 1) - day_from_year y = 365 + (if y mod 4 = 0 then 1 else 0) -
      (if y mod 100 = 0 then 1 else 0) + (if y mod 400 = 0 then 1 else 0)"
  proof -
    have e: "y + 1 - 1969 = y - 1969 + 1" "y + 1 - 1901 = y - 1901 + 1" "y + 1 - 1601 = y - 1601 + 1"
      by simp_all
    have "(y + 1 - 1969) div 4 = (y - 1969) div 4 + (if y mod 4 = 0 then 1 else 0)"
      "(y + 1 - 1901) div 100 = (y - 1901) div 100 + (if y mod 100 = 0 then 1 else 0)"
      "(y + 1 - 1601) div 400 = (y - 1601) div 400 + (if y mod 400 = 0 then 1 else 0)"
      unfolding e m [symmetric] by (rule d; simp)+
    note step = this
    have sum: "365 * (y + 1 - 1970) + a' - b' + c' - (365 * (y - 1970) + a - b + c) = 365 + i - j + k"
      if "a' = a + i" "b' = b + j" "c' = c + k" for a b c a' b' c' i j k :: int
      using that by simp
    show ?thesis unfolding day_from_year_def by (rule sum [OF step])
  qed
  have cases: "x = (if A \<and> (\<not> B \<or> C) then 366 else 365)"
    if "C \<longrightarrow> B" "B \<longrightarrow> A"
      "x = 365 + (if A then 1 else 0) - (if B then 1 else 0) + (if C then 1 else 0)"
    for A B C and x :: int
    using that by (cases A; cases B; cases C) simp_all
  show ?thesis unfolding leap_year_def by (rule cases [OF dv diff])
qed

lemma div_bounds: "0 < n \<Longrightarrow> n * (a div n) \<le> a \<and> a < n * (a div n) + n" for a n :: int
  using mult_div_mod_eq [of n a] pos_mod_bound [of n a] pos_mod_sign [of n a] by linarith

lemma day_from_year_mono: "x \<le> y \<Longrightarrow> day_from_year x \<le> day_from_year y"
proof (induction y rule: int_ge_induct)
  case (step y)
  with year_length [of y] show ?case by (simp split: if_splits)
qed simp

lemma year_of_day: "day_from_year (year_of_day d) \<le> d \<and> d < day_from_year (year_of_day d + 1)"
proof -
  define q where "q = d * 400 div 146097"
  have q: "146097 * q \<le> 400 * d" "400 * d < 146097 * q + 146097"
    using div_bounds [of 146097 "d * 400"] by (simp_all add: q_def)
  have bound: "146097 * (z - 1970) - 800 \<le> 400 * day_from_year z \<and>
      400 * day_from_year z \<le> 146097 * (z - 1970) + 600" for z
  proof -
    have h: "400 * (365 * (z - 1970) + a - b + c) \<ge> 146097 * (z - 1970) - 800 \<and>
      400 * (365 * (z - 1970) + a - b + c) \<le> 146097 * (z - 1970) + 600"
      if "4 * a \<le> z - 1969 \<and> z - 1969 < 4 * a + 4" "100 * b \<le> z - 1901 \<and> z - 1901 < 100 * b + 100"
        "400 * c \<le> z - 1601 \<and> z - 1601 < 400 * c + 400" for a b c :: int
      using that by (elim conjE) (intro conjI; simp)
    show ?thesis unfolding day_from_year_def by (rule h) (rule div_bounds, simp)+
  qed
  have "day_from_year (q + 1969) \<le> d" "d < day_from_year (q + 1972)"
    using bound [of "q + 1969"] bound [of "q + 1972"] q by auto
  then show ?thesis by (simp add: year_of_day_def Let_def flip: q_def) (simp add: ac_simps)
qed

lemma year_of_day_eq: "day_from_year y \<le> d \<Longrightarrow> d < day_from_year (y + 1) \<Longrightarrow> year_of_day d = y"
  using year_of_day [of d] day_from_year_mono [of "y + 1" "year_of_day d"]
    day_from_year_mono [of "year_of_day d + 1" y] by linarith

lemma month_split_sum:
  "0 \<le> d \<Longrightarrow> d < sum_list ls \<Longrightarrow> month_split ls d = (m, r) \<Longrightarrow>
     m < length ls \<and> 0 \<le> r \<and> r < ls ! m \<and> sum_list (take m ls) + r = d"
proof (induction ls arbitrary: d m)
  case (Cons l ls)
  show ?case
  proof (cases "d < l")
    case False
    then obtain k where "month_split ls (d - l) = (k, r)" "m = Suc k"
      using Cons.prems by (auto split: prod.splits)
    with Cons.IH [of "d - l" k] Cons.prems False show ?thesis by simp
  qed (use Cons.prems in auto)
qed simp

lemma sum_month_lengths: "sum_list (month_lengths y) = (if leap_year y then 366 else 365)"
  by (simp add: month_lengths_def)

section \<open>Printing an instant\<close>

definition ms_per_day :: int where "ms_per_day = 86400000"

definition pad :: "nat \<Rightarrow> int \<Rightarrow> string" where
  "pad w n = padStart (show_nat n) w (CHR ''0'')"

definition show_year :: "int \<Rightarrow> string" where
  "show_year y = (if 0 \<le> y \<and> y \<le> 9999 then pad 4 y
     else if y < 0 then ''-'' @ pad 6 (- y) else ''+'' @ pad 6 y)"

definition show_day :: "int \<Rightarrow> string" where
  "show_day d = (let y = year_of_day d; (m, r) = month_split (month_lengths y) (d - day_from_year y)
     in show_year y @ ''-'' @ pad 2 (int m + 1) @ ''-'' @ pad 2 (r + 1))"

definition time_text :: "int \<Rightarrow> int \<Rightarrow> int \<Rightarrow> int \<Rightarrow> string" where
  "time_text h m sec ms = ''T'' @ pad 2 h @ '':'' @ pad 2 m @ '':'' @ pad 2 sec @ ''.'' @ pad 3 ms @ ''Z''"

definition show_time :: "int \<Rightarrow> string" where
  "show_time t = time_text (t div 3600000) (t div 60000 mod 60) (t div 1000 mod 60) (t mod 1000)"

definition toISOString :: "int \<Rightarrow> string" where
  "toISOString t = show_day (t div ms_per_day) @ show_time (t mod ms_per_day)"

definition utc_day_of_week :: "int \<Rightarrow> int" where
  "utc_day_of_week t = (t div ms_per_day + 4) mod 7"

definition utc_hours :: "int \<Rightarrow> int" where
  "utc_hours t = t mod ms_per_day div 3600000"

definition utc_minutes :: "int \<Rightarrow> int" where
  "utc_minutes t = t mod ms_per_day div 60000 mod 60"

section \<open>Reading a date\<close>

definition num_at :: "string \<Rightarrow> nat \<Rightarrow> nat \<Rightarrow> int option" where
  "num_at s i n = (let t = take n (drop i s) in
     if length t = n \<and> list_all is_digit t then Some (digits_val t) else None)"

definition char_at :: "string \<Rightarrow> nat \<Rightarrow> string" where
  "char_at s i = take 1 (drop i s)"

definition iso_date :: "string \<Rightarrow> int option" where
  "iso_date s = (case (num_at s 0 4, num_at s 5 2, num_at s 8 2) of
     (Some y, Some m, Some d) \<Rightarrow>
       if length s = 10 \<and> char_at s 4 = ''-'' \<and> char_at s 7 = ''-'' \<and> 1 \<le> m \<and> m \<le> 12 \<and>
         1 \<le> d \<and> d \<le> month_lengths y ! nat (m - 1)
       then Some (day_number y (nat (m - 1)) (d - 1)) else None
   | _ \<Rightarrow> None)"

text \<open>The offset in minutes, for \<open>Z\<close> or a sign and \<open>HH:mm\<close>.\<close>

definition iso_zone :: "string \<Rightarrow> int option" where
  "iso_zone s = (if s = ''Z'' then Some 0
     else if length s = 6 \<and> char_at s 3 = '':'' \<and> (char_at s 0 = ''+'' \<or> char_at s 0 = ''-'') then
       (case (num_at s 1 2, num_at s 4 2) of
          (Some h, Some m) \<Rightarrow> if h \<le> 23 \<and> m \<le> 59
            then Some ((if char_at s 0 = ''-'' then - 1 else 1) * (60 * h + m)) else None
        | _ \<Rightarrow> None)
     else None)"

definition iso_millis :: "string \<Rightarrow> int" where
  "iso_millis ds = digits_val (take 3 (ds @ ''00''))"

definition iso_time :: "string \<Rightarrow> int option" where
  "iso_time s = (case (num_at s 1 2, num_at s 4 2, num_at s 7 2) of
     (Some h, Some m, Some sec) \<Rightarrow>
       if char_at s 0 = ''T'' \<and> char_at s 3 = '':'' \<and> char_at s 6 = '':'' \<and> h \<le> 23 \<and> m \<le> 59 \<and> sec \<le> 59
       then let f = drop 9 s; ds = (if char_at f 0 = ''.'' then takeWhile is_digit (drop 1 f) else []);
                z = (if ds = [] then f else dropWhile is_digit (drop 1 f))
            in map_option (\<lambda>off. h * 3600000 + (m - off) * 60000 + sec * 1000 + iso_millis (if ds = [] then ''0'' else ds))
                 (iso_zone z)
       else None
   | _ \<Rightarrow> None)"

text \<open>\<open>new Date(s).getTime()\<close>, \<open>None\<close> for \<open>NaN\<close>.\<close>

definition date_parse :: "(string \<Rightarrow> int option) \<Rightarrow> string \<Rightarrow> int option" where
  "date_parse legacy s = (case iso_date (take 10 s) of
     None \<Rightarrow> legacy s
   | Some d \<Rightarrow> if length s = 10 then Some (d * ms_per_day)
       else case iso_time (drop 10 s) of Some t \<Rightarrow> Some (d * ms_per_day + t) | None \<Rightarrow> legacy s)"

section \<open>What is printed is read back\<close>

lemma length_pad [simp]: "0 \<le> n \<Longrightarrow> 0 < w \<Longrightarrow> n < 10 ^ w \<Longrightarrow> length (pad w n) = w"
  using length_show_nat [of w n] by (simp add: pad_def)

lemma pad_digits: "0 \<le> n \<Longrightarrow> list_all is_digit (pad w n)"
  by (simp add: pad_def list_all_padStart show_nat_digits)

lemma num_at_pad:
  "length p = i \<Longrightarrow> 0 \<le> n \<Longrightarrow> 0 < w \<Longrightarrow> n < 10 ^ w \<Longrightarrow> num_at (p @ pad w n @ q) i w = Some n"
  by (simp add: num_at_def pad_digits Let_def) (simp add: pad_def)

lemma show_day_parts:
  assumes "0 \<le> year_of_day d" "year_of_day d \<le> 9999"
  obtains y m r where "show_day d = pad 4 y @ ''-'' @ pad 2 (int m + 1) @ ''-'' @ pad 2 (r + 1)"
    "0 \<le> y" "y \<le> 9999" "m < 12" "0 \<le> r" "r < month_lengths y ! m" "day_number y m r = d"
    "month_lengths y ! m \<le> 31"
proof -
  define y where "y = year_of_day d"
  obtain m r where mr: "month_split (month_lengths y) (d - day_from_year y) = (m, r)"
    by fastforce
  have "day_from_year y \<le> d" "d < day_from_year (y + 1)"
    using year_of_day [of d] by (simp_all add: y_def)
  then have b: "0 \<le> d - day_from_year y" "d - day_from_year y < sum_list (month_lengths y)"
    using year_length [of y] by (auto simp: sum_month_lengths)
  have *: "m < length (month_lengths y) \<and> 0 \<le> r \<and> r < month_lengths y ! m \<and>
      sum_list (take m (month_lengths y)) + r = d - day_from_year y"
    by (rule month_split_sum [OF b mr])
  have len: "length (month_lengths y) = 12" by (simp add: month_lengths_def)
  have "list_all (\<lambda>x. x \<le> 31) (month_lengths y)" by (simp add: month_lengths_def)
  then have "month_lengths y ! m \<le> 31" using * by (simp add: list_all_length)
  moreover have "show_day d = pad 4 y @ ''-'' @ pad 2 (int m + 1) @ ''-'' @ pad 2 (r + 1)"
    using assms mr by (simp add: show_day_def show_year_def Let_def flip: y_def)
  ultimately show thesis using that [of y m r] * assms len by (simp add: day_number_def flip: y_def)
qed

lemma iso_date_show_day:
  assumes "0 \<le> year_of_day d" "year_of_day d \<le> 9999"
  shows "iso_date (show_day d) = Some d \<and> length (show_day d) = 10"
proof -
  obtain y m r where s: "show_day d = pad 4 y @ ''-'' @ pad 2 (int m + 1) @ ''-'' @ pad 2 (r + 1)"
    and b: "0 \<le> y" "y \<le> 9999" "m < 12" "0 \<le> r" "r < month_lengths y ! m" "day_number y m r = d"
      "month_lengths y ! m \<le> 31"
    using show_day_parts [OF assms] by blast
  have r: "r + 1 < 10 ^ 2" using b by simp
  have m: "int m + 1 < 10 ^ 2" using b by simp
  have n0: "num_at (show_day d) 0 4 = Some y"
    using num_at_pad [of "[]" 0 y 4] b by (simp add: s)
  have n1: "num_at (show_day d) 5 2 = Some (int m + 1)"
    using num_at_pad [of "pad 4 y @ ''-''" 5 "int m + 1" 2 "''-'' @ pad 2 (r + 1)"] b m by (simp add: s)
  have n2: "num_at (show_day d) 8 2 = Some (r + 1)"
    using num_at_pad [of "pad 4 y @ ''-'' @ pad 2 (int m + 1) @ ''-''" 8 "r + 1" 2 "[]"] b m r by (simp add: s)
  have len: "length (show_day d) = 10" using b m r by (simp add: s)
  have c: "char_at (show_day d) 4 = ''-''" "char_at (show_day d) 7 = ''-''"
    using b m by (simp_all add: s char_at_def)
  show ?thesis using b by (simp add: iso_date_def n0 n1 n2 len c)
qed

lemma show_time_parts:
  assumes "0 \<le> t" "t < ms_per_day"
  defines "h \<equiv> t div 3600000" and "m \<equiv> t div 60000 mod 60" and "sec \<equiv> t div 1000 mod 60" and "ms \<equiv> t mod 1000"
  shows "0 \<le> h" "h \<le> 23" "0 \<le> m" "m \<le> 59" "0 \<le> sec" "sec \<le> 59" "0 \<le> ms" "ms \<le> 999"
    "h * 3600000 + m * 60000 + sec * 1000 + ms = t"
proof -
  have d: "t div 60000 = t div 1000 div 60" "t div 3600000 = t div 60000 div 60"
    using zdiv_zmult2_eq [of 60 t 1000] zdiv_zmult2_eq [of 60 t 60000] by simp_all
  have g: "c * 3600000 + k * 60000 + s * 1000 + f = t"
    if "1000 * b + f = t" "60 * a + s = b" "60 * c + k = a" for a b c s k f :: int
    using that by simp
  show "h * 3600000 + m * 60000 + sec * 1000 + ms = t"
    unfolding h_def m_def sec_def ms_def d
    by (rule g [OF mult_div_mod_eq [of 1000 t] mult_div_mod_eq [of 60 "t div 1000"]
      mult_div_mod_eq [of 60 "t div 1000 div 60"]])
  show "0 \<le> h" unfolding h_def using assms(1) by (rule pos_imp_zdiv_nonneg_iff [THEN iffD2, rotated]) simp
  have "q * 3600000 \<le> t \<Longrightarrow> q < 24" for q using assms(2) by (simp add: ms_per_day_def)
  moreover have "t div 3600000 * 3600000 \<le> t"
    using div_mult_mod_eq [of t 3600000] pos_mod_sign [of 3600000 t] by (metis le_add_same_cancel1 zero_less_numeral)
  ultimately have "t div 3600000 < 24" .
  then show "h \<le> 23" unfolding h_def by simp
  show "0 \<le> m" "0 \<le> sec" "0 \<le> ms" unfolding m_def sec_def ms_def by (rule pos_mod_sign, simp)+
  have "a mod 60 \<le> 59" "a mod 1000 \<le> 999" for a :: int
    using pos_mod_bound [of 60 a] pos_mod_bound [of 1000 a] by simp_all
  then show "m \<le> 59" "sec \<le> 59" "ms \<le> 999" unfolding m_def sec_def ms_def by blast+
qed

lemma iso_time_text:
  assumes b: "0 \<le> h" "h \<le> 23" "0 \<le> m" "m \<le> 59" "0 \<le> sec" "sec \<le> 59" "0 \<le> ms" "ms \<le> 999"
  shows "iso_time (time_text h m sec ms) = Some (h * 3600000 + m * 60000 + sec * 1000 + ms)"
    and "length (time_text h m sec ms) = 14"
proof -
  let ?t = "time_text h m sec ms"
  have l: "h < 10 ^ 2" "m < 10 ^ 2" "sec < 10 ^ 2" "ms < 10 ^ 3" using b by simp_all
  note st = time_text_def
  have n: "num_at ?t 1 2 = Some h" "num_at ?t 4 2 = Some m" "num_at ?t 7 2 = Some sec"
    using num_at_pad [of "''T''" 1 h 2] num_at_pad [of "''T'' @ pad 2 h @ '':''" 4 m 2]
      num_at_pad [of "''T'' @ pad 2 h @ '':'' @ pad 2 m @ '':''" 7 sec 2] b l by (simp_all add: st)
  have c: "char_at ?t 0 = ''T''" "char_at ?t 3 = '':''" "char_at ?t 6 = '':''"
    using b l by (simp_all add: char_at_def st)
  have d: "drop 9 ?t = ''.'' @ pad 3 ms @ ''Z''" using b l by (simp add: st)
  have z: "\<not> is_digit (CHR ''Z'')" by (simp add: is_digit_def char_code_def)
  have f: "takeWhile is_digit (pad 3 ms @ ''Z'') = pad 3 ms" "dropWhile is_digit (pad 3 ms @ ''Z'') = ''Z''"
    using pad_digits [of ms 3] z b by (simp_all add: takeWhile_digits_append dropWhile_digits_append)
  have lf: "length (pad 3 ms) = 3" using b l by simp
  have ne: "pad 3 ms \<noteq> []" using lf by (metis list.size(3) zero_neq_numeral)
  have im: "iso_millis (pad 3 ms) = ms" using lf b by (simp add: iso_millis_def) (simp add: pad_def)
  have ca: "char_at (CHR ''.'' # u) 0 = ''.''" for u by (simp add: char_at_def)
  show "iso_time ?t = Some (h * 3600000 + m * 60000 + sec * 1000 + ms)"
    unfolding iso_time_def n c using b ne by (simp add: d Let_def ca f im iso_zone_def)
  show "length ?t = 14" using b l by (simp add: st)
qed

lemma iso_time_show_time:
  assumes "0 \<le> t" "t < ms_per_day"
  shows "iso_time (show_time t) = Some t" and "length (show_time t) = 14"
  unfolding show_time_def iso_time_text [OF show_time_parts(1-8) [OF assms]]
  by (simp_all only: show_time_parts(9) [OF assms])

theorem date_parse_toISOString:
  assumes "0 \<le> year_of_day (t div ms_per_day)" "year_of_day (t div ms_per_day) \<le> 9999"
  shows "date_parse legacy (toISOString t) = Some t"
proof -
  have m: "0 \<le> t mod ms_per_day" "t mod ms_per_day < ms_per_day" by (simp_all add: ms_per_day_def)
  have "t div ms_per_day * ms_per_day + t mod ms_per_day = t" by simp
  with iso_date_show_day [OF assms] iso_time_show_time [OF m] show ?thesis
    by (simp add: date_parse_def toISOString_def)
qed

lemma length_toISOString:
  assumes "0 \<le> year_of_day (t div ms_per_day)" "year_of_day (t div ms_per_day) \<le> 9999"
  shows "length (toISOString t) = 24"
proof -
  have m: "0 \<le> t mod ms_per_day" "t mod ms_per_day < ms_per_day" by (simp_all add: ms_per_day_def)
  with iso_date_show_day [OF assms] iso_time_show_time [OF m] show ?thesis by (simp add: toISOString_def)
qed

end
