(* ===== verification/Repositories.thy ===== *)
theory Repositories
  imports World JsDate
begin

text \<open>
  The repositories of \<open>src/persistence\<close> and \<open>src/webhooks/webhook.repository.ts\<close>, and
  \<open>AuditService\<close>: each method with its argument checks, its statement on the tables and
  what it returns. A statement that updates rows by key changes every row with that key and
  returns them; the method gives the first. A violated constraint is one of the reasons for
  which the environment makes a query reject.

  A table addressed by a key is an instance of the locale \<open>keyed_table\<close>, interpreted for
  payments and idempotency records.
\<close>

section \<open>Tables addressed by a key\<close>

definition rows_find :: "('a \<Rightarrow> 'k) \<Rightarrow> 'k \<Rightarrow> 'a list \<Rightarrow> 'a option" where
  "rows_find key k rows = find (\<lambda>r. key r = k) rows"

definition rows_modify :: "('a \<Rightarrow> 'k) \<Rightarrow> 'k \<Rightarrow> ('a \<Rightarrow> 'a) \<Rightarrow> 'a list \<Rightarrow> 'a list" where
  "rows_modify key k f rows = map (\<lambda>r. if key r = k then f r else r) rows"

locale keyed_table =
  fixes key :: "'a \<Rightarrow> 'k"
    and get :: "'k \<Rightarrow> 't \<Rightarrow> 'a option"
    and modify :: "'k \<Rightarrow> ('a \<Rightarrow> 'a) \<Rightarrow> 't \<Rightarrow> 't"
    and add :: "'a \<Rightarrow> 't \<Rightarrow> 't"
  assumes get_modify: "(\<And>r. key (f r) = key r) \<Longrightarrow>
      get j (modify k f t) = (if j = k then map_option f (get k t) else get j t)"
    and get_add: "get j (add r t) = (case get j t of Some q \<Rightarrow> Some q | None \<Rightarrow> if key r = j then Some r else None)"
begin

lemma modify_twice:
  "(\<And>r. key (f r) = key r) \<Longrightarrow> (\<And>r. key (g r) = key r) \<Longrightarrow>
   get j (modify k g (modify k f t)) = get j (modify k (\<lambda>r. g (f r)) t)"
  by (simp add: get_modify option.map_comp comp_def)

lemma modify_commute:
  "(\<And>r. key (f r) = key r) \<Longrightarrow> (\<And>r. key (g r) = key r) \<Longrightarrow> k \<noteq> l \<Longrightarrow>
   get j (modify k f (modify l g t)) = get j (modify l g (modify k f t))"
  by (simp add: get_modify)

lemma add_new: "get (key r) t = None \<Longrightarrow> get (key r) (add r t) = Some r"
  by (simp add: get_add)

lemma add_keeps: "get j t = Some q \<Longrightarrow> get j (add r t) = Some q"
  by (simp add: get_add)

lemma add_other: "j \<noteq> key r \<Longrightarrow> get j (add r t) = get j t"
  by (simp add: get_add split: option.splits)

lemma modify_absent: "(\<And>r. key (f r) = key r) \<Longrightarrow> get k t = None \<Longrightarrow> get j (modify k f t) = get j t"
  by (simp add: get_modify)

end

lemma rows_find_modify:
  "(\<And>r. key (f r) = key r) \<Longrightarrow>
   rows_find key j (rows_modify key k f rows) = (if j = k then map_option f (rows_find key k rows) else rows_find key j rows)"
  by (induction rows) (auto simp: rows_find_def rows_modify_def)

lemma rows_find_add:
  "rows_find key j (rows @ [r]) =
     (case rows_find key j rows of Some q \<Rightarrow> Some q | None \<Rightarrow> if key r = j then Some r else None)"
  by (simp add: rows_find_def find_append split: option.splits)

interpretation payments: keyed_table p_id "rows_find p_id" "rows_modify p_id" "\<lambda>r rows. rows @ [r]"
  by unfold_locales (simp_all add: rows_find_modify rows_find_add)

interpretation idem_keys: keyed_table ir_key "rows_find ir_key" "rows_modify ir_key" "\<lambda>r rows. rows @ [r]"
  by unfold_locales (simp_all add: rows_find_modify rows_find_add)

interpretation hooks: keyed_table ws_id "rows_find ws_id" "rows_modify ws_id" "\<lambda>r rows. rows @ [r]"
  by unfold_locales (simp_all add: rows_find_modify rows_find_add)

section \<open>Payments\<close>

text \<open>\<open>!s || s.trim() === ''\<close>\<close>

definition blank :: "string \<Rightarrow> bool" where
  "blank s = (s = [] \<or> trim s = [])"

record new_payment =
  np_id :: "string option"
  np_idem_key :: "string option"
  np_status :: "string option"
  np_origin_rail :: string
  np_amount :: jsnum
  np_currency :: string
  np_debtor_alias :: string
  np_debtor_name :: "string option"
  np_creditor_alias :: string
  np_creditor_name :: "string option"
  np_purpose :: "string option"
  np_reference :: "string option"
  np_origin_payload :: "jsval option"
  np_trace_id :: "string option"
  np_created_at :: "int option"

text \<open>\<open>v || d\<close> for an optional string\<close>

definition str_or :: "string option \<Rightarrow> string \<Rightarrow> string" where
  "str_or v d = (case v of Some s \<Rightarrow> if s = [] then d else s | None \<Rightarrow> d)"

definition payment_insert :: "string \<Rightarrow> int \<Rightarrow> new_payment \<Rightarrow> payment" where
  "payment_insert i created np = \<lparr>p_id = i, p_idem_key = np_idem_key np,
     p_status = str_or (np_status np) (status_code RECEIVED), p_origin_rail = np_origin_rail np,
     p_destination_rail = None, p_amount = np_amount np, p_currency = np_currency np,
     p_debtor_alias = np_debtor_alias np, p_debtor_name = np_debtor_name np,
     p_creditor_alias = np_creditor_alias np, p_creditor_name = np_creditor_name np,
     p_purpose = np_purpose np, p_reference = np_reference np,
     p_origin_payload = (case np_origin_payload np of Some v \<Rightarrow> if truthy v then Some v else None | None \<Rightarrow> None),
     p_canonical = None, p_translated = None, p_rail_ack = None, p_rule = None,
     p_trace_id = np_trace_id np, p_created_at = created, p_validated_at = None,
     p_canonicalized_at = None, p_routed_at = None, p_queued_at = None, p_sent_at = None,
     p_acked_at = None, p_completed_at = None, p_failed_at = None, p_compensated_at = None,
     p_dead_letter_at = None, p_updated_at = None\<rparr>"

definition payment_create :: "new_payment \<Rightarrow> payment io" where
  "payment_create np =
     io_bind (if str_or (np_id np) [] = [] then fresh_ulid else io_return (str_or (np_id np) [])) (\<lambda>i.
     io_bind (case np_created_at np of Some t \<Rightarrow> io_return t | None \<Rightarrow> date_now) (\<lambda>created.
     db_query (\<lambda>e n w. let row = payment_insert i created np in
       (row, w\<lparr>w_payments := w_payments w @ [row]\<rparr>))))"

definition payment_findById :: "string \<Rightarrow> payment option io" where
  "payment_findById i = (if blank i then io_throw (PlainError ''Payment ID cannot be empty'')
     else db_query (\<lambda>e n w. (rows_find p_id i (w_payments w), w)))"

text \<open>\<open>UPDATE payments SET ... WHERE payment_id = $k RETURNING *\<close>, failing on no row.\<close>

definition payment_update :: "string \<Rightarrow> (int \<Rightarrow> payment \<Rightarrow> payment) \<Rightarrow> payment io" where
  "payment_update i f = io_bind
     (db_query (\<lambda>e n w. let rows = rows_modify p_id i (f n) (w_payments w) in
        (rows_find p_id i rows, w\<lparr>w_payments := rows\<rparr>)))
     (\<lambda>r. case r of Some p \<Rightarrow> io_return p
        | None \<Rightarrow> io_throw (PlainError (''Payment not found: '' @ i)))"

definition set_status :: "string \<Rightarrow> int \<Rightarrow> payment \<Rightarrow> payment" where
  "set_status s n p = p\<lparr>p_status := s,
     p_validated_at := if s = ''VALIDATED'' then Some n else p_validated_at p,
     p_queued_at := if s = ''QUEUED'' then Some n else p_queued_at p,
     p_sent_at := if s = ''SENT_TO_DESTINATION'' then Some n else p_sent_at p,
     p_completed_at := if s = ''COMPLETED'' then Some n else p_completed_at p,
     p_failed_at := if s = ''FAILED'' then Some n else p_failed_at p,
     p_compensated_at := if s = ''COMPENSATED'' then Some n else p_compensated_at p,
     p_dead_letter_at := if s = ''DEAD_LETTER'' then Some n else p_dead_letter_at p,
     p_updated_at := Some n\<rparr>"

definition payment_updateStatus :: "string \<Rightarrow> string \<Rightarrow> payment io" where
  "payment_updateStatus i s =
    (if blank i then io_throw (PlainError ''Payment ID cannot be empty'')
     else if blank s then io_throw (PlainError ''Status cannot be empty'')
     else payment_update i (set_status s))"

definition set_canonical :: "jsval \<Rightarrow> string \<Rightarrow> int \<Rightarrow> payment \<Rightarrow> payment" where
  "set_canonical c s n p = p\<lparr>p_canonical := Some c, p_status := s, p_canonicalized_at := Some n,
     p_updated_at := Some n\<rparr>"

definition payment_updateCanonical :: "string \<Rightarrow> jsval \<Rightarrow> string \<Rightarrow> payment io" where
  "payment_updateCanonical i c s =
    (if blank i then io_throw (PlainError ''Payment ID cannot be empty'')
     else if \<not> truthy c then io_throw (PlainError ''Canonical payload cannot be empty'')
     else payment_update i (set_canonical c s))"

definition set_route :: "string \<Rightarrow> string \<Rightarrow> string \<Rightarrow> int \<Rightarrow> payment \<Rightarrow> payment" where
  "set_route d rule s n p = p\<lparr>p_destination_rail := Some d, p_rule := Some rule, p_status := s,
     p_routed_at := Some n, p_updated_at := Some n\<rparr>"

definition payment_updateRoute :: "string \<Rightarrow> string \<Rightarrow> string \<Rightarrow> string \<Rightarrow> payment io" where
  "payment_updateRoute i d rule s =
    (if blank i then io_throw (PlainError ''Payment ID cannot be empty'')
     else if blank d then io_throw (PlainError ''Destination rail cannot be empty'')
     else if blank rule then io_throw (PlainError ''Rule name cannot be empty'')
     else payment_update i (set_route d rule s))"

definition set_translated :: "jsval \<Rightarrow> int \<Rightarrow> payment \<Rightarrow> payment" where
  "set_translated t n p = p\<lparr>p_translated := Some t, p_updated_at := Some n\<rparr>"

definition payment_updateTranslated :: "string \<Rightarrow> jsval \<Rightarrow> payment io" where
  "payment_updateTranslated i t =
    (if blank i then io_throw (PlainError ''Payment ID cannot be empty'')
     else if \<not> truthy t then io_throw (PlainError ''Translated payload cannot be empty'')
     else payment_update i (set_translated t))"

definition set_rail_ack :: "jsval \<Rightarrow> string \<Rightarrow> int \<Rightarrow> payment \<Rightarrow> payment" where
  "set_rail_ack a s n p = p\<lparr>p_rail_ack := Some a, p_status := s, p_acked_at := Some n,
     p_completed_at := if s = ''COMPLETED'' then Some n else p_completed_at p, p_updated_at := Some n\<rparr>"

definition payment_updateRailAck :: "string \<Rightarrow> jsval \<Rightarrow> string \<Rightarrow> payment io" where
  "payment_updateRailAck i a s =
    (if blank i then io_throw (PlainError ''Payment ID cannot be empty'')
     else if \<not> truthy a then io_throw (PlainError ''Rail ACK response cannot be empty'')
     else if blank s then io_throw (PlainError ''Status cannot be empty'')
     else payment_update i (set_rail_ack a s))"

text \<open>Rows of one creation time come in the order of the table; SQL leaves their order open.\<close>

definition payment_findRecent :: "nat \<Rightarrow> string option \<Rightarrow> string option \<Rightarrow> payment list io" where
  "payment_findRecent limit status r = db_query (\<lambda>e n w.
     (take limit (sort_key (\<lambda>p. - p_created_at p)
       (filter (\<lambda>p. (str_or status [] = [] \<or> p_status p = str_or status []) \<and>
          (str_or r [] = [] \<or> p_origin_rail p = str_or r [] \<or> p_destination_rail p = Some (str_or r [])))
        (w_payments w))), w))"

definition payment_findByStatuses :: "string list \<Rightarrow> nat \<Rightarrow> payment list io" where
  "payment_findByStatuses ss limit = db_query (\<lambda>e n w.
     (take limit (sort_key p_created_at (filter (\<lambda>p. p_status p \<in> set ss) (w_payments w))), w))"

definition payment_findSince :: "int \<Rightarrow> payment list io" where
  "payment_findSince since = db_query (\<lambda>e n w.
     (sort_key (\<lambda>p. - p_created_at p) (filter (\<lambda>p. since \<le> p_created_at p) (w_payments w)), w))"

section \<open>Audit events\<close>

definition audit_insert ::
  "string \<Rightarrow> string \<Rightarrow> string \<Rightarrow> (string \<times> jsval) list \<Rightarrow> string option \<Rightarrow> unit io" where
  "audit_insert i ev actor detail trace =
    (if blank i then io_throw (PlainError ''Payment ID cannot be empty'')
     else if blank ev then io_throw (PlainError ''Event type cannot be empty'')
     else if blank actor then io_throw (PlainError ''Actor cannot be empty'')
     else if detail = [] then io_throw (PlainError ''Event detail cannot be empty'')
     else io_bind fresh_ulid (\<lambda>aid. io_bind date_now (\<lambda>t.
       db_query (\<lambda>e n w. ((), w\<lparr>w_audit := w_audit w @ [\<lparr>ae_id = aid, ae_payment_id = i,
         ae_event_type = ev, ae_actor = actor, ae_detail = detail, ae_trace_id = trace,
         ae_created_at = t\<rparr>]\<rparr>)))))"

definition audit_findByPaymentId :: "string \<Rightarrow> audit_event list io" where
  "audit_findByPaymentId i = (if blank i then io_throw (PlainError ''Payment ID cannot be empty'')
     else db_query (\<lambda>e n w. (sort_key ae_created_at (filter (\<lambda>a. ae_payment_id a = i) (w_audit w)), w)))"

definition now_iso :: "string io" where
  "now_iso = io_bind date_now (\<lambda>t. io_return (toISOString t))"

lemma now_iso_run: "now_iso e w = (Inr (toISOString (e_now e (w_tick w))), tick w)"
  by (simp add: now_iso_def io_run)

definition audit_logStatusChange :: "string \<Rightarrow> string \<Rightarrow> string \<Rightarrow> string \<Rightarrow> string option \<Rightarrow> unit io" where
  "audit_logStatusChange i frm to actor trace = io_bind now_iso (\<lambda>ts.
     audit_insert i ''STATUS_CHANGE'' actor [(''from_status'', JStr frm), (''to_status'', JStr to),
       (''timestamp'', JStr ts)] trace)"

definition audit_logRoutingDecision :: "string \<Rightarrow> string \<Rightarrow> string \<Rightarrow> string \<Rightarrow> string option \<Rightarrow> unit io" where
  "audit_logRoutingDecision i d rule actor trace = io_bind now_iso (\<lambda>ts.
     audit_insert i ''ROUTE_DECISION'' actor [(''destination_rail'', JStr d), (''rule_name'', JStr rule),
       (''timestamp'', JStr ts)] trace)"

definition audit_logError :: "string \<Rightarrow> string \<Rightarrow> js_error \<Rightarrow> string \<Rightarrow> string option \<Rightarrow> unit io" where
  "audit_logError i ev err actor trace = io_bind (io_env (\<lambda>e. e_stack e err)) (\<lambda>stack.
     io_bind now_iso (\<lambda>ts.
     audit_insert i ev actor [(''error_message'', JStr (error_message err)),
       (''error_stack'', JStr stack), (''timestamp'', JStr ts)] trace))"

text \<open>An ACK that is not an object is parsed as JSON; a text that is not JSON raises.\<close>

definition audit_logAckReceived :: "string \<Rightarrow> jsval \<Rightarrow> string \<Rightarrow> string option \<Rightarrow> unit io" where
  "audit_logAckReceived i ack actor trace =
     io_bind (if typeof ack = ''object'' then io_return ack
       else io_bind (io_env (\<lambda>e. e_json_parse e (to_string ack)))
         (\<lambda>r. case r of Some v \<Rightarrow> io_return v | None \<Rightarrow> io_throw (PlainError ''SyntaxError'')))
     (\<lambda>v. io_bind now_iso (\<lambda>ts.
       audit_insert i ''ACK_RECEIVED'' actor [(''ack_response'', v), (''timestamp'', JStr ts)] trace))"

section \<open>Idempotency records\<close>

definition idem_findByKey :: "string \<Rightarrow> idem_record option io" where
  "idem_findByKey k = db_query (\<lambda>e n w. (find (\<lambda>r. ir_key r = k \<and> n < ir_expires_at r) (w_idem w), w))"

text \<open>
  \<open>INSERT ... ON CONFLICT (idempotency_key) DO NOTHING\<close>: one atomic statement; whether a
  row was inserted.
\<close>

definition idem_insert_row :: "string \<Rightarrow> string \<Rightarrow> string \<Rightarrow> int option \<Rightarrow> jsval option \<Rightarrow> int \<Rightarrow> bool io" where
  "idem_insert_row k pid h st body created = db_query (\<lambda>e n w.
     case rows_find ir_key k (w_idem w) of Some _ \<Rightarrow> (False, w)
     | None \<Rightarrow> (True, w\<lparr>w_idem := w_idem w @ [\<lparr>ir_key = k, ir_payment_id = pid, ir_hash = h,
         ir_status = st, ir_body = body, ir_created_at = created, ir_expires_at = e_expiry e n\<rparr>]\<rparr>))"

definition idem_insert :: "idem_record \<Rightarrow> unit io" where
  "idem_insert r = io_bind (idem_insert_row (ir_key r) (ir_payment_id r) (ir_hash r) (ir_status r)
       (case ir_body r of Some b \<Rightarrow> if truthy b then Some b else None | None \<Rightarrow> None) (ir_created_at r))
     (\<lambda>_. io_return ())"

definition idem_tryInsert :: "string \<Rightarrow> string \<Rightarrow> string \<Rightarrow> int \<Rightarrow> bool io" where
  "idem_tryInsert k pid h created = idem_insert_row k pid h None None created"

definition idem_updateResponse :: "string \<Rightarrow> int \<Rightarrow> jsval \<Rightarrow> unit io" where
  "idem_updateResponse k st body = db_query (\<lambda>e n w. ((), w\<lparr>w_idem :=
     rows_modify ir_key k (\<lambda>r. r\<lparr>ir_status := Some st, ir_body := Some body\<rparr>) (w_idem w)\<rparr>))"

section \<open>Rules and mappings\<close>

definition rules_findActive :: "route_rule list io" where
  "rules_findActive = db_query (\<lambda>e n w. (sort_key rr_priority (filter rr_active (w_rules w)), w))"

definition rules_findById :: "int \<Rightarrow> route_rule option io" where
  "rules_findById i = db_query (\<lambda>e n w. (find (\<lambda>r. rr_id r = i) (w_rules w), w))"

text \<open>Ordered by the source field; the database's collation is that of the characters.\<close>

definition string_key :: "string \<Rightarrow> int list" where
  "string_key = map char_code"

fun key_less :: "int list \<Rightarrow> int list \<Rightarrow> bool" where
  "key_less [] [] = False"
| "key_less [] (y # ys) = True"
| "key_less (x # xs) [] = False"
| "key_less (x # xs) (y # ys) = (x < y \<or> x = y \<and> key_less xs ys)"

fun insert_by :: "('a \<Rightarrow> int list) \<Rightarrow> 'a \<Rightarrow> 'a list \<Rightarrow> 'a list" where
  "insert_by f a [] = [a]"
| "insert_by f a (b # bs) = (if key_less (f b) (f a) then b # insert_by f a bs else a # b # bs)"

definition order_by :: "('a \<Rightarrow> int list) \<Rightarrow> 'a list \<Rightarrow> 'a list" where
  "order_by f xs = foldr (insert_by f) xs []"

definition mappings_findByRail :: "string \<Rightarrow> string \<Rightarrow> mapping_entry list io" where
  "mappings_findByRail r dir = db_query (\<lambda>e n w. (order_by (\<lambda>m. string_key (me_source m))
     (filter (\<lambda>m. me_rail m = r \<and> me_direction m = dir \<and> me_active m) (w_mappings w)), w))"

definition mappings_findAll :: "mapping_entry list io" where
  "mappings_findAll = db_query (\<lambda>e n w. (order_by (\<lambda>m. string_key (me_rail m) @ [-1] @
       string_key (me_direction m) @ [-1] @ string_key (me_source m)) (filter me_active (w_mappings w)), w))"

section \<open>Webhook subscriptions\<close>

definition webhook_create :: "string \<Rightarrow> string \<Rightarrow> string list option \<Rightarrow> string option \<Rightarrow> webhook_sub io" where
  "webhook_create pid url events secret = db_query (\<lambda>e n w.
     let row = \<lparr>ws_id = e_uuid e (w_tick w), ws_payment_id = pid, ws_url = url,
           ws_events = (case events of Some es \<Rightarrow> es | None \<Rightarrow> [''COMPLETED'', ''FAILED'', ''REJECTED'']),
           ws_secret = secret, ws_created_at = n, ws_fired_at = None, ws_last_http_status = None,
           ws_attempts = 0, ws_last_error = None\<rparr>
     in (row, w\<lparr>w_webhooks := w_webhooks w @ [row]\<rparr>))"

definition webhook_findByPaymentId :: "string \<Rightarrow> webhook_sub list io" where
  "webhook_findByPaymentId pid = db_query (\<lambda>e n w.
     (sort_key ws_created_at (filter (\<lambda>s. ws_payment_id s = pid) (w_webhooks w)), w))"

definition webhook_findPending :: "string \<Rightarrow> string \<Rightarrow> webhook_sub list io" where
  "webhook_findPending pid ev = db_query (\<lambda>e n w.
     (filter (\<lambda>s. ws_payment_id s = pid \<and> ev \<in> set (ws_events s)) (w_webhooks w), w))"

definition webhook_recordDelivery :: "string \<Rightarrow> int \<Rightarrow> string option \<Rightarrow> unit io" where
  "webhook_recordDelivery i st err = db_query (\<lambda>e n w. ((), w\<lparr>w_webhooks :=
     rows_modify ws_id i (\<lambda>s. s\<lparr>ws_fired_at := Some n, ws_last_http_status := Some st,
       ws_attempts := ws_attempts s + 1, ws_last_error := err\<rparr>) (w_webhooks w)\<rparr>))"

section \<open>Scope of the operations\<close>

lemma payment_row_find: "payment_row w i = rows_find p_id i (w_payments w)"
  by (simp add: payment_row_def rows_find_def)

lemma payment_update_scope [io_frame]:
  assumes "\<And>n r. p_id (f n r) = p_id r"
  shows "io_keeps (payment_scope i) (payment_update i f)"
  unfolding payment_update_def
  by (intro io_frame scope.query)
    (auto simp: payment_scope_defs Let_def rows_find_def [symmetric] rows_find_modify assms)

lemma set_id [simp]:
  "p_id (set_status s n p) = p_id p" "p_id (set_canonical c s n p) = p_id p"
  "p_id (set_route d r s n p) = p_id p" "p_id (set_translated t n p) = p_id p"
  "p_id (set_rail_ack a s n p) = p_id p"
  by (simp_all add: set_status_def set_canonical_def set_route_def set_translated_def set_rail_ack_def)

lemma payment_updates_scope [io_frame]:
  "io_keeps (payment_scope i) (payment_updateStatus i s)"
  "io_keeps (payment_scope i) (payment_updateCanonical i c s)"
  "io_keeps (payment_scope i) (payment_updateRoute i d r s)"
  "io_keeps (payment_scope i) (payment_updateTranslated i t)"
  "io_keeps (payment_scope i) (payment_updateRailAck i a s)"
  unfolding payment_updateStatus_def payment_updateCanonical_def payment_updateRoute_def
    payment_updateTranslated_def payment_updateRailAck_def
  by (intro io_frame; simp)+

lemma payment_create_scope [io_frame]:
  "np_id np = Some i \<Longrightarrow> i \<noteq> [] \<Longrightarrow> io_keeps (payment_scope i) (payment_create np)"
  unfolding payment_create_def
  by (simp add: str_or_def, intro io_frame scope.query)
    (auto simp: payment_scope_defs Let_def find_append payment_insert_def split: option.splits)

lemma payment_findById_scope [io_frame]: "io_keeps (payment_scope i) (payment_findById j)"
  unfolding payment_findById_def by (intro io_frame scope.query) (simp_all add: payment_scope_unchanged)

lemma audit_insert_scope [io_frame]: "io_keeps (payment_scope i) (audit_insert j ev actor detail trace)"
  unfolding audit_insert_def
  by (intro io_frame scope.query) (auto simp: payment_scope_defs)

lemma audit_logs_scope [io_frame]:
  "io_keeps (payment_scope i) (audit_logStatusChange j a b actor trace)"
  "io_keeps (payment_scope i) (audit_logRoutingDecision j d rule actor trace)"
  "io_keeps (payment_scope i) (audit_logError j ev err actor trace)"
  unfolding audit_logStatusChange_def audit_logRoutingDecision_def audit_logError_def now_iso_def
  by (intro io_frame)+

section \<open>Running an operation\<close>

lemma payment_update_run:
  assumes "\<And>n r. p_id (f n r) = p_id r"
  shows "payment_update i f e w =
    (let w' = (tick w)\<lparr>w_payments := rows_modify p_id i (f (e_now e (w_tick w))) (w_payments w)\<rparr> in
     if e_fail e (w_tick w) then (Inl query_rejected, tick w)
     else case payment_row w i of
       None \<Rightarrow> (Inl (PlainError (''Payment not found: '' @ i)), w')
     | Some p \<Rightarrow> (Inr (f (e_now e (w_tick w)) p), w'))"
  by (auto simp: payment_update_def db_query_def io_bind_def Let_def payment_row_find rows_find_modify assms io_run
      split: option.split)

lemma payment_updated:
  assumes "payment_update i f e w = (Inr q, w')" "\<And>n r. p_id (f n r) = p_id r"
  shows "\<exists>p. payment_row w i = Some p \<and> q = f (e_now e (w_tick w)) p \<and>
    w' = (tick w)\<lparr>w_payments := rows_modify p_id i (f (e_now e (w_tick w))) (w_payments w)\<rparr> \<and> payment_row w' i = Some q"
proof -
  from assms(1) obtain p where p: "payment_row w i = Some p" "q = f (e_now e (w_tick w)) p"
    "w' = (tick w)\<lparr>w_payments := rows_modify p_id i (f (e_now e (w_tick w))) (w_payments w)\<rparr>"
    by (auto simp: payment_update_run [of f, OF assms(2)] Let_def split: if_splits option.splits)
  then have "payment_row w' i = Some q"
    by (simp add: payment_row_find rows_find_modify assms(2))
  with p show ?thesis by blast
qed

lemmas payment_update_defs = payment_updateStatus_def payment_updateCanonical_def payment_updateRoute_def
  payment_updateTranslated_def payment_updateRailAck_def

lemma status_updated:
  "payment_updateStatus i s e w = (Inr q, w') \<Longrightarrow> \<exists>p. payment_row w i = Some p \<and> q = set_status s (e_now e (w_tick w)) p \<and>
    w' = (tick w)\<lparr>w_payments := rows_modify p_id i (set_status s (e_now e (w_tick w))) (w_payments w)\<rparr> \<and> payment_row w' i = Some q"
  by (auto simp: payment_updateStatus_def io_run intro!: payment_updated split: if_splits)

lemma rail_ack_updated:
  "payment_updateRailAck i a s e w = (Inr q, w') \<Longrightarrow> \<exists>p. payment_row w i = Some p \<and> q = set_rail_ack a s (e_now e (w_tick w)) p \<and>
    w' = (tick w)\<lparr>w_payments := rows_modify p_id i (set_rail_ack a s (e_now e (w_tick w))) (w_payments w)\<rparr> \<and> payment_row w' i = Some q"
  by (auto simp: payment_updateRailAck_def io_run intro!: payment_updated split: if_splits)

lemma audit_inserted:
  "audit_insert i ev actor detail trace e w = (Inr u, w') \<Longrightarrow>
   \<exists>a. w' = w\<lparr>w_tick := w_tick w + 3, w_audit := w_audit w @ [a]\<rparr> \<and> ae_payment_id a = i \<and>
     ae_event_type a = ev \<and> ae_actor a = actor \<and> ae_detail a = detail \<and> ae_trace_id a = trace"
  by (rule exI [of _ "last (w_audit w')"])
    (auto simp: audit_insert_def io_run db_query_def tick_def eval_nat_numeral split: if_splits)

text \<open>A row of the payments, for concrete runs.\<close>

definition queued_payment :: payment where
  "queued_payment = set_status (status_code QUEUED) 1773397700000 (payment_insert ''PMT-1'' 1773397600000
     \<lparr>np_id = Some ''PMT-1'', np_idem_key = None, np_status = None, np_origin_rail = ''PIX'', np_amount = Fin 100,
      np_currency = ''BRL'', np_debtor_alias = ''PIX-ana'', np_debtor_name = None, np_creditor_alias = ''SPEI-1'',
      np_creditor_name = None, np_purpose = None, np_reference = None, np_origin_payload = None,
      np_trace_id = None, np_created_at = None\<rparr>)"

end
