(* ===== verification/AuditService.thy ===== *)
theory AuditService
  imports Repositories
begin

text \<open>
  The audit service of \<open>src/audit/audit-service.ts\<close>: each operation is the one of the audit
  repository followed by a log line, which the model leaves out.
\<close>

definition audit_log :: "string \<Rightarrow> string \<Rightarrow> string \<Rightarrow> (string \<times> jsval) list \<Rightarrow> string option \<Rightarrow> unit io" where
  "audit_log i ev actor detail trace = audit_insert i ev actor detail trace"

definition service_logStatusChange :: "string \<Rightarrow> string \<Rightarrow> string \<Rightarrow> string \<Rightarrow> string option \<Rightarrow> unit io" where
  "service_logStatusChange i frm to actor trace = audit_logStatusChange i frm to actor trace"

definition service_logRoutingDecision :: "string \<Rightarrow> string \<Rightarrow> string \<Rightarrow> string \<Rightarrow> string option \<Rightarrow> unit io" where
  "service_logRoutingDecision i d rule actor trace = audit_logRoutingDecision i d rule actor trace"

definition service_logError :: "string \<Rightarrow> string \<Rightarrow> js_error \<Rightarrow> string \<Rightarrow> string option \<Rightarrow> unit io" where
  "service_logError i ev err actor trace = audit_logError i ev err actor trace"

definition service_logAckReceived :: "string \<Rightarrow> jsval \<Rightarrow> string \<Rightarrow> string option \<Rightarrow> unit io" where
  "service_logAckReceived i ack actor trace = audit_logAckReceived i ack actor trace"

lemmas audit_service_defs = audit_log_def service_logStatusChange_def service_logRoutingDecision_def
  service_logError_def service_logAckReceived_def

end
