(* ===== verification/Json.thy ===== *)
theory Json
  imports JsValue
begin

text \<open>
  \<open>JSON.stringify\<close> of a dynamic value. What has no JSON text (\<open>undefined\<close>) is \<open>None\<close>:
  such a field is left out of an object and is \<open>null\<close> in an array.
\<close>

definition hex4 :: "int \<Rightarrow> string" where
  "hex4 n = map (\<lambda>d. if d < 10 then digit_char d else char_of (87 + d)) [0, 0, n div 16 mod 16, n mod 16]"

definition json_escape :: "char \<Rightarrow> string" where
  "json_escape c = (let k = char_code c; bs = char_of (92::nat) in
     if k = 34 then [bs, c] else if k = 92 then [bs, bs]
     else if k = 8 then [bs, CHR ''b''] else if k = 12 then [bs, CHR ''f''] else if k = 10 then [bs, CHR ''n'']
     else if k = 13 then [bs, CHR ''r''] else if k = 9 then [bs, CHR ''t'']
     else if k < 32 then bs # CHR ''u'' # hex4 k else [c])"

definition json_string :: "string \<Rightarrow> string" where
  "json_string s = char_of (34::nat) # concat (map json_escape s) @ [char_of (34::nat)]"

fun json_text :: "jsval \<Rightarrow> string option"
  and json_items :: "jsval list \<Rightarrow> string list"
  and json_fields :: "(string \<times> jsval) list \<Rightarrow> string list" where
  "json_text JUndef = None"
| "json_text JNull = Some ''null''"
| "json_text (JBool b) = Some (if b then ''true'' else ''false'')"
| "json_text (JNum n) = Some (case n of Fin _ \<Rightarrow> num_to_string n | _ \<Rightarrow> ''null'')"
| "json_text (JStr s) = Some (json_string s)"
| "json_text (JArr vs) = Some (''['' @ join '','' (json_items vs) @ '']'')"
| "json_text (JObj kvs) = Some (''{'' @ join '','' (json_fields kvs) @ ''}'')"
| "json_items [] = []"
| "json_items (v # vs) = (case json_text v of Some t \<Rightarrow> t | None \<Rightarrow> ''null'') # json_items vs"
| "json_fields [] = []"
| "json_fields ((k, v) # kvs) = (case json_text v of
     Some t \<Rightarrow> (json_string k @ '':'' @ t) # json_fields kvs | None \<Rightarrow> json_fields kvs)"

definition JSON_stringify :: "jsval \<Rightarrow> string" where
  "JSON_stringify v = (case json_text v of Some t \<Rightarrow> t | None \<Rightarrow> ''undefined'')"

text \<open>Fields that are \<open>undefined\<close> leave no trace in the text.\<close>

lemma json_fields_drop_undef: "json_fields (filter (\<lambda>(k, v). v \<noteq> JUndef) kvs) = json_fields kvs"
  by (induction kvs) (auto split: option.splits elim: json_text.elims)

end
