(* ===== verification/Outcome.thy ===== *)
theory Outcome
  imports World
begin

text \<open>
  What a computation guarantees of the value it returns, when it returns one:
  \<open>io_yields e Q m\<close>. The rules follow the structure of the computation; the one for a
  result already at hand gives the rest of the computation that it was a success.
\<close>

named_theorems io_post \<open>rules for the value a computation returns\<close>

definition io_yields :: "environment \<Rightarrow> ('a \<Rightarrow> bool) \<Rightarrow> 'a io \<Rightarrow> bool" where
  "io_yields e Q m = (\<forall>w a w'. m e w = (Inr a, w') \<longrightarrow> Q a)"

lemma io_yieldsD: "io_yields e Q m \<Longrightarrow> m e w = (Inr a, w') \<Longrightarrow> Q a"
  unfolding io_yields_def by blast

lemma io_yields_bindI:
  "io_yields e P m \<Longrightarrow> (\<And>a. P a \<Longrightarrow> io_yields e Q (f a)) \<Longrightarrow> io_yields e Q (io_bind m f)"
  unfolding io_yields_def io_bind_Inr_iff by blast

lemma io_yields_bind: "(\<And>a. io_yields e Q (f a)) \<Longrightarrow> io_yields e Q (io_bind m f)"
  unfolding io_yields_def io_bind_Inr_iff by blast

lemma io_yields_bind_result:
  "(\<And>a. r = Inr a \<Longrightarrow> io_yields e Q (f a)) \<Longrightarrow> io_yields e Q (io_bind (io_result r) f)"
  by (auto simp: io_yields_def io_run split: sum.splits)

lemma io_yields_bind_env: "io_yields e Q (f (h e)) \<Longrightarrow> io_yields e Q (io_bind (io_env h) f)"
  by (simp add: io_yields_def io_run)

lemma io_yields_return: "Q a \<Longrightarrow> io_yields e Q (io_return a)"
  by (simp add: io_yields_def io_defs)

lemma io_yields_result: "(\<And>a. r = Inr a \<Longrightarrow> Q a) \<Longrightarrow> io_yields e Q (io_result r)"
  by (simp add: io_yields_def io_run)

lemma io_yields_throw: "io_yields e Q (io_throw x)"
  by (simp add: io_yields_def io_defs)

lemma io_yields_try: "io_yields e Q m \<Longrightarrow> (\<And>x. io_yields e Q (h x)) \<Longrightarrow> io_yields e Q (io_try m h)"
  unfolding io_yields_def io_try_def by (fastforce split: prod.splits sum.splits)

lemma io_yields_if: "(b \<Longrightarrow> io_yields e Q m) \<Longrightarrow> (\<not> b \<Longrightarrow> io_yields e Q n) \<Longrightarrow> io_yields e Q (if b then m else n)"
  by simp

lemmas io_yields_rules [io_post] = io_yields_bind_result io_yields_bind_env io_yields_return io_yields_result
  io_yields_throw io_yields_try io_yields_if

text \<open>Running the first part of a computation whose outcome is known.\<close>

lemma io_bind_eval: "m e w = (Inr a, w') \<Longrightarrow> io_bind m f e w = f a e w'"
  by (simp add: io_bind_def)

section \<open>Assertions about the state\<close>

text \<open>
  \<open>io_spec e P m Q E\<close>: run from a state with \<open>P\<close>, the computation returns \<open>a\<close> in a state with
  \<open>Q a\<close>, or raises \<open>x\<close> in a state with \<open>E x\<close>.
\<close>

named_theorems io_step \<open>specifications of single effects\<close>

definition io_spec ::
  "environment \<Rightarrow> (world \<Rightarrow> bool) \<Rightarrow> 'a io \<Rightarrow> ('a \<Rightarrow> world \<Rightarrow> bool) \<Rightarrow> (js_error \<Rightarrow> world \<Rightarrow> bool) \<Rightarrow> bool" where
  "io_spec e P m Q E = (\<forall>w. P w \<longrightarrow> (case m e w of (Inr a, w') \<Rightarrow> Q a w' | (Inl x, w') \<Rightarrow> E x w'))"

lemma io_specD:
  "io_spec e P m Q E \<Longrightarrow> P w \<Longrightarrow> m e w = (Inr a, w') \<Longrightarrow> Q a w'"
  "io_spec e P m Q E \<Longrightarrow> P w \<Longrightarrow> m e w = (Inl x, w') \<Longrightarrow> E x w'"
  unfolding io_spec_def by fastforce+

lemma io_spec_bind:
  assumes m: "io_spec e P m R E" and f: "\<And>a. io_spec e (R a) (f a) Q E"
  shows "io_spec e P (io_bind m f) Q E"
  unfolding io_spec_def
proof (intro allI impI)
  fix w :: world assume w: "P w"
  obtain r w' where r: "m e w = (r, w')" by fastforce
  show "case io_bind m f e w of (Inr a, w') \<Rightarrow> Q a w' | (Inl x, w') \<Rightarrow> E x w'"
  proof (cases r)
    case (Inl x)
    with r show ?thesis using io_specD(2) [OF m w] by (simp add: io_bind_def)
  next
    case (Inr a)
    with r have "R a w'" using io_specD(1) [OF m w] by simp
    with f [of a] Inr r show ?thesis by (auto simp: io_bind_def io_spec_def)
  qed
qed

lemma io_spec_then:
  "io_spec e P m R E \<Longrightarrow> (\<And>a. io_spec e (R a) n Q E) \<Longrightarrow> io_spec e P (io_then m n) Q E"
  unfolding io_then_def by (rule io_spec_bind)

lemma io_spec_post:
  assumes "io_spec e P m Q E" "\<And>a w. Q a w \<Longrightarrow> Q' a w" "\<And>x w. E x w \<Longrightarrow> E' x w"
  shows "io_spec e P m Q' E'"
  unfolding io_spec_def
proof (intro allI impI)
  fix w :: world assume w: "P w"
  obtain r w' where r: "m e w = (r, w')" by fastforce
  then show "case m e w of (Inr a, w') \<Rightarrow> Q' a w' | (Inl x, w') \<Rightarrow> E' x w'"
    by (cases r) (auto intro: assms(2,3) io_specD [OF assms(1) w])
qed

lemma io_spec_pre: "io_spec e P m Q E \<Longrightarrow> (\<And>w. P' w \<Longrightarrow> P w) \<Longrightarrow> io_spec e P' m Q E"
  by (simp add: io_spec_def)

lemma io_spec_return: "(\<And>w. P w \<Longrightarrow> Q a w) \<Longrightarrow> io_spec e P (io_return a) Q E"
  by (simp add: io_spec_def io_run)

lemma io_spec_throw: "(\<And>w. P w \<Longrightarrow> E x w) \<Longrightarrow> io_spec e P (io_throw x) Q E"
  by (simp add: io_spec_def io_run)

lemma io_spec_try:
  assumes m: "io_spec e P m Q R" and h: "\<And>x. io_spec e (R x) (h x) Q E"
  shows "io_spec e P (io_try m h) Q E"
  unfolding io_spec_def
proof (intro allI impI)
  fix w :: world assume w: "P w"
  obtain r w' where r: "m e w = (r, w')" by fastforce
  show "case io_try m h e w of (Inr a, w') \<Rightarrow> Q a w' | (Inl x, w') \<Rightarrow> E x w'"
  proof (cases r)
    case (Inl x)
    with r have "R x w'" using io_specD(2) [OF m w] by simp
    with h [of x] Inl r show ?thesis by (auto simp: io_try_def io_spec_def)
  next
    case (Inr a)
    with r show ?thesis using io_specD(1) [OF m w] by (simp add: io_try_def)
  qed
qed

text \<open>Whether some query can be rejected.\<close>

definition may_reject :: "environment \<Rightarrow> bool" where
  "may_reject e = (\<exists>n. e_fail e n)"

text \<open>A quiet computation keeps every assertion that speaks only of the tables.\<close>

definition tabular :: "(world \<Rightarrow> bool) \<Rightarrow> bool" where
  "tabular P = (\<forall>w w'. quiet w w' \<longrightarrow> P w \<longrightarrow> P w')"

lemma io_spec_quiet:
  assumes "io_keeps quiet m" "tabular P"
  shows "io_spec e P m (\<lambda>_. P) (\<lambda>_. P)"
  using assms unfolding io_spec_def tabular_def
  by (auto split: prod.split sum.split dest: io_keepsD)

end
