(* ===== verification/Messaging.thy ===== *)
theory Messaging
  imports Repositories Json Outcome
begin

text \<open>
  The broker as the service uses it: the topology declared by
  \<open>src/messaging/rabbitmq.ts\<close> (and again by \<open>src/index.ts\<close>), the publisher of
  \<open>src/messaging/publisher.ts\<close> and the broadcast to the SSE clients. A topology is the list
  of its bindings; a message reaches the queues whose binding key matches its routing key.
\<close>

section \<open>Topology\<close>

record binding =
  bd_queue :: string
  bd_exchange :: string
  bd_key :: string

definition topology :: "binding list" where
  "topology =
    [\<lparr>bd_queue = QUEUE_ACK, bd_exchange = EXCHANGE_PAYMENTS, bd_key = ACK_PIX\<rparr>,
     \<lparr>bd_queue = QUEUE_ACK, bd_exchange = EXCHANGE_PAYMENTS, bd_key = ACK_SPEI\<rparr>,
     \<lparr>bd_queue = QUEUE_ACK, bd_exchange = EXCHANGE_PAYMENTS, bd_key = ACK_BREB\<rparr>,
     \<lparr>bd_queue = QUEUE_DLQ, bd_exchange = EXCHANGE_DLX, bd_key = DLQ_KEY\<rparr>]"

text \<open>The topic exchange: \<open>*\<close> stands for one word of the routing key, \<open>#\<close> for any number.\<close>

fun topic_match :: "string list \<Rightarrow> string list \<Rightarrow> bool" where
  "topic_match [] ws = (ws = [])"
| "topic_match (k # ks) [] = (k = ''#'' \<and> topic_match ks [])"
| "topic_match (k # ks) (w # ws) =
     (if k = ''#'' then topic_match ks (w # ws) \<or> topic_match (k # ks) ws
      else (k = ''*'' \<or> k = w) \<and> topic_match ks ws)"

definition queues_of :: "bus_message \<Rightarrow> string list" where
  "queues_of m = remdups (map bd_queue (filter (\<lambda>b. bd_exchange b = bm_exchange m \<and>
     topic_match (split_on (CHR ''.'') (bd_key b)) (split_on (CHR ''.'') (bm_key m))) topology))"

section \<open>Publishing\<close>

text \<open>A publish on a closed channel raises, like a query that is rejected.\<close>

definition channel_publish :: "string \<Rightarrow> string \<Rightarrow> jsval \<Rightarrow> unit io" where
  "channel_publish ex key body = db_query (\<lambda>e n w. ((), w\<lparr>w_bus := w_bus w @
     [\<lparr>bm_exchange = ex, bm_key = key, bm_body = body\<rparr>]\<rparr>))"

definition railKeyMap :: "(string \<times> string) list" where
  "railKeyMap = [(''PIX'', ROUTE_PIX), (''SPEI'', ROUTE_SPEI), (''BRE_B'', ROUTE_BREB)]"

definition publishToAdapter :: "string \<Rightarrow> jsval \<Rightarrow> unit io" where
  "publishToAdapter r msg = (case map_of railKeyMap r of
     None \<Rightarrow> io_throw (PlainError (''No routing key configured for rail: '' @ r))
   | Some key \<Rightarrow> channel_publish EXCHANGE_PAYMENTS key msg)"

definition broadcastPaymentEvent :: "(string \<times> jsval) list \<Rightarrow> unit io" where
  "broadcastPaymentEvent event = io_modify (\<lambda>w. w\<lparr>w_sse := w_sse w @ [JObj event]\<rparr>)"

section \<open>Lemmas\<close>

lemma channel_publish_scope [io_frame]: "io_keeps (payment_scope i) (channel_publish ex key body)"
  unfolding channel_publish_def by (intro scope.query) (auto simp: payment_scope_defs)

lemma publishToAdapter_scope [io_frame]: "io_keeps (payment_scope i) (publishToAdapter r msg)"
  unfolding publishToAdapter_def by (intro io_frame)

lemma broadcast_scope [io_frame]: "io_keeps (payment_scope i) (broadcastPaymentEvent ev)"
  unfolding broadcastPaymentEvent_def by (intro scope.modify) (simp add: payment_scope_unchanged)

lemma topic_hash: "topic_match [''#''] ws"
  by (induction ws) auto

lemma dead_letter_queue: "queues_of \<lparr>bm_exchange = EXCHANGE_DLX, bm_key = ''dlq.'' @ s, bm_body = b\<rparr> = [QUEUE_DLQ]"
proof -
  have "split_on (CHR ''.'') (''dlq.'' @ s) = ''dlq'' # split_on (CHR ''.'') s"
    using split_on_append [of "CHR ''.''" "''dlq''" s] by simp
  then show ?thesis
    by (simp add: queues_of_def topology_def EXCHANGE_PAYMENTS_def EXCHANGE_DLX_def ACK_PIX_def ACK_SPEI_def
        ACK_BREB_def DLQ_KEY_def QUEUE_DLQ_def topic_hash)
qed

text \<open>
  In the declared topology a message published to an adapter reaches none of the core's
  own queues, an acknowledgement of any of the three adapters reaches the acknowledgement
  queue alone, and whatever is published to the dead-letter exchange under a key that
  starts with dlq reaches the dead-letter queue.
\<close>

theorem topology_routes:
  "map (\<lambda>(r, k). (r, queues_of \<lparr>bm_exchange = EXCHANGE_PAYMENTS, bm_key = k, bm_body = b\<rparr>)) railKeyMap =
     [(''PIX'', []), (''SPEI'', []), (''BRE_B'', [])] \<and>
   map (\<lambda>k. queues_of \<lparr>bm_exchange = EXCHANGE_PAYMENTS, bm_key = k, bm_body = b\<rparr>) [ACK_PIX, ACK_SPEI, ACK_BREB] =
     [[QUEUE_ACK], [QUEUE_ACK], [QUEUE_ACK]] \<and>
   queues_of \<lparr>bm_exchange = EXCHANGE_DLX, bm_key = ''dlq.'' @ s, bm_body = b\<rparr> = [QUEUE_DLQ]"
  by (simp only: dead_letter_queue simp_thms)
    (simp add: queues_of_def topology_def railKeyMap_def EXCHANGE_PAYMENTS_def EXCHANGE_DLX_def ROUTE_PIX_def
        ROUTE_SPEI_def ROUTE_BREB_def ACK_PIX_def ACK_SPEI_def ACK_BREB_def DLQ_KEY_def QUEUE_ACK_def)

end
