(* ===== verification/TtlCache.thy ===== *)
theory TtlCache
  imports Repositories
begin

text \<open>
  The caches with a time to live: \<open>RuleLoader\<close> of \<open>src/routing/rule-loader.ts\<close> and
  \<open>MappingLoader\<close> of \<open>src/translation/mapping-loader.ts\<close>. Both keep what the repository
  returned with the time it was loaded at, answer from it for five minutes and ask the
  repository again after that. What they share is the locale \<open>ttl_cache\<close>.
\<close>

definition TTL_MS :: int where
  "TTL_MS = 5 * 60 * 1000"

section \<open>The interface\<close>

locale ttl_cache =
  fixes load :: "'v io" and entry :: "world \<Rightarrow> ('v \<times> int) option"
  assumes hit: "entry w = Some (v, t) \<Longrightarrow> e_now e (w_tick w) - t < TTL_MS \<Longrightarrow> load e w = (Inr v, tick w)"
    and stored: "load e w = (Inr v, w') \<Longrightarrow> \<exists>t. entry w' = Some (v, t)"
    and rejected: "load e w = (Inl x, w') \<Longrightarrow> entry w' = entry w"
    and entry_tick: "entry (tick w) = entry w"
begin

text \<open>Once loaded, the value is answered until it expires, whatever happens to the tables.\<close>

lemma answers_until_expiry:
  assumes "load e w = (Inr v, w')"
  obtains t where "entry w' = Some (v, t)"
    "\<And>u. entry u = entry w' \<Longrightarrow> e_now e (w_tick u) < t + TTL_MS \<Longrightarrow> load e u = (Inr v, tick u)"
proof -
  obtain t where t: "entry w' = Some (v, t)" using stored [OF assms] by blast
  have "load e u = (Inr v, tick u)" if "entry u = entry w'" "e_now e (w_tick u) < t + TTL_MS" for u
    using that t by (intro hit) auto
  with t that show thesis by blast
qed

lemma hit_keeps: "entry w = Some (v, t) \<Longrightarrow> e_now e (w_tick w) - t < TTL_MS \<Longrightarrow>
    entry (snd (load e w)) = Some (v, t)"
  by (simp add: hit entry_tick)

lemma loads_agree:
  assumes "load e w = (Inr v, w')" "entry w' = Some (v, t)" "entry u = entry w'" "e_now e (w_tick u) < t + TTL_MS"
    "load e u = (Inr x, u')"
  shows "x = v"
  using hit [of u v t e] assms by auto

end

section \<open>Routing rules\<close>

definition cache_rules :: "route_rule list \<Rightarrow> route_rule list io" where
  "cache_rules rules = io_bind date_now (\<lambda>t.
     io_then (io_modify (\<lambda>w. w\<lparr>w_rule_cache := Some (rules, t)\<rparr>)) (io_return rules))"

definition loadActiveRules :: "route_rule list io" where
  "loadActiveRules = io_bind (io_get w_rule_cache) (\<lambda>c. case c of
     Some (rules, loaded) \<Rightarrow> io_bind date_now (\<lambda>now.
       if now - loaded < TTL_MS then io_return rules else io_bind rules_findActive cache_rules)
   | None \<Rightarrow> io_bind rules_findActive cache_rules)"

definition rules_clearCache :: "unit io" where
  "rules_clearCache = io_modify (\<lambda>w. w\<lparr>w_rule_cache := None\<rparr>)"

section \<open>Mappings\<close>

definition transform_of :: "mapping_entry \<Rightarrow> mapping_transform" where
  "transform_of m = \<lparr>mt_targetField = me_target m, mt_transformation = me_transformation m,
     mt_validation = me_validation m\<rparr>"

text \<open>A \<open>Map\<close> keeps the place of the first insertion of a key and the last value.\<close>

definition mappings_map :: "mapping_entry list \<Rightarrow> (string \<times> mapping_transform) list" where
  "mappings_map entries = foldl (\<lambda>m x. if me_active x then alist_set m (me_source x) (transform_of x) else m) [] entries"

definition map_key :: "string \<Rightarrow> string \<Rightarrow> string" where
  "map_key r dir = r @ '':'' @ dir"

definition query_mappings :: "string \<Rightarrow> string \<Rightarrow> (string \<times> mapping_transform) list io" where
  "query_mappings r dir = io_bind (mappings_findByRail r dir) (\<lambda>entries.
     io_bind date_now (\<lambda>t.
     io_then (io_modify (\<lambda>w. w\<lparr>w_map_cache := alist_set (w_map_cache w) (map_key r dir) (mappings_map entries, t)\<rparr>))
       (io_return (mappings_map entries))))"

definition loadMappings :: "string \<Rightarrow> string \<Rightarrow> (string \<times> mapping_transform) list io" where
  "loadMappings r dir = io_bind (io_get (\<lambda>w. map_of (w_map_cache w) (map_key r dir))) (\<lambda>c. case c of
     Some (ms, loaded) \<Rightarrow> io_bind date_now (\<lambda>now.
       if now - loaded < TTL_MS then io_return ms else query_mappings r dir)
   | None \<Rightarrow> query_mappings r dir)"

definition mappings_clearCache :: "unit io" where
  "mappings_clearCache = io_modify (\<lambda>w. w\<lparr>w_map_cache := []\<rparr>)"

section \<open>Both are caches\<close>

lemma db_query_cases:
  "db_query q e w = (r, w') \<Longrightarrow> (r = Inl query_rejected \<and> w' = tick w) \<or>
     (\<exists>a. r = Inr a \<and> q e (e_now e (w_tick w)) (tick w) = (a, w'))"
  by (auto simp: db_query_def split: if_splits prod.splits)

lemma rules_findActive_same:
  "rules_findActive e w = (r, w') \<Longrightarrow> w_rule_cache w' = w_rule_cache w \<and> w_rules w' = w_rules w"
  unfolding rules_findActive_def by (drule db_query_cases) auto

lemma cache_rules_run:
  "cache_rules rules e w = (Inr rules, (tick w)\<lparr>w_rule_cache := Some (rules, e_now e (w_tick w))\<rparr>)"
  by (simp add: cache_rules_def io_defs date_now_def)

lemma reload_rules:
  "io_bind rules_findActive cache_rules e w = (Inr v, w') \<Longrightarrow> \<exists>t. w_rule_cache w' = Some (v, t)"
  "io_bind rules_findActive cache_rules e w = (Inl x, w') \<Longrightarrow> w_rule_cache w' = w_rule_cache w"
  by (auto simp: io_bind_Inr_iff io_bind_Inl_iff cache_rules_run dest: rules_findActive_same)

interpretation rule_cache: ttl_cache loadActiveRules w_rule_cache
proof unfold_locales
  fix w :: world and e :: environment and v t
  assume "w_rule_cache w = Some (v, t)" "e_now e (w_tick w) - t < TTL_MS"
  then show "loadActiveRules e w = (Inr v, tick w)"
    by (simp add: loadActiveRules_def io_eval)
next
  fix e w v w'
  assume "loadActiveRules e w = (Inr v, w')"
  then show "\<exists>t. w_rule_cache w' = Some (v, t)"
    unfolding loadActiveRules_def
    by (auto simp: io_eval
        dest: reload_rules(1) split: option.splits if_splits)
next
  fix e w x w'
  assume "loadActiveRules e w = (Inl x, w')"
  then show "w_rule_cache w' = w_rule_cache w"
    unfolding loadActiveRules_def
    by (auto simp: io_eval
        dest!: reload_rules(2) split: option.splits if_splits)
qed simp

lemma mappings_findByRail_same:
  "mappings_findByRail r dir e w = (x, w') \<Longrightarrow> w_map_cache w' = w_map_cache w \<and> w_mappings w' = w_mappings w"
  unfolding mappings_findByRail_def by (drule db_query_cases) auto

lemma query_mappings_run:
  "query_mappings r dir e w = (Inr v, w') \<Longrightarrow> \<exists>t. map_of (w_map_cache w') (map_key r dir) = Some (v, t)"
  "query_mappings r dir e w = (Inl x, w') \<Longrightarrow> w_map_cache w' = w_map_cache w"
  unfolding query_mappings_def io_bind_Inr_iff io_bind_Inl_iff
  by (auto simp: io_defs date_now_def dest: mappings_findByRail_same)

interpretation map_cache: ttl_cache "loadMappings r dir" "\<lambda>w. map_of (w_map_cache w) (map_key r dir)" for r dir
proof unfold_locales
  fix w :: world and e :: environment and v t
  assume "map_of (w_map_cache w) (map_key r dir) = Some (v, t)" "e_now e (w_tick w) - t < TTL_MS"
  then show "loadMappings r dir e w = (Inr v, tick w)"
    by (simp add: loadMappings_def io_eval)
next
  fix e w v w'
  assume "loadMappings r dir e w = (Inr v, w')"
  then show "\<exists>t. map_of (w_map_cache w') (map_key r dir) = Some (v, t)"
    unfolding loadMappings_def
    by (auto simp: io_eval
        dest: query_mappings_run(1) split: option.splits if_splits)
next
  fix e w x w'
  assume "loadMappings r dir e w = (Inl x, w')"
  then show "map_of (w_map_cache w') (map_key r dir) = map_of (w_map_cache w) (map_key r dir)"
    unfolding loadMappings_def
    by (auto simp: io_eval
        dest!: query_mappings_run(2) split: option.splits if_splits)
qed simp

lemma loaders_quiet [io_frame]:
  "io_keeps quiet loadActiveRules" "io_keeps quiet (loadMappings r dir)"
proof -
  have q: "io_keeps quiet rules_findActive" "io_keeps quiet (mappings_findByRail r dir)"
    unfolding rules_findActive_def mappings_findByRail_def
    by (intro quiet.query; simp add: quiet_def)+
  show "io_keeps quiet loadActiveRules" "io_keeps quiet (loadMappings r dir)"
    unfolding loadActiveRules_def loadMappings_def cache_rules_def query_mappings_def
    by (auto intro!: io_frame q quiet.modify simp: quiet_def split: prod.split option.split)
qed

end
