(* ===== verification/JsRegex.thy ===== *)
theory JsRegex
  imports JsString
begin

text \<open>
  The regular expressions of the program, as terms that are written like the source's
  patterns, and their matching. A position is the character before it and the rest of the
  string; \<open>rx_ends\<close> lists the positions where a match that starts at a position can end,
  so \<open>^r$\<close> tests that one of them is the end of the string, and an unanchored test tries
  every start. Greedy and lazy quantifiers have the same set of ends, and the program only
  tests, or takes a prefix whose end is determined, so their order is not needed.

  A repetition without an upper bound is iterated as often as characters are left: every
  repeated pattern of the program consumes a character, so more rounds add nothing.
\<close>

type_synonym rpos = "char option \<times> string"

datatype rx = Eps | Cls "char \<Rightarrow> bool" | WordB | Seq rx rx | Alt rx rx | Rep nat "nat option" rx

definition is_word :: "char \<Rightarrow> bool" where
  "is_word c = (is_digit c \<or> is_upper c \<or> is_lower c \<or> c = CHR ''_'')"

primrec iter_ends :: "(rpos \<Rightarrow> rpos list) \<Rightarrow> nat \<Rightarrow> nat \<Rightarrow> rpos \<Rightarrow> rpos list" where
  "iter_ends f 0 lo p = (if lo = 0 then [p] else [])"
| "iter_ends f (Suc n) lo p =
     (if lo = 0 then [p] else []) @ concat (map (iter_ends f n (lo - 1)) (f p))"

definition word_boundary :: "rpos \<Rightarrow> bool" where
  "word_boundary p = ((case fst p of None \<Rightarrow> False | Some c \<Rightarrow> is_word c) \<noteq>
     (case snd p of [] \<Rightarrow> False | c # _ \<Rightarrow> is_word c))"

primrec rx_ends :: "rx \<Rightarrow> rpos \<Rightarrow> rpos list" where
  "rx_ends Eps p = [p]"
| "rx_ends (Cls P) p = (case snd p of [] \<Rightarrow> [] | c # t \<Rightarrow> if P c then [(Some c, t)] else [])"
| "rx_ends WordB p = (if word_boundary p then [p] else [])"
| "rx_ends (Seq r q) p = concat (map (rx_ends q) (rx_ends r p))"
| "rx_ends (Alt r q) p = rx_ends r p @ rx_ends q p"
| "rx_ends (Rep lo hi r) p =
     iter_ends (rx_ends r) (case hi of Some h \<Rightarrow> h | None \<Rightarrow> length (snd p)) lo p"

text \<open>\<open>/^r$/.test(s)\<close>, \<open>/^r/.test(s)\<close> and \<open>/r/.test(s)\<close>.\<close>

definition rx_full :: "rx \<Rightarrow> string \<Rightarrow> bool" where
  "rx_full r s = list_ex (\<lambda>p. snd p = []) (rx_ends r (None, s))"

definition rx_prefix :: "rx \<Rightarrow> string \<Rightarrow> bool" where
  "rx_prefix r s = (rx_ends r (None, s) \<noteq> [])"

fun rx_search_from :: "rx \<Rightarrow> char option \<Rightarrow> string \<Rightarrow> bool" where
  "rx_search_from r b [] = (rx_ends r (b, []) \<noteq> [])"
| "rx_search_from r b (c # s) = (rx_ends r (b, c # s) \<noteq> [] \<or> rx_search_from r (Some c) s)"

definition rx_search :: "rx \<Rightarrow> string \<Rightarrow> bool" where
  "rx_search r s = rx_search_from r None s"

subsection \<open>Abbreviations for the patterns\<close>

definition rx_chr :: "char \<Rightarrow> rx" where
  "rx_chr c = Cls (\<lambda>d. d = c)"

text \<open>A character and a literal under the flag \<open>i\<close>.\<close>

definition rx_chr_i :: "char \<Rightarrow> rx" where
  "rx_chr_i c = Cls (\<lambda>d. lower_char d = lower_char c)"

definition rx_lit :: "string \<Rightarrow> rx" where
  "rx_lit s = foldr (\<lambda>c r. Seq (rx_chr c) r) s Eps"

definition rx_lit_i :: "string \<Rightarrow> rx" where
  "rx_lit_i s = foldr (\<lambda>c r. Seq (rx_chr_i c) r) s Eps"

definition rx_seq :: "rx list \<Rightarrow> rx" where
  "rx_seq rs = foldr Seq rs Eps"

fun rx_alts :: "rx list \<Rightarrow> rx" where
  "rx_alts [] = Rep 1 (Some 0) Eps"
| "rx_alts [r] = r"
| "rx_alts (r # q # rs) = Alt r (rx_alts (q # rs))"

abbreviation "rx_digit \<equiv> Cls is_digit"
abbreviation "rx_star r \<equiv> Rep 0 None r"
abbreviation "rx_plus r \<equiv> Rep 1 None r"
abbreviation "rx_opt r \<equiv> Rep 0 (Some 1) r"
abbreviation "rx_times r n \<equiv> Rep n (Some n) r"

definition is_line_end :: "char \<Rightarrow> bool" where
  "is_line_end c = (char_code c = 10 \<or> char_code c = 13)"

subsection \<open>Repetitions of a character class\<close>

lemma iter_ends_cls:
  "((\<exists>a. (a, t) \<in> set (iter_ends (rx_ends (Cls P)) n lo (b, s)))) =
   (\<exists>k. lo \<le> k \<and> k \<le> n \<and> k \<le> length s \<and> list_all P (take k s) \<and> t = drop k s)"
proof (induction n arbitrary: lo b s)
  case 0
  show ?case by (auto intro: exI [of _ 0])
next
  case (Suc n)
  show ?case
  proof (cases s)
    case Nil
    then show ?thesis by auto
  next
    case (Cons c s')
    have "(\<exists>k. lo \<le> k \<and> k \<le> Suc n \<and> k \<le> length s \<and> list_all P (take k s) \<and> t = drop k s) =
      (lo = 0 \<and> t = s \<or> (P c \<and> (\<exists>k. lo - 1 \<le> k \<and> k \<le> n \<and> k \<le> length s' \<and>
          list_all P (take k s') \<and> t = drop k s')))" (is "?L = ?R")
    proof
      assume ?L
      then obtain k where k: "lo \<le> k" "k \<le> Suc n" "k \<le> length s" "list_all P (take k s)" "t = drop k s"
        by auto
      then show ?R by (cases k) (auto simp: Cons intro!: exI [of _ "k - 1"])
    next
      assume ?R
      then consider "lo = 0" "t = s" | k where "P c" "lo - 1 \<le> k" "k \<le> n" "k \<le> length s'"
          "list_all P (take k s')" "t = drop k s'" by auto
      then show ?L
      proof cases
        case 1
        then show ?thesis by (auto intro: exI [of _ 0])
      next
        case 2
        then show ?thesis by (auto simp: Cons intro!: exI [of _ "Suc k"])
      qed
    qed
    moreover have "(\<exists>a. (a, t) \<in> set (iter_ends (rx_ends (Cls P)) (Suc n) lo (b, s))) =
      (lo = 0 \<and> t = s \<or>
       (P c \<and> (\<exists>a. (a, t) \<in> set (iter_ends (rx_ends (Cls P)) n (lo - 1) (Some c, s')))))"
      by (auto simp: Cons)
    ultimately show ?thesis by (simp only: Suc.IH)
  qed
qed

lemma rx_full_times_cls:
  "rx_full (rx_times (Cls P) n) s = (length s = n \<and> list_all P s)"
proof -
  have "rx_full (rx_times (Cls P) n) s =
      (\<exists>a. (a, []) \<in> set (iter_ends (rx_ends (Cls P)) n n (None, s)))"
    by (auto simp: rx_full_def list_ex_iff split: prod.splits) force+
  also have "\<dots> = (length s = n \<and> list_all P s)"
    unfolding iter_ends_cls by auto
  finally show ?thesis .
qed


subsection \<open>The language of a pattern\<close>

text \<open>
  The strings a pattern can consume, word boundaries ignored; what the matcher consumes is
  one of them. This is how the disjointness of two patterns is shown.
\<close>

primrec rx_lang :: "rx \<Rightarrow> string set" where
  "rx_lang Eps = {[]}"
| "rx_lang (Cls P) = {[c] | c. P c}"
| "rx_lang WordB = {[]}"
| "rx_lang (Seq r q) = {u @ v | u v. u \<in> rx_lang r \<and> v \<in> rx_lang q}"
| "rx_lang (Alt r q) = rx_lang r \<union> rx_lang q"
| "rx_lang (Rep lo hi r) = {concat us | us. set us \<subseteq> rx_lang r \<and> lo \<le> length us}"

lemma iter_ends_sound:
  assumes "\<And>p q. q \<in> set (f p) \<Longrightarrow> \<exists>u. snd p = u @ snd q \<and> u \<in> L"
  shows "q \<in> set (iter_ends f n lo p) \<Longrightarrow>
    \<exists>us. snd p = concat us @ snd q \<and> set us \<subseteq> L \<and> lo \<le> length us"
proof (induction n arbitrary: lo p)
  case 0
  then show ?case by (auto split: if_splits intro: exI [of _ "[]"])
next
  case (Suc n)
  from Suc.prems consider "lo = 0" "q = p" | p' where "p' \<in> set (f p)" "q \<in> set (iter_ends f n (lo - 1) p')"
    by (auto split: if_splits)
  then show ?case
  proof cases
    case 1
    then show ?thesis by (auto intro: exI [of _ "[]"])
  next
    case 2
    obtain u us where "snd p = u @ snd p'" "u \<in> L" "snd p' = concat us @ snd q" "set us \<subseteq> L" "lo - 1 \<le> length us"
      using assms [OF 2(1)] Suc.IH [OF 2(2)] by blast
    then show ?thesis by (intro exI [of _ "u # us"]) auto
  qed
qed

lemma rx_ends_sound: "q \<in> set (rx_ends r p) \<Longrightarrow> \<exists>u. snd p = u @ snd q \<and> u \<in> rx_lang r"
proof (induction r arbitrary: p q)
  case (Cls P)
  then show ?case by (cases "snd p") (auto split: if_splits)
next
  case (Seq r1 r2)
  then obtain m where "m \<in> set (rx_ends r1 p)" "q \<in> set (rx_ends r2 m)" by auto
  with Seq.IH obtain u v where "snd p = u @ snd m" "u \<in> rx_lang r1" "snd m = v @ snd q" "v \<in> rx_lang r2"
    by blast
  then show ?case by auto
next
  case (Alt r1 r2)
  from Alt.prems consider "q \<in> set (rx_ends r1 p)" | "q \<in> set (rx_ends r2 p)" by auto
  then show ?case using Alt.IH by cases (metis rx_lang.simps(5) UnI1, metis rx_lang.simps(5) UnI2)
next
  case (Rep lo hi r)
  then show ?case using iter_ends_sound [of "rx_ends r" "rx_lang r" q] by fastforce
qed (auto split: if_splits)

lemma rx_full_lang: "rx_full r s \<Longrightarrow> s \<in> rx_lang r"
  unfolding rx_full_def list_ex_iff using rx_ends_sound [of _ r "(None, s)"] by fastforce

lemma rx_lang_lit [simp]: "rx_lang (rx_lit s) = {s}"
  by (induction s) (auto simp: rx_lit_def rx_chr_def)

lemma rx_lang_rep_cls: "u \<in> rx_lang (Rep lo hi (Cls P)) \<Longrightarrow> list_all P u \<and> lo \<le> length u"
proof -
  have "set us \<subseteq> {[c] | c. P c} \<Longrightarrow> list_all P (concat us) \<and> length (concat us) = length us" for us
    by (induction us) auto
  then show "u \<in> rx_lang (Rep lo hi (Cls P)) \<Longrightarrow> list_all P u \<and> lo \<le> length u" by fastforce
qed

end
