(* ===== verification/PaymentRequest.thy ===== *)
theory PaymentRequest
  imports MipitConstants JsRegex "HOL-Library.Monad_Syntax"
begin

text \<open>
  The request schema of \<open>src/api/schemas/payment-request.ts\<close>: the alias validators (CLABE
  check digit, Colombian phone and NIT, Bre-B keys), \<open>validateAlias\<close> and
  \<open>createPaymentSchema\<close>. A schema is a function from a dynamic value to an option, \<open>None\<close>
  when the value is rejected; the combinators \<open>z_...\<close> are the checks the schemas name
  (a string, its length, its maximum length, an optional or a defaulted field).

  The main lemma on the check digit: a valid CLABE with one digit changed is not valid.
\<close>

section \<open>Schema combinators\<close>

fun z_string :: "jsval \<Rightarrow> string option" where
  "z_string (JStr s) = Some s"
| "z_string _ = None"

fun z_number :: "jsval \<Rightarrow> jsnum option" where
  "z_number (JNum n) = (if n = NaN then None else Some n)"
| "z_number _ = None"

definition z_refine :: "('a \<Rightarrow> bool) \<Rightarrow> (jsval \<Rightarrow> 'a option) \<Rightarrow> jsval \<Rightarrow> 'a option" where
  "z_refine P f v = (case f v of Some a \<Rightarrow> if P a then Some a else None | None \<Rightarrow> None)"

definition z_optional :: "(jsval \<Rightarrow> 'a option) \<Rightarrow> jsval \<Rightarrow> 'a option option" where
  "z_optional f v = (if v = JUndef then Some None else map_option Some (f v))"

definition z_default :: "'a \<Rightarrow> (jsval \<Rightarrow> 'a option) \<Rightarrow> jsval \<Rightarrow> 'a option" where
  "z_default d f v = (if v = JUndef then Some d else f v)"

definition z_length :: "nat \<Rightarrow> jsval \<Rightarrow> string option" where
  "z_length n = z_refine (\<lambda>s. length s = n) z_string"

definition z_max :: "nat \<Rightarrow> jsval \<Rightarrow> string option" where
  "z_max n = z_refine (\<lambda>s. length s \<le> n) z_string"

definition z_positive :: "jsval \<Rightarrow> jsnum option" where
  "z_positive = z_refine (\<lambda>n. num_lt (Fin 0) n) z_number"

definition z_enum :: "('a \<Rightarrow> string) \<Rightarrow> 'a list \<Rightarrow> jsval \<Rightarrow> 'a option" where
  "z_enum cd xs v = (case v of JStr s \<Rightarrow> find (\<lambda>x. cd x = s) xs | _ \<Rightarrow> None)"

fun z_object :: "((string \<Rightarrow> jsval) \<Rightarrow> 'a option) \<Rightarrow> jsval \<Rightarrow> 'a option" where
  "z_object f (JObj o1) = f (\<lambda>k. case map_of o1 k of Some v \<Rightarrow> v | None \<Rightarrow> JUndef)"
| "z_object f _ = None"

lemma z_refine_Some: "z_refine P f v = Some a \<longleftrightarrow> f v = Some a \<and> P a"
  by (auto simp: z_refine_def split: option.splits)

lemma z_string_Some [simp]: "z_string v = Some s \<longleftrightarrow> v = JStr s"
  by (cases v) auto

lemma z_number_Some: "z_number v = Some n \<longleftrightarrow> v = JNum n \<and> n \<noteq> NaN"
  by (cases v) auto

section \<open>Alias validators\<close>

definition clabe_weights :: "int list" where
  "clabe_weights = [3, 7, 1, 3, 7, 1, 3, 7, 1, 3, 7, 1, 3, 7, 1, 3, 7]"

definition clabe_sum :: "string \<Rightarrow> int" where
  "clabe_sum clabe = (\<Sum>(w, c) \<leftarrow> zip clabe_weights clabe. digit_val c * w)"

definition isValidCLABE :: "string \<Rightarrow> bool" where
  "isValidCLABE clabe = (rx_full (rx_times rx_digit 18) clabe \<and>
     digit_val (clabe ! 17) = (10 - clabe_sum clabe mod 10) mod 10)"

definition isValidColombiaPhone :: "string \<Rightarrow> bool" where
  "isValidColombiaPhone phone = rx_full (Seq (rx_lit ''+57'') (rx_times rx_digit 10)) phone"

definition isValidColombiaId :: "string \<Rightarrow> bool" where
  "isValidColombiaId i =
     rx_full (rx_seq [Rep 9 (Some 10) rx_digit, rx_chr (CHR ''-''), rx_digit]) i"

definition isValidBrebKey :: "string \<Rightarrow> bool" where
  "isValidBrebKey key =
    (if startsWith key ''+57'' then isValidColombiaPhone key
     else if rx_prefix rx_digit key \<and> str_includes key ''-'' then isValidColombiaId key
     else if str_includes key ''@'' then str_includes key ''.'' \<and> 5 \<le> length key
     else 3 \<le> length key)"

text \<open>\<open>None\<close> is the \<open>true\<close> of the source, \<open>Some\<close> the message.\<close>

definition validateAlias :: "string \<Rightarrow> string \<Rightarrow> string option" where
  "validateAlias alias field =
    (if alias = [] then Some (field @ '' alias is required'')
     else if startsWith alias ''PIX-'' then
       (if 4 < length alias then None else Some (field @ '' PIX alias must have a key after the prefix''))
     else if startsWith alias ''SPEI-'' then
       (if isValidCLABE (drop 5 alias) then None
        else Some (field @ '' SPEI alias must be a valid 18-digit CLABE (SPEI-XXXXXXXXXXXXXXXXXX)''))
     else if startsWith alias ''BREB-'' then
       (if isValidBrebKey (drop 5 alias) then None
        else Some (field @ '' BREB alias must be a valid Colombia phone (+57XXXXXXXXXX), NIT, or email''))
     else Some (field @ '' alias must start with PIX-, SPEI-, or BREB-''))"

section \<open>The schema\<close>

record request_party =
  rp_alias :: string
  rp_name :: "string option"

record payment_request =
  rq_amount :: jsnum
  rq_currency :: string
  rq_debtor :: request_party
  rq_creditor :: request_party
  rq_purpose :: string
  rq_reference :: string

definition z_request_party :: "string \<Rightarrow> jsval \<Rightarrow> request_party option" where
  "z_request_party field = z_object (\<lambda>get. do {
     alias \<leftarrow> z_refine (\<lambda>a. 1 \<le> length a \<and> validateAlias a field = None) z_string (get ''alias'');
     name \<leftarrow> z_optional (z_max 140) (get ''name'');
     Some \<lparr>rp_alias = alias, rp_name = name\<rparr> })"

definition createPaymentSchema :: "jsval \<Rightarrow> payment_request option" where
  "createPaymentSchema = z_object (\<lambda>get. do {
     amount \<leftarrow> z_positive (get ''amount'');
     currency \<leftarrow> z_default ''USD'' (z_length 3) (get ''currency'');
     debtor \<leftarrow> z_request_party ''debtor'' (get ''debtor'');
     creditor \<leftarrow> z_request_party ''creditor'' (get ''creditor'');
     purpose \<leftarrow> z_default ''P2P'' (z_max 35) (get ''purpose'');
     reference \<leftarrow> z_default ''MIPIT-POC'' (z_max 140) (get ''reference'');
     Some \<lparr>rq_amount = amount, rq_currency = currency, rq_debtor = debtor,
       rq_creditor = creditor, rq_purpose = purpose, rq_reference = reference\<rparr> })"

text \<open>The parsed request as the dynamic value the translators receive.\<close>

definition opt_entry :: "string \<Rightarrow> string option \<Rightarrow> (string \<times> jsval) list" where
  "opt_entry k v = (case v of None \<Rightarrow> [] | Some s \<Rightarrow> [(k, JStr s)])"

definition party_js :: "request_party \<Rightarrow> jsval" where
  "party_js p = JObj ((''alias'', JStr (rp_alias p)) # opt_entry ''name'' (rp_name p))"

definition request_js :: "payment_request \<Rightarrow> jsval" where
  "request_js r = JObj [(''amount'', JNum (rq_amount r)), (''currency'', JStr (rq_currency r)),
     (''debtor'', party_js (rq_debtor r)), (''creditor'', party_js (rq_creditor r)),
     (''purpose'', JStr (rq_purpose r)), (''reference'', JStr (rq_reference r))]"

section \<open>What the schema accepts\<close>

definition valid_alias :: "string \<Rightarrow> bool" where
  "valid_alias a = (1 \<le> length a \<and> validateAlias a ''debtor'' = None)"

lemma validateAlias_field: "(validateAlias a f = None) = (validateAlias a g = None)"
  by (simp add: validateAlias_def)

lemma z_request_party_Some:
  "z_request_party f v = Some p \<Longrightarrow> valid_alias (rp_alias p)"
  using validateAlias_field [of _ f "''debtor''"]
  by (cases v) (auto simp: z_request_party_def z_refine_Some valid_alias_def split: Option.bind_splits)

lemma createPaymentSchema_Some:
  assumes "createPaymentSchema v = Some r"
  shows "num_lt (Fin 0) (rq_amount r)" "length (rq_currency r) = 3"
    "valid_alias (rp_alias (rq_debtor r))" "valid_alias (rp_alias (rq_creditor r))"
    "length (rq_purpose r) \<le> 35" "length (rq_reference r) \<le> 140"
  using assms
  by (cases v; auto simp: createPaymentSchema_def z_positive_def z_refine_Some z_default_def
      z_length_def z_max_def split: Option.bind_splits if_splits dest: z_request_party_Some)+

lemma valid_alias_prefix:
  "valid_alias a \<Longrightarrow> startsWith a ''PIX-'' \<or> startsWith a ''SPEI-'' \<or> startsWith a ''BREB-''"
  by (auto simp: valid_alias_def validateAlias_def split: if_splits)

lemma valid_alias_spei: "valid_alias a \<Longrightarrow> startsWith a ''SPEI-'' \<Longrightarrow> isValidCLABE (drop 5 a)"
  by (cases a) (auto simp: valid_alias_def validateAlias_def split: if_splits)

subsection \<open>The check digit finds a single wrong digit\<close>

lemma isValidCLABE_iff:
  "isValidCLABE s \<longleftrightarrow> length s = 18 \<and> list_all is_digit s \<and>
     digit_val (s ! 17) = (10 - clabe_sum s mod 10) mod 10"
  by (auto simp: isValidCLABE_def rx_full_times_cls)

lemma sum_list_change:
  fixes xs :: "int list"
  shows "i < length xs \<Longrightarrow> sum_list (xs[i := x]) = sum_list xs + (x - xs ! i)"
  by (induction xs arbitrary: i) (auto split: nat.splits)

lemma check_digit_eq:
  "(10 - a mod 10) mod 10 = (10 - (a + y) mod 10) mod (10::int) \<Longrightarrow> y mod 10 = 0"
  unfolding mod_diff_right_eq by (simp add: mod_eq_dvd_iff)

lemma clabe_sum_update:
  assumes "i < 17" "length s = 18"
  shows "clabe_sum (s[i := d]) = clabe_sum s + (digit_val d - digit_val (s ! i)) * clabe_weights ! i"
proof -
  have len: "length clabe_weights = 17" by (simp add: clabe_weights_def)
  let ?f = "\<lambda>(w, c). digit_val c * w"
  let ?z = "zip clabe_weights s"
  have z: "zip clabe_weights (s[i := d]) = ?z[i := (clabe_weights ! i, d)]"
    using update_zip [of clabe_weights s i "(clabe_weights ! i, d)"] by simp
  have "map ?f (?z[i := (clabe_weights ! i, d)]) = (map ?f ?z)[i := digit_val d * clabe_weights ! i]"
    by (simp add: map_update)
  moreover have "i < length (map ?f ?z)" using assms len by simp
  moreover have "map ?f ?z ! i = digit_val (s ! i) * clabe_weights ! i" using assms len by simp
  ultimately show ?thesis
    by (simp add: clabe_sum_def z sum_list_change left_diff_distrib)
qed

lemma clabe_weight_unit:
  assumes "i < 17" and "x \<noteq> 0" and "\<bar>x\<bar> < (10::int)"
  shows "(x * clabe_weights ! i) mod 10 \<noteq> 0"
proof -
  have "clabe_weights ! i \<in> set clabe_weights"
    using assms(1) by (intro nth_mem) (simp add: clabe_weights_def)
  then have "clabe_weights ! i \<in> {1, 3, 7}" by (auto simp: clabe_weights_def)
  then show ?thesis using assms(2,3) by (elim insertE emptyE) (simp_all; presburger)+
qed

lemma clabe_single_digit:
  assumes "isValidCLABE s" "i < 18" "is_digit d" "d \<noteq> s ! i"
  shows "\<not> isValidCLABE (s[i := d])"
proof
  assume v: "isValidCLABE (s[i := d])"
  note iff = isValidCLABE_iff
  have s: "length s = 18" "list_all is_digit s" using assms(1) by (simp_all add: iff)
  have dv: "digit_val d \<noteq> digit_val (s ! i)"
    using assms(4) by (auto simp: digit_val_def char_code_def)
  have si: "is_digit (s ! i)" using s assms(2) by (simp add: list_all_length)
  have range: "\<bar>digit_val d - digit_val (s ! i)\<bar> < 10"
    using digit_val_less [OF assms(3)] digit_val_less [OF si] by auto
  show False
  proof (cases "i = 17")
    case True
    have "zip clabe_weights (s[17 := d]) = zip clabe_weights s"
      by (rule nth_equalityI) (auto simp: clabe_weights_def)
    then have "clabe_sum (s[17 := d]) = clabe_sum s" by (simp add: clabe_sum_def)
    with v assms(1) True s dv show False by (simp add: iff)
  next
    case False
    with assms(2) have i: "i < 17" by simp
    let ?x = "digit_val d - digit_val (s ! i)"
    have "(10 - clabe_sum s mod 10) mod 10 = (10 - (clabe_sum s + ?x * clabe_weights ! i) mod 10) mod 10"
      using v assms(1) i by (simp add: iff clabe_sum_update [OF i s(1)])
    then have "(?x * clabe_weights ! i) mod 10 = 0" by (rule check_digit_eq)
    with clabe_weight_unit [OF i _ range] dv show False by simp
  qed
qed

end
