(* ===== verification/Canonical.thy ===== *)
theory Canonical
  imports PaymentRequest
begin

text \<open>
  The canonical message of \<open>src/domain/models/canonical.ts\<close>: the records of a parsed
  pacs.008 and \<open>canonicalPacs008Schema\<close>, which reads one from a dynamic value. An optional
  field is an option, a field with a default always has a value, and keys the schema does
  not name are dropped. \<open>canonical_js\<close> is the parsed message as a dynamic value, as it is
  stored and published. zod's test of a date-time is the parameter \<open>dt\<close>.

  The lemmas say what a parsed message satisfies, and that parsing \<open>canonical_js\<close> of it
  gives it back.
\<close>

section \<open>The message\<close>

datatype settlement = INDA | INGA | COVE | CLRG

primrec settlement_code :: "settlement \<Rightarrow> string" where
  "settlement_code INDA = ''INDA''" | "settlement_code INGA = ''INGA''"
| "settlement_code COVE = ''COVE''" | "settlement_code CLRG = ''CLRG''"

datatype account_type = CACC | SVGS | TRAN | SLRY

primrec account_type_code :: "account_type \<Rightarrow> string" where
  "account_type_code CACC = ''CACC''" | "account_type_code SVGS = ''SVGS''"
| "account_type_code TRAN = ''TRAN''" | "account_type_code SLRY = ''SLRY''"

record grp_hdr =
  gh_msgId :: string
  gh_creDtTm :: string
  gh_nbOfTxs :: jsnum
  gh_sttlmMtd :: "settlement option"

record pmt_id =
  pi_endToEndId :: string
  pi_instrId :: "string option"
  pi_txId :: "string option"

record amount =
  am_value :: jsnum
  am_currency :: string
  am_instdAmt :: "jsnum option"
  am_instdAmtCcy :: "string option"

record fx_info =
  fx_source :: "string option"
  fx_target :: "string option"
  fx_rate :: "jsnum option"
  fx_local_amount :: "jsnum option"

record agent =
  ag_rail :: "rail option"
  ag_bic :: "string option"
  ag_routingNumber :: "string option"
  ag_ispb :: "string option"
  ag_institutionCode :: "string option"

record party =
  pt_name :: "string option"
  pt_country :: "string option"
  pt_account_id :: string
  pt_taxId :: "string option"
  pt_accountType :: "account_type option"
  pt_agencia :: "string option"
  pt_email :: "string option"
  pt_phone :: "string option"
  pt_address :: "string list option"

record alias_info =
  al_type :: alias_type
  al_value :: string

datatype ack_outcome = ACCEPTED | REJECTED_BY_RAIL | ERROR

primrec ack_outcome_code :: "ack_outcome \<Rightarrow> string" where
  "ack_outcome_code ACCEPTED = ''ACCEPTED''"
| "ack_outcome_code REJECTED_BY_RAIL = ''REJECTED''"
| "ack_outcome_code ERROR = ''ERROR''"

record rail_ack_info =
  ra_rail_tx_id :: "string option"
  ra_status :: "ack_outcome option"
  ra_error :: "(string \<times> string) option"

text \<open>An optional field that may also be \<open>null\<close>.\<close>

datatype 'a nullable = Absent | Null | Present 'a

record canonical =
  c_payment_id :: string
  c_created_at :: string
  c_grpHdr :: grp_hdr
  c_pmtId :: pmt_id
  c_amount :: amount
  c_fx :: "fx_info option"
  c_origin_rail :: rail
  c_origin :: agent
  c_destination :: agent
  c_debtor :: party
  c_creditor :: party
  c_alias :: alias_info
  c_purpose :: string
  c_reference :: string
  c_remittanceInfo :: "string option"
  c_status :: string
  c_trace_id :: "string option"
  c_rail_ack :: "rail_ack_info nullable"

section \<open>The schema\<close>

definition z_int_positive :: "jsval \<Rightarrow> jsnum option" where
  "z_int_positive = z_refine (\<lambda>n. (case n of Fin q \<Rightarrow> of_int \<lfloor>q\<rfloor> = q | _ \<Rightarrow> False)) z_positive"

fun z_list :: "(jsval \<Rightarrow> 'a option) \<Rightarrow> jsval list \<Rightarrow> 'a list option" where
  "z_list f [] = Some []"
| "z_list f (v # vs) = do { a \<leftarrow> f v; r \<leftarrow> z_list f vs; Some (a # r) }"

fun z_array :: "nat \<Rightarrow> (jsval \<Rightarrow> 'a option) \<Rightarrow> jsval \<Rightarrow> 'a list option" where
  "z_array n f (JArr vs) = (if length vs \<le> n then z_list f vs else None)"
| "z_array n f _ = None"

definition z_nullable :: "(jsval \<Rightarrow> 'a option) \<Rightarrow> jsval \<Rightarrow> 'a nullable option" where
  "z_nullable f v = (if v = JUndef then Some Absent else if v = JNull then Some Null
     else map_option Present (f v))"

definition rx_payment_id :: rx where
  "rx_payment_id = Seq (rx_lit ''PMT-'') (Rep 10 (Some 32) (Cls (\<lambda>c. is_upper c \<or> is_digit c)))"

definition z_grpHdr :: "(string \<Rightarrow> bool) \<Rightarrow> jsval \<Rightarrow> grp_hdr option" where
  "z_grpHdr dt = z_object (\<lambda>get. do {
     msgId \<leftarrow> z_string (get ''msgId'');
     creDtTm \<leftarrow> z_refine dt z_string (get ''creDtTm'');
     nb \<leftarrow> z_default (Fin 1) z_int_positive (get ''nbOfTxs'');
     st \<leftarrow> z_optional (z_object (\<lambda>g. z_default CLRG
       (z_enum settlement_code [INDA, INGA, COVE, CLRG]) (g ''sttlmMtd''))) (get ''sttlmInf'');
     Some \<lparr>gh_msgId = msgId, gh_creDtTm = creDtTm, gh_nbOfTxs = nb, gh_sttlmMtd = st\<rparr> })"

definition z_pmtId :: "jsval \<Rightarrow> pmt_id option" where
  "z_pmtId = z_object (\<lambda>get. do {
     e2e \<leftarrow> z_max 35 (get ''endToEndId'');
     instr \<leftarrow> z_optional (z_max 35) (get ''instrId'');
     tx \<leftarrow> z_optional (z_max 35) (get ''txId'');
     Some \<lparr>pi_endToEndId = e2e, pi_instrId = instr, pi_txId = tx\<rparr> })"

definition z_amount :: "jsval \<Rightarrow> amount option" where
  "z_amount = z_object (\<lambda>get. do {
     v \<leftarrow> z_positive (get ''value'');
     c \<leftarrow> z_length 3 (get ''currency'');
     ia \<leftarrow> z_optional z_positive (get ''instdAmt'');
     ic \<leftarrow> z_optional (z_length 3) (get ''instdAmtCcy'');
     Some \<lparr>am_value = v, am_currency = c, am_instdAmt = ia, am_instdAmtCcy = ic\<rparr> })"

definition z_fx :: "jsval \<Rightarrow> fx_info option" where
  "z_fx = z_object (\<lambda>get. do {
     s \<leftarrow> z_optional (z_length 3) (get ''source_currency'');
     t \<leftarrow> z_optional (z_length 3) (get ''target_currency'');
     r \<leftarrow> z_optional z_positive (get ''rate'');
     l \<leftarrow> z_optional z_positive (get ''local_amount'');
     Some \<lparr>fx_source = s, fx_target = t, fx_rate = r, fx_local_amount = l\<rparr> })"

definition z_rail :: "jsval \<Rightarrow> rail option" where
  "z_rail = z_enum rail_code SUPPORTED_RAILS"

definition z_agent_fields :: "rail option \<Rightarrow> (string \<Rightarrow> jsval) \<Rightarrow> agent option" where
  "z_agent_fields r get = do {
     bic \<leftarrow> z_optional (z_max 11) (get ''bic'');
     rtn \<leftarrow> z_optional (z_length 9) (get ''routingNumber'');
     ispb \<leftarrow> z_optional (z_length 8) (get ''ispb'');
     inst \<leftarrow> z_optional (z_max 5) (get ''institutionCode'');
     Some \<lparr>ag_rail = r, ag_bic = bic, ag_routingNumber = rtn, ag_ispb = ispb, ag_institutionCode = inst\<rparr> }"

definition z_origin :: "jsval \<Rightarrow> (rail \<times> agent) option" where
  "z_origin = z_object (\<lambda>get. do {
     r \<leftarrow> z_rail (get ''rail''); a \<leftarrow> z_agent_fields (Some r) get; Some (r, a) })"

definition z_destination :: "jsval \<Rightarrow> agent option" where
  "z_destination = z_object (\<lambda>get. do {
     r \<leftarrow> z_optional z_rail (get ''rail''); z_agent_fields r get })"

definition z_party :: "jsval \<Rightarrow> party option" where
  "z_party = z_object (\<lambda>get. do {
     name \<leftarrow> z_optional (z_max 140) (get ''name'');
     country \<leftarrow> z_optional (z_length 2) (get ''country'');
     acc \<leftarrow> z_string (get ''account_id'');
     tax \<leftarrow> z_optional z_string (get ''taxId'');
     act \<leftarrow> z_optional (z_enum account_type_code [CACC, SVGS, TRAN, SLRY]) (get ''accountType'');
     ag \<leftarrow> z_optional z_string (get ''agencia'');
     em \<leftarrow> z_optional z_string (get ''email'');
     ph \<leftarrow> z_optional z_string (get ''phone'');
     ad \<leftarrow> z_optional (z_array 4 (z_max 70)) (get ''address'');
     Some \<lparr>pt_name = name, pt_country = country, pt_account_id = acc, pt_taxId = tax,
       pt_accountType = act, pt_agencia = ag, pt_email = em, pt_phone = ph, pt_address = ad\<rparr> })"

definition z_alias :: "jsval \<Rightarrow> alias_info option" where
  "z_alias = z_object (\<lambda>get. do {
     t \<leftarrow> z_enum alias_code ALIAS_TYPES (get ''type'');
     v \<leftarrow> z_string (get ''value'');
     Some \<lparr>al_type = t, al_value = v\<rparr> })"

definition z_rail_ack :: "jsval \<Rightarrow> rail_ack_info option" where
  "z_rail_ack = z_object (\<lambda>get. do {
     tx \<leftarrow> z_optional z_string (get ''rail_tx_id'');
     st \<leftarrow> z_optional (z_enum ack_outcome_code [ACCEPTED, REJECTED_BY_RAIL, ERROR]) (get ''status'');
     er \<leftarrow> z_optional (z_object (\<lambda>g. do {
       c \<leftarrow> z_string (g ''code''); m \<leftarrow> z_string (g ''message''); Some (c, m) })) (get ''error'');
     Some \<lparr>ra_rail_tx_id = tx, ra_status = st, ra_error = er\<rparr> })"

definition canonicalPacs008Schema :: "(string \<Rightarrow> bool) \<Rightarrow> jsval \<Rightarrow> canonical option" where
  "canonicalPacs008Schema dt = z_object (\<lambda>get. do {
     pid \<leftarrow> z_refine (rx_full rx_payment_id) z_string (get ''payment_id'');
     cr \<leftarrow> z_refine dt z_string (get ''created_at'');
     gh \<leftarrow> z_grpHdr dt (get ''grpHdr'');
     pm \<leftarrow> z_pmtId (get ''pmtId'');
     am \<leftarrow> z_amount (get ''amount'');
     fx \<leftarrow> z_optional z_fx (get ''fx'');
     og \<leftarrow> z_origin (get ''origin'');
     ds \<leftarrow> z_destination (get ''destination'');
     db \<leftarrow> z_party (get ''debtor'');
     cd \<leftarrow> z_party (get ''creditor'');
     al \<leftarrow> z_alias (get ''alias'');
     pu \<leftarrow> z_default ''P2P'' (z_max 35) (get ''purpose'');
     rf \<leftarrow> z_default ''MIPIT-POC'' (z_max 140) (get ''reference'');
     rm \<leftarrow> z_optional (z_max 140) (get ''remittanceInfo'');
     st \<leftarrow> z_string (get ''status'');
     tr \<leftarrow> z_optional z_string (get ''trace_id'');
     ra \<leftarrow> z_nullable z_rail_ack (get ''rail_ack'');
     Some \<lparr>c_payment_id = pid, c_created_at = cr, c_grpHdr = gh, c_pmtId = pm, c_amount = am,
       c_fx = fx, c_origin_rail = fst og, c_origin = snd og, c_destination = ds, c_debtor = db,
       c_creditor = cd, c_alias = al, c_purpose = pu, c_reference = rf, c_remittanceInfo = rm,
       c_status = st, c_trace_id = tr, c_rail_ack = ra\<rparr> })"

section \<open>A parsed message as a dynamic value\<close>

definition opt_num :: "string \<Rightarrow> jsnum option \<Rightarrow> (string \<times> jsval) list" where
  "opt_num k v = (case v of None \<Rightarrow> [] | Some n \<Rightarrow> [(k, JNum n)])"

definition opt_field :: "string \<Rightarrow> ('a \<Rightarrow> jsval) \<Rightarrow> 'a option \<Rightarrow> (string \<times> jsval) list" where
  "opt_field k f v = (case v of None \<Rightarrow> [] | Some a \<Rightarrow> [(k, f a)])"

definition nullable_field :: "string \<Rightarrow> ('a \<Rightarrow> jsval) \<Rightarrow> 'a nullable \<Rightarrow> (string \<times> jsval) list" where
  "nullable_field k f v = (case v of Absent \<Rightarrow> [] | Null \<Rightarrow> [(k, JNull)] | Present a \<Rightarrow> [(k, f a)])"

definition grpHdr_js :: "grp_hdr \<Rightarrow> jsval" where
  "grpHdr_js g = JObj ([(''msgId'', JStr (gh_msgId g)), (''creDtTm'', JStr (gh_creDtTm g)),
     (''nbOfTxs'', JNum (gh_nbOfTxs g))] @
     opt_field ''sttlmInf'' (\<lambda>m. JObj [(''sttlmMtd'', JStr (settlement_code m))]) (gh_sttlmMtd g))"

definition pmtId_js :: "pmt_id \<Rightarrow> jsval" where
  "pmtId_js p = JObj ([(''endToEndId'', JStr (pi_endToEndId p))] @
     opt_field ''instrId'' JStr (pi_instrId p) @ opt_field ''txId'' JStr (pi_txId p))"

definition amount_js :: "amount \<Rightarrow> jsval" where
  "amount_js a = JObj ([(''value'', JNum (am_value a)), (''currency'', JStr (am_currency a))] @
     opt_field ''instdAmt'' JNum (am_instdAmt a) @ opt_field ''instdAmtCcy'' JStr (am_instdAmtCcy a))"

definition fx_js :: "fx_info \<Rightarrow> jsval" where
  "fx_js f = JObj (opt_field ''source_currency'' JStr (fx_source f) @
     opt_field ''target_currency'' JStr (fx_target f) @ opt_field ''rate'' JNum (fx_rate f) @
     opt_field ''local_amount'' JNum (fx_local_amount f))"

definition agent_js :: "agent \<Rightarrow> jsval" where
  "agent_js a = JObj (opt_field ''rail'' (\<lambda>r. JStr (rail_code r)) (ag_rail a) @
     opt_field ''bic'' JStr (ag_bic a) @ opt_field ''routingNumber'' JStr (ag_routingNumber a) @
     opt_field ''ispb'' JStr (ag_ispb a) @ opt_field ''institutionCode'' JStr (ag_institutionCode a))"

definition party_rec_js :: "party \<Rightarrow> jsval" where
  "party_rec_js p = JObj (opt_field ''name'' JStr (pt_name p) @
     opt_field ''country'' JStr (pt_country p) @ [(''account_id'', JStr (pt_account_id p))] @
     opt_field ''taxId'' JStr (pt_taxId p) @
     opt_field ''accountType'' (\<lambda>t. JStr (account_type_code t)) (pt_accountType p) @
     opt_field ''agencia'' JStr (pt_agencia p) @ opt_field ''email'' JStr (pt_email p) @
     opt_field ''phone'' JStr (pt_phone p) @
     opt_field ''address'' (\<lambda>ls. JArr (map JStr ls)) (pt_address p))"

definition alias_js :: "alias_info \<Rightarrow> jsval" where
  "alias_js a = JObj [(''type'', JStr (alias_code (al_type a))), (''value'', JStr (al_value a))]"

definition rail_ack_js :: "rail_ack_info \<Rightarrow> jsval" where
  "rail_ack_js r = JObj (opt_field ''rail_tx_id'' JStr (ra_rail_tx_id r) @
     opt_field ''status'' (\<lambda>o1. JStr (ack_outcome_code o1)) (ra_status r) @
     opt_field ''error'' (\<lambda>(c, m). JObj [(''code'', JStr c), (''message'', JStr m)]) (ra_error r))"

definition canonical_js :: "canonical \<Rightarrow> jsval" where
  "canonical_js c = JObj ([(''payment_id'', JStr (c_payment_id c)), (''created_at'', JStr (c_created_at c)),
     (''grpHdr'', grpHdr_js (c_grpHdr c)), (''pmtId'', pmtId_js (c_pmtId c)),
     (''amount'', amount_js (c_amount c))] @ opt_field ''fx'' fx_js (c_fx c) @
     [(''origin'', agent_js (c_origin c)), (''destination'', agent_js (c_destination c)),
      (''debtor'', party_rec_js (c_debtor c)), (''creditor'', party_rec_js (c_creditor c)),
      (''alias'', alias_js (c_alias c)), (''purpose'', JStr (c_purpose c)),
      (''reference'', JStr (c_reference c))] @
     opt_field ''remittanceInfo'' JStr (c_remittanceInfo c) @ [(''status'', JStr (c_status c))] @
     opt_field ''trace_id'' JStr (c_trace_id c) @ nullable_field ''rail_ack'' rail_ack_js (c_rail_ack c))"

section \<open>What a parsed message satisfies\<close>

definition opt_all :: "('a \<Rightarrow> bool) \<Rightarrow> 'a option \<Rightarrow> bool" where
  "opt_all P v = (case v of None \<Rightarrow> True | Some a \<Rightarrow> P a)"

definition positive :: "jsnum \<Rightarrow> bool" where
  "positive n = num_lt (Fin 0) n"

definition wf_party :: "party \<Rightarrow> bool" where
  "wf_party p = (opt_all (\<lambda>s. length s \<le> 140) (pt_name p) \<and> opt_all (\<lambda>s. length s = 2) (pt_country p) \<and>
     opt_all (\<lambda>ls. length ls \<le> 4 \<and> list_all (\<lambda>s. length s \<le> 70) ls) (pt_address p))"

definition wf_agent :: "agent \<Rightarrow> bool" where
  "wf_agent a = (opt_all (\<lambda>s. length s \<le> 11) (ag_bic a) \<and> opt_all (\<lambda>s. length s = 9) (ag_routingNumber a) \<and>
     opt_all (\<lambda>s. length s = 8) (ag_ispb a) \<and> opt_all (\<lambda>s. length s \<le> 5) (ag_institutionCode a))"

definition wf_canonical :: "(string \<Rightarrow> bool) \<Rightarrow> canonical \<Rightarrow> bool" where
  "wf_canonical dt c = (rx_full rx_payment_id (c_payment_id c) \<and> dt (c_created_at c) \<and>
     dt (gh_creDtTm (c_grpHdr c)) \<and>
     (\<exists>n. gh_nbOfTxs (c_grpHdr c) = Fin (of_int n) \<and> 0 < n) \<and>
     length (pi_endToEndId (c_pmtId c)) \<le> 35 \<and>
     opt_all (\<lambda>s. length s \<le> 35) (pi_instrId (c_pmtId c)) \<and> opt_all (\<lambda>s. length s \<le> 35) (pi_txId (c_pmtId c)) \<and>
     positive (am_value (c_amount c)) \<and> length (am_currency (c_amount c)) = 3 \<and>
     opt_all positive (am_instdAmt (c_amount c)) \<and> opt_all (\<lambda>s. length s = 3) (am_instdAmtCcy (c_amount c)) \<and>
     opt_all (\<lambda>f. opt_all (\<lambda>s. length s = 3) (fx_source f) \<and> opt_all (\<lambda>s. length s = 3) (fx_target f) \<and>
       opt_all positive (fx_rate f) \<and> opt_all positive (fx_local_amount f)) (c_fx c) \<and>
     ag_rail (c_origin c) = Some (c_origin_rail c) \<and> wf_agent (c_origin c) \<and> wf_agent (c_destination c) \<and>
     wf_party (c_debtor c) \<and> wf_party (c_creditor c) \<and>
     length (c_purpose c) \<le> 35 \<and> length (c_reference c) \<le> 140 \<and>
     opt_all (\<lambda>s. length s \<le> 140) (c_remittanceInfo c))"

named_theorems z_defs \<open>the schema combinators\<close>

lemmas z_combinator_defs [z_defs] = z_optional_def z_default_def z_length_def z_max_def
  z_positive_def z_int_positive_def z_rail_def z_refine_Some

lemma opt_all_simps [simp]: "opt_all P None" "opt_all P (Some a) = P a"
  by (simp_all add: opt_all_def)

lemma z_objectD: "z_object f v = Some a \<Longrightarrow> \<exists>get. f get = Some a"
  by (cases v) auto

lemma z_optional_all:
  "z_optional f v = Some r \<Longrightarrow> (\<And>a. f v = Some a \<Longrightarrow> P a) \<Longrightarrow> opt_all P r"
  by (auto simp: z_optional_def split: if_splits)

lemma z_max_le: "z_max n v = Some s \<Longrightarrow> length s \<le> n"
  by (simp add: z_max_def z_refine_Some)

lemma z_length_eq: "z_length n v = Some s \<Longrightarrow> length s = n"
  by (simp add: z_length_def z_refine_Some)

lemma z_positive_pos: "z_positive v = Some n \<Longrightarrow> positive n"
  by (simp add: z_positive_def z_refine_Some positive_def)

lemma z_int_positive_pos:
  assumes "z_int_positive v = Some n"
  shows "\<exists>k. n = Fin (of_int k) \<and> 0 < k"
proof -
  from assms obtain q where q: "n = Fin q" "of_int \<lfloor>q\<rfloor> = q" "num_lt (Fin 0) n"
    by (cases n) (auto simp: z_int_positive_def z_positive_def z_refine_Some)
  then have "0 < \<lfloor>q\<rfloor>" by (metis num_lt.simps(1) of_int_0_less_iff)
  then show ?thesis using q by metis
qed

lemma z_list_max: "z_list (z_max n) vs = Some ss \<Longrightarrow> length ss = length vs \<and> list_all (\<lambda>s. length s \<le> n) ss"
  by (induction vs arbitrary: ss) (auto simp: bind_eq_Some_conv dest: z_max_le)

lemma z_array_max: "z_array k (z_max n) v = Some ss \<Longrightarrow> length ss \<le> k \<and> list_all (\<lambda>s. length s \<le> n) ss"
  by (cases v) (auto dest: z_list_max split: if_splits)

lemmas z_bounds = z_max_le z_length_eq z_positive_pos z_array_max

lemma z_optional_bounds:
  "z_optional (z_max n) v = Some r \<Longrightarrow> opt_all (\<lambda>s. length s \<le> n) r"
  "z_optional (z_length n) v = Some r \<Longrightarrow> opt_all (\<lambda>s. length s = n) r"
  "z_optional z_positive v = Some q \<Longrightarrow> opt_all positive q"
  "z_optional (z_array k (z_max n)) v = Some ls \<Longrightarrow>
     opt_all (\<lambda>ls. length ls \<le> k \<and> list_all (\<lambda>s. length s \<le> n) ls) ls"
  by (erule z_optional_all, simp add: z_bounds)+

lemma z_party_wf: "z_party v = Some p \<Longrightarrow> wf_party p"
  by (auto simp: z_party_def wf_party_def bind_eq_Some_conv dest!: z_objectD; rule z_optional_bounds; assumption)

lemma z_agent_wf: "z_agent_fields r get = Some a \<Longrightarrow> wf_agent a \<and> ag_rail a = r"
  by (auto simp: z_agent_fields_def wf_agent_def bind_eq_Some_conv; rule z_optional_bounds; assumption)

lemma z_origin_wf: "z_origin v = Some (r, a) \<Longrightarrow> wf_agent a \<and> ag_rail a = Some r"
  unfolding z_origin_def by (drule z_objectD) (auto simp: bind_eq_Some_conv z_agent_wf)

lemma z_destination_wf: "z_destination v = Some d \<Longrightarrow> wf_agent d"
  unfolding z_destination_def by (drule z_objectD) (auto simp: bind_eq_Some_conv z_agent_wf)

lemma z_grpHdr_wf:
  "z_grpHdr dt v = Some g \<Longrightarrow> dt (gh_creDtTm g) \<and> (\<exists>n. gh_nbOfTxs g = Fin (of_int n) \<and> 0 < n)"
  unfolding z_grpHdr_def
  by (drule z_objectD) (auto simp: bind_eq_Some_conv z_refine_Some z_default_def
      intro: z_int_positive_pos exI [of _ 1] split: if_splits)

lemma z_pmtId_wf: "z_pmtId v = Some g \<Longrightarrow> length (pi_endToEndId g) \<le> 35 \<and>
    opt_all (\<lambda>s. length s \<le> 35) (pi_instrId g) \<and> opt_all (\<lambda>s. length s \<le> 35) (pi_txId g)"
  by (auto simp: z_pmtId_def bind_eq_Some_conv dest!: z_objectD; rule z_optional_bounds z_max_le; assumption)

lemma z_amount_wf: "z_amount v = Some g \<Longrightarrow> positive (am_value g) \<and> length (am_currency g) = 3 \<and>
    opt_all positive (am_instdAmt g) \<and> opt_all (\<lambda>s. length s = 3) (am_instdAmtCcy g)"
  by (auto simp: z_amount_def bind_eq_Some_conv dest!: z_objectD; rule z_optional_bounds z_bounds; assumption)

lemma z_fx_wf: "z_fx v = Some f \<Longrightarrow> opt_all (\<lambda>s. length s = 3) (fx_source f) \<and>
    opt_all (\<lambda>s. length s = 3) (fx_target f) \<and> opt_all positive (fx_rate f) \<and> opt_all positive (fx_local_amount f)"
  by (auto simp: z_fx_def bind_eq_Some_conv dest!: z_objectD; rule z_optional_bounds; assumption)

lemma z_default_max: "z_default d (z_max n) v = Some s \<Longrightarrow> length d \<le> n \<Longrightarrow> length s \<le> n"
  by (auto simp: z_default_def dest: z_max_le split: if_splits)

lemma z_optional_fx: "z_optional z_fx v = Some r \<Longrightarrow>
  opt_all (\<lambda>f. opt_all (\<lambda>s. length s = 3) (fx_source f) \<and> opt_all (\<lambda>s. length s = 3) (fx_target f) \<and>
       opt_all positive (fx_rate f) \<and> opt_all positive (fx_local_amount f)) r"
  by (erule z_optional_all, simp add: z_fx_wf)

lemma canonical_schema_wf:
  assumes "canonicalPacs008Schema dt v = Some c"
  shows "wf_canonical dt c"
proof -
  from z_objectD [OF assms [unfolded canonicalPacs008Schema_def]]
  show ?thesis
    by (auto simp: wf_canonical_def bind_eq_Some_conv z_refine_Some z_origin_wf z_destination_wf z_party_wf
        z_grpHdr_wf z_pmtId_wf z_amount_wf z_optional_fx z_optional_bounds dest: z_default_max)
qed

section \<open>Parsing a parsed message\<close>

definition obj_get :: "(string \<Rightarrow> jsval option) \<Rightarrow> string \<Rightarrow> jsval" where
  "obj_get m k = (case m k of Some w \<Rightarrow> w | None \<Rightarrow> JUndef)"

definition opt_or :: "('a \<Rightarrow> jsval) \<Rightarrow> 'a option \<Rightarrow> jsval \<Rightarrow> jsval" where
  "opt_or f v d = (case v of None \<Rightarrow> d | Some a \<Rightarrow> f a)"

abbreviation opt_js :: "('a \<Rightarrow> jsval) \<Rightarrow> 'a option \<Rightarrow> jsval" where
  "opt_js f v \<equiv> opt_or f v JUndef"

lemma z_object_get: "z_object f (JObj o1) = f (obj_get (map_of o1))"
  by (simp add: obj_get_def [abs_def])

lemma obj_get_simps [simp]:
  "obj_get Map.empty j = JUndef"
  "obj_get (m(k \<mapsto> v)) j = (if j = k then v else obj_get m j)"
  "obj_get (m ++ map_of (opt_field k f v')) j = (if j = k then opt_or f v' (obj_get m j) else obj_get m j)"
  "obj_get (map_of (opt_field k f v')) j = (if j = k then opt_js f v' else JUndef)"
  by (auto simp: obj_get_def opt_or_def opt_field_def map_add_def split: option.splits)

declare z_object.simps(1) [simp del] z_object_get [simp]

lemma z_optional_js:
  "opt_all (\<lambda>a. f a \<noteq> JUndef \<and> g (f a) = Some a) v \<Longrightarrow> z_optional g (opt_js f v) = Some v"
  by (cases v) (auto simp: z_optional_def opt_or_def)

lemma z_string_js [simp]:
  "z_optional z_string (opt_js JStr v) = Some v"
  "opt_all (\<lambda>s. length s \<le> n) v \<Longrightarrow> z_optional (z_max n) (opt_js JStr v) = Some v"
  "opt_all (\<lambda>s. length s = n) v \<Longrightarrow> z_optional (z_length n) (opt_js JStr v) = Some v"
  by (cases v; auto intro!: z_optional_js simp: z_max_def z_length_def z_refine_def)+

lemma z_max_js [simp]: "length s \<le> n \<Longrightarrow> z_max n (JStr s) = Some s"
  "length s = n \<Longrightarrow> z_length n (JStr s) = Some s"
  "P s \<Longrightarrow> z_refine P z_string (JStr s) = Some s"
  "length s \<le> n \<Longrightarrow> z_default d (z_max n) (JStr s) = Some s"
  by (simp_all add: z_max_def z_length_def z_refine_def z_default_def)

lemma positive_not_NaN: "positive n \<Longrightarrow> n \<noteq> NaN"
  by (auto simp: positive_def)

lemma z_positive_js [simp]: "positive n \<Longrightarrow> z_positive (JNum n) = Some n"
  using positive_not_NaN [of n] by (simp add: z_positive_def z_refine_def flip: positive_def)

lemma z_optional_positive_js [simp]:
  "opt_all positive v \<Longrightarrow> z_optional z_positive (opt_js JNum v) = Some v"
  by (cases v) (auto intro!: z_optional_js)

lemma z_account_type_js [simp]:
  "z_optional (z_enum account_type_code [CACC, SVGS, TRAN, SLRY]) (opt_js (\<lambda>t. JStr (account_type_code t)) v) = Some v"
proof (cases v)
  case (Some a)
  then show ?thesis by (cases a) (auto intro!: z_optional_js simp: z_enum_def)
qed (simp add: z_optional_js)

lemma z_address_js [simp]:
  "opt_all (\<lambda>ls. length ls \<le> k \<and> list_all (\<lambda>s. length s \<le> n) ls) v \<Longrightarrow>
     z_optional (z_array k (z_max n)) (opt_js (\<lambda>ls. JArr (map JStr ls)) v) = Some v"
proof -
  have "list_all (\<lambda>s. length s \<le> n) ls \<Longrightarrow> z_list (z_max n) (map JStr ls) = Some ls" for ls
    by (induction ls) auto
  then show "opt_all (\<lambda>ls. length ls \<le> k \<and> list_all (\<lambda>s. length s \<le> n) ls) v \<Longrightarrow>
     z_optional (z_array k (z_max n)) (opt_js (\<lambda>ls. JArr (map JStr ls)) v) = Some v"
    by (cases v) (auto intro!: z_optional_js)
qed

lemma z_party_js [simp]: "wf_party p \<Longrightarrow> z_party (party_rec_js p) = Some p"
  by (simp add: z_party_def party_rec_js_def wf_party_def)

lemma z_rail_js [simp]: "z_rail (JStr (rail_code r)) = Some r"
  by (cases r) (simp_all add: z_rail_def z_enum_def SUPPORTED_RAILS_def)

lemma z_optional_rail_js [simp]: "z_optional z_rail (opt_js (\<lambda>r. JStr (rail_code r)) v) = Some v"
  by (cases v) (auto intro!: z_optional_js)

lemma z_destination_js [simp]: "wf_agent a \<Longrightarrow> z_destination (agent_js a) = Some a"
  by (simp add: z_destination_def agent_js_def z_agent_fields_def wf_agent_def)

lemma z_origin_js [simp]: "wf_agent a \<Longrightarrow> ag_rail a = Some r \<Longrightarrow> z_origin (agent_js a) = Some (r, a)"
  by (simp add: z_origin_def agent_js_def z_agent_fields_def wf_agent_def opt_or_def [of _ "Some r"])

lemma z_grpHdr_js [simp]:
  assumes "dt (gh_creDtTm g)" "gh_nbOfTxs g = Fin (of_int n)" "0 < n"
  shows "z_grpHdr dt (grpHdr_js g) = Some g"
proof -
  have "z_default (Fin 1) z_int_positive (JNum (Fin (of_int n))) = Some (Fin (of_int n))"
    using assms by (simp add: z_default_def z_int_positive_def z_refine_def positive_def)
  moreover have "z_object (\<lambda>h. z_default CLRG (z_enum settlement_code [INDA, INGA, COVE, CLRG]) (h ''sttlmMtd''))
      (JObj [(''sttlmMtd'', JStr (settlement_code m))]) = Some m" for m
    by (cases m) (simp_all add: z_default_def z_enum_def)
  then have "z_optional (z_object (\<lambda>h. z_default CLRG (z_enum settlement_code [INDA, INGA, COVE, CLRG]) (h ''sttlmMtd'')))
      (opt_js (\<lambda>m. JObj [(''sttlmMtd'', JStr (settlement_code m))]) v) = Some v" for v
    by (cases v) (auto intro!: z_optional_js)
  ultimately show ?thesis using assms by (simp add: z_grpHdr_def grpHdr_js_def)
qed

lemma z_pmtId_js [simp]: "length (pi_endToEndId g) \<le> 35 \<Longrightarrow> opt_all (\<lambda>s. length s \<le> 35) (pi_instrId g) \<Longrightarrow>
    opt_all (\<lambda>s. length s \<le> 35) (pi_txId g) \<Longrightarrow> z_pmtId (pmtId_js g) = Some g"
  by (simp add: z_pmtId_def pmtId_js_def)

lemma z_amount_js [simp]: "positive (am_value g) \<Longrightarrow> length (am_currency g) = 3 \<Longrightarrow>
    opt_all positive (am_instdAmt g) \<Longrightarrow> opt_all (\<lambda>s. length s = 3) (am_instdAmtCcy g) \<Longrightarrow>
    z_amount (amount_js g) = Some g"
  by (simp add: z_amount_def amount_js_def)

lemma z_fx_js [simp]:
  "opt_all (\<lambda>f. opt_all (\<lambda>s. length s = 3) (fx_source f) \<and> opt_all (\<lambda>s. length s = 3) (fx_target f) \<and>
     opt_all positive (fx_rate f) \<and> opt_all positive (fx_local_amount f)) v \<Longrightarrow>
   z_optional z_fx (opt_js fx_js v) = Some v"
  by (rule z_optional_js, cases v) (auto simp: z_fx_def fx_js_def)

lemma z_alias_js [simp]: "z_alias (alias_js a) = Some a"
  by (cases "al_type a") (simp_all add: z_alias_def alias_js_def z_enum_def ALIAS_TYPES_def)

lemma z_ack_js [simp]: "z_rail_ack (rail_ack_js r) = Some r"
proof -
  have "z_enum ack_outcome_code [ACCEPTED, REJECTED_BY_RAIL, ERROR] (JStr (ack_outcome_code a)) = Some a" for a
    by (cases a) (simp_all add: z_enum_def)
  then have "z_optional (z_enum ack_outcome_code [ACCEPTED, REJECTED_BY_RAIL, ERROR])
      (opt_js (\<lambda>a. JStr (ack_outcome_code a)) v) = Some v" for v
    by (cases v) (auto intro!: z_optional_js)
  moreover have "z_optional (z_object (\<lambda>g. do { c \<leftarrow> z_string (g ''code''); m \<leftarrow> z_string (g ''message''); Some (c, m) }))
      (opt_js (\<lambda>(c, m). JObj [(''code'', JStr c), (''message'', JStr m)]) v) = Some v" for v
    by (cases v) (auto intro!: z_optional_js)
  ultimately show ?thesis by (simp add: z_rail_ack_def rail_ack_js_def)
qed

definition nullable_js :: "('a \<Rightarrow> jsval) \<Rightarrow> 'a nullable \<Rightarrow> jsval" where
  "nullable_js f v = (case v of Absent \<Rightarrow> JUndef | Null \<Rightarrow> JNull | Present a \<Rightarrow> f a)"

lemma obj_get_nullable [simp]:
  "obj_get (map_of (nullable_field k f v)) j = (if j = k then nullable_js f v else JUndef)"
  by (auto simp: obj_get_def nullable_field_def nullable_js_def split: nullable.splits)

lemma z_nullable_js [simp]: "z_nullable z_rail_ack (nullable_js rail_ack_js v) = Some v"
proof -
  have "rail_ack_js r \<noteq> JUndef \<and> rail_ack_js r \<noteq> JNull" for r by (simp add: rail_ack_js_def)
  then show ?thesis by (cases v) (simp_all add: z_nullable_def nullable_js_def)
qed

text \<open>Parsing a well-formed message as it was stored gives it back.\<close>

lemma canonical_parse_js:
  assumes "wf_canonical dt c"
  shows "canonicalPacs008Schema dt (canonical_js c) = Some c"
proof -
  obtain n where n: "gh_nbOfTxs (c_grpHdr c) = Fin (of_int n)" "0 < n"
    using assms by (auto simp: wf_canonical_def)
  have gh: "z_grpHdr dt (grpHdr_js (c_grpHdr c)) = Some (c_grpHdr c)"
    using assms n by (intro z_grpHdr_js) (auto simp: wf_canonical_def)
  show ?thesis
    using assms by (simp add: canonicalPacs008Schema_def canonical_js_def wf_canonical_def gh)
qed

section \<open>Property\<close>


definition sample_raw :: jsval where
  "sample_raw = JObj
    [(''payment_id'', JStr ''PMT-01ARZ3NDEK''), (''created_at'', JStr ''2026-03-13T10:30:00.000Z''),
     (''grpHdr'', JObj [(''msgId'', JStr ''MSG-1''), (''creDtTm'', JStr ''2026-03-13T10:30:00.000Z'')]),
     (''pmtId'', JObj [(''endToEndId'', JStr ''E2E-1'')]),
     (''amount'', JObj [(''value'', JNum (Fin 100)), (''currency'', JStr ''BRL'')]),
     (''origin'', JObj [(''rail'', JStr ''PIX'')]), (''destination'', JObj [(''rail'', JUndef)]),
     (''debtor'', JObj [(''name'', JStr ''Ana''), (''account_id'', JStr ''PIX-ana'')]),
     (''creditor'', JObj [(''account_id'', JStr ''SPEI-032180000118359719'')]),
     (''alias'', JObj [(''type'', JStr ''PIX_KEY''), (''value'', JStr ''ana'')]),
     (''status'', JStr ''RECEIVED''), (''trace_id'', JStr ''t-1'')]"

definition sample_canonical :: canonical where
  "sample_canonical = the (canonicalPacs008Schema (\<lambda>s. True) sample_raw)"

lemma sample_canonical: "canonicalPacs008Schema (\<lambda>s. True) sample_raw = Some sample_canonical"
  by code_simp


end
