(* ===== verification/Translation.thy ===== *)
theory Translation
  imports TtlCache Canonical
begin

text \<open>
  The parts the translators share, and the two rails whose generic requests go through the
  mapping table: PIX (\<open>src/translation/pix-to-canonical.ts\<close>, \<open>canonical-to-pix.ts\<close>) and SPEI
  (\<open>spei-to-canonical.ts\<close>, \<open>canonical-to-spei.ts\<close>). A translator builds a raw dynamic value,
  applies the mappings, and has the canonical schema read it; whatever is raised on the way
  becomes a translation error, except where the source builds the value outside the \<open>try\<close>.

  Values placed in the raw object are copies; writing a property of an array, which the
  schema rejects where it expects an object, leaves the array as it is.
\<close>

section \<open>Mappings\<close>

definition applyTransformation :: "jsval \<Rightarrow> string \<Rightarrow> jsval" where
  "applyTransformation v t =
    (if t = ''identity'' then v
     else if t = ''uppercase'' then (case v of JStr s \<Rightarrow> JStr (toUpperCase s) | _ \<Rightarrow> v)
     else if t = ''lowercase'' then (case v of JStr s \<Rightarrow> JStr (toLowerCase s) | _ \<Rightarrow> v)
     else if t = ''strip_pix_prefix'' then
       (case v of JStr s \<Rightarrow> if startsWith s ''PIX-'' then JStr (drop 4 s) else v | _ \<Rightarrow> v)
     else if t = ''strip_clabe_prefix'' then
       (case v of JStr s \<Rightarrow> if startsWith s ''CLABE-'' then JStr (drop 6 s) else v | _ \<Rightarrow> v)
     else if t = ''numeric'' then (case v of JNum n \<Rightarrow> v | _ \<Rightarrow> JNum (Number_val v))
     else if t = ''string'' then JStr (to_string v)
     else v)"

fun getNestedKeys :: "jsval \<Rightarrow> string list \<Rightarrow> jsval" where
  "getNestedKeys v [] = v"
| "getNestedKeys v (k # ks) =
     getNestedKeys (if truthy v \<and> typeof v = ''object'' then opt_prop v k else JUndef) ks"

definition getNestedValue :: "jsval \<Rightarrow> string \<Rightarrow> jsval" where
  "getNestedValue obj path = getNestedKeys obj (split_on (CHR ''.'') path)"

fun setNestedKeys :: "jsval \<Rightarrow> string list \<Rightarrow> jsval \<Rightarrow> js_error + jsval" where
  "setNestedKeys (JObj o1) [k] v = Inr (JObj (alist_set o1 k v))"
| "setNestedKeys (JObj o1) (k # j # ks) v =
     bindr (setNestedKeys (case map_of o1 k of Some w \<Rightarrow> w | None \<Rightarrow> JObj []) (j # ks) v)
       (\<lambda>w. Inr (JObj (alist_set o1 k w)))"
| "setNestedKeys (JArr vs) ks v = Inr (JArr vs)"
| "setNestedKeys _ ks v = Inl TypeError"

definition setNestedValue :: "jsval \<Rightarrow> string \<Rightarrow> jsval \<Rightarrow> js_error + jsval" where
  "setNestedValue obj path v = setNestedKeys obj (split_on (CHR ''.'') path) v"

definition applyValidation :: "(string \<Rightarrow> string \<Rightarrow> bool option) \<Rightarrow> jsval \<Rightarrow> string \<Rightarrow> js_error + bool" where
  "applyValidation rx v rule =
    (let s = to_string (nullish v (JStr [])); len = num_of (of_nat (length s)) in
     if startsWith rule ''regex:'' then
       (case rx (drop 6 rule) s of Some b \<Rightarrow> Inr b | None \<Rightarrow> Inl (PlainError ''SyntaxError''))
     else if startsWith rule ''minLength:'' then Inr (num_le (Number_of_string (drop 10 rule)) len)
     else if startsWith rule ''maxLength:'' then Inr (num_le len (Number_of_string (drop 10 rule)))
     else if startsWith rule ''enum:'' then Inr (s \<in> set (map trim (split_on (CHR '','') (drop 5 rule))))
     else Inr True)"

fun applyMappings ::
  "(string \<Rightarrow> string \<Rightarrow> bool option) \<Rightarrow> jsval \<Rightarrow> (string \<times> mapping_transform) list \<Rightarrow> jsval \<Rightarrow> js_error + jsval" where
  "applyMappings rx req [] raw = Inr raw"
| "applyMappings rx req ((src, m) # ms) raw =
    (let v = getNestedValue req src in
     if is_nullish v then applyMappings rx req ms raw
     else let t = applyTransformation v (mt_transformation m) in
       bindr (case mt_validation m of
           Some rule \<Rightarrow> if rule = [] then Inr True else applyValidation rx t rule | None \<Rightarrow> Inr True) (\<lambda>ok.
         if ok then bindr (setNestedValue raw (mt_targetField m) t) (applyMappings rx req ms)
         else applyMappings rx req ms raw))"

text \<open>The translator of SPEI has its own copies of these functions.\<close>

definition spei_applyTransformation where "spei_applyTransformation = applyTransformation"
definition spei_getNestedValue where "spei_getNestedValue = getNestedValue"
definition spei_setNestedValue where "spei_setNestedValue = setNestedValue"
definition spei_applyValidation where "spei_applyValidation = applyValidation"

section \<open>From the raw value to the message\<close>

definition js_opt :: "string option \<Rightarrow> jsval" where
  "js_opt v = (case v of Some s \<Rightarrow> JStr s | None \<Rightarrow> JUndef)"

definition has_key :: "string \<Rightarrow> jsval \<Rightarrow> js_error + bool" where
  "has_key k v = (case v of JObj o1 \<Rightarrow> Inr (k \<in> fst ` set o1) | JArr _ \<Rightarrow> Inr False | _ \<Rightarrow> Inl TypeError)"

fun get_path :: "jsval \<Rightarrow> string list \<Rightarrow> js_error + jsval" where
  "get_path v [] = Inr v"
| "get_path v (k # ks) = bindr (get_prop v k) (\<lambda>w. get_path w ks)"

text \<open>\<open>v?.k1?.k2\<close>\<close>

fun opt_path :: "jsval \<Rightarrow> string list \<Rightarrow> jsval" where
  "opt_path v [] = v"
| "opt_path v (k # ks) = opt_path (opt_prop v k) ks"

text \<open>\<open>a ?? b ?? \<dots> ?? d\<close>\<close>

definition first_nonnull :: "jsval list \<Rightarrow> jsval \<Rightarrow> jsval" where
  "first_nonnull vs d = foldr nullish vs d"

text \<open>\<open>v.slice(0, n)\<close>, a method of strings and of arrays\<close>

definition js_slice :: "nat \<Rightarrow> jsval \<Rightarrow> js_error + jsval" where
  "js_slice n v = (case v of JStr s \<Rightarrow> Inr (JStr (take n s)) | JArr vs \<Rightarrow> Inr (JArr (take n vs)) | _ \<Rightarrow> Inl TypeError)"

definition parse_canonical :: "string \<Rightarrow> string \<Rightarrow> jsval \<Rightarrow> canonical io" where
  "parse_canonical r msg raw = io_bind (io_env (\<lambda>e. (canonicalPacs008Schema (e_datetime e) raw, e_zod_errors e raw)))
     (\<lambda>(c, issues). case c of Some a \<Rightarrow> io_return a
        | None \<Rightarrow> io_throw (TranslationError r msg [(''zodErrors'', issues)]))"

text \<open>The \<open>catch\<close> of the translators; the cause is recorded by its message.\<close>

definition rethrow_as_translation :: "string \<Rightarrow> string \<Rightarrow> js_error \<Rightarrow> 'a io" where
  "rethrow_as_translation r msg x = (if is_TranslationError x then io_throw x
     else io_throw (TranslationError r msg [(''cause'', JStr (error_message x))]))"

section \<open>A generic request\<close>

text \<open>
  The raw value PIX and SPEI build from a request: \<open>r\<close> the rail, \<open>cur\<close> its currency, \<open>ctry\<close>
  its country, \<open>ty\<close> its alias type.
\<close>

definition generic_raw ::
  "string \<Rightarrow> string \<Rightarrow> string \<Rightarrow> string \<Rightarrow> jsval \<Rightarrow> string \<Rightarrow> string option \<Rightarrow> string \<Rightarrow> string \<Rightarrow> string \<Rightarrow> js_error + jsval" where
  "generic_raw r cur ctry ty req pid trace now msg_ulid e2e_ulid =
     bindr (get_prop req ''amount'') (\<lambda>amt.
     bindr (get_prop req ''currency'') (\<lambda>c.
     bindr (as_string (nullish c (JStr cur))) (\<lambda>c'.
     bindr (get_path req [''debtor'', ''name'']) (\<lambda>dname.
     bindr (get_path req [''debtor'', ''alias'']) (\<lambda>dalias.
     bindr (get_path req [''creditor'', ''name'']) (\<lambda>cname.
     bindr (get_path req [''creditor'', ''alias'']) (\<lambda>calias.
     bindr (get_prop req ''purpose'') (\<lambda>pu.
     bindr (get_prop req ''reference'') (\<lambda>rf.
     Inr (JObj
      [(''payment_id'', JStr pid), (''created_at'', JStr now),
       (''grpHdr'', JObj [(''msgId'', JStr (''MSG-'' @ msg_ulid)), (''creDtTm'', JStr now)]),
       (''pmtId'', JObj [(''endToEndId'', JStr (''E2E-'' @ e2e_ulid))]),
       (''amount'', JObj [(''value'', amt), (''currency'', JStr (toUpperCase c'))]),
       (''fx'', JObj [(''source_currency'', JStr cur)]),
       (''origin'', JObj [(''rail'', JStr r)]),
       (''destination'', JObj [(''rail'', JUndef)]),
       (''debtor'', JObj [(''name'', dname), (''country'', JStr ctry), (''account_id'', dalias)]),
       (''creditor'', JObj [(''name'', cname), (''country'', JUndef), (''account_id'', calias)]),
       (''alias'', JObj [(''type'', JStr ty), (''value'', JStr [])]),
       (''purpose'', nullish pu (JStr ''P2P'')), (''reference'', nullish rf (JStr ''MIPIT-POC'')),
       (''status'', JStr ''RECEIVED''), (''trace_id'', js_opt trace)]))))))))))"

text \<open>When no mapping filled the alias, it is the creditor's, without the rail's prefix.\<close>

definition fill_alias :: "string \<Rightarrow> jsval \<Rightarrow> jsval \<Rightarrow> js_error + jsval" where
  "fill_alias prefix req raw =
    (if truthy (opt_prop raw ''alias'') \<and> truthy (opt_path raw [''alias'', ''value'']) then Inr raw
     else bindr (get_path req [''creditor'', ''alias'']) (\<lambda>a. bindr (as_string a) (\<lambda>s.
       setNestedValue raw ''alias.value''
         (JStr (if startsWith s prefix then drop (length prefix) s else s)))))"

definition generic_to_canonical ::
  "string \<Rightarrow> string \<Rightarrow> string \<Rightarrow> string \<Rightarrow> string \<Rightarrow> string \<Rightarrow> string \<Rightarrow> jsval \<Rightarrow> string \<Rightarrow> string option \<Rightarrow> string \<Rightarrow> canonical io" where
  "generic_to_canonical r cur ctry ty prefix invalid unexpected req pid trace now =
     io_try
      (io_bind (loadMappings r ''TO_CANONICAL'') (\<lambda>ms.
       io_bind fresh_ulid (\<lambda>u1. io_bind fresh_ulid (\<lambda>u2.
       io_bind (io_result (generic_raw r cur ctry ty req pid trace now u1 u2)) (\<lambda>raw.
       io_bind (io_env (\<lambda>e. applyMappings (e_regex e) req ms raw)) (\<lambda>mapped.
       io_bind (io_result mapped) (\<lambda>raw1.
       io_bind (io_result (fill_alias prefix req raw1)) (\<lambda>raw2.
       parse_canonical r invalid raw2))))))))
      (rethrow_as_translation r unexpected)"

section \<open>PIX\<close>

definition pix_native_raw :: "jsval \<Rightarrow> string \<Rightarrow> string option \<Rightarrow> string \<Rightarrow> jsval \<Rightarrow> js_error + jsval" where
  "pix_native_raw p pid trace now e2e =
    (let amount = parseFloat_val (nullish (opt_path p [''valor'', ''original'']) (JStr ''0''));
         chave = nullish (opt_prop p ''chave'') (JStr [])
     in bindr (js_slice 35 e2e) (\<lambda>e2e35. Inr (JObj
      [(''payment_id'', JStr pid), (''created_at'', JStr now),
       (''grpHdr'', JObj [(''msgId'', e2e), (''creDtTm'', JStr now), (''nbOfTxs'', JNum (Fin 1))]),
       (''pmtId'', JObj [(''endToEndId'', e2e35)]),
       (''amount'', JObj [(''value'', JNum amount), (''currency'', JStr ''BRL'')]),
       (''fx'', JObj [(''source_currency'', JStr ''BRL'')]),
       (''origin'', JObj [(''rail'', JStr ''PIX''), (''ispb'', opt_path p [''pagador'', ''ispb''])]),
       (''destination'', JObj [(''rail'', JUndef), (''ispb'', opt_path p [''recebedor'', ''ispb''])]),
       (''debtor'', JObj [(''name'', opt_path p [''pagador'', ''nome'']), (''country'', JStr ''BR''),
          (''account_id'', nullish (opt_path p [''pagador'', ''contaTransacional'', ''numero'']) (JStr (''acc-'' @ pid))),
          (''taxId'', opt_path p [''pagador'', ''cpf'']),
          (''accountType'', nullish (opt_path p [''pagador'', ''contaTransacional'', ''tipoConta'']) (JStr ''CACC''))]),
       (''creditor'', JObj [(''name'', opt_path p [''recebedor'', ''nome'']), (''country'', JStr ''BR''),
          (''account_id'', JStr (if truthy chave then ''PIX-'' @ to_string chave else ''PIX-recv-'' @ pid)),
          (''taxId'', opt_path p [''recebedor'', ''cpf''])]),
       (''alias'', JObj [(''type'', JStr ''PIX_KEY''), (''value'', chave)]),
       (''purpose'', nullish (opt_prop p ''tipo'') (JStr ''TRANSF'')),
       (''reference'', nullish (opt_prop p ''campoLivre'') (JStr ''MIPIT-POC'')),
       (''status'', JStr ''RECEIVED''), (''trace_id'', js_opt trace)])))"

definition pix_is_native :: "jsval \<Rightarrow> js_error + bool" where
  "pix_is_native p = bindr (has_key ''valor'' p) (\<lambda>a. bindr (has_key ''endToEndId'' p) (\<lambda>b.
     bindr (has_key ''pagador'' p) (\<lambda>c. Inr (a \<or> b \<or> c))))"

definition fresh_if_nullish :: "string \<Rightarrow> jsval \<Rightarrow> jsval io" where
  "fresh_if_nullish prefix v = (if is_nullish v
     then io_bind fresh_ulid (\<lambda>u. io_return (JStr (prefix @ u))) else io_return v)"

definition pixToCanonical :: "jsval \<Rightarrow> string \<Rightarrow> string option \<Rightarrow> canonical io" where
  "pixToCanonical p pid trace = io_bind now_iso (\<lambda>now.
     io_bind (io_result (pix_is_native p)) (\<lambda>native.
     if native then
       io_bind (fresh_if_nullish ''E2E-'' (opt_prop p ''endToEndId'')) (\<lambda>e2e.
       io_bind (io_result (pix_native_raw p pid trace now e2e)) (\<lambda>raw.
       parse_canonical ''PIX'' ''Invalid canonical output from native PIX translation'' raw))
     else generic_to_canonical ''PIX'' ''BRL'' ''BR'' ''PIX_KEY'' ''PIX-''
       ''Invalid canonical output from PIX translation'' ''Unexpected error during translation''
       p pid trace now))"

definition canonicalToPix :: "canonical \<Rightarrow> jsval" where
  "canonicalToPix c = JObj
     [(''endToEndId'', JStr (pi_endToEndId (c_pmtId c))), (''pixKey'', JStr (al_value (c_alias c))),
      (''amount'', JNum (am_value (c_amount c))), (''currency'', JStr (am_currency (c_amount c))),
      (''debtorName'', js_opt (pt_name (c_debtor c))), (''debtorAccount'', JStr (pt_account_id (c_debtor c))),
      (''creditorName'', js_opt (pt_name (c_creditor c))), (''creditorAccount'', JStr (pt_account_id (c_creditor c))),
      (''purpose'', JStr (c_purpose c)), (''reference'', JStr (c_reference c)),
      (''createdAt'', JStr (c_created_at c))]"

section \<open>SPEI\<close>

definition speiToCanonical :: "jsval \<Rightarrow> string \<Rightarrow> string option \<Rightarrow> canonical io" where
  "speiToCanonical p pid trace = io_bind now_iso (\<lambda>now.
     generic_to_canonical ''SPEI'' ''MXN'' ''MX'' ''CLABE'' ''CLABE-''
       ''Invalid canonical output from SPEI translation'' ''Unexpected error during translation''
       p pid trace now)"

definition canonicalToSpei :: "canonical \<Rightarrow> jsval" where
  "canonicalToSpei c = JObj
     [(''claveRastreo'', JStr (pi_endToEndId (c_pmtId c))), (''clabe'', JStr (al_value (c_alias c))),
      (''monto'', JNum (am_value (c_amount c))), (''moneda'', JStr (am_currency (c_amount c))),
      (''nombreOrdenante'', js_opt (pt_name (c_debtor c))), (''cuentaOrdenante'', JStr (pt_account_id (c_debtor c))),
      (''nombreBeneficiario'', js_opt (pt_name (c_creditor c))), (''cuentaBeneficiario'', JStr (pt_account_id (c_creditor c))),
      (''concepto'', JStr (c_purpose c)), (''referencia'', JStr (c_reference c)),
      (''fechaOperacion'', JStr (hd (split_on (CHR ''T'') (c_created_at c))))]"

section \<open>Scope\<close>

lemma now_iso_quiet [io_frame]: "io_keeps quiet now_iso"
  unfolding now_iso_def by (intro io_frame)

lemma parse_canonical_quiet [io_frame]: "io_keeps quiet (parse_canonical r msg raw)"
  unfolding parse_canonical_def by (auto intro!: io_frame split: prod.split)

lemma rethrow_quiet [io_frame]: "io_keeps quiet (rethrow_as_translation r msg x)"
  unfolding rethrow_as_translation_def by (intro io_frame)

lemma generic_quiet [io_frame]:
  "io_keeps quiet (generic_to_canonical r cur ctry ty prefix m1 m2 p pid trace now)"
  unfolding generic_to_canonical_def by (intro io_frame)

lemma pix_spei_quiet [io_frame]:
  "io_keeps quiet (pixToCanonical p pid trace)"
  "io_keeps quiet (speiToCanonical p pid trace)"
  unfolding pixToCanonical_def speiToCanonical_def fresh_if_nullish_def by (intro io_frame)+

end
