(* ===== verification/Mt103.thy ===== *)
theory Mt103
  imports Translation
begin

text \<open>
  SWIFT MT103: \<open>src/translation/swift-mt103-to-canonical.ts\<close> and
  \<open>canonical-to-swift-mt103.ts\<close>. The text format is read by scanning for tags: the content
  of a field runs from its tag to the next tag of two digits and an optional letter, the
  end of the block or the end of the text. The structured message is a record; what the
  translator receives may be a text or any dynamic value.

  The round trip of the text format is proved in \<open>Mt103Text\<close>.
\<close>

section \<open>The structured message\<close>

record mt_customer =
  mp_account :: "string option"
  mp_iban :: "string option"
  mp_name :: "string option"
  mp_address :: "string list option"
  mp_bic :: "string option"

definition no_customer :: mt_customer where
  "no_customer = \<lparr>mp_account = None, mp_iban = None, mp_name = None, mp_address = None, mp_bic = None\<rparr>"

record mt103 =
  mt_transactionRef :: string
  mt_bankOperationCode :: string
  mt_valueDate :: string
  mt_currency :: string
  mt_amount :: jsnum
  mt_orderingCustomer :: mt_customer
  mt_orderingInstitution :: "string option"
  mt_accountWithInstitution :: "string option"
  mt_beneficiaryCustomer :: mt_customer
  mt_remittanceInfo :: "string option"
  mt_detailsOfCharges :: "string option"
  mt_senderToReceiverInfo :: "string option"
  mt_rawMessage :: "string option"

definition customer_js :: "mt_customer \<Rightarrow> jsval" where
  "customer_js c = JObj (opt_field ''account'' JStr (mp_account c) @ opt_field ''iban'' JStr (mp_iban c) @
     opt_field ''name'' JStr (mp_name c) @ opt_field ''address'' (\<lambda>ls. JArr (map JStr ls)) (mp_address c) @
     opt_field ''bic'' JStr (mp_bic c))"

definition mt103_js :: "mt103 \<Rightarrow> jsval" where
  "mt103_js m = JObj ([(''transactionRef'', JStr (mt_transactionRef m)),
     (''bankOperationCode'', JStr (mt_bankOperationCode m)), (''valueDate'', JStr (mt_valueDate m)),
     (''currency'', JStr (mt_currency m)), (''amount'', JNum (mt_amount m)),
     (''orderingCustomer'', customer_js (mt_orderingCustomer m))] @
     opt_field ''orderingInstitution'' (\<lambda>b. JObj [(''bic'', JStr b)]) (mt_orderingInstitution m) @
     opt_field ''accountWithInstitution'' (\<lambda>b. JObj [(''bic'', JStr b)]) (mt_accountWithInstitution m) @
     [(''beneficiaryCustomer'', customer_js (mt_beneficiaryCustomer m))] @
     opt_field ''remittanceInfo'' JStr (mt_remittanceInfo m) @
     opt_field ''detailsOfCharges'' JStr (mt_detailsOfCharges m) @
     opt_field ''senderToReceiverInfo'' JStr (mt_senderToReceiverInfo m) @
     opt_field ''rawMessage'' JStr (mt_rawMessage m))"

section \<open>Reading the text\<close>

text \<open>The first suffix with a property, and what is before it.\<close>

fun split_first :: "(string \<Rightarrow> bool) \<Rightarrow> string \<Rightarrow> (string \<times> string) option" where
  "split_first P [] = (if P [] then Some ([], []) else None)"
| "split_first P (c # s) = (if P (c # s) then Some ([], c # s)
     else map_option (\<lambda>(a, b). (c # a, b)) (split_first P s))"

definition mt_body :: "string \<Rightarrow> string" where
  "mt_body raw = (case split_first (\<lambda>s. startsWith s ''{4:'') raw of None \<Rightarrow> raw
     | Some (_, r) \<Rightarrow> (case split_first (\<lambda>s. startsWith s ''-}'') (drop 3 r) of
         Some (b, _) \<Rightarrow> b | None \<Rightarrow> raw))"

definition is_letter :: "char \<Rightarrow> bool" where
  "is_letter c = (is_upper c \<or> is_lower c)"

definition tag_at :: "string \<Rightarrow> bool" where
  "tag_at s = (case s of
     c # a # b # d # r \<Rightarrow> c = CHR '':'' \<and> is_digit a \<and> is_digit b \<and>
       (d = CHR '':'' \<or> is_letter d \<and> (case r of [] \<Rightarrow> False | x # _ \<Rightarrow> x = CHR '':''))
   | _ \<Rightarrow> False)"

definition field_stop :: "string \<Rightarrow> bool" where
  "field_stop s = (s = [] \<or> startsWith s ''-}'' \<or> tag_at s)"

definition has_tag :: "string \<Rightarrow> string \<Rightarrow> bool" where
  "has_tag tag s = startsWith (toLowerCase s) (toLowerCase ('':'' @ tag @ '':''))"

definition field_content :: "string \<Rightarrow> string" where
  "field_content s = (case split_first field_stop s of Some (a, _) \<Rightarrow> a | None \<Rightarrow> s)"

definition getField :: "string \<Rightarrow> string \<Rightarrow> string option" where
  "getField body tag = (case split_first (has_tag tag) body of None \<Rightarrow> None
     | Some (_, r) \<Rightarrow> Some (trim (field_content (drop (length tag + 2) r))))"

definition split_lines :: "string \<Rightarrow> string list" where
  "split_lines = split_on (char_of (10::nat))"

definition getMultilineField :: "string \<Rightarrow> string \<Rightarrow> string list" where
  "getMultilineField body tag = (case getField body tag of None \<Rightarrow> []
     | Some s \<Rightarrow> if s = [] then [] else filter (\<lambda>l. l \<noteq> []) (map trim (split_lines s)))"

definition match32 :: "string \<Rightarrow> (string \<times> string \<times> string) option" where
  "match32 s = (let d = take 6 s; c = take 3 (drop 6 s); a = drop 9 s in
     if length d = 6 \<and> list_all is_digit d \<and> length c = 3 \<and> list_all is_upper c \<and> a \<noteq> [] \<and>
       list_all (\<lambda>x. is_digit x \<or> x = CHR '','') a
     then Some (d, c, a) else None)"

fun replace_first :: "char \<Rightarrow> char \<Rightarrow> string \<Rightarrow> string" where
  "replace_first a b [] = []"
| "replace_first a b (x # xs) = (if x = a then b # xs else x # replace_first a b xs)"

definition century_date :: "string \<Rightarrow> string" where
  "century_date d = (if num_le (Fin 70) (parseInt10 (take 2 d)) then ''19'' else ''20'') @
     take 2 d @ ''-'' @ substring d 2 4 @ ''-'' @ substring d 4 6"

definition parse_50A :: "string \<Rightarrow> mt_customer" where
  "parse_50A f = (let parts = split_lines f; p0 = parts ! 0 in
     no_customer\<lparr>mp_bic := (if startsWith p0 ''/'' then None else Some (trim p0)),
       mp_account := (if startsWith p0 ''/'' then Some (trim (drop 1 p0))
         else if 1 < length parts then Some (trim (parts ! 1)) else None)\<rparr>)"

definition parse_lines :: "string list \<Rightarrow> mt_customer" where
  "parse_lines ls = (case ls of [] \<Rightarrow> no_customer
     | l # r \<Rightarrow> no_customer\<lparr>mp_account := Some (if startsWith l ''/'' then drop 1 l else l),
         mp_name := (case r of [] \<Rightarrow> None | n # _ \<Rightarrow> Some n), mp_address := Some (drop 2 ls)\<rparr>)"

definition parse_59A :: "string \<Rightarrow> mt_customer" where
  "parse_59A f = (let parts = split_lines (trim f); p0 = parts ! 0 in
     no_customer\<lparr>mp_iban := (if startsWith p0 ''/'' then Some (trim (drop 1 p0)) else None),
       mp_name := (if 1 < length parts then Some (trim (parts ! 1)) else None)\<rparr>)"

text \<open>
  The parsed message, given the reference used when field 20 is missing and today's date as
  \<open>YYMMDD\<close> for a field 32A that does not have its form.
\<close>

definition parse_mt103 :: "string \<Rightarrow> string \<Rightarrow> string \<Rightarrow> mt103" where
  "parse_mt103 ref_default today raw =
    (let body = mt_body raw; f = getField body;
         m32 = match32 (case f ''32A'' of Some s \<Rightarrow> s | None \<Rightarrow> []);
         d = (case m32 of Some (d, _, _) \<Rightarrow> d | None \<Rightarrow> today);
         l50 = getMultilineField body ''50K''; l59 = getMultilineField body ''59''
     in \<lparr>mt_transactionRef = (case f ''20'' of Some r \<Rightarrow> r | None \<Rightarrow> ref_default),
       mt_bankOperationCode = (case f ''23B'' of Some c \<Rightarrow> c | None \<Rightarrow> ''CRED''),
       mt_valueDate = century_date d,
       mt_currency = (case m32 of Some (_, c, _) \<Rightarrow> c | None \<Rightarrow> ''USD''),
       mt_amount = parseFloat (case m32 of Some (_, _, a) \<Rightarrow> replace_first (CHR '','') (CHR ''.'') a | None \<Rightarrow> ''0''),
       mt_orderingCustomer = (if str_or (f ''50A'') [] \<noteq> [] then parse_50A (str_or (f ''50A'') []) else parse_lines l50),
       mt_orderingInstitution = None,
       mt_accountWithInstitution = (if str_or (f ''57A'') [] \<noteq> [] then Some (trim (str_or (f ''57A'') [])) else None),
       mt_beneficiaryCustomer = (if str_or (f ''59A'') [] \<noteq> [] then parse_59A (str_or (f ''59A'') []) else parse_lines l59),
       mt_remittanceInfo = f ''70'', mt_detailsOfCharges = f ''71A'', mt_senderToReceiverInfo = None,
       mt_rawMessage = Some raw\<rparr>)"

definition parseMt103 :: "string \<Rightarrow> mt103 io" where
  "parseMt103 raw = (let body = mt_body raw in
     io_bind (if getField body ''20'' = None then io_bind fresh_ulid (\<lambda>u. io_return (''MT103-'' @ take 16 u))
       else io_return []) (\<lambda>r.
     io_bind (if match32 (case getField body ''32A'' of Some s \<Rightarrow> s | None \<Rightarrow> []) = None
       then io_bind now_iso (\<lambda>t. io_return (filter (\<lambda>c. c \<noteq> CHR ''-'') (substring t 2 10)))
       else io_return []) (\<lambda>today.
     io_return (parse_mt103 r today raw))))"

section \<open>To the canonical message\<close>

text \<open>\<open>/\b([A-Z]{2})\s*$/\<close> on the last address line\<close>

definition trailing_country :: "string \<Rightarrow> string option" where
  "trailing_country s = (case dropWhile is_space (rev s) of
     b # a # r \<Rightarrow> if is_upper a \<and> is_upper b \<and> (case r of [] \<Rightarrow> True | c # _ \<Rightarrow> \<not> is_word c)
       then Some [a, b] else None
   | _ \<Rightarrow> None)"

definition extractCountryFromAddress :: "jsval \<Rightarrow> js_error + jsval" where
  "extractCountryFromAddress v =
    (let line = (case v of JArr vs \<Rightarrow> (if vs = [] then JUndef else last vs)
           | JStr s \<Rightarrow> (if s = [] then JUndef else JStr [last s]) | _ \<Rightarrow> JUndef)
     in if is_nullish line then Inr JUndef
        else bindr (as_string line) (\<lambda>s. Inr (js_opt (trailing_country s))))"

definition opt_slice :: "nat \<Rightarrow> jsval \<Rightarrow> js_error + jsval" where
  "opt_slice n v = (if is_nullish v then Inr JUndef else js_slice n v)"

definition mt_party_raw :: "jsval \<Rightarrow> jsval \<Rightarrow> js_error + (string \<times> jsval) list" where
  "mt_party_raw c account =
     bindr (get_prop c ''name'') (\<lambda>nm. bindr (opt_map_string (take 140) nm) (\<lambda>name.
     bindr (get_prop c ''address'') (\<lambda>ad. bindr (extractCountryFromAddress ad) (\<lambda>ctry.
     bindr (opt_slice 4 ad) (\<lambda>ad4.
     Inr [(''name'', name), (''country'', ctry), (''account_id'', account), (''address'', ad4)])))))"

definition swift_raw :: "jsval \<Rightarrow> string \<Rightarrow> string option \<Rightarrow> string \<Rightarrow> string \<Rightarrow> js_error + jsval" where
  "swift_raw msg pid trace now msg_ulid =
     bindr (get_prop msg ''orderingCustomer'') (\<lambda>oc.
     bindr (get_prop oc ''account'') (\<lambda>oacc. bindr (get_prop oc ''name'') (\<lambda>oname.
     bindr (get_prop msg ''beneficiaryCustomer'') (\<lambda>bc.
     bindr (get_prop bc ''iban'') (\<lambda>iban. bindr (get_prop bc ''account'') (\<lambda>bacc. bindr (get_prop bc ''name'') (\<lambda>bname.
     bindr (get_prop msg ''transactionRef'') (\<lambda>tr. bindr (as_string tr) (\<lambda>trs.
     bindr (get_prop msg ''currency'') (\<lambda>cu. bindr (as_string cu) (\<lambda>cur.
     bindr (get_prop msg ''remittanceInfo'') (\<lambda>ri. bindr (opt_map_string (take 140) ri) (\<lambda>remit.
     let debtorAccount = first_nonnull [oacc, oname] (JStr ''UNKNOWN'');
         creditorAccount = first_nonnull [iban, bacc, bname] (JStr ''UNKNOWN'')
     in
     bindr (mt_party_raw oc debtorAccount) (\<lambda>debtor.
     bindr (mt_party_raw bc creditorAccount) (\<lambda>creditor.
     Inr (JObj
      [(''payment_id'', JStr pid), (''created_at'', JStr now),
       (''grpHdr'', JObj [(''msgId'', JStr (''MSG-'' @ msg_ulid)), (''creDtTm'', JStr now), (''nbOfTxs'', JNum (Fin 1))]),
       (''pmtId'', JObj [(''endToEndId'', JStr (take 35 trs)), (''instrId'', tr)]),
       (''amount'', JObj [(''value'', opt_prop msg ''amount''), (''currency'', JStr (toUpperCase cur))]),
       (''origin'', JObj [(''rail'', JStr ''SWIFT_MT103''),
          (''bic'', nullish (opt_path msg [''orderingInstitution'', ''bic'']) (opt_prop oc ''bic''))]),
       (''destination'', JObj [(''rail'', JUndef), (''bic'', opt_path msg [''accountWithInstitution'', ''bic''])]),
       (''debtor'', JObj debtor), (''creditor'', JObj creditor),
       (''alias'', JObj [(''type'', JStr (if truthy iban then ''IBAN'' else ''ACCOUNT'')), (''value'', creditorAccount)]),
       (''purpose'', JStr ''P2P''), (''reference'', tr), (''remittanceInfo'', remit),
       (''status'', JStr ''RECEIVED''), (''trace_id'', js_opt trace)]))))))))))))))))"

definition swiftMt103ToCanonical :: "jsval \<Rightarrow> string \<Rightarrow> string option \<Rightarrow> canonical io" where
  "swiftMt103ToCanonical p pid trace = io_try
     (io_bind (case p of JStr s \<Rightarrow> io_bind (parseMt103 s) (\<lambda>m. io_return (mt103_js m)) | _ \<Rightarrow> io_return p) (\<lambda>msg.
      io_bind now_iso (\<lambda>now. io_bind fresh_ulid (\<lambda>u.
      io_bind (io_result (swift_raw msg pid trace now u)) (\<lambda>raw.
      parse_canonical ''SWIFT_MT103'' ''Invalid canonical output from SWIFT MT103 translation'' raw)))))
     (rethrow_as_translation ''SWIFT_MT103'' ''Unexpected error during MT103 translation'')"

section \<open>From the canonical message\<close>

definition strip_prefixes :: "string list \<Rightarrow> string \<Rightarrow> string" where
  "strip_prefixes ps s = (case find (startsWith s) ps of Some p \<Rightarrow> drop (length p) s | None \<Rightarrow> s)"

definition rx_iban_account :: rx where
  "rx_iban_account = rx_seq [rx_times (Cls is_upper) 2, rx_times rx_digit 2,
     Rep 11 (Some 30) (Cls (\<lambda>c. is_upper c \<or> is_digit c))]"

definition buildRemittanceInfo :: "canonical \<Rightarrow> string" where
  "buildRemittanceInfo c = take 140 (join '' ''
    ((if c_reference c \<noteq> [] \<and> c_reference c \<noteq> ''MIPIT-POC'' then [''/REF/'' @ take 16 (c_reference c)] else []) @
     (if str_or (c_remittanceInfo c) [] \<noteq> [] then [take 105 (str_or (c_remittanceInfo c) [])]
      else if c_purpose c \<noteq> [] then [take 35 (c_purpose c)] else [])))"

definition ref_char :: "char \<Rightarrow> char" where
  "ref_char c = (if is_letter c \<or> is_digit c \<or> c = CHR ''/'' \<or> c = CHR ''-'' then c else CHR ''X'')"

definition address_lines :: "party \<Rightarrow> string list" where
  "address_lines p = (case pt_address p of Some ls \<Rightarrow> take 3 ls
     | None \<Rightarrow> [if str_or (pt_country p) [] \<noteq> [] then ''Country: '' @ str_or (pt_country p) [] else ''Unknown''])"

definition nonempty :: "string option \<Rightarrow> string option" where
  "nonempty v = (case v of Some s \<Rightarrow> if s = [] then None else Some s | None \<Rightarrow> None)"

definition canonicalToSwiftMt103 :: "canonical \<Rightarrow> mt103" where
  "canonicalToSwiftMt103 c =
    (let cacc = pt_account_id (c_creditor c); dacc = pt_account_id (c_debtor c);
         ib = rx_full rx_iban_account cacc; pre = [''PIX-'', ''SPEI-'', ''SWIFT-'']
     in \<lparr>mt_transactionRef = map ref_char (take 16 (pi_endToEndId (c_pmtId c))),
       mt_bankOperationCode = ''CRED'', mt_valueDate = take 10 (c_created_at c),
       mt_currency = am_currency (c_amount c), mt_amount = am_value (c_amount c),
       mt_orderingCustomer = \<lparr>mp_account = Some (strip_prefixes pre dacc), mp_iban = None,
         mp_name = map_option (take 35) (pt_name (c_debtor c)), mp_address = Some (address_lines (c_debtor c)),
         mp_bic = ag_bic (c_origin c)\<rparr>,
       mt_orderingInstitution = nonempty (ag_bic (c_origin c)),
       mt_accountWithInstitution = nonempty (ag_bic (c_destination c)),
       mt_beneficiaryCustomer = \<lparr>mp_account = (if ib then None else Some (strip_prefixes pre cacc)),
         mp_iban = (if ib then Some cacc else None),
         mp_name = map_option (take 35) (pt_name (c_creditor c)), mp_address = Some (address_lines (c_creditor c)),
         mp_bic = None\<rparr>,
       mt_remittanceInfo = Some (buildRemittanceInfo c), mt_detailsOfCharges = Some ''SHA'',
       mt_senderToReceiverInfo = Some (''/MIPIT/'' @ c_payment_id c), mt_rawMessage = None\<rparr>)"

section \<open>Writing the text\<close>

fun chunks :: "nat \<Rightarrow> nat \<Rightarrow> string \<Rightarrow> string list" where
  "chunks 0 n s = []"
| "chunks (Suc k) n s = (if s = [] then [] else take n s # chunks k n (drop n s))"

abbreviation "newline \<equiv> char_of (10::nat)"

definition splitRemittance :: "string \<Rightarrow> string" where
  "splitRemittance info = join [newline] (chunks 4 35 info)"

definition line :: "string \<Rightarrow> string" where
  "line s = s @ [newline]"

definition customer_lines :: "nat \<Rightarrow> mt_customer \<Rightarrow> string" where
  "customer_lines n c =
     (if str_or (mp_account c) [] \<noteq> [] then line (''/'' @ str_or (mp_account c) []) else []) @
     (if str_or (mp_name c) [] \<noteq> [] then line (take 35 (str_or (mp_name c) [])) else []) @
     (case mp_address c of None \<Rightarrow> [] | Some ls \<Rightarrow> concat (map (\<lambda>l. line (take 35 l)) (take n ls)))"

definition field32A :: "mt103 \<Rightarrow> string" where
  "field32A m = drop 2 (filter (\<lambda>c. c \<noteq> CHR ''-'') (mt_valueDate m)) @ mt_currency m @
     replace_first (CHR ''.'') (CHR '','') (toFixed2 (mt_amount m))"

definition field59 :: "mt103 \<Rightarrow> string" where
  "field59 m = (let b = mt_beneficiaryCustomer m in
     if str_or (mp_iban b) [] \<noteq> []
     then '':59A:/'' @ str_or (mp_iban b) [] @ [newline] @ take 35 (case mp_name b of Some n \<Rightarrow> n | None \<Rightarrow> [])
     else '':59:'' @ customer_lines 2 b)"

definition mt_fields :: "mt103 \<Rightarrow> string list" where
  "mt_fields m =
    ['':20:'' @ take 16 (mt_transactionRef m), '':23B:'' @ mt_bankOperationCode m, '':32A:'' @ field32A m,
     trim ('':50K:'' @ customer_lines 3 (mt_orderingCustomer m)),
     (if str_or (mt_accountWithInstitution m) [] \<noteq> [] then '':57A:'' @ str_or (mt_accountWithInstitution m) [] else []),
     trim (field59 m),
     (if str_or (mt_remittanceInfo m) [] \<noteq> [] then '':70:'' @ splitRemittance (str_or (mt_remittanceInfo m) []) else []),
     (if str_or (mt_detailsOfCharges m) [] \<noteq> [] then '':71A:'' @ str_or (mt_detailsOfCharges m) [] else '':71A:SHA''),
     (if str_or (mt_senderToReceiverInfo m) [] \<noteq> [] then '':72:'' @ take 35 (str_or (mt_senderToReceiverInfo m) []) else [])]"

definition serializeMt103 :: "mt103 \<Rightarrow> string" where
  "serializeMt103 m = ''{1:F01MIPITSIMMXXX0000000000}{2:I103MIPITSIMMXXXN}{4:'' @ [newline] @
     join [newline] (filter (\<lambda>f. f \<noteq> []) (mt_fields m)) @ [newline] @ ''-}''"

lemma swift_quiet [io_frame]: "io_keeps quiet (swiftMt103ToCanonical p pid trace)"
  unfolding swiftMt103ToCanonical_def parseMt103_def Let_def
  by (auto intro!: io_frame split: jsval.split)

end
