(* ===== verification/Iso20022.thy ===== *)
theory Iso20022
  imports Mt103
begin

text \<open>
  ISO 20022 MX and FedNow, the two rails whose messages are pacs.008 objects:
  \<open>src/translation/iso20022-mx-to-canonical.ts\<close>, \<open>canonical-to-iso20022-mx.ts\<close>,
  \<open>fednow-to-canonical.ts\<close> and \<open>canonical-to-fednow.ts\<close>.
\<close>

section \<open>Reading ISO 20022\<close>

text \<open>\<open>v?.k.j?.\<dots>\<close>: nothing after an absent first step is evaluated.\<close>

definition opt_step :: "jsval \<Rightarrow> (jsval \<Rightarrow> js_error + jsval) \<Rightarrow> js_error + jsval" where
  "opt_step v f = (if is_nullish v then Inr JUndef else f v)"

definition iso_account :: "jsval \<Rightarrow> string \<Rightarrow> js_error + (jsval \<times> jsval)" where
  "iso_account txn k = bindr (get_path txn [k, ''Id'', ''IBAN'']) (\<lambda>ib.
     bindr (get_path txn [k, ''Id'', ''Othr'']) (\<lambda>ot.
     Inr (ib, first_nonnull [ib, opt_prop ot ''Id''] (JStr ''UNKNOWN''))))"

definition iso_agent :: "jsval \<Rightarrow> string \<Rightarrow> js_error + (jsval \<times> jsval)" where
  "iso_agent txn k = bindr (get_prop txn k) (\<lambda>ag.
     bindr (opt_step ag (\<lambda>a. get_path a [''FinInstnId'', ''BICFI''])) (\<lambda>bic.
     bindr (opt_step ag (\<lambda>a. bindr (get_path a [''FinInstnId'', ''ClrSysMmbId'']) (\<lambda>m. Inr (opt_prop m ''MmbId'')))) (\<lambda>rtn.
     Inr (bic, rtn))))"

definition iso_party :: "jsval \<Rightarrow> string \<Rightarrow> jsval \<Rightarrow> js_error + (string \<times> jsval) list" where
  "iso_party txn k account = bindr (get_path txn [k, ''Nm'']) (\<lambda>nm.
     bindr (opt_map_string (take 140) nm) (\<lambda>name.
     bindr (get_path txn [k, ''PstlAdr'']) (\<lambda>ad.
     bindr (opt_slice 4 (opt_prop ad ''AdrLine'')) (\<lambda>adr.
     Inr [(''name'', name), (''country'', opt_prop ad ''Ctry''), (''account_id'', account), (''address'', adr)]))))"

definition iso_amount_of :: "jsval \<Rightarrow> js_error + jsval" where
  "iso_amount_of ia = (if truthy ia then bindr (get_prop ia ''value'') (\<lambda>v. Inr (JNum (parseFloat_val v))) else Inr JUndef)"

definition iso_fx :: "jsval \<Rightarrow> jsval \<Rightarrow> string \<Rightarrow> js_error + jsval" where
  "iso_fx xr ia cur = (if truthy xr then bindr (iso_amount_of ia) (\<lambda>la.
     Inr (JObj [(''rate'', JNum (parseFloat_val xr)), (''source_currency'', nullish (opt_prop ia ''Ccy'') (JStr cur)),
       (''local_amount'', la)])) else Inr JUndef)"

definition iso_message :: "jsval \<Rightarrow> js_error + jsval" where
  "iso_message p = bindr (get_prop p ''Document'') (\<lambda>doc. Inr (nullish (opt_prop doc ''FIToFICstmrCdtTrf'') p))"

definition iso_raw :: "jsval \<Rightarrow> string \<Rightarrow> string option \<Rightarrow> string \<Rightarrow> jsval \<Rightarrow> js_error + jsval" where
  "iso_raw msg pid trace now msgId =
     bindr (get_prop msg ''GrpHdr'') (\<lambda>grp. bindr (get_prop msg ''CdtTrfTxInf'') (\<lambda>txn.
     bindr (get_path txn [''IntrBkSttlmAmt'', ''value'']) (\<lambda>val.
     bindr (get_path txn [''IntrBkSttlmAmt'', ''Ccy'']) (\<lambda>cc. bindr (as_string cc) (\<lambda>ccs.
     bindr (iso_account txn ''DbtrAcct'') (\<lambda>(_, debtorAccountId).
     bindr (iso_account txn ''CdtrAcct'') (\<lambda>(creditorIban, creditorAccountId).
     bindr (iso_agent txn ''DbtrAgt'') (\<lambda>(dbic, drtn).
     bindr (iso_agent txn ''CdtrAgt'') (\<lambda>(cbic, crtn).
     bindr (get_prop txn ''XchgRate'') (\<lambda>xr. bindr (get_prop txn ''InstdAmt'') (\<lambda>ia.
     bindr (iso_fx xr ia (toUpperCase ccs)) (\<lambda>fx.
     bindr (get_prop txn ''RmtInf'') (\<lambda>ri.
     bindr (opt_map_string (take 140)
       (nullish (opt_prop ri ''Ustrd'') (opt_path ri [''Strd'', ''0'', ''CdtrRefInf'', ''Ref'']))) (\<lambda>remit.
     bindr (get_prop txn ''Purp'') (\<lambda>pu.
     bindr (as_string (first_nonnull [opt_prop pu ''Cd'', opt_prop pu ''Prtry''] (JStr ''P2P''))) (\<lambda>purpose.
     bindr (get_prop grp ''CreDtTm'') (\<lambda>cdt. bindr (get_prop grp ''NbOfTxs'') (\<lambda>nb. bindr (get_prop grp ''SttlmInf'') (\<lambda>si.
     bindr (get_path txn [''PmtId'', ''EndToEndId'']) (\<lambda>e2e. bindr (as_string e2e) (\<lambda>e2es.
     bindr (get_path txn [''PmtId'', ''InstrId'']) (\<lambda>ii. bindr (opt_map_string (take 35) ii) (\<lambda>instr.
     bindr (get_path txn [''PmtId'', ''TxId'']) (\<lambda>ti. bindr (opt_map_string (take 35) ti) (\<lambda>tx.
     bindr (iso_amount_of ia) (\<lambda>instd.
     bindr (opt_map_string toUpperCase (opt_prop ia ''Ccy'')) (\<lambda>instdCcy.
     bindr (iso_party txn ''Dbtr'' debtorAccountId) (\<lambda>debtor.
     bindr (iso_party txn ''Cdtr'' creditorAccountId) (\<lambda>creditor.
     Inr (JObj
      [(''payment_id'', JStr pid), (''created_at'', JStr now),
       (''grpHdr'', JObj [(''msgId'', msgId), (''creDtTm'', nullish cdt (JStr now)),
          (''nbOfTxs'', JNum (parseInt10 (to_string (nullish nb (JStr ''1''))))),
          (''sttlmInf'', JObj [(''sttlmMtd'', nullish (opt_prop si ''SttlmMtd'') (JStr ''CLRG''))])]),
       (''pmtId'', JObj [(''endToEndId'', JStr (take 35 e2es)), (''instrId'', instr), (''txId'', tx)]),
       (''amount'', JObj [(''value'', JNum (parseFloat_val val)), (''currency'', JStr (toUpperCase ccs)),
          (''instdAmt'', instd), (''instdAmtCcy'', instdCcy)]),
       (''fx'', fx),
       (''origin'', JObj [(''rail'', JStr ''ISO20022_MX''), (''bic'', dbic), (''routingNumber'', drtn)]),
       (''destination'', JObj [(''rail'', JUndef), (''bic'', cbic), (''routingNumber'', crtn)]),
       (''debtor'', JObj debtor), (''creditor'', JObj creditor),
       (''alias'', JObj [(''type'', JStr (if truthy creditorIban then ''IBAN'' else ''ACCOUNT'')), (''value'', creditorAccountId)]),
       (''purpose'', JStr (take 35 purpose)), (''reference'', e2e), (''remittanceInfo'', remit),
       (''status'', JStr ''RECEIVED''), (''trace_id'', js_opt trace)]))))))))))))))))))))))))))))))"

definition iso20022MxToCanonical :: "jsval \<Rightarrow> string \<Rightarrow> string option \<Rightarrow> canonical io" where
  "iso20022MxToCanonical p pid trace = io_try
     (io_bind (io_result (iso_message p)) (\<lambda>msg. io_bind now_iso (\<lambda>now.
      io_bind (io_result (get_path msg [''GrpHdr'', ''MsgId''])) (\<lambda>mid.
      io_bind (fresh_if_nullish ''MSG-'' mid) (\<lambda>msgId.
      io_bind (io_result (iso_raw msg pid trace now msgId)) (\<lambda>raw.
      parse_canonical ''ISO20022_MX'' ''Invalid canonical output from ISO 20022 translation'' raw))))))
     (rethrow_as_translation ''ISO20022_MX'' ''Unexpected error during ISO 20022 translation'')"

section \<open>Writing ISO 20022\<close>

definition buildAgent :: "string option \<Rightarrow> string option \<Rightarrow> jsval" where
  "buildAgent bic rtn = (if nonempty bic = None \<and> nonempty rtn = None then JUndef
     else JObj [(''FinInstnId'', JObj [(''BICFI'', js_opt bic),
       (''ClrSysMmbId'', case nonempty rtn of None \<Rightarrow> JUndef
          | Some r \<Rightarrow> JObj [(''ClrSysId'', JObj [(''Cd'', JStr ''USABA'')]), (''MmbId'', JStr r)])])])"

definition js_lines :: "string list option \<Rightarrow> jsval" where
  "js_lines v = (case v of None \<Rightarrow> JUndef | Some ls \<Rightarrow> JArr (map JStr (take 4 ls)))"

definition buildParty :: "party \<Rightarrow> jsval" where
  "buildParty p = JObj
    [(''Nm'', js_opt (map_option (take 140) (pt_name p))),
     (''PstlAdr'', if nonempty (pt_country p) \<noteq> None \<or> pt_address p \<noteq> None
        then JObj [(''Ctry'', js_opt (pt_country p)), (''AdrLine'', js_lines (pt_address p))] else JUndef),
     (''Id'', case nonempty (pt_taxId p) of None \<Rightarrow> JUndef
        | Some t \<Rightarrow> JObj [(''PrvtId'', JObj [(''Othr'', JObj [(''Id'', JStr (take 35 (filter is_digit t)))])])])]"

definition mapAliasTypeToScheme :: "alias_type option \<Rightarrow> string option" where
  "mapAliasTypeToScheme t = (case t of Some PIX_KEY \<Rightarrow> Some ''BBAN'' | Some CLABE \<Rightarrow> Some ''BBAN''
     | Some ABA_ROUTING \<Rightarrow> Some ''ABA'' | Some BIC \<Rightarrow> Some ''BIC'' | _ \<Rightarrow> None)"

definition buildAccount :: "string \<Rightarrow> alias_type option \<Rightarrow> string option \<Rightarrow> jsval" where
  "buildAccount acc t v =
    (let clean = strip_prefixes [''PIX-'', ''SPEI-'', ''SWIFT-''] acc;
         i = (case v of Some a \<Rightarrow> a | None \<Rightarrow> clean)
     in if t = Some IBAN \<or> rx_full rx_iban_account clean then JObj [(''Id'', JObj [(''IBAN'', JStr i)])]
        else JObj [(''Id'', JObj [(''Othr'', JObj [(''Id'', JStr i),
          (''SchmeNm'', case mapAliasTypeToScheme t of Some s \<Rightarrow> JObj [(''Cd'', JStr s)]
             | None \<Rightarrow> JObj [(''Prtry'', JStr (case t of Some a \<Rightarrow> alias_code a | None \<Rightarrow> ''ACCOUNT''))])])])])"

definition buildRemittance :: "canonical \<Rightarrow> jsval" where
  "buildRemittance c =
    (let u = (case c_remittanceInfo c of Some r \<Rightarrow> r
       | None \<Rightarrow> if c_reference c \<noteq> ''MIPIT-POC'' then c_reference c else [])
     in if u = [] then JUndef else JObj [(''Ustrd'', JStr (take 140 u))])"

definition bic_agent :: "string option \<Rightarrow> jsval" where
  "bic_agent b = (case nonempty b of None \<Rightarrow> JUndef
     | Some s \<Rightarrow> JObj [(''FinInstnId'', JObj [(''BICFI'', JStr s)])])"

definition canonicalToIso20022Mx :: "canonical \<Rightarrow> jsval" where
  "canonicalToIso20022Mx c = JObj
    [(''GrpHdr'', JObj
      [(''MsgId'', JStr (gh_msgId (c_grpHdr c))), (''CreDtTm'', JStr (gh_creDtTm (c_grpHdr c))), (''NbOfTxs'', JStr ''1''),
       (''SttlmInf'', JObj [(''SttlmMtd'', JStr (case gh_sttlmMtd (c_grpHdr c) of Some m \<Rightarrow> settlement_code m | None \<Rightarrow> ''CLRG''))]),
       (''InstgAgt'', bic_agent (ag_bic (c_origin c))), (''InstdAgt'', bic_agent (ag_bic (c_destination c)))]),
     (''CdtTrfTxInf'', JObj
      [(''PmtId'', JObj [(''InstrId'', js_opt (pi_instrId (c_pmtId c))), (''EndToEndId'', JStr (pi_endToEndId (c_pmtId c))),
          (''TxId'', js_opt (pi_txId (c_pmtId c)))]),
       (''IntrBkSttlmAmt'', JObj [(''Ccy'', JStr (am_currency (c_amount c))), (''value'', JStr (toFixed2 (am_value (c_amount c))))]),
       (''InstdAmt'', case am_instdAmt (c_amount c) of
          Some a \<Rightarrow> if num_truthy a then JObj [(''Ccy'', JStr (case am_instdAmtCcy (c_amount c) of
              Some x \<Rightarrow> x | None \<Rightarrow> am_currency (c_amount c))), (''value'', JStr (toFixed2 a))] else JUndef
        | None \<Rightarrow> JUndef),
       (''IntrBkSttlmDt'', JStr (take 10 (c_created_at c))),
       (''XchgRate'', case c_fx c of None \<Rightarrow> JUndef | Some f \<Rightarrow> (case fx_rate f of None \<Rightarrow> JUndef
          | Some r \<Rightarrow> if num_truthy r then JStr (num_to_string r) else JUndef)),
       (''DbtrAgt'', buildAgent (ag_bic (c_origin c)) (ag_routingNumber (c_origin c))),
       (''Dbtr'', buildParty (c_debtor c)),
       (''DbtrAcct'', buildAccount (pt_account_id (c_debtor c))
          (if al_type (c_alias c) = IBAN then None else Some (al_type (c_alias c))) None),
       (''CdtrAgt'', buildAgent (ag_bic (c_destination c)) (ag_routingNumber (c_destination c))),
       (''Cdtr'', buildParty (c_creditor c)),
       (''CdtrAcct'', buildAccount (pt_account_id (c_creditor c)) (Some (al_type (c_alias c))) (Some (al_value (c_alias c)))),
       (''Purp'', JObj [(''Cd'', JStr (take 4 (c_purpose c)))]),
       (''RmtInf'', buildRemittance c)])]"

definition wrapInDocument :: "jsval \<Rightarrow> jsval" where
  "wrapInDocument msg = JObj [(''Document'', JObj
     [(''@xmlns'', JStr ''urn:iso:std:iso:20022:tech:xsd:pacs.008.001.08''), (''FIToFICstmrCdtTrf'', msg)])]"

section \<open>FedNow\<close>

definition fednow_party :: "jsval \<Rightarrow> string \<Rightarrow> string \<Rightarrow> js_error + (string \<times> jsval) list" where
  "fednow_party txn k account = bindr (get_path txn [k, ''Nm'']) (\<lambda>nm.
     bindr (opt_map_string (take 140) nm) (\<lambda>name.
     bindr (get_path txn [k, ''PstlAdr'']) (\<lambda>ad.
     bindr (opt_slice 4 (opt_prop ad ''AdrLine'')) (\<lambda>adr.
     Inr [(''name'', name), (''country'', nullish (opt_prop ad ''Ctry'') (JStr ''US'')),
       (''account_id'', JStr account), (''address'', adr)]))))"

definition fednow_raw :: "jsval \<Rightarrow> string \<Rightarrow> string option \<Rightarrow> string \<Rightarrow> jsval \<Rightarrow> js_error + jsval" where
  "fednow_raw cdt pid trace now msgId =
     bindr (get_prop cdt ''GrpHdr'') (\<lambda>grp. bindr (get_prop cdt ''CdtTrfTxInf'') (\<lambda>txn.
     bindr (get_path txn [''IntrBkSttlmAmt'', ''value'']) (\<lambda>val.
     bindr (get_path txn [''DbtrAgt'', ''FinInstnId'', ''ClrSysMmbId'', ''MmbId'']) (\<lambda>drtn.
     bindr (get_path txn [''CdtrAgt'', ''FinInstnId'', ''ClrSysMmbId'', ''MmbId'']) (\<lambda>crtn.
     bindr (get_path txn [''DbtrAcct'', ''Id'', ''Othr'', ''Id'']) (\<lambda>dacc.
     bindr (get_path txn [''CdtrAcct'', ''Id'', ''Othr'', ''Id'']) (\<lambda>cacc.
     bindr (get_path txn [''PmtId'', ''UETR'']) (\<lambda>uetr.
     bindr (get_prop grp ''CreDtTm'') (\<lambda>cre.
     bindr (get_path txn [''PmtId'', ''EndToEndId'']) (\<lambda>e2e. bindr (as_string e2e) (\<lambda>e2es.
     bindr (get_path txn [''PmtId'', ''TxId'']) (\<lambda>ti. bindr (opt_map_string (take 35) ti) (\<lambda>tx.
     bindr (opt_map_string (take 35) uetr) (\<lambda>instr.
     bindr (fednow_party txn ''Dbtr'' (to_string drtn @ ''/'' @ to_string dacc)) (\<lambda>debtor.
     bindr (fednow_party txn ''Cdtr'' (to_string crtn @ ''/'' @ to_string cacc)) (\<lambda>creditor.
     bindr (get_prop txn ''Purp'') (\<lambda>pu. bindr (opt_map_string (take 35) (opt_prop pu ''Cd'')) (\<lambda>purpose.
     bindr (get_prop txn ''RmtInf'') (\<lambda>ri. bindr (opt_map_string (take 140) (opt_prop ri ''Ustrd'')) (\<lambda>remit.
     Inr (JObj
      [(''payment_id'', JStr pid), (''created_at'', JStr now),
       (''grpHdr'', JObj [(''msgId'', msgId), (''creDtTm'', nullish cre (JStr now)), (''nbOfTxs'', JNum (Fin 1)),
          (''sttlmInf'', JObj [(''sttlmMtd'', JStr ''CLRG'')])]),
       (''pmtId'', JObj [(''endToEndId'', JStr (take 35 e2es)), (''txId'', tx), (''instrId'', instr)]),
       (''amount'', JObj [(''value'', JNum (parseFloat_val val)), (''currency'', JStr ''USD'')]),
       (''origin'', JObj [(''rail'', JStr ''FEDNOW''), (''routingNumber'', drtn), (''bic'', JUndef)]),
       (''destination'', JObj [(''rail'', JUndef), (''routingNumber'', crtn), (''bic'', JUndef)]),
       (''debtor'', JObj debtor), (''creditor'', JObj creditor),
       (''alias'', JObj [(''type'', JStr ''ABA_ROUTING''), (''value'', JStr (to_string crtn @ ''/'' @ to_string cacc))]),
       (''purpose'', nullish purpose (JStr ''P2P'')), (''reference'', e2e), (''remittanceInfo'', remit),
       (''status'', JStr ''RECEIVED''), (''trace_id'', case trace of Some t \<Rightarrow> JStr t | None \<Rightarrow> uetr)])))))))))))))))))))))"

definition fednowToCanonical :: "jsval \<Rightarrow> string \<Rightarrow> string option \<Rightarrow> canonical io" where
  "fednowToCanonical p pid trace = io_try
     (io_bind (io_result (get_prop p ''FIToFICstmrCdtTrf'')) (\<lambda>cdt. io_bind now_iso (\<lambda>now.
      io_bind (io_result (get_path cdt [''GrpHdr'', ''MsgId''])) (\<lambda>mid.
      io_bind (fresh_if_nullish ''MSG-'' mid) (\<lambda>msgId.
      io_bind (io_result (fednow_raw cdt pid trace now msgId)) (\<lambda>raw.
      parse_canonical ''FEDNOW'' ''Invalid canonical output from FedNow translation'' raw))))))
     (rethrow_as_translation ''FEDNOW'' ''Unexpected error during FedNow translation'')"

definition extractRtnAndAccount :: "string \<Rightarrow> string \<Rightarrow> string \<Rightarrow> string \<times> string" where
  "extractRtnAndAccount alias_value default_rtn fallback =
    (let clean = strip_prefixes [''PIX-'', ''SPEI-''] alias_value in
     if rx_prefix (Seq (rx_times rx_digit 9) (rx_chr (CHR ''/''))) clean then
       (let parts = split_on (CHR ''/'') clean in
        (hd parts, strip_prefixes [''PIX-'', ''SPEI-''] (join ''/'' (tl parts))))
     else (default_rtn, strip_prefixes [''PIX-'', ''SPEI-''] fallback))"

definition hex_digit :: "int \<Rightarrow> char" where
  "hex_digit n = (if n < 10 then digit_char n else char_of (87 + n))"

text \<open>\<open>(Math.random() * 16) | 0\<close>\<close>

definition random16 :: "jsnum \<Rightarrow> int" where
  "random16 r = (case num_mul r (Fin 16) of Fin x \<Rightarrow> \<lfloor>x\<rfloor> mod 16 | _ \<Rightarrow> 0)"

primrec uetr_from :: "string \<Rightarrow> string io" where
  "uetr_from [] = io_return []"
| "uetr_from (c # s) =
     (if c = CHR ''x'' \<or> c = CHR ''y'' then
        io_bind math_random (\<lambda>r. io_bind (uetr_from s) (\<lambda>t.
          io_return (hex_digit (if c = CHR ''x'' then random16 r else random16 r mod 4 + 8) # t)))
      else io_bind (uetr_from s) (\<lambda>t. io_return (c # t)))"

definition generateUetr :: "string io" where
  "generateUetr = uetr_from ''xxxxxxxx-xxxx-4xxx-yxxx-xxxxxxxxxxxx''"

definition replace_str :: "string \<Rightarrow> string \<Rightarrow> string \<Rightarrow> string" where
  "replace_str p q s = (case split_first (\<lambda>t. startsWith t p) s of
     Some (a, r) \<Rightarrow> a @ q @ drop (length p) r | None \<Rightarrow> s)"

text \<open>The amount labelled as US dollars.\<close>

definition fednow_amount :: "canonical \<Rightarrow> jsnum" where
  "fednow_amount c = (if am_currency (c_amount c) = ''USD'' then am_value (c_amount c)
     else case c_fx c of
       Some f \<Rightarrow> (case fx_local_amount f of Some a \<Rightarrow> a
          | None \<Rightarrow> num_mul (am_value (c_amount c)) (case fx_rate f of Some r \<Rightarrow> r | None \<Rightarrow> Fin 1))
     | None \<Rightarrow> num_mul (am_value (c_amount c)) (Fin 1))"

definition fednow_agent_js :: "string \<Rightarrow> jsval" where
  "fednow_agent_js rtn = JObj [(''FinInstnId'', JObj [(''ClrSysMmbId'',
     JObj [(''ClrSysId'', JObj [(''Cd'', JStr ''USABA'')]), (''MmbId'', JStr rtn)])])]"

definition fednow_party_js :: "party \<Rightarrow> jsval" where
  "fednow_party_js p = JObj [(''Nm'', js_opt (map_option (take 140) (pt_name p))),
     (''PstlAdr'', JObj [(''Ctry'', JStr (case pt_country p of Some s \<Rightarrow> s | None \<Rightarrow> ''US'')),
        (''AdrLine'', js_lines (pt_address p))])]"

definition fednow_account_js :: "string \<Rightarrow> jsval" where
  "fednow_account_js acc = JObj [(''Id'', JObj [(''Othr'', JObj [(''Id'', JStr (take 34 acc)),
     (''SchmeNm'', JObj [(''Cd'', JStr ''BBAN'')])])]), (''Tp'', JObj [(''Cd'', JStr ''CACC'')])]"

definition fednow_header_party :: "string \<Rightarrow> jsval" where
  "fednow_header_party rtn = JObj [(''FIId'', JObj [(''FinInstnId'', JObj [(''ClrSysMmbId'',
     JObj [(''MmbId'', JStr rtn)])])])]"

definition fednow_message :: "canonical \<Rightarrow> string \<Rightarrow> string \<Rightarrow> jsval" where
  "fednow_message c now uetr =
    (let (crtn, cacc) = extractRtnAndAccount (al_value (c_alias c))
           (case ag_routingNumber (c_destination c) of Some r \<Rightarrow> r | None \<Rightarrow> ''021000021'') (pt_account_id (c_creditor c));
         (drtn, dacc) = extractRtnAndAccount (pt_account_id (c_debtor c))
           (case ag_routingNumber (c_origin c) of Some r \<Rightarrow> r | None \<Rightarrow> ''021000021'') (pt_account_id (c_debtor c))
     in JObj
      [(''BusinessMessageHeader'', JObj [(''Fr'', fednow_header_party drtn), (''To'', fednow_header_party crtn),
          (''BizMsgIdr'', JStr (take 35 (replace_str ''PMT-'' ''BIZ-'' (c_payment_id c)))),
          (''MsgDefIdr'', JStr ''pacs.008.001.08''), (''BizSvc'', JStr ''fednow''), (''CreDt'', JStr now)]),
       (''FIToFICstmrCdtTrf'', JObj
        [(''GrpHdr'', JObj [(''MsgId'', JStr (gh_msgId (c_grpHdr c))), (''CreDtTm'', JStr now), (''NbOfTxs'', JStr ''1''),
            (''SttlmInf'', JObj [(''SttlmMtd'', JStr ''CLRG''), (''ClrSys'', JObj [(''Cd'', JStr ''USABA'')])])]),
         (''CdtTrfTxInf'', JObj
          [(''PmtId'', JObj [(''EndToEndId'', JStr (take 35 (pi_endToEndId (c_pmtId c)))),
              (''TxId'', js_opt (pi_txId (c_pmtId c))), (''UETR'', JStr uetr)]),
           (''IntrBkSttlmAmt'', JObj [(''Ccy'', JStr ''USD''), (''value'', JStr (toFixed2 (fednow_amount c)))]),
           (''IntrBkSttlmDt'', JStr (take 10 (c_created_at c))),
           (''DbtrAgt'', fednow_agent_js drtn), (''Dbtr'', fednow_party_js (c_debtor c)), (''DbtrAcct'', fednow_account_js dacc),
           (''CdtrAgt'', fednow_agent_js crtn), (''Cdtr'', fednow_party_js (c_creditor c)), (''CdtrAcct'', fednow_account_js cacc),
           (''Purp'', JObj [(''Cd'', JStr (take 4 (c_purpose c)))]),
           (''RmtInf'', case nonempty (c_remittanceInfo c) of Some r \<Rightarrow> JObj [(''Ustrd'', JStr (take 140 r))] | None \<Rightarrow> JUndef),
           (''LclInstrm'', JObj [(''Prtry'', JStr ''INST'')])])])])"

definition canonicalToFednow :: "canonical \<Rightarrow> jsval io" where
  "canonicalToFednow c = io_bind now_iso (\<lambda>now. io_bind generateUetr (\<lambda>uetr.
     io_return (fednow_message c now uetr)))"

section \<open>Scope\<close>

lemma uetr_quiet [io_frame]: "io_keeps quiet (uetr_from s)"
  by (induction s) (auto intro!: io_frame)

lemma iso_fednow_quiet [io_frame]:
  "io_keeps quiet (iso20022MxToCanonical p pid trace)"
  "io_keeps quiet (fednowToCanonical p pid trace)"
  "io_keeps quiet (canonicalToFednow c)"
  unfolding iso20022MxToCanonical_def fednowToCanonical_def canonicalToFednow_def fresh_if_nullish_def generateUetr_def
  by (intro io_frame)+

end
