(* ===== verification/AchNacha.thy ===== *)
theory AchNacha
  imports Iso20022
begin

text \<open>
  ACH NACHA: \<open>src/translation/ach-nacha-to-canonical.ts\<close> and \<open>canonical-to-ach-nacha.ts\<close>, the
  structured transaction, both translations and the fixed-width file. The lemmas bound the
  width of every record; the theorems say that a file made from a canonical message consists
  of whole blocks of ten records of 94 characters, and where the cents stand in it.
\<close>

section \<open>The structured transaction\<close>

record ach_entry =
  en_transactionCode :: int
  en_routingTransitNumber :: string
  en_accountNumber :: string
  en_amount :: jsnum
  en_individualIdNumber :: "string option"
  en_individualName :: string
  en_discretionaryData :: "string option"
  en_addendaRecordIndicator :: string
  en_traceNumber :: "string option"

record ach_batch =
  ba_serviceClassCode :: string
  ba_companyName :: string
  ba_companyId :: string
  ba_secCode :: string
  ba_companyEntryDescription :: string
  ba_companyDescriptiveDate :: "string option"
  ba_effectiveEntryDate :: string
  ba_originatingDfiId :: string
  ba_batchNumber :: string

record ach_addenda =
  ad_addendaTypeCode :: string
  ad_paymentRelatedInfo :: string
  ad_addendaSequence :: string
  ad_traceNumber :: string

record ach_txn =
  ach_batchHeader :: ach_batch
  ach_entryDetail :: ach_entry
  ach_addendas :: "ach_addenda list option"
  ach_odfi_name :: string
  ach_odfi_routing :: string
  ach_odfi_country :: string
  ach_orig_name :: string
  ach_orig_account :: string
  ach_orig_routing :: string
  ach_orig_taxId :: "string option"

definition addenda_js :: "ach_addenda \<Rightarrow> jsval" where
  "addenda_js a = JObj [(''recordType'', JStr ''7''), (''addendaTypeCode'', JStr (ad_addendaTypeCode a)),
     (''paymentRelatedInfo'', JStr (ad_paymentRelatedInfo a)), (''addendaSequence'', JStr (ad_addendaSequence a)),
     (''traceNumber'', JStr (ad_traceNumber a))]"

definition ach_js :: "ach_txn \<Rightarrow> jsval" where
  "ach_js t = (let b = ach_batchHeader t; n = ach_entryDetail t in JObj
    [(''batchHeader'', JObj ([(''recordType'', JStr ''5''), (''serviceClassCode'', JStr (ba_serviceClassCode b)),
        (''companyName'', JStr (ba_companyName b)), (''companyId'', JStr (ba_companyId b)),
        (''secCode'', JStr (ba_secCode b)), (''companyEntryDescription'', JStr (ba_companyEntryDescription b)),
        (''companyDescriptiveDate'', js_opt (ba_companyDescriptiveDate b)),
        (''effectiveEntryDate'', JStr (ba_effectiveEntryDate b)),
        (''originatingDfiId'', JStr (ba_originatingDfiId b)), (''batchNumber'', JStr (ba_batchNumber b))])),
     (''entryDetail'', JObj [(''recordType'', JStr ''6''), (''transactionCode'', JNum (Fin (of_int (en_transactionCode n)))),
        (''routingTransitNumber'', JStr (en_routingTransitNumber n)), (''accountNumber'', JStr (en_accountNumber n)),
        (''amount'', JNum (en_amount n)), (''individualIdNumber'', js_opt (en_individualIdNumber n)),
        (''individualName'', JStr (en_individualName n)), (''discretionaryData'', js_opt (en_discretionaryData n)),
        (''addendaRecordIndicator'', JStr (en_addendaRecordIndicator n)), (''traceNumber'', js_opt (en_traceNumber n))]),
     (''originator'', JObj [(''name'', JStr (ach_orig_name t)), (''accountNumber'', JStr (ach_orig_account t)),
        (''routingNumber'', JStr (ach_orig_routing t)), (''taxId'', js_opt (ach_orig_taxId t))]),
     (''odfi'', JObj [(''name'', JStr (ach_odfi_name t)), (''routingNumber'', JStr (ach_odfi_routing t)),
        (''countryCode'', JStr (ach_odfi_country t))]),
     (''addenda'', case ach_addendas t of Some ds \<Rightarrow> JArr (map addenda_js ds) | None \<Rightarrow> JUndef)])"

section \<open>To the canonical message\<close>

definition opt_text :: "jsval \<Rightarrow> (string \<Rightarrow> string) \<Rightarrow> js_error + string" where
  "opt_text v f = bindr (as_string v) (\<lambda>s. Inr (f s))"

text \<open>The trace number of the entry, or one drawn for it.\<close>

definition ach_trace :: "jsval \<Rightarrow> jsval \<Rightarrow> jsval io" where
  "ach_trace entry batch = io_bind (io_result (get_prop entry ''traceNumber'')) (\<lambda>t.
     if \<not> is_nullish t then io_return t
     else io_bind (io_result (get_prop batch ''originatingDfiId'')) (\<lambda>d. io_bind math_random (\<lambda>r.
       io_return (JStr (to_string d @
         padStart (num_to_string (Math_floor (num_mul r (Fin 99999999)))) 7 (CHR ''0''))))))"

definition ach_raw :: "jsval \<Rightarrow> jsval \<Rightarrow> jsval \<Rightarrow> string \<Rightarrow> string option \<Rightarrow> string \<Rightarrow> jsval \<Rightarrow> string \<Rightarrow> js_error + jsval" where
  "ach_raw txn entry batch pid trace now tn msg_ulid =
     bindr (get_prop entry ''amount'') (\<lambda>am. bindr (get_prop txn ''originator'') (\<lambda>og.
     bindr (opt_text tn (take 35)) (\<lambda>e2e.
     bindr (get_prop batch ''companyId'') (\<lambda>cid. bindr (get_prop batch ''batchNumber'') (\<lambda>bn.
     bindr (get_prop batch ''originatingDfiId'') (\<lambda>dfi. bindr (opt_text dfi (\<lambda>s. padEnd (take 9 s) 9 (CHR ''0''))) (\<lambda>ortn.
     bindr (get_prop entry ''routingTransitNumber'') (\<lambda>rt. bindr (opt_text rt (take 9)) (\<lambda>rtn.
     bindr (get_prop batch ''companyName'') (\<lambda>cn. bindr (opt_text (nullish (opt_prop og ''name'') cn) (take 140)) (\<lambda>dname.
     bindr (get_prop entry ''individualName'') (\<lambda>inm. bindr (opt_text inm (\<lambda>s. take 140 (trim s))) (\<lambda>cname.
     bindr (get_prop entry ''accountNumber'') (\<lambda>an. bindr (opt_text an trim) (\<lambda>acc.
     bindr (get_prop batch ''companyEntryDescription'') (\<lambda>ce. bindr (opt_text ce (\<lambda>s. take 35 (trim s))) (\<lambda>descr.
     bindr (opt_map_string (take 140) (opt_path txn [''addenda'', ''0'', ''paymentRelatedInfo''])) (\<lambda>remit.
     let cb = to_string cid @ ''-'' @ to_string bn in
     Inr (JObj
      [(''payment_id'', JStr pid), (''created_at'', JStr now),
       (''grpHdr'', JObj [(''msgId'', JStr (''MSG-'' @ msg_ulid)), (''creDtTm'', JStr now), (''nbOfTxs'', JNum (Fin 1))]),
       (''pmtId'', JObj [(''endToEndId'', JStr e2e), (''instrId'', JStr (take 35 cb))]),
       (''amount'', JObj [(''value'', JNum (num_div (Number_val am) (Fin 100))), (''currency'', JStr ''USD'')]),
       (''origin'', JObj [(''rail'', JStr ''ACH_NACHA''), (''routingNumber'', JStr ortn), (''bic'', JUndef)]),
       (''destination'', JObj [(''rail'', JUndef), (''routingNumber'', JStr rtn), (''bic'', JUndef)]),
       (''debtor'', JObj [(''name'', JStr dname), (''country'', JStr ''US''),
          (''account_id'', nullish (opt_prop og ''accountNumber'') cid), (''taxId'', opt_prop og ''taxId'')]),
       (''creditor'', JObj [(''name'', JStr cname), (''country'', JStr ''US''), (''account_id'', JStr acc)]),
       (''alias'', JObj [(''type'', JStr ''ABA_ROUTING''), (''value'', JStr (rtn @ ''/'' @ acc))]),
       (''purpose'', JStr (if descr = [] then ''P2P'' else descr)), (''reference'', JStr cb),
       (''remittanceInfo'', remit), (''status'', JStr ''RECEIVED''), (''trace_id'', js_opt trace)])))))))))))))))))))"

definition achNachaToCanonical :: "jsval \<Rightarrow> string \<Rightarrow> string option \<Rightarrow> canonical io" where
  "achNachaToCanonical txn pid trace = io_try
     (io_bind (io_result (get_prop txn ''entryDetail'')) (\<lambda>entry.
      io_bind (io_result (get_prop txn ''batchHeader'')) (\<lambda>batch.
      io_bind now_iso (\<lambda>now. io_bind (ach_trace entry batch) (\<lambda>tn. io_bind fresh_ulid (\<lambda>u.
      io_bind (io_result (ach_raw txn entry batch pid trace now tn u)) (\<lambda>raw.
      parse_canonical ''ACH_NACHA'' ''Invalid canonical output from ACH NACHA translation'' raw)))))))
     (rethrow_as_translation ''ACH_NACHA'' ''Unexpected error during ACH NACHA translation'')"

section \<open>From the canonical message\<close>

definition parseAbaAlias :: "string \<Rightarrow> string \<Rightarrow> string \<times> string" where
  "parseAbaAlias aliasValue fallbackAccount = (let parts = split_on (CHR ''/'') aliasValue in
     if 2 \<le> length parts \<and> rx_full (rx_times rx_digit 9) (hd parts)
     then (hd parts, strip_prefixes [''PIX-'', ''SPEI-''] (join ''/'' (tl parts)))
     else (''021000021'', strip_prefixes [''PIX-'', ''SPEI-''] fallbackAccount))"

definition buildAddendaPaymentInfo :: "canonical \<Rightarrow> string" where
  "buildAddendaPaymentInfo c = take 80 (join '' ''
    ((case nonempty (c_remittanceInfo c) of Some r \<Rightarrow> [r] | None \<Rightarrow> []) @
     (if c_reference c \<noteq> [] \<and> c_reference c \<noteq> ''MIPIT-POC'' then [''REF:'' @ c_reference c] else [])))"

definition or_default :: "string \<Rightarrow> string option \<Rightarrow> string" where
  "or_default d v = (case v of Some s \<Rightarrow> s | None \<Rightarrow> d)"

abbreviation spaces :: "nat \<Rightarrow> string" where
  "spaces n \<equiv> replicate n (CHR '' '')"

abbreviation pad_text :: "string \<Rightarrow> nat \<Rightarrow> string" where
  "pad_text s n \<equiv> padEnd s n (CHR '' '')"

definition yymmdd_of :: "string \<Rightarrow> string" where
  "yymmdd_of created = (let d = take 10 created in substring d 2 4 @ substring d 5 7 @ substring d 8 10)"

definition batch_number :: "string \<Rightarrow> string" where
  "batch_number pid = map (\<lambda>c. if is_digit c then c else CHR ''0'') (take 7 (replace_str ''PMT-'' [] pid))"

text \<open>The transaction, given the clock's value in milliseconds.\<close>

definition ach_transaction :: "int \<Rightarrow> canonical \<Rightarrow> ach_txn" where
  "ach_transaction now c =
    (let (crtn, cacc) = parseAbaAlias (al_value (c_alias c)) (pt_account_id (c_creditor c));
         (drtn, dacc) = parseAbaAlias (or_default ''000000000'' (ag_routingNumber (c_origin c)) @ ''/'' @
            strip_prefixes [''SPEI-'', ''PIX-''] (pt_account_id (c_debtor c))) (pt_account_id (c_debtor c));
         odfi = or_default drtn (ag_routingNumber (c_origin c));
         tn = take 8 odfi @ padStart (show_int (now mod 10000000)) 7 (CHR ''0'');
         ymd = yymmdd_of (c_created_at c)
     in \<lparr>ach_batchHeader = \<lparr>ba_serviceClassCode = ''220'',
           ba_companyName = pad_text (take 16 (or_default ''MIPIT'' (pt_name (c_debtor c)))) 16,
           ba_companyId = or_default ''1234567890'' (map_option (\<lambda>t. take 10 (filter is_digit t)) (pt_taxId (c_debtor c))),
           ba_secCode = (if nonempty (ag_routingNumber (c_destination c)) = None then ''PPD'' else ''CCD''),
           ba_companyEntryDescription = pad_text (take 10 (c_purpose c)) 10,
           ba_companyDescriptiveDate = Some ymd, ba_effectiveEntryDate = ymd,
           ba_originatingDfiId = take 8 odfi,
           ba_batchNumber = padStart (batch_number (c_payment_id c)) 7 (CHR ''0'')\<rparr>,
         ach_entryDetail = \<lparr>en_transactionCode = 22, en_routingTransitNumber = take 9 crtn,
           en_accountNumber = pad_text (take 17 cacc) 17,
           en_amount = Math_round (num_mul (am_value (c_amount c)) (Fin 100)),
           en_individualIdNumber = map_option (take 15) (pt_taxId (c_creditor c)),
           en_individualName = pad_text (take 22 (or_default ''BENEFICIARY'' (pt_name (c_creditor c)))) 22,
           en_discretionaryData = Some ''  '',
           en_addendaRecordIndicator = (if nonempty (c_remittanceInfo c) = None then ''0'' else ''1''),
           en_traceNumber = Some tn\<rparr>,
         ach_addendas = (if nonempty (c_remittanceInfo c) = None then None
           else Some [\<lparr>ad_addendaTypeCode = ''05'', ad_paymentRelatedInfo = buildAddendaPaymentInfo c,
             ad_addendaSequence = ''0001'', ad_traceNumber = tn\<rparr>]),
         ach_odfi_name = ''MIPIT FI'', ach_odfi_routing = odfi, ach_odfi_country = ''US'',
         ach_orig_name = or_default ''MIPIT'' (pt_name (c_debtor c)), ach_orig_account = dacc,
         ach_orig_routing = drtn, ach_orig_taxId = pt_taxId (c_debtor c)\<rparr>)"

definition canonicalToAchNacha :: "canonical \<Rightarrow> ach_txn io" where
  "canonicalToAchNacha c = io_bind date_now (\<lambda>now. io_return (ach_transaction now c))"

section \<open>The file\<close>

text \<open>The file's date and time, from the local time in milliseconds.\<close>

definition file_date :: "int \<Rightarrow> string" where
  "file_date t = (let d = t div ms_per_day; y = year_of_day d;
       (m, r) = month_split (month_lengths y) (d - day_from_year y)
     in drop 2 (show_int y) @ pad 2 (int m + 1) @ pad 2 (r + 1))"

definition file_time :: "int \<Rightarrow> string" where
  "file_time t = pad 2 (utc_hours t) @ pad 2 (utc_minutes t)"

definition zero_pad :: "nat \<Rightarrow> string \<Rightarrow> string" where
  "zero_pad n s = padStart s n (CHR ''0'')"

definition zeros :: "nat \<Rightarrow> string" where
  "zeros n = replicate n (CHR ''0'')"

definition nacha_file_header :: "int \<Rightarrow> ach_txn \<Rightarrow> string" where
  "nacha_file_header t x = take 94 (''101 '' @ take 9 (ach_odfi_routing x) @ '' '' @ take 10 (zeros 9) @
     file_date t @ file_time t @ ''A094101'' @ take 23 (pad_text ''MIPIT FI'' 23) @
     pad_text (take 23 ''MIPIT PoC ACH   '') 23 @ ''        1'')"

definition nacha_batch_header :: "ach_batch \<Rightarrow> string" where
  "nacha_batch_header b = take 94 (''5'' @ ba_serviceClassCode b @ take 16 (pad_text (ba_companyName b) 16) @
     spaces 20 @ take 10 (pad_text (ba_companyId b) 10) @ ba_secCode b @
     take 10 (pad_text (ba_companyEntryDescription b) 10) @
     or_default ''      '' (map_option (\<lambda>d. take 6 (pad_text d 6)) (ba_companyDescriptiveDate b)) @
     ba_effectiveEntryDate b @ ''   1'' @ take 8 (ba_originatingDfiId b) @ zero_pad 7 (ba_batchNumber b))"

definition nacha_entry :: "ach_entry \<Rightarrow> string" where
  "nacha_entry n = take 94 (''6'' @ show_int (en_transactionCode n) @ take 9 (en_routingTransitNumber n) @
     take 17 (pad_text (en_accountNumber n) 17) @ zero_pad 10 (num_to_string (en_amount n)) @
     take 15 (pad_text (or_default [] (en_individualIdNumber n)) 15) @ take 22 (pad_text (en_individualName n) 22) @
     or_default ''  '' (en_discretionaryData n) @ en_addendaRecordIndicator n @
     take 15 (or_default (zeros 15) (en_traceNumber n)))"

definition nacha_addenda :: "ach_addenda \<Rightarrow> string" where
  "nacha_addenda a = take 94 (''7'' @ ad_addendaTypeCode a @ take 80 (pad_text (ad_paymentRelatedInfo a) 80) @
     zero_pad 4 (ad_addendaSequence a) @ take 7 (ad_traceNumber a))"

definition nacha_hash :: "ach_entry \<Rightarrow> string" where
  "nacha_hash n = zero_pad 10 (take 8 (en_routingTransitNumber n))"

definition nacha_batch_control :: "ach_txn \<Rightarrow> nat \<Rightarrow> string" where
  "nacha_batch_control x k = (let b = ach_batchHeader x; n = ach_entryDetail x in
     take 94 (''8'' @ ba_serviceClassCode b @ zero_pad 6 (show_nat (int k)) @ nacha_hash n @
       zero_pad 12 (num_to_string (en_amount n)) @ zeros 12 @ spaces 39 @
       take 8 (ba_originatingDfiId b) @ zero_pad 7 (ba_batchNumber b)))"

definition nacha_file_control :: "ach_txn \<Rightarrow> nat \<Rightarrow> int \<Rightarrow> string" where
  "nacha_file_control x k blocks = (let n = ach_entryDetail x in
     take 94 (''9000001'' @ zero_pad 6 (show_nat blocks) @ zero_pad 8 (show_nat (int k)) @ nacha_hash n @
       zero_pad 12 (num_to_string (en_amount n)) @ zeros 12 @ spaces 39))"

text \<open>\<open>while (lines.length % 10 !== 0)\<close>\<close>

function pad_block :: "string list \<Rightarrow> string list" where
  "pad_block ls = (if length ls mod 10 = 0 then ls else pad_block (ls @ [replicate 94 (CHR ''9'')]))"
  by auto
termination by (relation "measure (\<lambda>ls. (10 - length ls mod 10) mod 10)") (auto simp: mod_Suc)

declare pad_block.simps [simp del]

text \<open>\<open>lines.length\<close> is read before the file control is pushed.\<close>

definition nacha_records :: "int \<Rightarrow> ach_txn \<Rightarrow> string list" where
  "nacha_records t x =
    (let ds = (case ach_addendas x of Some ds \<Rightarrow> ds | None \<Rightarrow> []); k = 1 + length ds;
         ls = [nacha_file_header t x, nacha_batch_header (ach_batchHeader x), nacha_entry (ach_entryDetail x)] @
           map nacha_addenda ds @ [nacha_batch_control x k];
         blocks = \<lceil>(of_nat (length ls) + 2) / (10 :: rat)\<rceil>
     in pad_block (ls @ [nacha_file_control x k blocks]))"

definition serializeAchNacha :: "int \<Rightarrow> ach_txn \<Rightarrow> string" where
  "serializeAchNacha t x = join [newline] (nacha_records t x)"

lemma ach_quiet [io_frame]:
  "io_keeps quiet (achNachaToCanonical p pid trace)"
  "io_keeps quiet (canonicalToAchNacha c)"
  unfolding achNachaToCanonical_def canonicalToAchNacha_def ach_trace_def by (intro io_frame)+

section \<open>Width of the records\<close>

lemma length_pad_field [simp]: "length (pad w n) = max w (length (show_nat n))"
  by (simp add: pad_def)

lemma length_zeros [simp]: "length (zeros n) = n"
  by (simp add: zeros_def)

lemma length_zero_pad [simp]: "length (zero_pad n s) = max n (length s)"
  by (simp add: zero_pad_def)

lemma file_date_length:
  assumes "0 \<le> t" shows "6 \<le> length (file_date t)"
proof -
  define d where "d = t div ms_per_day"
  have "0 \<le> d" using assms by (simp add: d_def ms_per_day_def pos_imp_zdiv_nonneg_iff)
  moreover have "day_from_year 1970 = 0" by (simp add: day_from_year_def)
  ultimately have "1970 \<le> year_of_day d"
    using year_of_day [of d] day_from_year_mono [of "year_of_day d + 1" 1970] by linarith
  then have "10 ^ 3 \<le> year_of_day d" by simp
  then have "3 < length (show_nat (year_of_day d))" by (rule length_show_nat_ge)
  then show ?thesis
    using \<open>1970 \<le> year_of_day d\<close>
    by (auto simp: file_date_def Let_def show_int_def simp flip: d_def split: prod.split)
qed

lemma record_width: "94 \<le> length s \<Longrightarrow> length (take 94 s) = 94"
  by simp

lemma file_header_width:
  "0 \<le> t \<Longrightarrow> 8 \<le> length (ach_odfi_routing x) \<Longrightarrow> length (nacha_file_header t x) = 94"
  unfolding nacha_file_header_def file_time_def using file_date_length [of t] by (intro record_width) simp

lemma batch_header_width:
  "length (ba_serviceClassCode b) = 3 \<Longrightarrow> length (ba_secCode b) = 3 \<Longrightarrow> 8 \<le> length (ba_originatingDfiId b) \<Longrightarrow>
   6 \<le> length (ba_effectiveEntryDate b) \<Longrightarrow> length (nacha_batch_header b) = 94"
  unfolding nacha_batch_header_def
  by (intro record_width) (cases "ba_companyDescriptiveDate b"; simp add: or_default_def)

lemma entry_width:
  "en_transactionCode n = 22 \<Longrightarrow> length (en_routingTransitNumber n) = 9 \<Longrightarrow>
   length (or_default ''  '' (en_discretionaryData n)) = 2 \<Longrightarrow> length (en_addendaRecordIndicator n) = 1 \<Longrightarrow>
   15 \<le> length (or_default (zeros 15) (en_traceNumber n)) \<Longrightarrow> length (nacha_entry n) = 94"
  unfolding nacha_entry_def
  by (intro record_width) (simp add: show_int_def show_nat.simps [of 22] show_nat.simps [of 2])

lemma addenda_width:
  "length (ad_addendaTypeCode a) = 2 \<Longrightarrow> 7 \<le> length (ad_traceNumber a) \<Longrightarrow> length (nacha_addenda a) = 94"
  unfolding nacha_addenda_def by (intro record_width) simp

lemma batch_control_width:
  "length (ba_serviceClassCode (ach_batchHeader x)) = 3 \<Longrightarrow> 8 \<le> length (ba_originatingDfiId (ach_batchHeader x)) \<Longrightarrow>
   length (nacha_batch_control x k) = 94"
  unfolding nacha_batch_control_def nacha_hash_def Let_def by (intro record_width) simp

lemma file_control_width: "length (nacha_file_control x k n) = 94"
  unfolding nacha_file_control_def nacha_hash_def Let_def by (intro record_width) simp

lemmas record_widths = file_header_width batch_header_width entry_width addenda_width
  batch_control_width file_control_width

lemma pad_block_shape:
  "pad_block ls = ls @ replicate ((10 - length ls mod 10) mod 10) (replicate 94 (CHR ''9''))"
proof (induction ls rule: pad_block.induct)
  case (1 ls)
  show ?case
  proof (cases "length ls mod 10 = 0")
    case False
    define k where "k = length ls mod 10"
    have k: "0 < k" "k < 10" using False by (simp_all add: k_def)
    have "Suc (length ls) mod 10 = (if k = 9 then 0 else Suc k)" by (simp add: k_def mod_Suc)
    then have "(10 - length ls mod 10) mod 10 = Suc ((10 - Suc (length ls) mod 10) mod 10)"
      using k by (auto simp flip: k_def)
    then show ?thesis using 1 [OF False] False by (simp add: pad_block.simps [of ls])
  qed (simp add: pad_block.simps [of ls])
qed

lemma pad_block_whole: "length (pad_block ls) mod 10 = 0"
proof (induction ls rule: pad_block.induct)
  case (1 ls)
  then show ?case by (cases "length ls mod 10 = 0") (simp_all add: pad_block.simps [of ls])
qed

section \<open>The file of a canonical message\<close>

lemma parseAbaAlias_routing: "length (fst (parseAbaAlias v f)) = 9"
  by (auto simp: parseAbaAlias_def Let_def rx_full_times_cls)

lemma ach_transaction_shape:
  fixes now :: int
  assumes "opt_all (\<lambda>s. length s = 9) (ag_routingNumber (c_origin c))" "10 \<le> length (c_created_at c)"
  defines "x \<equiv> ach_transaction now c"
  shows "length (ach_odfi_routing x) = 9" "length (ba_effectiveEntryDate (ach_batchHeader x)) = 6"
    "length (ba_originatingDfiId (ach_batchHeader x)) = 8" "ba_serviceClassCode (ach_batchHeader x) = ''220''"
    "length (ba_secCode (ach_batchHeader x)) = 3" "en_transactionCode (ach_entryDetail x) = 22"
    "length (en_routingTransitNumber (ach_entryDetail x)) = 9" "en_discretionaryData (ach_entryDetail x) = Some ''  ''"
    "length (en_addendaRecordIndicator (ach_entryDetail x)) = 1"
    "\<exists>tn. en_traceNumber (ach_entryDetail x) = Some tn \<and> 15 \<le> length tn \<and>
       (ach_addendas x = None \<or> (\<exists>d. ach_addendas x = Some [d] \<and> ad_addendaTypeCode d = ''05'' \<and> ad_traceNumber d = tn))"
proof -
  obtain cr ca where 1: "parseAbaAlias (al_value (c_alias c)) (pt_account_id (c_creditor c)) = (cr, ca)"
    by fastforce
  obtain dr da where 2: "parseAbaAlias (or_default ''000000000'' (ag_routingNumber (c_origin c)) @ ''/'' @
      strip_prefixes [''SPEI-'', ''PIX-''] (pt_account_id (c_debtor c))) (pt_account_id (c_debtor c)) = (dr, da)"
    by fastforce
  have r: "length cr = 9" "length dr = 9" using parseAbaAlias_routing 1 2 by (metis fst_conv)+
  have o: "length (or_default dr (ag_routingNumber (c_origin c))) = 9"
    using assms(1) r by (simp add: opt_all_def or_default_def split: option.splits)
  note x = x_def ach_transaction_def Let_def 1 2 prod.case
  show "length (ach_odfi_routing x) = 9" "length (ba_effectiveEntryDate (ach_batchHeader x)) = 6"
    "length (ba_originatingDfiId (ach_batchHeader x)) = 8" "ba_serviceClassCode (ach_batchHeader x) = ''220''"
    "length (ba_secCode (ach_batchHeader x)) = 3" "en_transactionCode (ach_entryDetail x) = 22"
    "length (en_routingTransitNumber (ach_entryDetail x)) = 9" "en_discretionaryData (ach_entryDetail x) = Some ''  ''"
    "length (en_addendaRecordIndicator (ach_entryDetail x)) = 1"
    using assms(2) r o unfolding x by (simp_all add: yymmdd_of_def Let_def)
  show "\<exists>tn. en_traceNumber (ach_entryDetail x) = Some tn \<and> 15 \<le> length tn \<and>
       (ach_addendas x = None \<or> (\<exists>d. ach_addendas x = Some [d] \<and> ad_addendaTypeCode d = ''05'' \<and> ad_traceNumber d = tn))"
    using o unfolding x by simp
qed

lemma nacha_records_ten:
  assumes "ach_addendas x = None \<or> (\<exists>d. ach_addendas x = Some [d])"
  shows "length (nacha_records t x) = 10"
  using assms by (auto simp: nacha_records_def Let_def pad_block_shape)

lemma nacha_records_width:
  assumes "nacha_file_header t x \<in> W" "nacha_batch_header (ach_batchHeader x) \<in> W"
    "nacha_entry (ach_entryDetail x) \<in> W" "\<And>ds d. ach_addendas x = Some ds \<Longrightarrow> d \<in> set ds \<Longrightarrow> nacha_addenda d \<in> W"
    "\<And>k. nacha_batch_control x k \<in> W" "\<And>k n. nacha_file_control x k n \<in> W" "replicate 94 (CHR ''9'') \<in> W"
  shows "set (nacha_records t x) \<subseteq> W"
  using assms by (auto simp: nacha_records_def Let_def pad_block_shape split: option.splits)

lemma entry_amount_columns:
  assumes "en_transactionCode n = 22" "length (en_routingTransitNumber n) = 9"
    and "en_amount n = Fin (of_int m)" "0 \<le> m" "m < 10 ^ 10"
  shows "substring (nacha_entry n) 29 39 = zero_pad 10 (show_nat m)"
proof -
  have "num_to_string (en_amount n) = show_nat m" using assms(3-5) num_to_string_int [of m] by simp
  moreover have "length (show_nat m) \<le> 10" using assms(5) length_show_nat [of 10 m] by simp
  ultimately show ?thesis
    using assms(1,2) unfolding nacha_entry_def substring_def
    by (simp add: show_int_def show_nat.simps [of 22] show_nat.simps [of 2])
qed

text \<open>
  C26: A NACHA file made from a message that meets the canonical schema is exactly one block
  of ten records, each exactly 94 characters wide: file header, batch header, entry, at most
  one addenda, batch control, file control and fillers of nines. In the entry record the
  cents of the amount stand in columns 30 to 39, padded with zeros, and read back as the
  amount, as long as they have at most ten digits.
\<close>

theorem nacha_file_is_one_block:
  fixes now :: int
  assumes "wf_canonical dt c" "10 \<le> length (c_created_at c)" "0 \<le> t"
  defines "x \<equiv> ach_transaction now c"
  shows "length (nacha_records t x) = 10 \<and> list_all (\<lambda>r. length r = 94) (nacha_records t x) \<and>
    (\<forall>m. Math_round (num_mul (am_value (c_amount c)) (Fin 100)) = Fin (of_int m) \<and> 0 \<le> m \<and> m < 10 ^ 10 \<longrightarrow>
       digits_val (substring (nacha_records t x ! 2) 29 39) = m)"
proof -
  have r: "opt_all (\<lambda>s. length s = 9) (ag_routingNumber (c_origin c))"
    using assms(1) by (simp add: wf_canonical_def wf_agent_def)
  note shape = ach_transaction_shape [OF r assms(2), of now, folded x_def]
  have "set (nacha_records t x) \<subseteq> {s. length s = 94}"
    using shape assms(3) by (intro nacha_records_width) (auto intro!: record_widths simp: or_default_def)
  moreover have "en_amount (ach_entryDetail x) = Math_round (num_mul (am_value (c_amount c)) (Fin 100))"
    by (simp add: x_def ach_transaction_def Let_def split: prod.split)
  moreover have "nacha_records t x ! 2 = nacha_entry (ach_entryDetail x)"
    by (simp add: nacha_records_def Let_def pad_block_shape numeral_2_eq_2)
  ultimately show ?thesis
    using shape nacha_records_ten [of x t] entry_amount_columns [of "ach_entryDetail x"]
    by (auto simp: list_all_iff zero_pad_def)
qed

lemma nacha_file_is_one_block_witness:
  "length (nacha_records 0 (ach_transaction 0 sample_canonical)) = 10 \<and>
   digits_val (substring (nacha_records 0 (ach_transaction 0 sample_canonical) ! 2) 29 39) = 10000"
proof -
  have a: "am_value (c_amount sample_canonical) = Fin 100" "10 \<le> length (c_created_at sample_canonical)"
    by code_simp+
  have m: "Math_round (num_mul (Fin 100) (Fin 100)) = Fin (of_int 10000)"
    using num_of_int [of 10000] by (simp add: floor_eq_iff)
  show ?thesis
    using nacha_file_is_one_block [OF canonical_schema_wf [OF sample_canonical] a(2), of 0 0] m a(1) by simp
qed

end
