(* ===== verification/BrebTranslation.thy ===== *)
theory BrebTranslation
  imports Translation
begin

text \<open>
  Bre-B: \<open>src/translation/breb-to-canonical.ts\<close> and \<open>canonical-to-breb.ts\<close>, the transaction
  identifier and both directions of the translation. The lemmas give the shape of the
  identifier and the scope of the translations.
\<close>

definition FINTECH_SIMULATED :: string where "FINTECH_SIMULATED = ''26264220''"

definition BREB_ENTITY_CODES :: "(string \<times> string) list" where
  "BREB_ENTITY_CODES = [(''BANCOLOMBIA'', ''00000007''), (''BANCO_DE_BOGOTA'', ''00000013''),
     (''DAVIVIENDA'', ''00000051''), (''BBVA_COLOMBIA'', ''00000013''), (''NEQUI'', ''10007550''),
     (''DAVIPLATA'', ''00005141''), (''BANCAMIA'', ''00000022''), (''FINTECH_SIMULATED'', FINTECH_SIMULATED)]"

section \<open>The identifier\<close>

fun remove_first :: "char \<Rightarrow> string \<Rightarrow> string" where
  "remove_first c [] = []"
| "remove_first c (x # xs) = (if x = c then xs else x # remove_first c xs)"

definition breb_txid :: "string \<Rightarrow> string \<Rightarrow> string \<Rightarrow> string" where
  "breb_txid entity now rnd = ''BR'' @ entity @ filter (\<lambda>c. c \<noteq> CHR ''-'') (take 10 now) @
     remove_first (CHR '':'') (substring now 11 16) @
     padEnd (toUpperCase (substring rnd 2 12)) 10 (CHR ''0'')"

definition generateBrebTransactionId :: "string \<Rightarrow> string io" where
  "generateBrebTransactionId entity = io_bind now_iso (\<lambda>now. io_bind random36 (\<lambda>rnd.
     io_return (breb_txid entity now rnd)))"

section \<open>To the canonical message\<close>

definition inferTipoLlave :: "jsval \<Rightarrow> js_error + string" where
  "inferTipoLlave v =
    (if rx_full (Seq (rx_lit ''+57'') (rx_times rx_digit 10)) (to_string v) then Inr ''TELEFONO''
     else if rx_full (rx_seq [Rep 9 (Some 10) rx_digit, rx_chr (CHR ''-''), rx_digit]) (to_string v) then Inr ''NIT''
     else case v of JStr s \<Rightarrow> Inr (if str_includes s ''@'' then ''EMAIL'' else ''ALIAS'')
       | JArr vs \<Rightarrow> Inr (if JStr ''@'' \<in> set vs then ''EMAIL'' else ''ALIAS'')
       | _ \<Rightarrow> Inl TypeError)"

definition isNativeBrebPayload :: "jsval \<Rightarrow> js_error + bool" where
  "isNativeBrebPayload p = bindr (has_key ''valor'' p) (\<lambda>a.
     if \<not> a then Inr False else bindr (has_key ''pagador'' p) (\<lambda>b.
     if \<not> b then Inr False else has_key ''beneficiario'' p))"

definition stripBrebPrefix :: "jsval \<Rightarrow> js_error + string" where
  "stripBrebPrefix a = bindr (as_string a) (\<lambda>s.
     Inr (if startsWith s ''BREB-'' then drop 5 s else s))"

definition breb_party_raw :: "jsval \<Rightarrow> jsval \<Rightarrow> js_error + (string \<times> jsval) list" where
  "breb_party_raw pty fallback =
     bindr (get_prop pty ''nit'') (\<lambda>nit. bindr (get_prop pty ''cc'') (\<lambda>cc.
     bindr (get_prop pty ''numeroCuenta'') (\<lambda>num. bindr (get_prop pty ''codigoEntidad'') (\<lambda>ent.
     bindr (get_prop pty ''tipoCuenta'') (\<lambda>tc. bindr (get_prop pty ''nombre'') (\<lambda>nm.
     bindr (opt_map_string (take 140) nm) (\<lambda>name.
     Inr [(''name'', name), (''country'', JStr ''CO''),
       (''account_id'', JStr (to_string ent @ ''/'' @ to_string (first_nonnull [nit, cc, num] fallback))),
       (''taxId'', nullish nit cc), (''accountType'', nullish tc (JStr ''CACC''))])))))))"

definition breb_native_raw :: "jsval \<Rightarrow> string \<Rightarrow> string option \<Rightarrow> string \<Rightarrow> jsval \<Rightarrow> js_error + jsval" where
  "breb_native_raw msg pid trace now msgId =
     bindr (get_path msg [''valor'', ''original'']) (\<lambda>original.
     bindr (get_prop msg ''llave'') (\<lambda>llave.
     bindr (get_prop msg ''tipoLlave'') (\<lambda>tl.
     bindr (if is_nullish tl then bindr (inferTipoLlave llave) (\<lambda>t. Inr (JStr t)) else Inr tl) (\<lambda>tipo.
     bindr (get_prop msg ''pagador'') (\<lambda>pagador.
     bindr (get_prop msg ''beneficiario'') (\<lambda>benef.
     bindr (breb_party_raw pagador (JStr ''UNKNOWN'')) (\<lambda>debtor.
     bindr (breb_party_raw benef llave) (\<lambda>creditor.
     bindr (get_prop msg ''fechaHora'') (\<lambda>fh.
     bindr (get_prop msg ''idTransaccion'') (\<lambda>idt.
     bindr (as_string idt) (\<lambda>ids.
     bindr (get_prop msg ''concepto'') (\<lambda>con.
     bindr (opt_map_string (take 140) con) (\<lambda>concepto.
     Inr (JObj
      [(''payment_id'', JStr pid), (''created_at'', nullish fh (JStr now)),
       (''grpHdr'', JObj [(''msgId'', msgId), (''creDtTm'', nullish fh (JStr now)), (''nbOfTxs'', JNum (Fin 1)),
          (''sttlmInf'', JObj [(''sttlmMtd'', JStr ''CLRG'')])]),
       (''pmtId'', JObj [(''endToEndId'', JStr (take 35 ids))]),
       (''amount'', JObj [(''value'', JNum (parseFloat_val original)), (''currency'', JStr ''COP'')]),
       (''origin'', JObj [(''rail'', JStr ''BRE_B''), (''ispb'', opt_prop pagador ''codigoEntidad'')]),
       (''destination'', JObj [(''rail'', JUndef), (''ispb'', opt_prop benef ''codigoEntidad'')]),
       (''debtor'', JObj debtor), (''creditor'', JObj creditor),
       (''alias'', JObj [(''type'', JStr ''LLAVE_BREB''), (''value'', llave)]),
       (''purpose'', JStr (if tipo = JStr ''NIT'' then ''SUPP'' else ''P2P'')),
       (''reference'', idt), (''remittanceInfo'', concepto),
       (''status'', JStr ''RECEIVED''), (''trace_id'', js_opt trace)]))))))))))))))"

definition breb_generic_raw :: "jsval \<Rightarrow> string \<Rightarrow> string option \<Rightarrow> string \<Rightarrow> string \<Rightarrow> jsval \<Rightarrow> js_error + jsval" where
  "breb_generic_raw req pid trace now txId reference =
     bindr (get_path req [''creditor'', ''alias'']) (\<lambda>calias.
     bindr (stripBrebPrefix calias) (\<lambda>llave.
     bindr (inferTipoLlave (JStr llave)) (\<lambda>tipo.
     bindr (get_prop req ''amount'') (\<lambda>amt.
     bindr (get_prop req ''currency'') (\<lambda>c.
     bindr (as_string (nullish c (JStr ''COP''))) (\<lambda>cur.
     bindr (get_path req [''debtor'', ''name'']) (\<lambda>dname.
     bindr (get_path req [''debtor'', ''alias'']) (\<lambda>dalias.
     bindr (get_path req [''creditor'', ''name'']) (\<lambda>cname.
     bindr (get_prop req ''purpose'') (\<lambda>pu.
     Inr (JObj
      [(''payment_id'', JStr pid), (''created_at'', JStr now),
       (''grpHdr'', JObj [(''msgId'', JStr txId), (''creDtTm'', JStr now), (''nbOfTxs'', JNum (Fin 1)),
          (''sttlmInf'', JObj [(''sttlmMtd'', JStr ''CLRG'')])]),
       (''pmtId'', JObj [(''endToEndId'', JStr (take 35 txId))]),
       (''amount'', JObj [(''value'', amt), (''currency'', JStr (toUpperCase cur))]),
       (''fx'', JObj [(''source_currency'', JStr ''COP'')]),
       (''origin'', JObj [(''rail'', JStr ''BRE_B''), (''ispb'', JStr FINTECH_SIMULATED)]),
       (''destination'', JObj [(''rail'', JUndef)]),
       (''debtor'', JObj [(''name'', nullish dname (JStr ''Unknown'')), (''country'', JStr ''CO''), (''account_id'', dalias)]),
       (''creditor'', JObj [(''name'', nullish cname (JStr ''Unknown'')), (''country'', JUndef), (''account_id'', calias)]),
       (''alias'', JObj [(''type'', JStr ''LLAVE_BREB''), (''value'', JStr llave)]),
       (''purpose'', nullish pu (JStr (if tipo = ''NIT'' then ''SUPP'' else ''P2P''))),
       (''reference'', reference),
       (''status'', JStr ''RECEIVED''), (''trace_id'', js_opt trace)])))))))))))"

definition breb_raw :: "jsval \<Rightarrow> string \<Rightarrow> string option \<Rightarrow> string \<Rightarrow> jsval io" where
  "breb_raw p pid trace now = io_bind (io_result (isNativeBrebPayload p)) (\<lambda>native.
     if native then
       io_bind (io_result (get_prop p ''idTransaccion'')) (\<lambda>idt.
       io_bind (fresh_if_nullish ''MSG-'' idt) (\<lambda>msgId.
       io_result (breb_native_raw p pid trace now msgId)))
     else
       io_bind (generateBrebTransactionId FINTECH_SIMULATED) (\<lambda>txId.
       io_bind (io_result (get_prop p ''reference'')) (\<lambda>rf.
       io_bind (fresh_if_nullish ''BREB-'' rf) (\<lambda>reference.
       io_result (breb_generic_raw p pid trace now txId reference)))))"

definition brebToCanonical :: "jsval \<Rightarrow> string \<Rightarrow> string option \<Rightarrow> canonical io" where
  "brebToCanonical p pid trace = io_try
     (io_bind now_iso (\<lambda>now. io_bind (breb_raw p pid trace now) (\<lambda>raw.
        parse_canonical ''BRE_B'' ''Invalid canonical output from Bre-B translation'' raw)))
     (rethrow_as_translation ''BRE_B'' ''Unexpected error during Bre-B translation'')"

section \<open>From the canonical message\<close>

text \<open>The account without the entity code: what follows the first slash.\<close>

definition after_slash :: "string \<Rightarrow> string" where
  "after_slash s = (if str_includes s ''/'' then join ''/'' (drop 1 (split_on (CHR ''/'') s)) else s)"

definition breb_party_js :: "party \<Rightarrow> string \<Rightarrow> string \<Rightarrow> string \<Rightarrow> jsval" where
  "breb_party_js pty entity default_name account = JObj
     [(''codigoEntidad'', JStr entity),
      (''nombre'', JStr (take 140 (case pt_name pty of Some n \<Rightarrow> n | None \<Rightarrow> default_name))),
      (''nit'', case pt_taxId pty of Some t \<Rightarrow> if str_includes t ''-'' then JStr t else JUndef | None \<Rightarrow> JUndef),
      (''cc'', case pt_taxId pty of Some t \<Rightarrow> if t \<noteq> [] \<and> \<not> str_includes t ''-'' then JStr t else JUndef | None \<Rightarrow> JUndef),
      (''numeroCuenta'', JStr account),
      (''tipoCuenta'', JStr (case pt_accountType pty of Some t \<Rightarrow> account_type_code t | None \<Rightarrow> ''CACC''))]"

definition breb_request :: "canonical \<Rightarrow> string \<Rightarrow> jsval" where
  "breb_request c idt =
    (let pe = (case ag_ispb (c_origin c) of Some i \<Rightarrow> i | None \<Rightarrow> FINTECH_SIMULATED);
         be = (case ag_ispb (c_destination c) of Some i \<Rightarrow> i | None \<Rightarrow> FINTECH_SIMULATED);
         da = after_slash (pt_account_id (c_debtor c));
         ca = after_slash (pt_account_id (c_creditor c));
         raw_llave = (if al_type (c_alias c) = LLAVE_BREB then al_value (c_alias c) else ca);
         llave = (if startsWith raw_llave ''BREB-'' then drop 5 raw_llave else raw_llave)
     in JObj
      [(''idTransaccion'', JStr idt),
       (''valor'', JObj [(''original'', JStr (toFixed2 (am_value (c_amount c))))]),
       (''pagador'', breb_party_js (c_debtor c) pe ''REMITENTE'' da),
       (''beneficiario'', breb_party_js (c_creditor c) be ''BENEFICIARIO'' ca),
       (''llave'', JStr llave),
       (''concepto'', JStr (take 140 (case c_remittanceInfo c of Some r \<Rightarrow> r | None \<Rightarrow> c_reference c))),
       (''fechaHora'', JStr (c_created_at c))])"

definition canonicalToBreb :: "canonical \<Rightarrow> jsval io" where
  "canonicalToBreb c = io_bind
     (generateBrebTransactionId (case ag_ispb (c_origin c) of Some i \<Rightarrow> i | None \<Rightarrow> FINTECH_SIMULATED))
     (\<lambda>idt. io_return (breb_request c idt))"

section \<open>Lemmas\<close>

text \<open>
  The shape the source announces: BR, the code of the entity, the date, the time and ten
  characters, which makes 32.
\<close>

lemma breb_txid_shape:
  assumes "now = [y1, y2, y3, y4, CHR ''-'', m1, m2, CHR ''-'', d1, d2, CHR ''T'', h1, h2, CHR '':'', n1, n2] @ rest"
    and "CHR ''-'' \<notin> {y1, y2, y3, y4, m1, m2, d1, d2}" "CHR '':'' \<notin> {h1, h2}" "length entity = 8"
  shows "\<exists>unique. breb_txid entity now rnd =
      ''BR'' @ entity @ [y1, y2, y3, y4, m1, m2, d1, d2] @ [h1, h2, n1, n2] @ unique \<and> length unique = 10 \<and>
    length (breb_txid entity now rnd) = 32"
proof -
  let ?u = "padEnd (toUpperCase (substring rnd 2 12)) 10 (CHR ''0'')"
  have u: "length ?u = 10" by (simp add: padEnd_def substring_def toUpperCase_def)
  have "filter (\<lambda>c. c \<noteq> CHR ''-'') (take 10 now) = [y1, y2, y3, y4, m1, m2, d1, d2]"
    using assms(1,2) by (auto simp: eval_nat_numeral)
  moreover have "remove_first (CHR '':'') (substring now 11 16) = [h1, h2, n1, n2]"
    using assms(1,3) by (auto simp: substring_def eval_nat_numeral)
  ultimately show ?thesis using assms(4) u by (simp add: breb_txid_def)
qed

lemma breb_quiet [io_frame]:
  "io_keeps quiet (brebToCanonical p pid trace)"
  "io_keeps quiet (canonicalToBreb c)"
  unfolding brebToCanonical_def canonicalToBreb_def breb_raw_def generateBrebTransactionId_def fresh_if_nullish_def
  by (intro io_frame)+

end
