(* ===== verification/AliasInference.thy ===== *)
theory AliasInference
  imports PaymentRequest
begin

text \<open>
  The two places that read an alias: \<open>inferRail\<close> of \<open>src/pipeline/payment-pipeline.ts\<close>, the
  origin rail from the debtor's alias, and \<open>inferAliasType\<close> of \<open>src/routing/route-engine.ts\<close>,
  the alias type from the creditor's account. The lemmas relate them to what the request
  schema accepts and to each other: they agree but for one pattern, the e-mail address.
\<close>

definition rx_cpf :: rx where "rx_cpf = rx_times rx_digit 11"
definition rx_cnpj :: rx where "rx_cnpj = rx_times rx_digit 14"
definition rx_br_phone :: rx where "rx_br_phone = Seq (rx_lit ''+55'') (Rep 10 (Some 11) rx_digit)"
definition rx_clabe :: rx where "rx_clabe = rx_times rx_digit 18"
definition rx_co_phone :: rx where "rx_co_phone = Seq (rx_lit ''+57'') (rx_times rx_digit 10)"

definition rx_nit :: rx where
  "rx_nit = Seq (Rep 9 (Some 10) rx_digit) (rx_opt (Seq (rx_chr (CHR ''-'')) rx_digit))"

definition is_hex_i :: "char \<Rightarrow> bool" where
  "is_hex_i c = (is_digit c \<or> lower_char c \<in> set ''abcdef'')"

definition rx_evp :: rx where
  "rx_evp = rx_seq [rx_times (Cls is_hex_i) 8, rx_chr (CHR ''-''), rx_times (Cls is_hex_i) 4,
     rx_chr (CHR ''-''), rx_chr (CHR ''4''), rx_times (Cls is_hex_i) 3, rx_chr (CHR ''-''),
     Cls (\<lambda>c. lower_char c \<in> set ''89ab''), rx_times (Cls is_hex_i) 3, rx_chr (CHR ''-''),
     rx_times (Cls is_hex_i) 12]"

definition mail_char :: "char \<Rightarrow> bool" where
  "mail_char c = (\<not> is_space c \<and> c \<noteq> CHR ''@'')"

definition rx_email :: rx where
  "rx_email = rx_seq [rx_plus (Cls mail_char), rx_chr (CHR ''@''), rx_plus (Cls mail_char),
     rx_chr (CHR ''.''), Rep 2 None (Cls mail_char)]"

definition is_upper_digit :: "char \<Rightarrow> bool" where
  "is_upper_digit c = (is_upper c \<or> is_digit c)"

definition rx_iban :: rx where
  "rx_iban = rx_seq [rx_times (Cls is_upper) 2, rx_times rx_digit 2, Rep 4 None (Cls is_upper_digit)]"

definition rx_bic :: rx where
  "rx_bic = rx_seq [rx_times (Cls is_upper) 4, rx_times (Cls is_upper) 2,
     rx_times (Cls is_upper_digit) 2, rx_opt (rx_times (Cls is_upper_digit) 3)]"

section \<open>The origin rail of an alias\<close>

definition inferRail :: "string \<Rightarrow> js_error + string" where
  "inferRail alias =
    (if startsWith alias ''PIX-'' then Inr ''PIX''
     else if startsWith alias ''SPEI-'' then Inr ''SPEI''
     else if startsWith alias ''BREB-'' then Inr ''BRE_B''
     else if rx_full rx_cpf alias then Inr ''PIX''
     else if rx_full rx_cnpj alias then Inr ''PIX''
     else if rx_full rx_br_phone alias then Inr ''PIX''
     else if rx_full rx_evp alias then Inr ''PIX''
     else if rx_full rx_email alias \<and> \<not> startsWith alias ''+57'' then Inr ''PIX''
     else if rx_full rx_clabe alias then Inr ''SPEI''
     else if rx_full rx_co_phone alias then Inr ''BRE_B''
     else if rx_full rx_nit alias then Inr ''BRE_B''
     else Inl (PlainError (''Cannot infer rail from alias: '' @ alias @
       ''. Use a recognized format or prefix (PIX-, SPEI-, BREB-).'')))"

section \<open>The alias type of an account\<close>

definition inferAliasType :: "string \<Rightarrow> string" where
  "inferAliasType alias =
    (if startsWith alias ''PIX-'' then ''PIX_KEY''
     else if startsWith alias ''SPEI-'' then ''CLABE''
     else if startsWith alias ''BREB-'' then ''LLAVE_BREB''
     else if rx_full rx_cpf alias then ''PIX_KEY''
     else if rx_full rx_cnpj alias then ''PIX_KEY''
     else if rx_full rx_br_phone alias then ''PIX_KEY''
     else if rx_full rx_evp alias then ''PIX_KEY''
     else if rx_full rx_clabe alias then ''CLABE''
     else if rx_full rx_co_phone alias then ''LLAVE_BREB''
     else if rx_full rx_nit alias then ''LLAVE_BREB''
     else if rx_full rx_iban alias then ''IBAN''
     else if rx_full rx_bic alias then ''BIC''
     else ''ACCOUNT'')"

section \<open>The two agree\<close>

lemma email_at: "rx_full rx_email s \<Longrightarrow> CHR ''@'' \<in> set s"
  by (auto simp: rx_email_def rx_seq_def rx_chr_def dest!: rx_full_lang)

lemma rep_digit_no_at: "u \<in> rx_lang (Rep lo hi rx_digit) \<Longrightarrow> CHR ''@'' \<notin> set u"
  using rx_lang_rep_cls [of u lo hi is_digit] by (auto simp: list_all_iff is_digit_def char_code_def)

lemma rep_opt_check_no_at:
  "u \<in> rx_lang (rx_opt (Seq (rx_chr (CHR ''-'')) rx_digit)) \<Longrightarrow> CHR ''@'' \<notin> set u"
proof -
  have "x \<in> rx_lang (Seq (rx_chr (CHR ''-'')) rx_digit) \<Longrightarrow> CHR ''@'' \<notin> set x" for x
    by (auto simp: rx_chr_def is_digit_def char_code_def)
  then have "set us \<subseteq> rx_lang (Seq (rx_chr (CHR ''-'')) rx_digit) \<Longrightarrow> CHR ''@'' \<notin> set (concat us)" for us
    by (induction us) auto
  then show "u \<in> rx_lang (rx_opt (Seq (rx_chr (CHR ''-'')) rx_digit)) \<Longrightarrow> CHR ''@'' \<notin> set u"
    by auto
qed

lemma email_not_clabe: "rx_full rx_clabe s \<Longrightarrow> \<not> rx_full rx_email s"
  using email_at [of s] rep_digit_no_at [of s] rx_full_lang [of rx_clabe s] unfolding rx_clabe_def by blast

lemma email_not_co_phone: "rx_full rx_co_phone s \<Longrightarrow> \<not> rx_full rx_email s"
proof
  assume "rx_full rx_co_phone s" and e: "rx_full rx_email s"
  then obtain u where "s = ''+57'' @ u" "u \<in> rx_lang (rx_times rx_digit 10)"
    using rx_full_lang [of rx_co_phone s] unfolding rx_co_phone_def rx_lang.simps(4) rx_lang_lit by blast
  then show False using email_at [OF e] rep_digit_no_at [of u] by auto
qed

lemma email_not_nit: "rx_full rx_nit s \<Longrightarrow> \<not> rx_full rx_email s"
proof
  assume "rx_full rx_nit s" and e: "rx_full rx_email s"
  then obtain u v where "s = u @ v" "u \<in> rx_lang (Rep 9 (Some 10) rx_digit)"
      "v \<in> rx_lang (rx_opt (Seq (rx_chr (CHR ''-'')) rx_digit))"
    using rx_full_lang [of rx_nit s] unfolding rx_nit_def rx_lang.simps(4) by blast
  then show False using email_at [OF e] rep_digit_no_at [of u] rep_opt_check_no_at [of v] by auto
qed

lemma inferRail_Inr: "inferRail a = Inr r \<Longrightarrow> r \<in> {''PIX'', ''SPEI'', ''BRE_B''}"
  by (auto simp: inferRail_def split: if_splits)

lemma valid_alias_inferRail:
  "valid_alias a \<Longrightarrow> inferRail a = Inr (if startsWith a ''PIX-'' then ''PIX''
     else if startsWith a ''SPEI-'' then ''SPEI'' else ''BRE_B'')"
  using valid_alias_prefix [of a] by (auto simp: inferRail_def)

section \<open>Properties\<close>

text \<open>
  For every request the schema accepts, rail inference does not raise, and the rail it
  infers is one of the three rails with an adapter, determined by the alias prefix.
\<close>

theorem inferRail_accepted_request:
  assumes "createPaymentSchema body = Some r"
  shows "inferRail (rp_alias (rq_debtor r)) = Inr (
      if startsWith (rp_alias (rq_debtor r)) ''PIX-'' then rail_code PIX
      else if startsWith (rp_alias (rq_debtor r)) ''SPEI-'' then rail_code SPEI
      else rail_code BRE_B)"
  using valid_alias_inferRail [OF createPaymentSchema_Some(3) [OF assms]] by simp

definition sample_request :: jsval where
  "sample_request = JObj [(''amount'', JNum (Fin 100)), (''currency'', JStr ''BRL''),
     (''debtor'', JObj [(''alias'', JStr ''PIX-ana'')]),
     (''creditor'', JObj [(''alias'', JStr ''SPEI-032180000118359719''), (''name'', JStr ''Luis'')])]"

lemma inferRail_accepted_request_witness:
  "inferRail (rp_alias (rq_debtor (the (createPaymentSchema sample_request)))) = Inr ''PIX''"
proof -
  have *: "createPaymentSchema sample_request = Some (the (createPaymentSchema sample_request))"
    by code_simp
  have "startsWith (rp_alias (rq_debtor (the (createPaymentSchema sample_request)))) ''PIX-''"
    by code_simp
  with inferRail_accepted_request [OF *] show ?thesis by simp
qed

definition bare_email :: "string \<Rightarrow> bool" where
  "bare_email a = (rx_full rx_email a \<and> \<not> startsWith a ''SPEI-'' \<and> \<not> startsWith a ''BREB-'' \<and>
     \<not> startsWith a ''+57'')"

text \<open>
  C22: The pipeline's rail inference and the route engine's alias typing read an alias the
  same way: CLABE exactly for SPEI, a Bre-B key exactly for Bre-B, a PIX key only for PIX;
  the one alias that is PIX for the pipeline and no PIX key for the router is an e-mail
  address.
\<close>

theorem inferRail_agrees_with_inferAliasType:
  "(inferAliasType a = alias_code CLABE) = (inferRail a = Inr (rail_code SPEI)) \<and>
   (inferAliasType a = alias_code LLAVE_BREB) = (inferRail a = Inr (rail_code BRE_B)) \<and>
   (inferRail a = Inr (rail_code PIX)) = (inferAliasType a = alias_code PIX_KEY \<or> bare_email a)"
  using email_not_clabe [of a] email_not_co_phone [of a] email_not_nit [of a]
  by (auto simp: inferAliasType_def inferRail_def bare_email_def split: if_splits)

end
