(* ===== verification/Routing.thy ===== *)
theory Routing
  imports TtlCache Canonical AliasInference
begin

text \<open>
  The route engine of \<open>src/routing/route-engine.ts\<close>: the conditions a rule can have, the
  operating hours of a rail and the resolution of a canonical message to a destination. The
  engine sorts the array the rule loader answers, which is the loader's cached array itself,
  so the cache is sorted too.

  The main theorem says which rule is chosen: the first active rule, in order of priority,
  that matches; and that resolution fails exactly when none does.
\<close>

section \<open>Conditions\<close>

definition rail_open_at :: "int \<Rightarrow> string \<Rightarrow> bool" where
  "rail_open_at t r = (case RAIL_OPERATING_HOURS r of None \<Rightarrow> True
     | Some s \<Rightarrow> (let now = t + oh_tz s * 60 * 60 * 1000;
           hhmm = utc_hours now * 100 + utc_minutes now
         in utc_day_of_week now \<in> set (oh_days s) \<and> oh_start s \<le> hhmm \<and> hhmm \<le> oh_end s))"

text \<open>The clock is read only for a rail with a schedule.\<close>

definition isRailOpen :: "string \<Rightarrow> bool io" where
  "isRailOpen r = (case RAIL_OPERATING_HOURS r of None \<Rightarrow> io_return True
     | Some _ \<Rightarrow> io_bind date_now (\<lambda>t. io_return (rail_open_at t r)))"

definition in_amount_range :: "string \<Rightarrow> jsnum \<Rightarrow> bool" where
  "in_amount_range v a = (let parts = split_on (CHR ''-'') v;
      lo = parseFloat (parts ! 0);
      hi = (case parts of _ # h # _ \<Rightarrow> parseFloat h | _ \<Rightarrow> NaN)
    in num_le lo a \<and> num_le a hi)"

text \<open>A condition that does not look at the clock.\<close>

definition matches_static :: "route_rule \<Rightarrow> canonical \<Rightarrow> bool" where
  "matches_static r c = (let f = rr_field r; v = rr_value r in
     if f = ''alias.type'' then v = inferAliasType (pt_account_id (c_creditor c))
     else if f = ''destination_country'' then pt_country (c_creditor c) = Some v
     else if f = ''availability'' then v = ''always'' \<or> v = ''true''
     else if f = ''amount.range'' then in_amount_range v (am_value (c_amount c))
     else if f = ''currency'' then toUpperCase (am_currency (c_amount c)) = toUpperCase v
     else False)"

definition matches :: "route_rule \<Rightarrow> canonical \<Rightarrow> bool io" where
  "matches r c = (if rr_field r = ''rail.operating_hours'' then isRailOpen (rr_value r)
     else io_return (matches_static r c))"

section \<open>Resolution\<close>

record route_result =
  rt_destination :: string
  rt_ruleName :: string

primrec first_match :: "route_rule list \<Rightarrow> canonical \<Rightarrow> route_rule option io" where
  "first_match [] c = io_return None"
| "first_match (r # rs) c = io_bind (matches r c) (\<lambda>b. if b then io_return (Some r) else first_match rs c)"

definition no_rule_error :: "canonical \<Rightarrow> js_error" where
  "no_rule_error c = RoutingError ''No routing rule matched for payment''
     [(''payment_id'', JStr (c_payment_id c)), (''origin_rail'', JStr (rail_code (c_origin_rail c)))]"

text \<open>\<open>rules.sort\<close> in place: the loader's cache holds the same array.\<close>

definition sort_cached_rules :: "route_rule list \<Rightarrow> route_rule list io" where
  "sort_cached_rules rules = io_then (io_modify (\<lambda>w. w\<lparr>w_rule_cache :=
       map_option (\<lambda>(rs, t). (sort_key rr_priority rs, t)) (w_rule_cache w)\<rparr>))
     (io_return (sort_key rr_priority rules))"

definition resolve :: "canonical \<Rightarrow> route_result io" where
  "resolve c = io_bind loadActiveRules (\<lambda>rules.
     io_bind (sort_cached_rules rules) (\<lambda>sorted.
     io_bind (first_match sorted c) (\<lambda>m. case m of
       Some r \<Rightarrow> io_return \<lparr>rt_destination = rr_destination r, rt_ruleName = rr_name r\<rparr>
     | None \<Rightarrow> io_throw (no_rule_error c))))"

section \<open>Which rule is chosen\<close>

text \<open>What matches when the clock shows \<open>t\<close> during the whole resolution.\<close>

definition matches_at :: "int \<Rightarrow> canonical \<Rightarrow> route_rule \<Rightarrow> bool" where
  "matches_at t c r = (if rr_field r = ''rail.operating_hours'' then rail_open_at t (rr_value r)
     else matches_static r c)"

lemma isRailOpen_run: "fst (isRailOpen r e w) = Inr (rail_open_at (e_now e (w_tick w)) r)"
  by (auto simp: isRailOpen_def io_eval split: option.splits) (simp add: rail_open_at_def)

lemma matches_run: "\<exists>w'. matches r c e w = (Inr (matches_at (e_now e (w_tick w)) c r), w')"
  using isRailOpen_run [of "rr_value r" e w]
  by (cases "isRailOpen (rr_value r) e w") (auto simp: matches_def matches_at_def io_eval)

lemma first_match_run:
  assumes "\<And>n. e_now e n = t"
  shows "\<exists>w'. first_match rs c e w = (Inr (find (matches_at t c) rs), w')"
proof (induction rs arbitrary: w)
  case (Cons r rs)
  obtain w1 where "matches r c e w = (Inr (matches_at t c r), w1)"
    using matches_run [of r c e w] assms by auto
  then show ?case using Cons.IH [of w1] by (auto simp: io_bind_def io_return_def)
qed (simp add: io_eval)

lemma first_match_returns: "\<exists>m w'. first_match rs c e w = (Inr m, w') \<and> (\<forall>r. m = Some r \<longrightarrow> r \<in> set rs)"
proof (induction rs arbitrary: w)
  case (Cons r rs)
  obtain b w1 where b: "matches r c e w = (Inr b, w1)" using matches_run [of r c e w] by blast
  then show ?case using Cons.IH [of w1] by (cases b) (auto simp: io_bind_def io_return_def)
qed (simp add: io_eval)

text \<open>The rules a resolution works on: the cached ones while fresh, else the active ones.\<close>

definition loaded_rules :: "environment \<Rightarrow> world \<Rightarrow> route_rule list option" where
  "loaded_rules e w = (case fst (loadActiveRules e w) of Inr rules \<Rightarrow> Some rules | Inl _ \<Rightarrow> None)"

lemma loaded_rules_cold:
  assumes "w_rule_cache w = None" "\<not> e_fail e (w_tick w)"
  shows "loaded_rules e w = Some (sort_key rr_priority (filter rr_active (w_rules w)))"
  using assms by (simp add: loaded_rules_def loadActiveRules_def io_eval rules_findActive_def cache_rules_def)

lemma loaded_rules_fresh:
  assumes "w_rule_cache w = Some (rules, t)" "e_now e (w_tick w) - t < TTL_MS"
  shows "loaded_rules e w = Some rules"
  using rule_cache.hit [OF assms] by (simp add: loaded_rules_def)

lemma resolve_run:
  assumes "loaded_rules e w = Some rules" "\<And>n. e_now e n = t"
  shows "fst (resolve c e w) = (case find (matches_at t c) (sort_key rr_priority rules) of
      Some r \<Rightarrow> Inr \<lparr>rt_destination = rr_destination r, rt_ruleName = rr_name r\<rparr>
    | None \<Rightarrow> Inl (no_rule_error c))"
proof -
  obtain w1 where l: "loadActiveRules e w = (Inr rules, w1)"
    using assms(1) by (cases "loadActiveRules e w") (auto simp: loaded_rules_def split: sum.splits)
  let ?rs = "sort_key rr_priority rules"
  let ?w = "w1\<lparr>w_rule_cache := map_option (\<lambda>(rs, t). (sort_key rr_priority rs, t)) (w_rule_cache w1)\<rparr>"
  obtain w2 where f: "first_match ?rs c e ?w = (Inr (find (matches_at t c) ?rs), w2)"
    using first_match_run [OF assms(2), of ?rs c ?w] by blast
  show ?thesis
    by (cases "find (matches_at t c) ?rs")
      (simp_all add: resolve_def sort_cached_rules_def io_bind_def [of loadActiveRules] l io_eval
        io_bind_def [of "first_match _ _"] io_bind_def [of "io_then _ _"] f)
qed

lemma find_sorted_min:
  assumes "find P xs = Some x" "sorted (map f xs)" "y \<in> set xs" "P y"
  shows "f x \<le> f y"
proof -
  obtain i where i: "i < length xs" "x = xs ! i" "\<And>j. j < i \<Longrightarrow> \<not> P (xs ! j)"
    using assms(1) by (auto simp: find_Some_iff)
  obtain j where j: "j < length xs" "y = xs ! j" using assms(3) by (auto simp: in_set_conv_nth)
  then have "i \<le> j" using i(3) [of j] assms(4) by (meson not_le)
  then show ?thesis using assms(2) i j by (auto simp: sorted_iff_nth_mono)
qed

lemma sort_quiet: "io_keeps quiet (sort_cached_rules rules)"
  unfolding sort_cached_rules_def by (intro io_frame quiet.modify) (simp add: quiet_def)

lemma matches_quiet [io_frame]: "io_keeps quiet (matches r c)"
  unfolding matches_def isRailOpen_def by (intro io_frame)

lemma first_match_quiet [io_frame]: "io_keeps quiet (first_match rs c)"
  by (induction rs) (auto intro!: io_frame)

lemma resolve_quiet [io_frame]: "io_keeps quiet (resolve c)"
  unfolding resolve_def by (intro io_frame sort_quiet)

section \<open>Properties\<close>

text \<open>
  C17: With the rules \<open>rules\<close> loaded, resolution answers the destination of a matching rule of
  least priority number, no rule of a smaller number matching; it raises the routing error
  when and only when no loaded rule matches.
\<close>

theorem resolve_least_priority:
  assumes "loaded_rules e w = Some rules" "\<forall>n. e_now e n = t"
  shows "case fst (resolve c e w) of
      Inr res \<Rightarrow> (\<exists>r \<in> set rules. matches_at t c r \<and> rt_destination res = rr_destination r \<and>
         rt_ruleName res = rr_name r \<and> (\<forall>q \<in> set rules. matches_at t c q \<longrightarrow> rr_priority r \<le> rr_priority q))
    | Inl x \<Rightarrow> x = no_rule_error c \<and> (\<forall>q \<in> set rules. \<not> matches_at t c q)"
proof -
  let ?s = "sort_key rr_priority rules"
  have run: "fst (resolve c e w) = (case find (matches_at t c) ?s of
      Some r \<Rightarrow> Inr \<lparr>rt_destination = rr_destination r, rt_ruleName = rr_name r\<rparr> | None \<Rightarrow> Inl (no_rule_error c))"
    using resolve_run [OF assms(1)] assms(2) by blast
  show ?thesis
  proof (cases "find (matches_at t c) ?s")
    case None
    then have "\<forall>q \<in> set rules. \<not> matches_at t c q" by (auto simp: find_None_iff)
    with None show ?thesis by (simp add: run)
  next
    case (Some r)
    then have "\<forall>q \<in> set rules. matches_at t c q \<longrightarrow> rr_priority r \<le> rr_priority q"
      using find_sorted_min [OF Some, of rr_priority] by simp
    then show ?thesis using find_SomeD [OF Some] Some by (auto simp: run)
  qed
qed

lemma resolve_least_priority_witness:
  "fst (resolve sample_canonical sample_env sample_world) = Inr \<lparr>rt_destination = ''SPEI'', rt_ruleName = ''clabe''\<rparr>"
proof -
  have l: "loaded_rules sample_env sample_world = Some (rev sample_rules)"
    by (simp add: loaded_rules_cold sample_world_def sample_env_def sample_rules_def)
  have t: "\<forall>n. e_now sample_env n = 1773397800000" by (simp add: sample_env_def)
  have m: "matches_at 1773397800000 sample_canonical (sample_rules ! 1)" by code_simp
  from resolve_least_priority [OF l t, of sample_canonical] m show ?thesis
    by (auto simp: sample_rules_def split: sum.splits)
qed

end
