(* ===== verification/Translator.thy ===== *)
theory Translator
  imports AchNacha BrebTranslation Outcome Routing
begin

text \<open>
  The translator of \<open>src/translation/translator.ts\<close>: the choice of the translation by rail,
  in both directions, and their composition. The theorems say what every accepted
  translation guarantees, whatever the payload, and that writing never fails for a
  supported rail.
\<close>

definition toCanonical :: "string \<Rightarrow> jsval \<Rightarrow> string \<Rightarrow> string option \<Rightarrow> canonical io" where
  "toCanonical r payload pid trace = (case rail_of r of
     Some PIX \<Rightarrow> pixToCanonical payload pid trace
   | Some SPEI \<Rightarrow> speiToCanonical payload pid trace
   | Some SWIFT_MT103 \<Rightarrow> swiftMt103ToCanonical payload pid trace
   | Some ISO20022_MX \<Rightarrow> iso20022MxToCanonical payload pid trace
   | Some ACH_NACHA \<Rightarrow> achNachaToCanonical payload pid trace
   | Some FEDNOW \<Rightarrow> fednowToCanonical payload pid trace
   | Some BRE_B \<Rightarrow> brebToCanonical payload pid trace
   | None \<Rightarrow> io_throw (TranslationError r (''Unsupported origin rail: '' @ r) []))"

definition fromCanonical :: "string \<Rightarrow> canonical \<Rightarrow> jsval io" where
  "fromCanonical r c = (case rail_of r of
     Some PIX \<Rightarrow> io_return (canonicalToPix c)
   | Some SPEI \<Rightarrow> io_return (canonicalToSpei c)
   | Some SWIFT_MT103 \<Rightarrow> io_return (mt103_js (canonicalToSwiftMt103 c))
   | Some ISO20022_MX \<Rightarrow> io_return (canonicalToIso20022Mx c)
   | Some ACH_NACHA \<Rightarrow> io_bind (canonicalToAchNacha c) (\<lambda>x. io_return (ach_js x))
   | Some FEDNOW \<Rightarrow> canonicalToFednow c
   | Some BRE_B \<Rightarrow> canonicalToBreb c
   | None \<Rightarrow> io_throw (TranslationError r (''Unsupported destination rail: '' @ r) []))"

definition translate :: "string \<Rightarrow> string \<Rightarrow> jsval \<Rightarrow> string \<Rightarrow> string option \<Rightarrow> (canonical \<times> jsval) io" where
  "translate src dst payload pid trace = io_bind (toCanonical src payload pid trace) (\<lambda>c.
     io_bind (fromCanonical dst c) (\<lambda>t. io_return (c, t)))"

lemma translator_quiet [io_frame]:
  "io_keeps quiet (toCanonical r p pid trace)"
  "io_keeps quiet (fromCanonical r c)"
  "io_keeps quiet (translate src dst p pid trace)"
proof -
  show t: "io_keeps quiet (toCanonical r p pid trace)" for r
    unfolding toCanonical_def by (auto intro!: io_frame split: option.split rail.split)
  show f: "io_keeps quiet (fromCanonical r c)" for r c
    unfolding fromCanonical_def by (auto intro!: io_frame split: option.split rail.split)
  show "io_keeps quiet (translate src dst p pid trace)"
    unfolding translate_def by (intro io_frame t f)
qed

section \<open>What an accepted translation guarantees\<close>

text \<open>
  The raw value names the payment, the rail and the initial status; \<open>P pid r\<close> is what the
  schema makes of it.
\<close>

definition raw_header :: "string \<Rightarrow> string \<Rightarrow> jsval \<Rightarrow> bool" where
  "raw_header r pid v = (opt_prop v ''payment_id'' = JStr pid \<and> opt_prop v ''status'' = JStr ''RECEIVED'' \<and>
     opt_path v [''origin'', ''rail''] = JStr r)"

definition accepted :: "environment \<Rightarrow> canonical \<Rightarrow> bool" where
  "accepted e c = wf_canonical (e_datetime e) c"

definition accepted_as :: "environment \<Rightarrow> string \<Rightarrow> string \<Rightarrow> canonical \<Rightarrow> bool" where
  "accepted_as e r pid c = (wf_canonical (e_datetime e) c \<and> c_payment_id c = pid \<and>
     c_status c = ''RECEIVED'' \<and> rail_code (c_origin_rail c) = r)"

lemma z_rail_code: "z_rail (JStr r) = Some x \<Longrightarrow> rail_code x = r"
  by (auto simp: z_rail_def z_enum_def dest: find_SomeD)

lemma z_origin_code: "z_origin v = Some x \<Longrightarrow> opt_prop v ''rail'' = JStr r \<Longrightarrow> rail_code (fst x) = r"
  by (cases v) (auto simp: z_origin_def bind_eq_Some_conv obj_get_def dest: z_rail_code)

lemma schema_header:
  assumes "canonicalPacs008Schema dt raw = Some c" "raw_header r pid raw"
  shows "c_payment_id c = pid \<and> c_status c = ''RECEIVED'' \<and> rail_code (c_origin_rail c) = r"
proof (cases raw)
  case (JObj kvs)
  with assms show ?thesis
    by (auto simp: canonicalPacs008Schema_def raw_header_def bind_eq_Some_conv z_refine_Some obj_get_def dest: z_origin_code)
qed (use assms(1) in \<open>simp_all add: canonicalPacs008Schema_def\<close>)

lemma parse_canonical_accepted [io_post]: "io_yields e (accepted e) (parse_canonical r msg raw)"
  unfolding parse_canonical_def accepted_def
  by (auto intro!: io_post intro: canonical_schema_wf simp: prod.case split: option.split)

lemma parse_canonical_accepted_as:
  "raw_header r pid raw \<Longrightarrow> io_yields e (accepted_as e r pid) (parse_canonical m msg raw)"
  unfolding parse_canonical_def accepted_as_def
  by (auto intro!: io_post dest: schema_header intro: canonical_schema_wf split: option.split)

lemma rethrow_yields [io_post]: "io_yields e Q (rethrow_as_translation r msg x)"
  by (auto simp: rethrow_as_translation_def intro!: io_post)

lemma generic_accepted [io_post]:
  "io_yields e (accepted e) (generic_to_canonical r cur ctry ty prefix m1 m2 req pid trace now)"
  unfolding generic_to_canonical_def by (intro io_post io_yields_bind)

lemma pix_spei_accepted [io_post]:
  "io_yields e (accepted e) (pixToCanonical p pid trace)"
  "io_yields e (accepted e) (speiToCanonical p pid trace)"
  unfolding pixToCanonical_def speiToCanonical_def by (intro io_post io_yields_bind)+

lemma swift_raw_header: "swift_raw msg pid trace now u = Inr raw \<Longrightarrow> raw_header ''SWIFT_MT103'' pid raw"
  by (auto simp: swift_raw_def bindr_Inr_iff raw_header_def Let_def)

lemma iso_raw_header: "iso_raw msg pid trace now mid = Inr raw \<Longrightarrow> raw_header ''ISO20022_MX'' pid raw"
  by (auto simp: iso_raw_def bindr_Inr_iff raw_header_def split: prod.splits)

lemma ach_raw_header: "ach_raw txn en ba pid trace now tn u = Inr raw \<Longrightarrow> raw_header ''ACH_NACHA'' pid raw"
  by (auto simp: ach_raw_def bindr_Inr_iff raw_header_def Let_def)

lemma fednow_raw_header: "fednow_raw m pid trace now mid = Inr raw \<Longrightarrow> raw_header ''FEDNOW'' pid raw"
  by (auto simp: fednow_raw_def bindr_Inr_iff raw_header_def)

lemma breb_raw_header [io_post]: "io_yields e (raw_header ''BRE_B'' pid) (breb_raw p pid trace now)"
proof -
  have "breb_native_raw p pid trace now m = Inr raw \<Longrightarrow> raw_header ''BRE_B'' pid raw" for m raw
    by (auto simp: breb_native_raw_def bindr_Inr_iff raw_header_def)
  moreover have "breb_generic_raw p pid trace now t rf = Inr raw \<Longrightarrow> raw_header ''BRE_B'' pid raw" for t rf raw
    by (auto simp: breb_generic_raw_def bindr_Inr_iff raw_header_def)
  ultimately show ?thesis
    unfolding breb_raw_def by (intro io_post io_yields_bind; simp)
qed

lemmas raw_headers = swift_raw_header iso_raw_header ach_raw_header fednow_raw_header

lemma structured_accepted [io_post]:
  "io_yields e (accepted_as e ''SWIFT_MT103'' pid) (swiftMt103ToCanonical p pid trace)"
  "io_yields e (accepted_as e ''ISO20022_MX'' pid) (iso20022MxToCanonical p pid trace)"
  "io_yields e (accepted_as e ''ACH_NACHA'' pid) (achNachaToCanonical p pid trace)"
  "io_yields e (accepted_as e ''FEDNOW'' pid) (fednowToCanonical p pid trace)"
  "io_yields e (accepted_as e ''BRE_B'' pid) (brebToCanonical p pid trace)"
  unfolding swiftMt103ToCanonical_def iso20022MxToCanonical_def achNachaToCanonical_def
    fednowToCanonical_def brebToCanonical_def
  by (intro io_yields_try rethrow_yields io_yields_bind_result io_yields_bindI [OF breb_raw_header]
      io_yields_bind [where f = "\<lambda>now. io_bind (breb_raw p pid trace now) _"] io_yields_bind
      parse_canonical_accepted_as raw_headers; assumption)+

lemma toCanonical_yields:
  assumes "rail_of r = Some x" "x \<noteq> PIX" "x \<noteq> SPEI"
  shows "io_yields e (accepted_as e r pid) (toCanonical r p pid trace)"
  using assms(2,3) rail_of_Some [THEN iffD1, OF assms(1)] assms(1)
  by (cases x) (auto simp: toCanonical_def intro!: structured_accepted)

lemma toCanonical_post:
  assumes "toCanonical r payload pid trace e w = (Inr c, w')"
  shows "(\<exists>x. rail_of r = Some x) \<and> wf_canonical (e_datetime e) c \<and>
    (r = ''PIX'' \<or> r = ''SPEI'' \<or>
     c_payment_id c = pid \<and> c_status c = ''RECEIVED'' \<and> rail_code (c_origin_rail c) = r)"
proof (cases "rail_of r")
  case None
  with assms show ?thesis by (simp add: toCanonical_def io_run)
next
  case (Some x)
  show ?thesis
  proof (cases "x = PIX \<or> x = SPEI")
    case True
    then have "io_yields e (accepted e) (toCanonical r payload pid trace)"
      using Some by (auto simp: toCanonical_def intro: io_post)
    then have "wf_canonical (e_datetime e) c" using assms by (auto simp: accepted_def dest: io_yieldsD)
    then show ?thesis using True Some rail_of_Some [THEN iffD1, OF Some] by auto
  next
    case False
    then have "accepted_as e r pid c" using io_yieldsD [OF toCanonical_yields [OF Some] assms] by simp
    then show ?thesis by (simp add: accepted_as_def Some)
  qed
qed

text \<open>
  C16: Whatever the payload, a translation to the canonical model that returns comes from a
  supported rail and meets every bound of the canonical schema; on the rails that do not
  use the mapping table it keeps the payment's identifier, starts in RECEIVED and names the
  rail it came from.
\<close>

theorem toCanonical_accepted:
  assumes "toCanonical r payload pid trace e w = (Inr c, w')"
  shows "(\<exists>x. rail_of r = Some x) \<and> wf_canonical (e_datetime e) c \<and>
    (r = ''PIX'' \<or> r = ''SPEI'' \<or>
     c_payment_id c = pid \<and> c_status c = ''RECEIVED'' \<and> rail_code (c_origin_rail c) = r)"
  using assms by (rule toCanonical_post)

section \<open>Errors of a translation\<close>

lemma rethrow_raises: "rethrow_as_translation r msg x e w = (Inl y, w') \<Longrightarrow> is_TranslationError y"
  by (auto simp: rethrow_as_translation_def TranslationError_def io_run split: if_splits)

lemma try_raises_translation:
  "io_try m (rethrow_as_translation r msg) e w = (Inl x, w') \<Longrightarrow> is_TranslationError x"
  by (auto simp: io_try_def dest: rethrow_raises split: prod.splits sum.splits)

lemma generic_raises:
  "generic_to_canonical r cur ctry ty prefix m1 m2 req pid trace now e w = (Inl x, w') \<Longrightarrow> is_TranslationError x"
  unfolding generic_to_canonical_def by (rule try_raises_translation)

lemma parse_canonical_raises: "parse_canonical r msg raw e w = (Inl x, w') \<Longrightarrow> is_TranslationError x"
  by (auto simp: parse_canonical_def io_run TranslationError_def split: option.splits)

lemma pix_pure_raises:
  "pix_is_native p = Inl x \<Longrightarrow> x = TypeError" "pix_native_raw p pid trace now e2e = Inl x \<Longrightarrow> x = TypeError"
  by (cases p; simp add: pix_is_native_def has_key_def)
    (cases e2e; simp add: pix_native_raw_def js_slice_def Let_def)

lemma fresh_if_nullish_no_error: "fresh_if_nullish q v e w \<noteq> (Inl x, w')"
  by (simp add: fresh_if_nullish_def io_run)

lemma io_result_Inl: "io_result r e w = (Inl x, w') \<longleftrightarrow> r = Inl x \<and> w' = w"
  by (auto simp: io_run)

lemma pix_raises:
  assumes "pixToCanonical p pid trace e w = (Inl x, w')"
  shows "is_TranslationError x \<or> x = TypeError"
  using assms unfolding pixToCanonical_def io_bind_Inl_iff now_iso_run io_result_Inl
  by (auto simp: io_bind_Inl_iff io_result_Inl fresh_if_nullish_no_error
      dest: pix_pure_raises generic_raises parse_canonical_raises split: if_splits)

lemma toCanonical_raises:
  assumes "toCanonical r payload pid trace e w = (Inl x, w')"
  shows "is_TranslationError x \<or> r = ''PIX'' \<and> x = TypeError"
proof (cases "rail_of r")
  case None
  with assms show ?thesis by (auto simp: toCanonical_def io_run TranslationError_def)
next
  case (Some y)
  then show ?thesis
    using assms rail_of_Some [THEN iffD1, OF Some]
    by (cases y) (auto simp: toCanonical_def speiToCanonical_def io_bind_Inl_iff now_iso_run
        swiftMt103ToCanonical_def iso20022MxToCanonical_def achNachaToCanonical_def
        fednowToCanonical_def brebToCanonical_def dest: pix_raises generic_raises try_raises_translation)
qed

text \<open>
  C25: A translation to the canonical model fails with a TranslationError on every rail,
  whatever went wrong inside it; the one other error that escapes is the TypeError of a PIX
  payload that is not an object or whose identifier is not a text.
\<close>

theorem toCanonical_errors:
  assumes "toCanonical r payload pid trace e w = (Inl x, w')"
  shows "is_TranslationError x \<or> r = ''PIX'' \<and> x = TypeError"
  using assms by (rule toCanonical_raises)

section \<open>Writing never fails\<close>

lemma uetr_total: "\<exists>s n. uetr_from t e w = (Inr s, w\<lparr>w_tick := n\<rparr>)"
proof (induction t arbitrary: w)
  case Nil
  have "uetr_from [] e w = (Inr [], w\<lparr>w_tick := w_tick w\<rparr>)" by (simp add: io_run)
  then show ?case by blast
next
  case (Cons c t)
  obtain s n where 1: "uetr_from t e w = (Inr s, w\<lparr>w_tick := n\<rparr>)" using Cons by blast
  obtain s' n' where 2: "uetr_from t e (tick w) = (Inr s', (tick w)\<lparr>w_tick := n'\<rparr>)" using Cons by blast
  show ?case using 1 2 by (auto simp: io_run io_bind_def [of "uetr_from t"] tick_def)
qed

lemma fromCanonical_runs:
  "case rail_of r of
     None \<Rightarrow> fromCanonical r c e w = (Inl (TranslationError r (''Unsupported destination rail: '' @ r) []), w)
   | Some _ \<Rightarrow> \<exists>v n. fromCanonical r c e w = (Inr v, w\<lparr>w_tick := n\<rparr>)"
proof -
  have f: "\<exists>v n. canonicalToFednow c e w = (Inr v, w\<lparr>w_tick := n\<rparr>)"
    using uetr_total [of "''xxxxxxxx-xxxx-4xxx-yxxx-xxxxxxxxxxxx''" e "tick w"]
    by (auto simp: canonicalToFednow_def generateUetr_def io_bind_def now_iso_run io_run tick_def io_return_def)
  have a: "\<exists>v n. io_bind (canonicalToAchNacha c) (\<lambda>x. io_return (ach_js x)) e w = (Inr v, w\<lparr>w_tick := n\<rparr>)"
    unfolding canonicalToAchNacha_def io_bind_assoc io_bind_return by (auto simp: io_run tick_def)
  have b: "\<exists>v n. canonicalToBreb c e w = (Inr v, w\<lparr>w_tick := n\<rparr>)"
    unfolding canonicalToBreb_def generateBrebTransactionId_def now_iso_def io_bind_assoc io_bind_return
    by (auto simp: io_run tick_def)
  have r: "\<exists>v n. io_return u e w = (Inr v, w\<lparr>w_tick := n\<rparr>)" for u :: jsval
    by (auto simp: io_run intro: exI [of _ "w_tick w"])
  show ?thesis
  proof (cases "rail_of r")
    case (Some x)
    then show ?thesis using f a b r by (cases x) (simp_all add: fromCanonical_def)
  qed (simp add: fromCanonical_def io_run)
qed

section \<open>A translation that succeeds\<close>

definition sample_ach :: jsval where
  "sample_ach = JObj
    [(''entryDetail'', JObj [(''routingTransitNumber'', JStr ''021000021''), (''accountNumber'', JStr ''12345''),
        (''amount'', JNum (Fin 12550)), (''individualName'', JStr ''Ana Ruiz''), (''traceNumber'', JStr ''021000020000001'')]),
     (''batchHeader'', JObj [(''companyName'', JStr ''ACME''), (''companyId'', JStr ''1234567890''),
        (''companyEntryDescription'', JStr ''PAYROLL''), (''originatingDfiId'', JStr ''02100002''), (''batchNumber'', JStr ''0000001'')]),
     (''originator'', JObj [(''name'', JStr ''ACME Corp''), (''accountNumber'', JStr ''987'')])]"


definition sample_ach_raw :: jsval where
  "sample_ach_raw = (case ach_raw sample_ach (opt_prop sample_ach ''entryDetail'') (opt_prop sample_ach ''batchHeader'')
     ''PMT-01ARZ3NDEK'' None ''2026-03-13T10:30:00.000Z'' (JStr ''021000020000001'') ''01ARZ3NDEKTSV4RRFFQ1''
     of Inr v \<Rightarrow> v | Inl _ \<Rightarrow> JUndef)"

definition sample_ach_canonical :: canonical where
  "sample_ach_canonical = the (canonicalPacs008Schema (\<lambda>s. True) sample_ach_raw)"

lemma sample_ach_schema: "canonicalPacs008Schema (\<lambda>s. True) sample_ach_raw = Some sample_ach_canonical"
  by code_simp

lemma sample_ach_raw: "ach_raw sample_ach (opt_prop sample_ach ''entryDetail'') (opt_prop sample_ach ''batchHeader'')
     ''PMT-01ARZ3NDEK'' None ''2026-03-13T10:30:00.000Z'' (JStr ''021000020000001'') ''01ARZ3NDEKTSV4RRFFQ1'' = Inr sample_ach_raw"
  by code_simp

lemma sample_time: "toISOString 1773397800000 = ''2026-03-13T10:30:00.000Z''"
  by code_simp

lemma sample_ach_run:
  "toCanonical ''ACH_NACHA'' sample_ach ''PMT-01ARZ3NDEK'' None sample_env sample_world =
   (Inr sample_ach_canonical, tick (tick sample_world))"
proof -
  have r: "rail_of ''ACH_NACHA'' = Some ACH_NACHA" by code_simp
  have p: "get_prop sample_ach ''entryDetail'' = Inr (opt_prop sample_ach ''entryDetail'')"
    "get_prop sample_ach ''batchHeader'' = Inr (opt_prop sample_ach ''batchHeader'')"
    "get_prop (opt_prop sample_ach ''entryDetail'') ''traceNumber'' = Inr (JStr ''021000020000001'')"
    by code_simp+
  have u: "e_ulid sample_env (Suc 0) = ''01ARZ3NDEKTSV4RRFFQ1''" by code_simp
  have t: "ach_trace (opt_prop sample_ach ''entryDetail'') b e w = (Inr (JStr ''021000020000001''), w)" for b e w
    using p(3) by (simp add: ach_trace_def io_run is_nullish_def)
  have s: "parse_canonical r m sample_ach_raw sample_env w = (Inr sample_ach_canonical, w)" for r m w
    using sample_ach_schema by (simp add: parse_canonical_def io_run)
  show ?thesis
    unfolding toCanonical_def r option.case rail.case achNachaToCanonical_def
    by (simp add: io_try_run io_run p(1,2) io_bind_eval [OF now_iso_run] io_bind_eval [OF t] s u
        sample_time sample_ach_raw)
qed
lemma toCanonical_accepted_witness:
  "wf_canonical (\<lambda>s. True) sample_ach_canonical \<and> c_payment_id sample_ach_canonical = ''PMT-01ARZ3NDEK'' \<and>
   rail_code (c_origin_rail sample_ach_canonical) = ''ACH_NACHA''"
  using toCanonical_accepted [OF sample_ach_run] by simp

lemma toCanonical_errors_witness:
  "\<exists>x w'. toCanonical ''RTP'' JNull ''PMT-01ARZ3NDEK'' None sample_env sample_world = (Inl x, w') \<and> is_TranslationError x"
proof -
  have "rail_of ''RTP'' = None" by code_simp
  then have "toCanonical ''RTP'' JNull ''PMT-01ARZ3NDEK'' None sample_env sample_world =
      (Inl (TranslationError ''RTP'' ''Unsupported origin rail: RTP'' []), sample_world)"
    by (simp add: toCanonical_def io_run)
  from this toCanonical_errors [OF this] show ?thesis by auto
qed

end
