(* ===== verification/Normalizer.thy ===== *)
theory Normalizer
  imports TtlCache Canonical
begin

text \<open>
  \<open>FxService\<close> of \<open>src/fx/fx-service.ts\<close> and the normalizer of \<open>src/normalization\<close>: exchange
  rates with a cache and fallback rates, conversion rounded to cents, and the four rules
  applied to a canonical message (dates, currency, identifiers, fallbacks). The lemmas show
  that neither an unreachable rate service nor an unreadable date makes normalization fail,
  and what it changes in the message.
\<close>

section \<open>Exchange rates\<close>

definition SUPPORTED_CURRENCIES :: "string list" where
  "SUPPORTED_CURRENCIES = [''USD'', ''BRL'', ''MXN'', ''COP'', ''EUR'']"

definition FALLBACK_RATES :: "(string \<times> jsval) list" where
  "FALLBACK_RATES = [(''USD'', JNum (Fin 1)), (''BRL'', JNum (num_of (502 / 100))),
     (''MXN'', JNum (num_of (1743 / 100))), (''COP'', JNum (Fin 4180)), (''EUR'', JNum (num_of (92 / 100)))]"

definition FX_TTL_MS :: int where
  "FX_TTL_MS = 5 * 60 * 1000"

text \<open>The rates of an answer laid over the fallback rates, currency by currency.\<close>

fun merge_rates :: "jsval \<Rightarrow> string list \<Rightarrow> (string \<times> jsval) list \<Rightarrow> js_error + (string \<times> jsval) list" where
  "merge_rates body [] rates = Inr rates"
| "merge_rates body (c # cs) rates =
     bindr (get_prop body ''rates'') (\<lambda>rs. bindr (get_prop rs c) (\<lambda>v.
       merge_rates body cs (if v = JUndef then rates else alist_set rates c v)))"

definition fx_fetch_rates :: "int \<Rightarrow> (string \<times> jsval) list io" where
  "fx_fetch_rates now = io_bind http_fetch (\<lambda>r. case r of
     Inl m \<Rightarrow> io_throw (PlainError m)
   | Inr (status, _, body) \<Rightarrow>
       if \<not> (200 \<le> status \<and> status \<le> 299)
       then io_throw (PlainError (''Open Exchange Rates API returned HTTP '' @ show_int status))
       else io_bind (io_result (merge_rates body SUPPORTED_CURRENCIES FALLBACK_RATES)) (\<lambda>rates.
         io_then (io_modify (\<lambda>w. w\<lparr>w_fx_cache := Some (rates, now)\<rparr>)) (io_return rates)))"

definition fx_cached :: "(string \<times> jsval) list io" where
  "fx_cached = io_get (\<lambda>w. case w_fx_cache w of Some (rates, _) \<Rightarrow> rates | None \<Rightarrow> FALLBACK_RATES)"

definition fx_getRates :: "(string \<times> jsval) list io" where
  "fx_getRates = io_bind date_now (\<lambda>now. io_bind (io_get w_fx_cache) (\<lambda>c.
     let ask = io_bind (io_env e_appId) (\<lambda>app.
           if str_or app [] = [] then io_return FALLBACK_RATES
           else io_try (fx_fetch_rates now) (\<lambda>_. fx_cached))
     in case c of Some (rates, fetched) \<Rightarrow> if now - fetched < FX_TTL_MS then io_return rates else ask
        | None \<Rightarrow> ask))"

definition fx_invalidateCache :: "unit io" where
  "fx_invalidateCache = io_modify (\<lambda>w. w\<lparr>w_fx_cache := None\<rparr>)"

text \<open>\<open>rates[c] ?? 1\<close>\<close>

definition rate_of :: "(string \<times> jsval) list \<Rightarrow> string \<Rightarrow> jsnum" where
  "rate_of rates c = Number_val (nullish (opt_prop (JObj rates) c) (JNum (Fin 1)))"

definition fx_getRate :: "string \<Rightarrow> string \<Rightarrow> jsnum io" where
  "fx_getRate source target = (if source = target then io_return (Fin 1)
     else io_bind fx_getRates (\<lambda>rates. io_return (num_div (rate_of rates target) (rate_of rates source))))"

definition round_cents :: "jsnum \<Rightarrow> jsnum" where
  "round_cents x = num_div (Math_round (num_mul x (Fin 100))) (Fin 100)"

definition fx_convert :: "jsnum \<Rightarrow> string \<Rightarrow> string \<Rightarrow> jsnum io" where
  "fx_convert amount from_c to_c = io_bind (fx_getRate from_c to_c) (\<lambda>rate.
     io_return (round_cents (num_mul amount rate)))"

section \<open>The rules\<close>

definition RAIL_LOCAL_CURRENCY :: "rail \<Rightarrow> string" where
  "RAIL_LOCAL_CURRENCY r = (case r of PIX \<Rightarrow> ''BRL'' | SPEI \<Rightarrow> ''MXN'' | BRE_B \<Rightarrow> ''COP''
     | ACH_NACHA \<Rightarrow> ''USD'' | FEDNOW \<Rightarrow> ''USD'' | SWIFT_MT103 \<Rightarrow> ''USD'' | ISO20022_MX \<Rightarrow> ''EUR'')"

definition safeToISO :: "(string \<Rightarrow> int option) \<Rightarrow> string \<Rightarrow> string" where
  "safeToISO legacy val = (case date_parse legacy val of None \<Rightarrow> val | Some t \<Rightarrow> toISOString t)"

definition normalizeDates :: "(string \<Rightarrow> int option) \<Rightarrow> canonical \<Rightarrow> canonical" where
  "normalizeDates legacy c = c\<lparr>c_created_at := safeToISO legacy (c_created_at c),
     c_grpHdr := (c_grpHdr c)\<lparr>gh_creDtTm := safeToISO legacy (gh_creDtTm (c_grpHdr c))\<rparr>\<rparr>"

definition fx_rate_and_amount :: "jsnum \<Rightarrow> string \<Rightarrow> string \<Rightarrow> fx_info io" where
  "fx_rate_and_amount v cur loc = io_bind (fx_getRate cur loc) (\<lambda>rate.
     io_bind (fx_convert v cur loc) (\<lambda>amt.
     io_return \<lparr>fx_source = Some cur, fx_target = Some loc, fx_rate = Some rate, fx_local_amount = Some amt\<rparr>))"

definition normalizeCurrency :: "canonical \<Rightarrow> canonical io" where
  "normalizeCurrency c =
    (let cur = toUpperCase (am_currency (c_amount c));
         loc = RAIL_LOCAL_CURRENCY (c_origin_rail c);
         r = c\<lparr>c_amount := (c_amount c)\<lparr>am_currency := cur\<rparr>\<rparr>
     in if cur = loc then io_return r
        else io_try (io_bind (fx_rate_and_amount (am_value (c_amount c)) cur loc)
                       (\<lambda>f. io_return (r\<lparr>c_fx := Some f\<rparr>)))
               (\<lambda>_. io_return r))"

text \<open>\<open>s || \<dots>ulid()\<close>: an identifier is drawn only when the field is empty.\<close>

definition id_or_fresh :: "string \<Rightarrow> string \<Rightarrow> string io" where
  "id_or_fresh s prefix = (if s \<noteq> [] then io_return s
     else io_bind fresh_ulid (\<lambda>u. io_return (prefix @ u)))"

definition normalizeIds :: "canonical \<Rightarrow> canonical io" where
  "normalizeIds c = io_bind (id_or_fresh (gh_msgId (c_grpHdr c)) ''MSG-'') (\<lambda>m.
     io_bind (id_or_fresh (pi_endToEndId (c_pmtId c)) ''E2E-'') (\<lambda>x.
     io_return (c\<lparr>c_grpHdr := (c_grpHdr c)\<lparr>gh_msgId := m\<rparr>,
       c_pmtId := (c_pmtId c)\<lparr>pi_endToEndId := x\<rparr>\<rparr>)))"

definition applyFallbacks :: "canonical \<Rightarrow> canonical" where
  "applyFallbacks c = c\<lparr>c_purpose := (if c_purpose c = [] then ''P2P'' else c_purpose c),
     c_reference := (if c_reference c = [] then ''MIPIT-POC'' else c_reference c)\<rparr>"

definition normalize :: "canonical \<Rightarrow> canonical io" where
  "normalize c = io_bind (io_env e_date_legacy) (\<lambda>legacy.
     io_bind (normalizeCurrency (normalizeDates legacy c)) (\<lambda>c1.
     io_bind (normalizeIds c1) (\<lambda>c2. io_return (applyFallbacks c2))))"

section \<open>Rates are always there\<close>

lemma merge_rates_keys:
  "merge_rates body cs rates = Inr rs \<Longrightarrow> fst ` set rates \<subseteq> fst ` set rs"
proof (induction cs arbitrary: rates)
  case (Cons c cs)
  then obtain v where v: "merge_rates body cs (if v = JUndef then rates else alist_set rates c v) = Inr rs"
    by (auto simp: bindr_Inr_iff)
  have "fst ` set (alist_set rates c v) = insert c (fst ` set rates)"
    by (metis dom_fun_upd dom_map_of_conv_image_fst map_of_alist_set option.distinct(1))
  with Cons.IH [OF v] show ?case by (auto split: if_splits)
qed auto

text \<open>Every way to a rate: a fresh cache, no application id, an answer, a stale cache.\<close>

definition rates_at :: "environment \<Rightarrow> world \<Rightarrow> (string \<times> jsval) list" where
  "rates_at e w = (let now = e_now e (w_tick w);
      stale = (case w_fx_cache w of Some (rates, _) \<Rightarrow> rates | None \<Rightarrow> FALLBACK_RATES);
      ask = (if str_or (e_appId e) [] = [] then FALLBACK_RATES
        else case e_fetch e (Suc (w_tick w)) of Inl _ \<Rightarrow> stale
          | Inr (st, _, body) \<Rightarrow> if 200 \<le> st \<and> st \<le> 299
              then (case merge_rates body SUPPORTED_CURRENCIES FALLBACK_RATES of Inr rs \<Rightarrow> rs | Inl _ \<Rightarrow> stale)
              else stale)
    in case w_fx_cache w of Some (rates, fetched) \<Rightarrow> if now - fetched < FX_TTL_MS then rates else ask | None \<Rightarrow> ask)"

lemma fx_try_run:
  "fst (io_try (fx_fetch_rates now) (\<lambda>_. fx_cached) e w) = Inr (
     let stale = (case w_fx_cache w of Some (rates, _) \<Rightarrow> rates | None \<Rightarrow> FALLBACK_RATES) in
     case e_fetch e (w_tick w) of Inl _ \<Rightarrow> stale
       | Inr (st, _, body) \<Rightarrow> if 200 \<le> st \<and> st \<le> 299
          then (case merge_rates body SUPPORTED_CURRENCIES FALLBACK_RATES of Inr rs \<Rightarrow> rs | Inl _ \<Rightarrow> stale) else stale)"
  by (auto simp: io_try_run fx_fetch_rates_def fx_cached_def io_eval split: sum.splits prod.splits)

lemma fx_getRates_run: "fst (fx_getRates e w) = Inr (rates_at e w)"
  by (auto simp: fx_getRates_def rates_at_def io_eval fx_try_run Let_def split: option.splits)

lemma fx_getRate_run:
  "fst (fx_getRate a b e w) = Inr (if a = b then Fin 1 else num_div (rate_of (rates_at e w) b) (rate_of (rates_at e w) a))"
proof (cases "fx_getRates e w")
  case (Pair r w')
  then show ?thesis using fx_getRates_run [of e w] by (simp add: fx_getRate_def io_eval io_bind_def)
qed

lemma io_never_raises:
  assumes "\<And>w. \<exists>a. fst (m e w) = Inr a"
  obtains a w' where "m e w = (Inr a, w')"
  using assms [of w] by (cases "m e w") auto

lemma fx_getRate_returns: "\<exists>w'. fx_getRate a b e w =
    (Inr (if a = b then Fin 1 else num_div (rate_of (rates_at e w) b) (rate_of (rates_at e w) a)), w')"
  using fx_getRate_run [of a b e w] by (cases "fx_getRate a b e w") auto

lemma fx_rate_and_amount_returns:
  "\<exists>amt w'. fx_rate_and_amount v cur loc e w =
    (Inr \<lparr>fx_source = Some cur, fx_target = Some loc,
      fx_rate = Some (if cur = loc then Fin 1 else num_div (rate_of (rates_at e w) loc) (rate_of (rates_at e w) cur)),
      fx_local_amount = Some amt\<rparr>, w')"
proof -
  obtain w1 where 1: "fx_getRate cur loc e w =
     (Inr (if cur = loc then Fin 1 else num_div (rate_of (rates_at e w) loc) (rate_of (rates_at e w) cur)), w1)"
    using fx_getRate_returns [of cur loc e w] by blast
  obtain x w2 where 2: "fx_getRate cur loc e w1 = (Inr x, w2)"
    using fx_getRate_returns [of cur loc e w1] by blast
  show ?thesis
    using 1 2 by (cases "cur = loc")
      (simp_all add: fx_rate_and_amount_def fx_convert_def io_bind_assoc io_bind_def io_return_def)
qed

lemma id_or_fresh_returns:
  "\<exists>w'. id_or_fresh s (c # p) e w = (Inr (if s \<noteq> [] then s else c # p @ e_ulid e (w_tick w)), w')"
  by (auto simp: id_or_fresh_def io_eval)

definition rate_at :: "environment \<Rightarrow> world \<Rightarrow> string \<Rightarrow> string \<Rightarrow> jsnum" where
  "rate_at e w cur loc = num_div (rate_of (rates_at e w) loc) (rate_of (rates_at e w) cur)"

lemma normalizeCurrency_returns:
  assumes "cur = toUpperCase (am_currency (c_amount c))" "loc = RAIL_LOCAL_CURRENCY (c_origin_rail c)"
  shows "\<exists>amt w'. normalizeCurrency c e w = (Inr (c\<lparr>c_amount := (c_amount c)\<lparr>am_currency := cur\<rparr>,
     c_fx := (if cur = loc then c_fx c else Some \<lparr>fx_source = Some cur, fx_target = Some loc,
       fx_rate = Some (rate_at e w cur loc), fx_local_amount = Some amt\<rparr>)\<rparr>), w')"
proof (cases "cur = loc")
  case True
  then show ?thesis using assms by (auto simp: normalizeCurrency_def Let_def io_eval)
next
  case False
  obtain amt w' where r: "fx_rate_and_amount (am_value (c_amount c)) cur loc e w =
    (Inr \<lparr>fx_source = Some cur, fx_target = Some loc, fx_rate = Some (rate_at e w cur loc),
      fx_local_amount = Some amt\<rparr>, w')"
    using fx_rate_and_amount_returns [of "am_value (c_amount c)" cur loc e w] False by (auto simp: rate_at_def)
  show ?thesis
    unfolding normalizeCurrency_def Let_def io_try_run io_bind_def [of "fx_rate_and_amount _ _ _"]
    using r False assms by (simp add: io_eval) blast
qed

lemma normalizeIds_returns:
  "\<exists>m x w'. normalizeIds c e w = (Inr (c\<lparr>c_grpHdr := (c_grpHdr c)\<lparr>gh_msgId := m\<rparr>,
     c_pmtId := (c_pmtId c)\<lparr>pi_endToEndId := x\<rparr>\<rparr>), w') \<and> m \<noteq> [] \<and> x \<noteq> [] \<and>
     (gh_msgId (c_grpHdr c) = [] \<or> m = gh_msgId (c_grpHdr c)) \<and>
     (pi_endToEndId (c_pmtId c) = [] \<or> x = pi_endToEndId (c_pmtId c))"
  by (auto simp: normalizeIds_def id_or_fresh_def io_eval io_bind_assoc)

lemma normalize_steps:
  "normalize c e w = (case normalizeCurrency (normalizeDates (e_date_legacy e) c) e w of
     (Inl x, w') \<Rightarrow> (Inl x, w')
   | (Inr c1, w') \<Rightarrow> (case normalizeIds c1 e w' of (Inl x, w'') \<Rightarrow> (Inl x, w'')
       | (Inr c2, w'') \<Rightarrow> (Inr (applyFallbacks c2), w'')))"
  by (auto simp: normalize_def io_eval io_bind_def [of "normalizeCurrency _"] io_bind_def [of "normalizeIds _"]
      split: prod.splits sum.splits)

lemma fx_getRates_quiet [io_frame]: "io_keeps quiet fx_getRates"
  unfolding fx_getRates_def fx_fetch_rates_def fx_cached_def Let_def
  by (auto intro!: io_frame quiet.modify simp: quiet_def split: prod.split option.split)

lemma normalize_quiet [io_frame]: "io_keeps quiet (normalize c)"
  unfolding normalize_def normalizeCurrency_def normalizeIds_def id_or_fresh_def fx_rate_and_amount_def
    fx_convert_def fx_getRate_def Let_def
  by (intro io_frame)

section \<open>Properties\<close>

text \<open>
  C24: Normalization never fails, whatever the rate service answers and whatever the dates
  are. Its result has an upper-case currency, a message id, an end-to-end id, a purpose and a
  reference that are not empty, and the payment's id, amount, parties and alias unchanged;
  exchange data is set exactly when the currency is not the origin rail's own, with the rate
  in force at that moment.
\<close>

theorem normalize_total:
  defines "cur \<equiv> \<lambda>c. toUpperCase (am_currency (c_amount c))" and "loc \<equiv> \<lambda>c. RAIL_LOCAL_CURRENCY (c_origin_rail c)"
  shows "\<exists>c' w'. normalize c e w = (Inr c', w') \<and>
    am_currency (c_amount c') = cur c \<and> am_value (c_amount c') = am_value (c_amount c) \<and>
    gh_msgId (c_grpHdr c') \<noteq> [] \<and> pi_endToEndId (c_pmtId c') \<noteq> [] \<and>
    c_purpose c' \<noteq> [] \<and> c_reference c' \<noteq> [] \<and>
    c_payment_id c' = c_payment_id c \<and> c_debtor c' = c_debtor c \<and> c_creditor c' = c_creditor c \<and>
    c_alias c' = c_alias c \<and> c_origin_rail c' = c_origin_rail c \<and>
    (if cur c = loc c then c_fx c' = c_fx c
     else \<exists>amt. c_fx c' = Some \<lparr>fx_source = Some (cur c), fx_target = Some (loc c),
       fx_rate = Some (rate_at e w (cur c) (loc c)), fx_local_amount = Some amt\<rparr>)"
proof -
  let ?d = "normalizeDates (e_date_legacy e) c"
  have d: "c_amount ?d = c_amount c" "c_origin_rail ?d = c_origin_rail c" "c_fx ?d = c_fx c"
    by (simp_all add: normalizeDates_def)
  obtain amt w1 where 1: "normalizeCurrency ?d e w = (Inr (?d\<lparr>c_amount := (c_amount ?d)\<lparr>am_currency := cur c\<rparr>,
      c_fx := (if cur c = loc c then c_fx ?d else Some \<lparr>fx_source = Some (cur c), fx_target = Some (loc c),
        fx_rate = Some (rate_at e w (cur c) (loc c)), fx_local_amount = Some amt\<rparr>)\<rparr>), w1)" (is "_ = (Inr ?c1, w1)")
    using normalizeCurrency_returns [of "cur c" ?d "loc c" e w] by (auto simp: cur_def loc_def d)
  obtain m x w2 where 2: "normalizeIds ?c1 e w1 = (Inr (?c1\<lparr>c_grpHdr := (c_grpHdr ?c1)\<lparr>gh_msgId := m\<rparr>,
      c_pmtId := (c_pmtId ?c1)\<lparr>pi_endToEndId := x\<rparr>\<rparr>), w2)" "m \<noteq> []" "x \<noteq> []"
    using normalizeIds_returns [of ?c1 e w1] by blast
  show ?thesis
    unfolding normalize_steps 1 prod.case sum.case 2(1)
    using 2(2,3) by (auto simp: applyFallbacks_def normalizeDates_def)
qed

end
