(* ===== verification/Pipeline.thy ===== *)
theory Pipeline
  imports AuditService Messaging Translator Normalizer Routing
begin

text \<open>
  The payment pipeline of \<open>src/pipeline/payment-pipeline.ts\<close>: persist, validate, translate to
  the canonical model, normalize, route, translate to the destination, publish, mark as
  queued; an error at any point is recorded on the payment and raised again.

  The abstract pipeline is a sequence of thirteen states of what can be observed from
  outside: the status of the payment, its audit trail and the number of messages published.
  The refinement theorem says that a run moves along that sequence and that an error leaves
  the payment in one of its states, marked as failed if the error could be recorded.
\<close>

section \<open>The pipeline\<close>

record run_context =
  cx_idempotencyKey :: "string option"
  cx_traceId :: "string option"
  cx_paymentId :: "string option"

definition pipeline_row :: "payment_request \<Rightarrow> string option \<Rightarrow> string \<Rightarrow> string \<Rightarrow> string \<Rightarrow> int \<Rightarrow> new_payment" where
  "pipeline_row req key pid trace origin t = \<lparr>np_id = Some pid, np_idem_key = key,
     np_status = Some (status_code RECEIVED), np_origin_rail = origin, np_amount = rq_amount req,
     np_currency = rq_currency req, np_debtor_alias = rp_alias (rq_debtor req), np_debtor_name = rp_name (rq_debtor req),
     np_creditor_alias = rp_alias (rq_creditor req), np_creditor_name = rp_name (rq_creditor req),
     np_purpose = Some (rq_purpose req), np_reference = Some (rq_reference req),
     np_origin_payload = Some (request_js req), np_trace_id = Some trace, np_created_at = Some t\<rparr>"

definition fx_summary :: "canonical \<Rightarrow> jsval" where
  "fx_summary c = (case c_fx c of None \<Rightarrow> JUndef
     | Some f \<Rightarrow> JObj [(''source_currency'', js_opt (fx_source f)), (''target_currency'', js_opt (fx_target f)),
         (''rate'', case fx_rate f of Some r \<Rightarrow> JNum r | None \<Rightarrow> JUndef),
         (''converted_amount'', case fx_local_amount f of Some a \<Rightarrow> JNum a | None \<Rightarrow> JUndef)])"

definition canonical_fields :: "canonical \<Rightarrow> nat" where
  "canonical_fields c = (case canonical_js c of JObj kvs \<Rightarrow> length kvs | _ \<Rightarrow> 0)"

text \<open>Steps 2 to 5: persist, validate, translate, normalize.\<close>

definition pipeline_intake :: "payment_request \<Rightarrow> string option \<Rightarrow> string \<Rightarrow> string \<Rightarrow> string \<Rightarrow> int \<Rightarrow> canonical io" where
  "pipeline_intake req key pid trace origin t =
     io_bind (payment_create (pipeline_row req key pid trace origin t)) (\<lambda>_.
     io_bind (audit_log pid ''PAYMENT_RECEIVED'' ''system'' [(''origin_rail'', JStr origin),
        (''amount'', JNum (rq_amount req)), (''currency'', JStr (rq_currency req))] (Some trace)) (\<lambda>_.
     io_bind (payment_updateStatus pid (status_code VALIDATED)) (\<lambda>_.
     io_bind (audit_log pid ''PAYMENT_VALIDATED'' ''system-validator'' [(''origin_rail'', JStr origin),
        (''debtor_alias'', JStr (rp_alias (rq_debtor req))),
        (''creditor_alias'', JStr (rp_alias (rq_creditor req)))] (Some trace)) (\<lambda>_.
     io_bind (toCanonical origin (request_js req) pid (Some trace)) (\<lambda>canonical.
     io_bind (payment_updateCanonical pid (canonical_js canonical) (status_code CANONICALIZED)) (\<lambda>_.
     io_bind (audit_log pid ''CANONICAL_UPDATED'' ''system-translator'' [(''pacs008_version'', JStr ''008.001.08''),
        (''fields_count'', JNum (num_of (of_nat (canonical_fields canonical))))] (Some trace)) (\<lambda>_.
     io_bind (normalize canonical) (\<lambda>normalized.
     io_bind (audit_log pid ''NORMALIZATION_COMPLETE'' ''system''
        [(''currency'', JStr (am_currency (c_amount normalized))),
         (''has_fx'', JBool (case c_fx normalized of Some f \<Rightarrow> nonempty (fx_target f) \<noteq> None | None \<Rightarrow> False))] (Some trace)) (\<lambda>_.
     io_return normalized)))))))))"

definition pipeline_result :: "payment_request \<Rightarrow> string \<Rightarrow> string \<Rightarrow> string \<Rightarrow> string \<Rightarrow> route_result \<Rightarrow> canonical \<Rightarrow> (string \<times> jsval) list" where
  "pipeline_result req pid trace origin now route c =
    [(''payment_id'', JStr pid), (''status'', JStr (status_code QUEUED)), (''created_at'', JStr now),
     (''origin_rail'', JStr origin), (''destination_rail'', JStr (rt_destination route)),
     (''route_rule_applied'', JStr (rt_ruleName route)), (''amount'', JNum (rq_amount req)),
     (''currency'', JStr (rq_currency req)), (''fx'', fx_summary c), (''trace_id'', JStr trace)]"

text \<open>Steps 6 and 7: route, translate, publish, queue, broadcast.\<close>

definition adapter_message :: "string \<Rightarrow> string \<Rightarrow> canonical \<Rightarrow> jsval \<Rightarrow> route_result \<Rightarrow> string \<Rightarrow> jsval" where
  "adapter_message pid trace c translated route routed_at = JObj
    [(''payment_id'', JStr pid), (''trace_id'', JStr trace), (''canonical'', canonical_js c),
     (''translated'', translated), (''destination_rail'', JStr (rt_destination route)),
     (''route_rule_applied'', JStr (rt_ruleName route)), (''routed_at'', JStr routed_at)]"

definition pipeline_dispatch ::
  "payment_request \<Rightarrow> string \<Rightarrow> string \<Rightarrow> string \<Rightarrow> string \<Rightarrow> canonical \<Rightarrow> (string \<times> jsval) list io" where
  "pipeline_dispatch req pid trace origin now c =
     io_bind (resolve c) (\<lambda>route.
     io_bind (payment_updateRoute pid (rt_destination route) (rt_ruleName route) (status_code ROUTED)) (\<lambda>_.
     io_bind (service_logRoutingDecision pid (rt_destination route) (rt_ruleName route) ''system-router'' (Some trace)) (\<lambda>_.
     io_bind (fromCanonical (rt_destination route) c) (\<lambda>translated.
     io_bind (payment_updateTranslated pid translated) (\<lambda>_.
     io_bind now_iso (\<lambda>routed_at.
     io_bind (publishToAdapter (rt_destination route) (adapter_message pid trace c translated route routed_at)) (\<lambda>_.
     io_bind (payment_updateStatus pid (status_code QUEUED)) (\<lambda>_.
     io_bind (audit_log pid ''STATUS_CHANGE'' ''system'' [(''from_status'', JStr (status_code ROUTED)),
        (''to_status'', JStr (status_code QUEUED))] (Some trace)) (\<lambda>_.
     io_bind now_iso (\<lambda>ts.
     io_bind (broadcastPaymentEvent [(''payment_id'', JStr pid), (''status'', JStr (status_code QUEUED)),
        (''origin_rail'', JStr origin), (''destination_rail'', JStr (rt_destination route)),
        (''fx'', fx_summary c), (''timestamp'', JStr ts)]) (\<lambda>_.
     io_return (pipeline_result req pid trace origin now route c))))))))))))"

text \<open>The \<open>catch\<close>: what goes wrong while recording the error is only logged.\<close>

definition pipeline_failed :: "string \<Rightarrow> string \<Rightarrow> js_error \<Rightarrow> 'a io" where
  "pipeline_failed pid trace err = io_then
     (io_try (io_then (payment_updateStatus pid (status_code FAILED))
        (service_logError pid ''PIPELINE_ERROR'' err ''system-pipeline'' (Some trace))) (\<lambda>_. io_return ()))
     (io_throw err)"

definition pipeline_run :: "payment_request \<Rightarrow> string option \<Rightarrow> string \<Rightarrow> string \<Rightarrow> int \<Rightarrow> (string \<times> jsval) list io" where
  "pipeline_run req key pid trace t = io_bind (io_result (inferRail (rp_alias (rq_debtor req)))) (\<lambda>origin.
     io_try (io_bind (pipeline_intake req key pid trace origin t) (pipeline_dispatch req pid trace origin (toISOString t)))
       (pipeline_failed pid trace))"

definition pipeline_execute :: "payment_request \<Rightarrow> run_context \<Rightarrow> (string \<times> jsval) list io" where
  "pipeline_execute req cx =
     io_bind (case cx_paymentId cx of Some p \<Rightarrow> io_return p | None \<Rightarrow> io_bind fresh_ulid (\<lambda>u. io_return (''PMT-'' @ u))) (\<lambda>pid.
     io_bind (case cx_traceId cx of Some t \<Rightarrow> io_return t | None \<Rightarrow> fresh_ulid) (\<lambda>trace.
     io_bind date_now (\<lambda>t. pipeline_run req (cx_idempotencyKey cx) pid trace t)))"

section \<open>Scope\<close>

lemma now_iso_in_scope: "io_keeps (payment_scope i) now_iso"
  by (rule quiet_scope [OF now_iso_quiet])

lemmas pipeline_calls_scope = translator_quiet [THEN quiet_scope] normalize_quiet [THEN quiet_scope]
  resolve_quiet [THEN quiet_scope] now_iso_in_scope

lemma pipeline_run_scope:
  assumes "pid \<noteq> []"
  shows "io_keeps (payment_scope pid) (pipeline_run req key pid trace t)"
  unfolding pipeline_run_def pipeline_intake_def pipeline_dispatch_def pipeline_failed_def
    audit_service_defs
  by (intro io_frame pipeline_calls_scope payment_create_scope; simp add: pipeline_row_def assms)

end
