(* ===== verification/PipelineRefinement.thy ===== *)
theory PipelineRefinement
  imports Pipeline
begin

text \<open>
  The pipeline as a sequence of thirteen abstract states: what can be observed of a payment
  from outside, which is its status, its audit trail and the number of messages published.
  Each effect of \<open>Pipeline\<close> moves one step along the sequence or fails in place (the step
  lemmas), an error is recorded on the payment (\<open>failed_step\<close>), and the properties are the
  composition of these facts.
\<close>

section \<open>The abstract pipeline\<close>

record pipe_state =
  ps_status :: "string option"
  ps_events :: "string list"
  ps_sent :: nat

definition TRAIL :: "string list" where
  "TRAIL = [''PAYMENT_RECEIVED'', ''PAYMENT_VALIDATED'', ''CANONICAL_UPDATED'', ''NORMALIZATION_COMPLETE'',
     ''ROUTE_DECISION'', ''STATUS_CHANGE'']"

definition pipe :: "payment_status option \<Rightarrow> nat \<Rightarrow> nat \<Rightarrow> pipe_state" where
  "pipe st k n = \<lparr>ps_status = map_option status_code st, ps_events = take k TRAIL, ps_sent = n\<rparr>"

definition STAGES :: "pipe_state list" where
  "STAGES = [pipe None 0 0, pipe (Some RECEIVED) 0 0, pipe (Some RECEIVED) 1 0, pipe (Some VALIDATED) 1 0,
     pipe (Some VALIDATED) 2 0, pipe (Some CANONICALIZED) 2 0, pipe (Some CANONICALIZED) 3 0,
     pipe (Some CANONICALIZED) 4 0, pipe (Some ROUTED) 4 0, pipe (Some ROUTED) 5 0,
     pipe (Some ROUTED) 5 1, pipe (Some QUEUED) 5 1, pipe (Some QUEUED) 6 1]"

text \<open>What happened to a payment between two states.\<close>

definition observed :: "string \<Rightarrow> world \<Rightarrow> world \<Rightarrow> pipe_state" where
  "observed i w0 w = \<lparr>ps_status = map_option p_status (payment_row w i),
     ps_events = map ae_event_type (drop (length (w_audit w0)) (w_audit w)),
     ps_sent = length (w_bus w) - length (w_bus w0)\<rparr>"

definition stage :: "string \<Rightarrow> world \<Rightarrow> pipe_state \<Rightarrow> world \<Rightarrow> bool" where
  "stage i w0 s w = (appends w_audit w0 w \<and> appends w_bus w0 w \<and> observed i w0 w = s)"

lemma stage_tabular: "tabular (stage i w0 s)"
  by (auto simp: tabular_def quiet_def stage_def appends_def observed_def payment_row_def)

subsection \<open>The effects, one by one\<close>

lemma update_step:
  assumes "\<And>n r. p_id (f n r) = p_id r" "\<And>n r. p_status (f n r) = g (p_status r)"
  shows "io_spec e (stage i w0 s) (payment_update i f) (\<lambda>_. stage i w0 (s\<lparr>ps_status := map_option g (ps_status s)\<rparr>))
    (\<lambda>x w. stage i w0 s w \<and> (may_reject e \<or> ps_status s = None))"
  unfolding io_spec_def payment_update_run [of f, OF assms(1)] Let_def
  by (auto simp: stage_def appends_def observed_def payment_row_find rows_find_modify assms may_reject_def option.map_comp
      comp_def split: option.split)

lemma status_step:
  "\<not> blank i \<Longrightarrow> \<not> blank st \<Longrightarrow>
   io_spec e (stage i w0 s) (payment_updateStatus i st)
    (\<lambda>_. stage i w0 (s\<lparr>ps_status := map_option (\<lambda>_. st) (ps_status s)\<rparr>))
    (\<lambda>x w. stage i w0 s w \<and> (may_reject e \<or> ps_status s = None))"
  unfolding payment_updateStatus_def by (simp, rule update_step) (simp_all add: set_status_def)

lemma canonical_step:
  "\<not> blank i \<Longrightarrow> truthy c \<Longrightarrow>
   io_spec e (stage i w0 s) (payment_updateCanonical i c st)
    (\<lambda>_. stage i w0 (s\<lparr>ps_status := map_option (\<lambda>_. st) (ps_status s)\<rparr>))
    (\<lambda>x w. stage i w0 s w \<and> (may_reject e \<or> ps_status s = None))"
  unfolding payment_updateCanonical_def by (simp, rule update_step) (simp_all add: set_canonical_def)

lemma translated_step:
  "\<not> blank i \<Longrightarrow> io_spec e (stage i w0 s) (payment_updateTranslated i t) (\<lambda>_. stage i w0 s) (\<lambda>x. stage i w0 s)"
  unfolding payment_updateTranslated_def
  by (auto intro!: io_spec_throw io_spec_post [OF update_step [of _ "\<lambda>x. x"]] simp: set_translated_def option.map_ident)

lemma route_step:
  "\<not> blank i \<Longrightarrow> io_spec e (stage i w0 s) (payment_updateRoute i d rule st)
    (\<lambda>_. stage i w0 (s\<lparr>ps_status := map_option (\<lambda>_. st) (ps_status s)\<rparr>)) (\<lambda>x. stage i w0 s)"
  unfolding payment_updateRoute_def
  by (auto intro!: io_spec_throw io_spec_post [OF update_step [of _ "\<lambda>_. st"]] simp: set_route_def)

lemma audit_step:
  "\<not> blank i \<Longrightarrow> \<not> blank ev \<Longrightarrow> \<not> blank actor \<Longrightarrow> detail \<noteq> [] \<Longrightarrow>
   io_spec e (stage i w0 s) (audit_insert i ev actor detail trace)
    (\<lambda>_. stage i w0 (s\<lparr>ps_events := ps_events s @ [ev]\<rparr>)) (\<lambda>x w. stage i w0 s w \<and> may_reject e)"
  by (auto simp: io_spec_def audit_insert_def io_run db_query_def stage_def appends_def observed_def payment_row_def may_reject_def)

lemma publish_step:
  "io_spec e (stage i w0 s) (channel_publish ex key body) (\<lambda>_. stage i w0 (s\<lparr>ps_sent := Suc (ps_sent s)\<rparr>))
    (\<lambda>x w. stage i w0 s w \<and> may_reject e)"
  by (auto simp: io_spec_def channel_publish_def db_query_def stage_def appends_def observed_def payment_row_def may_reject_def)

lemma broadcast_step:
  "io_spec e (stage i w0 s) (broadcastPaymentEvent ev) (\<lambda>_. stage i w0 s) (\<lambda>_ _. False)"
  by (auto simp: io_spec_def broadcastPaymentEvent_def io_modify_def stage_def appends_def observed_def payment_row_def)

lemma now_step: "io_spec e (stage i w0 s) now_iso (\<lambda>_. stage i w0 s) (\<lambda>_ _. False)"
  by (auto simp: io_spec_def now_iso_run stage_def appends_def observed_def payment_row_def)

lemma create_step:
  "np_id np = Some i \<Longrightarrow> i \<noteq> [] \<Longrightarrow> ps_status s = None \<Longrightarrow>
   io_spec e (stage i w0 s) (payment_create np)
    (\<lambda>_. stage i w0 (s\<lparr>ps_status := Some (str_or (np_status np) (status_code RECEIVED))\<rparr>)) (\<lambda>x w. stage i w0 s w \<and> may_reject e)"
  by (auto simp: io_spec_def may_reject_def payment_create_def str_or_def io_run db_query_def stage_def appends_def observed_def
      payment_row_def find_append payment_insert_def Let_def split: option.splits)

subsection \<open>Refinement\<close>

text \<open>
  Where an error can leave the payment before it is recorded: after the row was created and
  before the publication, or anywhere before the end when a query can be rejected.
\<close>

definition stopped :: "string \<Rightarrow> environment \<Rightarrow> world \<Rightarrow> js_error \<Rightarrow> world \<Rightarrow> bool" where
  "stopped i e w0 x w = (\<exists>s. stage i w0 s w \<and>
     (s \<in> set (tl (take 10 STAGES)) \<or> may_reject e \<and> s \<in> set (take 12 STAGES)))"

lemma stage_bind:
  assumes "io_spec e (stage i w0 s) m (\<lambda>_. stage i w0 s') E"
    and "\<And>x w. E x w \<Longrightarrow> stopped i e w0 x w"
    and "\<And>a. io_spec e (stage i w0 s') (f a) Q (stopped i e w0)"
  shows "io_spec e (stage i w0 s) (io_bind m f) Q (stopped i e w0)"
  by (rule io_spec_bind [where R = "\<lambda>_. stage i w0 s'"])
    (rule io_spec_post [OF assms(1)], assumption, rule assms(2), assumption, rule assms(3))

named_theorems pipe_rule \<open>one effect of the pipeline\<close>

lemma quiet_bind [pipe_rule]:
  assumes "io_keeps quiet m" "s \<in> set (tl (take 10 STAGES))"
    and "\<And>a. io_spec e (stage i w0 s) (f a) Q (stopped i e w0)"
  shows "io_spec e (stage i w0 s) (io_bind m f) Q (stopped i e w0)"
  using assms(2) by (intro stage_bind [OF io_spec_quiet [OF assms(1) stage_tabular] _ assms(3)]) (auto simp: stopped_def)

lemma now_bind [pipe_rule]:
  "(\<And>a. io_spec e (stage i w0 s) (f a) Q (stopped i e w0)) \<Longrightarrow>
   io_spec e (stage i w0 s) (io_bind now_iso f) Q (stopped i e w0)"
  by (rule stage_bind [OF now_step]) simp_all

lemma status_bind [pipe_rule]:
  assumes "\<not> blank i" "\<not> blank (status_code x)" "pipe (Some st) k n \<in> set (take 12 STAGES)"
    and "\<And>a. io_spec e (stage i w0 (pipe (Some x) k n)) (f a) Q (stopped i e w0)"
  shows "io_spec e (stage i w0 (pipe (Some st) k n)) (io_bind (payment_updateStatus i (status_code x)) f) Q (stopped i e w0)"
  using assms(4) by (intro stage_bind [OF status_step [OF assms(1,2)]])
    (use assms(3) in \<open>auto simp: stopped_def pipe_def\<close>)

lemma canonical_bind [pipe_rule]:
  assumes "\<not> blank i" "truthy c" "pipe (Some st) k n \<in> set (tl (take 10 STAGES))"
    and "\<And>a. io_spec e (stage i w0 (pipe (Some x) k n)) (f a) Q (stopped i e w0)"
  shows "io_spec e (stage i w0 (pipe (Some st) k n)) (io_bind (payment_updateCanonical i c (status_code x)) f) Q (stopped i e w0)"
  using assms(4) by (intro stage_bind [OF canonical_step [OF assms(1,2)]])
    (use assms(3) in \<open>auto simp: stopped_def pipe_def\<close>)

lemma route_bind [pipe_rule]:
  assumes "\<not> blank i" "pipe (Some st) k n \<in> set (tl (take 10 STAGES))"
    and "\<And>a. io_spec e (stage i w0 (pipe (Some x) k n)) (f a) Q (stopped i e w0)"
  shows "io_spec e (stage i w0 (pipe (Some st) k n)) (io_bind (payment_updateRoute i d rule (status_code x)) f) Q (stopped i e w0)"
  using assms(3) by (intro stage_bind [OF route_step [OF assms(1)]])
    (use assms(2) in \<open>auto simp: stopped_def pipe_def\<close>)

lemma translated_bind [pipe_rule]:
  assumes "\<not> blank i" "s \<in> set (tl (take 10 STAGES))"
    and "\<And>a. io_spec e (stage i w0 s) (f a) Q (stopped i e w0)"
  shows "io_spec e (stage i w0 s) (io_bind (payment_updateTranslated i t) f) Q (stopped i e w0)"
  using assms(2) by (intro stage_bind [OF translated_step [OF assms(1)] _ assms(3)]) (auto simp: stopped_def)

lemma audit_bind [pipe_rule]:
  assumes "\<not> blank i" "\<not> blank ev" "\<not> blank actor" "detail \<noteq> []"
    and "k < length TRAIL" "TRAIL ! k = ev" "pipe st k n \<in> set (take 12 STAGES)"
    and "\<And>a. io_spec e (stage i w0 (pipe st (Suc k) n)) (f a) Q (stopped i e w0)"
  shows "io_spec e (stage i w0 (pipe st k n)) (io_bind (audit_insert i ev actor detail trace) f) Q (stopped i e w0)"
proof -
  have "(pipe st k n)\<lparr>ps_events := ps_events (pipe st k n) @ [ev]\<rparr> = pipe st (Suc k) n"
    using assms(5,6) by (simp add: pipe_def take_Suc_conv_app_nth)
  note step = audit_step [OF assms(1-4), of e w0 "pipe st k n" trace, unfolded this]
  show ?thesis by (rule stage_bind [OF step _ assms(8)]) (use assms(7) in \<open>auto simp: stopped_def\<close>)
qed

lemma publish_bind [pipe_rule]:
  assumes "pipe st k n \<in> set (tl (take 10 STAGES))"
    and "\<And>a. io_spec e (stage i w0 (pipe st k (Suc n))) (f a) Q (stopped i e w0)"
  shows "io_spec e (stage i w0 (pipe st k n)) (io_bind (publishToAdapter r msg) f) Q (stopped i e w0)"
proof (cases "map_of railKeyMap r")
  case None
  then show ?thesis using assms(1) by (auto simp: publishToAdapter_def stopped_def intro!: io_spec_throw)
next
  case (Some key)
  have "(pipe st k n)\<lparr>ps_sent := Suc (ps_sent (pipe st k n))\<rparr> = pipe st k (Suc n)" by (simp add: pipe_def)
  note step = publish_step [of e i w0 "pipe st k n", unfolded this]
  have "io_spec e (stage i w0 (pipe st k n)) (io_bind (channel_publish EXCHANGE_PAYMENTS key msg) f) Q (stopped i e w0)"
    by (rule stage_bind [OF step _ assms(2)]) (use assms(1) in \<open>auto simp: stopped_def\<close>)
  then show ?thesis by (simp add: publishToAdapter_def Some)
qed

lemma broadcast_bind [pipe_rule]:
  "(\<And>a. io_spec e (stage i w0 s) (f a) Q (stopped i e w0)) \<Longrightarrow>
   io_spec e (stage i w0 s) (io_bind (broadcastPaymentEvent ev) f) Q (stopped i e w0)"
  by (rule stage_bind [OF broadcast_step]) simp_all

lemma create_bind [pipe_rule]:
  assumes "np_id np = Some i" "i \<noteq> []" "np_status np = Some (status_code RECEIVED)" "pipe None k n \<in> set (take 12 STAGES)"
    and "\<And>a. io_spec e (stage i w0 (pipe (Some RECEIVED) k n)) (f a) Q (stopped i e w0)"
  shows "io_spec e (stage i w0 (pipe None k n)) (io_bind (payment_create np) f) Q (stopped i e w0)"
  using assms(5) by (intro stage_bind [OF create_step [OF assms(1,2)]])
    (use assms(3,4) in \<open>auto simp: stopped_def pipe_def str_or_def\<close>)

lemma not_blank_literals:
  "\<not> blank ''PAYMENT_RECEIVED''" "\<not> blank ''PAYMENT_VALIDATED''" "\<not> blank ''CANONICAL_UPDATED''"
  "\<not> blank ''NORMALIZATION_COMPLETE''" "\<not> blank ''ROUTE_DECISION''" "\<not> blank ''STATUS_CHANGE''"
  "\<not> blank ''PIPELINE_ERROR''" "\<not> blank ''system''" "\<not> blank ''system-validator''" "\<not> blank ''system-translator''"
  "\<not> blank ''system-router''" "\<not> blank ''system-pipeline''"
  "\<not> blank ''VALIDATED''" "\<not> blank ''QUEUED''" "\<not> blank ''FAILED''"
  by code_simp+

lemma stages_members:
  "pipe None 0 0 \<in> set (take 12 STAGES)"
  "pipe (Some RECEIVED) 0 0 \<in> set (take 12 STAGES)" "pipe (Some RECEIVED) (Suc 0) 0 \<in> set (take 12 STAGES)"
  "pipe (Some VALIDATED) (Suc 0) 0 \<in> set (take 12 STAGES)" 
  "pipe (Some VALIDATED) (Suc (Suc 0)) 0 \<in> set (tl (take 10 STAGES))"
  "pipe (Some CANONICALIZED) (Suc (Suc 0)) 0 \<in> set (take 12 STAGES)"
  "pipe (Some CANONICALIZED) (Suc (Suc (Suc 0))) 0 \<in> set (tl (take 10 STAGES))"
  "pipe (Some CANONICALIZED) (Suc (Suc (Suc 0))) 0 \<in> set (take 12 STAGES)"
  "pipe (Some CANONICALIZED) (Suc (Suc (Suc (Suc 0)))) 0 \<in> set (tl (take 10 STAGES))"
  "pipe (Some ROUTED) (Suc (Suc (Suc (Suc 0)))) 0 \<in> set (take 12 STAGES)"
  "pipe (Some ROUTED) (Suc (Suc (Suc (Suc (Suc 0))))) 0 \<in> set (tl (take 10 STAGES))"
  "pipe (Some ROUTED) (Suc (Suc (Suc (Suc (Suc 0))))) (Suc 0) \<in> set (take 12 STAGES)"
  "pipe (Some QUEUED) (Suc (Suc (Suc (Suc (Suc 0))))) (Suc 0) \<in> set (take 12 STAGES)"
  by (simp_all add: STAGES_def eval_nat_numeral)

lemma intake_stages:
  assumes "\<not> blank i"
  shows "io_spec e (stage i w0 (pipe None 0 0)) (pipeline_intake req key i trace origin t)
    (\<lambda>_. stage i w0 (pipe (Some CANONICALIZED) (Suc (Suc (Suc (Suc 0)))) 0)) (stopped i e w0)"
proof -
  have "i \<noteq> []" using assms by (auto simp: blank_def)
  then show ?thesis
    unfolding pipeline_intake_def audit_service_defs
    using assms
    by (intro create_bind audit_bind status_bind canonical_bind quiet_bind translator_quiet normalize_quiet io_spec_return;
        simp add: pipeline_row_def not_blank_literals stages_members TRAIL_def canonical_js_def)
qed

lemma dispatch_stages:
  assumes "\<not> blank i"
  shows "io_spec e (stage i w0 (pipe (Some CANONICALIZED) (Suc (Suc (Suc (Suc 0)))) 0))
    (pipeline_dispatch req i trace origin now c)
    (\<lambda>_. stage i w0 (pipe (Some QUEUED) (Suc (Suc (Suc (Suc (Suc (Suc 0)))))) (Suc 0))) (stopped i e w0)"
  using assms unfolding pipeline_dispatch_def audit_service_defs audit_logRoutingDecision_def io_bind_assoc
  by (intro now_bind broadcast_bind publish_bind audit_bind status_bind route_bind translated_bind
      quiet_bind translator_quiet resolve_quiet io_spec_return;
      simp add: not_blank_literals stages_members TRAIL_def)

text \<open>The recording of an error, and what can be left of it when it fails itself.\<close>

definition mark_failed :: "pipe_state \<Rightarrow> pipe_state" where
  "mark_failed s = s\<lparr>ps_status := map_option (\<lambda>_. status_code FAILED) (ps_status s)\<rparr>"

definition with_error :: "pipe_state \<Rightarrow> pipe_state" where
  "with_error s = (mark_failed s)\<lparr>ps_events := ps_events s @ [''PIPELINE_ERROR'']\<rparr>"

definition recorded :: "string \<Rightarrow> environment \<Rightarrow> world \<Rightarrow> js_error \<Rightarrow> world \<Rightarrow> bool" where
  "recorded i e w0 x w = (\<exists>s. (s \<in> set (tl (take 10 STAGES)) \<and> stage i w0 (with_error s) w) \<or>
     (may_reject e \<and> s \<in> set (take 12 STAGES) \<and>
      (stage i w0 s w \<or> stage i w0 (mark_failed s) w \<or> stage i w0 (with_error s) w)))"

lemma failed_step:
  assumes "\<not> blank i"
  shows "io_spec e (stage i w0 s) (pipeline_failed i trace x) Q (\<lambda>_ w. stage i w0 (with_error s) w \<or>
     (may_reject e \<or> ps_status s = None) \<and> (stage i w0 s w \<or> stage i w0 (mark_failed s) w))"
proof -
  let ?E = "\<lambda>_ w. (may_reject e \<or> ps_status s = None) \<and> (stage i w0 s w \<or> stage i w0 (mark_failed s) w)"
  have 1: "io_spec e (stage i w0 s) (payment_updateStatus i (status_code FAILED)) (\<lambda>_. stage i w0 (mark_failed s)) ?E"
    by (rule io_spec_post [OF status_step]) (simp_all add: assms not_blank_literals mark_failed_def)
  have "(mark_failed s)\<lparr>ps_events := ps_events (mark_failed s) @ [''PIPELINE_ERROR'']\<rparr> = with_error s"
    by (simp add: with_error_def mark_failed_def)
  note audit = audit_step [of i "''PIPELINE_ERROR''" "''system-pipeline''", OF assms not_blank_literals(7,12),
      where s = "mark_failed s", unfolded this]
  have 2: "io_spec e (stage i w0 (mark_failed s)) (audit_logError i ''PIPELINE_ERROR'' x ''system-pipeline'' (Some trace))
      (\<lambda>_. stage i w0 (with_error s)) ?E"
    unfolding audit_logError_def
  proof (rule io_spec_bind [where R = "\<lambda>_. stage i w0 (mark_failed s)"], goal_cases)
    case 1 show ?case by (simp add: io_spec_def io_env_def)
  next
    case 2 show ?case
      by (rule io_spec_bind [where R = "\<lambda>_. stage i w0 (mark_failed s)"])
        (auto intro: io_spec_post [OF now_step] io_spec_post [OF audit])
  qed
  show ?thesis
    unfolding pipeline_failed_def audit_service_defs
    by (intro io_spec_then [where R = "\<lambda>_ w. stage i w0 (with_error s) w \<or> ?E x w"] io_spec_throw
        io_spec_try [where R = ?E] io_spec_return io_spec_post [OF io_spec_then [OF 1 2]]) auto
qed

text \<open>The whole run.\<close>

definition completed :: pipe_state where
  "completed = pipe (Some QUEUED) 6 1"

lemma early_stages:
  "s \<in> set (tl (take 10 STAGES)) \<Longrightarrow> ps_status s \<noteq> None \<and> ps_sent s = 0 \<and> s \<in> set (take 12 STAGES)"
  by (auto simp: STAGES_def pipe_def)

lemma io_spec_ex:
  "(\<And>s. p s \<Longrightarrow> io_spec e (P s) m Q E) \<Longrightarrow> io_spec e (\<lambda>w. \<exists>s. P s w \<and> p s) m Q E"
  unfolding io_spec_def by (intro allI impI, elim exE conjE) simp

lemma failed_recorded: "\<not> blank i \<Longrightarrow> io_spec e (stopped i e w0 x) (pipeline_failed i trace x) Q (recorded i e w0)"
  unfolding stopped_def
  by (rule io_spec_ex, rule io_spec_post [OF failed_step]) (auto simp: recorded_def dest: early_stages)

lemma run_step:
  assumes "\<not> blank i" "inferRail (rp_alias (rq_debtor req)) = Inr origin"
  shows "io_spec e (stage i w0 (pipe None 0 0)) (pipeline_run req key i trace t)
    (\<lambda>_. stage i w0 (pipe (Some QUEUED) 6 1)) (recorded i e w0)"
proof -
  have r: "pipeline_run req key i trace t = io_try (io_bind (pipeline_intake req key i trace origin t)
      (pipeline_dispatch req i trace origin (toISOString t))) (pipeline_failed i trace)"
    by (simp add: pipeline_run_def assms(2) fun_eq_iff io_run)
  show ?thesis
    unfolding r using assms(1)
    by (auto simp: eval_nat_numeral intro!: io_spec_try io_spec_bind intake_stages failed_recorded dispatch_stages)
qed

lemma start_stage: "payment_row w i = None \<Longrightarrow> stage i w (pipe None 0 0) w"
  by (simp add: stage_def appends_def observed_def pipe_def)

lemma pipeline_outcome:
  assumes "\<not> blank i" "payment_row w i = None" "pipeline_run req key i trace t e w = (r, w')"
  shows "case r of
      Inr _ \<Rightarrow> observed i w w' = pipe (Some QUEUED) 6 1
    | Inl x \<Rightarrow> inferRail (rp_alias (rq_debtor req)) = Inl x \<and> w' = w \<or>
        (\<exists>s. observed i w w' = with_error s \<and> s \<in> set (tl (take 10 STAGES))) \<or>
        may_reject e \<and> (\<exists>s \<in> set (take 12 STAGES). observed i w w' \<in> {s, mark_failed s, with_error s})"
proof (cases "inferRail (rp_alias (rq_debtor req))")
  case (Inl x)
  with assms(3) show ?thesis by (auto simp: pipeline_run_def io_run)
next
  case (Inr origin)
  note run = io_specD [OF run_step [OF assms(1) Inr] start_stage [OF assms(2)]]
  show ?thesis
  proof (cases r)
    case (Inr a)
    with run(1) assms(3) show ?thesis by (simp add: stage_def)
  next
    case (Inl x)
    with run(2) assms(3) have "recorded i e w x w'" by blast
    with Inl show ?thesis by (auto simp: recorded_def stage_def)
  qed
qed

lemma with_error_facts:
  "ps_status s \<noteq> None \<Longrightarrow> ps_status (with_error s) = Some (status_code FAILED)"
  "ps_sent (with_error s) = ps_sent s" "last (ps_events (with_error s)) = ''PIPELINE_ERROR''"
  by (auto simp: with_error_def mark_failed_def)

lemma sent_nothing: "ps_sent (observed i w w) = 0"
  by (simp add: observed_def)

text \<open>
  C1: A run of the pipeline on a fresh identifier that returns has moved the payment through
  every step: it is QUEUED, six events were appended to the audit trail in the order of the
  steps, and exactly one message was published. A run that raises either never had a
  recognised rail and left nothing, or stopped at one of the pipeline's states: when no query
  is rejected the payment has a row, nothing was published, and the payment is then FAILED with
  the error as the last event; when a query is rejected the record of the error may be
  incomplete.
\<close>

theorem pipeline_refines:
  assumes "\<not> blank i" "payment_row w i = None" "pipeline_run req key i trace t e w = (r, w')"
  shows "case r of
      Inr _ \<Rightarrow> observed i w w' = pipe (Some QUEUED) 6 1
    | Inl x \<Rightarrow> inferRail (rp_alias (rq_debtor req)) = Inl x \<and> w' = w \<or>
        (\<exists>s. observed i w w' = with_error s \<and> s \<in> set (tl (take 10 STAGES))) \<or>
        may_reject e \<and> (\<exists>s \<in> set (take 12 STAGES). observed i w w' \<in> {s, mark_failed s, with_error s})"
  using assms by (rule pipeline_outcome)


text \<open>
  C27: A run of the pipeline for one payment, whatever its outcome, leaves every other payment as
  it was, appends to the audit trail and to the published messages without changing what was
  there, and leaves rules, mappings and idempotency records alone.
\<close>

theorem pipeline_touches_own_payment:
  assumes "pid \<noteq> []" "pipeline_run req key pid trace t e w = (r, w')" "j \<noteq> pid"
  shows "payment_row w' j = payment_row w j \<and> (\<exists>events. w_audit w' = w_audit w @ events) \<and>
    (\<exists>sent. w_bus w' = w_bus w @ sent) \<and> w_rules w' = w_rules w \<and> w_mappings w' = w_mappings w \<and>
    w_idem w' = w_idem w"
  using io_keepsD [OF pipeline_run_scope [OF assms(1)] assms(2)] assms(3)
  by (auto simp: payment_scope_def only_payment_def same_config_def appends_def)

end
