(* ===== verification/Http.thy ===== *)
theory Http
  imports Repositories Json Outcome
begin

text \<open>
  Answers to HTTP requests: the reply, the error handler of
  \<open>src/api/middleware/error-handler.ts\<close>, the authentication, tracing and idempotency hooks of
  the same directory. A handler returns a reply, or the value its schema rejected; the errors
  it raises go to the error handler.
\<close>

section \<open>Replies and errors\<close>

record reply =
  re_status :: nat
  re_body :: jsval

abbreviation reply_with :: "nat \<Rightarrow> (string \<times> jsval) list \<Rightarrow> reply" where
  "reply_with s kvs \<equiv> \<lparr>re_status = s, re_body = JObj kvs\<rparr>"

datatype request_error = ZodError jsval | Thrown js_error

definition errorHandler :: "environment \<Rightarrow> string \<Rightarrow> request_error \<Rightarrow> reply" where
  "errorHandler e trace err = (case err of
     ZodError v \<Rightarrow> reply_with 400 [(''code'', JStr ''VALIDATION_ERROR''), (''message'', JStr ''Invalid request payload''),
        (''details'', e_zod_errors e v), (''trace_id'', JStr trace)]
   | Thrown (AppError a) \<Rightarrow> reply_with (err_status a) [(''code'', JStr (err_code a)), (''message'', JStr (err_message a)),
        (''details'', case err_details a of Some d \<Rightarrow> JObj d | None \<Rightarrow> JUndef), (''trace_id'', JStr trace)]
   | Thrown _ \<Rightarrow> reply_with 500 [(''code'', JStr ''INTERNAL_ERROR''), (''message'', JStr ''An unexpected error occurred''),
        (''trace_id'', JStr trace)])"

type_synonym handler = "(jsval + reply) io"

text \<open>\<open>schema.parse(v)\<close>\<close>

definition z_parse :: "(jsval \<Rightarrow> 'a option) \<Rightarrow> jsval \<Rightarrow> ('a \<Rightarrow> handler) \<Rightarrow> handler" where
  "z_parse schema v k = (case schema v of None \<Rightarrow> io_return (Inl v) | Some a \<Rightarrow> k a)"

definition send :: "reply \<Rightarrow> handler" where
  "send r = io_return (Inr r)"

definition answer :: "string \<Rightarrow> handler \<Rightarrow> environment \<Rightarrow> world \<Rightarrow> reply \<times> world" where
  "answer trace h e w = (case h e w of
     (Inl x, w') \<Rightarrow> (errorHandler e trace (Thrown x), w')
   | (Inr (Inl v), w') \<Rightarrow> (errorHandler e trace (ZodError v), w')
   | (Inr (Inr r), w') \<Rightarrow> (r, w'))"

section \<open>Hooks\<close>

text \<open>The verification of the token is the plugin's: its error, if any.\<close>

definition authMiddleware :: "string option \<Rightarrow> reply option" where
  "authMiddleware token_error = map_option (\<lambda>m. reply_with 401
     [(''code'', JStr ''UNAUTHORIZED''), (''message'', JStr (''Authentication failed: '' @ m))]) token_error"

definition tracingMiddleware :: "string option \<Rightarrow> string io" where
  "tracingMiddleware header = (case header of Some t \<Rightarrow> io_return t | None \<Rightarrow> fresh_ulid)"

text \<open>The reply to a repeated key, or the hash of the request. The hook is not installed by the server.\<close>

definition conflict_reply :: reply where
  "conflict_reply = reply_with 409 [(''code'', JStr ''IDEMPOTENCY_CONFLICT''),
     (''message'', JStr ''Idempotency-Key already used with a different payload'')]"

definition stored_body :: "idem_record \<Rightarrow> jsval" where
  "stored_body r = (case ir_body r of Some b \<Rightarrow> b | None \<Rightarrow> JNull)"

definition stored_status :: "nat \<Rightarrow> idem_record \<Rightarrow> nat" where
  "stored_status d r = (case ir_status r of Some s \<Rightarrow> nat s | None \<Rightarrow> d)"

definition idempotencyMiddleware :: "string option \<Rightarrow> jsval \<Rightarrow> (reply + string option) io" where
  "idempotencyMiddleware key body =
    (if str_or key [] = [] then io_return (Inr None)
     else io_bind (case json_text body of Some t \<Rightarrow> io_env (\<lambda>e. e_sha256 e t) | None \<Rightarrow> io_throw TypeError) (\<lambda>hash.
       io_bind (idem_findByKey (str_or key [])) (\<lambda>existing.
       case existing of None \<Rightarrow> io_return (Inr (Some hash))
       | Some r \<Rightarrow> io_return (Inl (if ir_hash r \<noteq> hash then conflict_reply
           else \<lparr>re_status = stored_status 202 r, re_body = stored_body r\<rparr>)))))"

section \<open>Properties\<close>

text \<open>
  The error handler answers an error of the program's own hierarchy with its status, code and
  message, a payload the schema rejects with 400, and anything else with 500 and a message that
  says nothing about it; every error answer carries the identifier of the trace.
\<close>

theorem error_answers:
  assumes "h e w = (Inl x, w')"
  shows "snd (answer trace h e w) = w' \<and>
    opt_prop (re_body (fst (answer trace h e w))) ''trace_id'' = JStr trace \<and>
    (case x of AppError a \<Rightarrow> re_status (fst (answer trace h e w)) = err_status a \<and>
        opt_prop (re_body (fst (answer trace h e w))) ''code'' = JStr (err_code a) \<and>
        opt_prop (re_body (fst (answer trace h e w))) ''message'' = JStr (err_message a)
     | _ \<Rightarrow> fst (answer trace h e w) = reply_with 500 [(''code'', JStr ''INTERNAL_ERROR''),
        (''message'', JStr ''An unexpected error occurred''), (''trace_id'', JStr trace)])"
  using assms by (cases x) (simp_all add: answer_def errorHandler_def)

lemma error_answers_witness:
  "re_status (fst (answer ''T1'' (io_throw (NotFoundError ''Payment'' ''PMT-9'')) sample_env sample_world)) = 404"
  using error_answers [of "io_throw (NotFoundError ''Payment'' ''PMT-9'')" sample_env sample_world _ _ "''T1''"]
  by (simp add: io_run NotFoundError_def)

end
