(* ===== verification/Webhooks.thy ===== *)
theory Webhooks
  imports Repositories Json Outcome
begin

text \<open>
  The webhook deliveries of \<open>src/webhooks/webhook.service.ts\<close>. The deliveries of one payment
  are started together; the model runs them one after the other in the order of the
  subscriptions, which is one of their interleavings.
\<close>

section \<open>The service\<close>

definition TERMINAL_STATUSES :: "string list" where
  "TERMINAL_STATUSES = [''COMPLETED'', ''FAILED'', ''REJECTED'']"

text \<open>\<open>v ?? null\<close>\<close>

definition js_null :: "('a \<Rightarrow> jsval) \<Rightarrow> 'a option \<Rightarrow> jsval" where
  "js_null f v = (case v of Some a \<Rightarrow> f a | None \<Rightarrow> JNull)"

definition js_time :: "int \<Rightarrow> jsval" where
  "js_time t = JStr (toISOString t)"

definition webhook_payload :: "payment \<Rightarrow> string \<Rightarrow> jsval" where
  "webhook_payload p now = JObj
    [(''payment_id'', JStr (p_id p)), (''status'', JStr (p_status p)), (''event'', JStr (p_status p)),
     (''timestamp'', JStr now),
     (''payment'', JObj [(''origin_rail'', JStr (p_origin_rail p)),
        (''destination_rail'', js_null JStr (p_destination_rail p)), (''amount'', JNum (p_amount p)),
        (''currency'', JStr (p_currency p)), (''debtor_alias'', JStr (p_debtor_alias p)),
        (''creditor_alias'', JStr (p_creditor_alias p)), (''created_at'', js_time (p_created_at p)),
        (''completed_at'', js_null js_time (p_completed_at p))])]"

definition sign :: "environment \<Rightarrow> string \<Rightarrow> string \<Rightarrow> string" where
  "sign e body secret = e_hmac e secret body"

definition verifySignature :: "environment \<Rightarrow> string \<Rightarrow> string \<Rightarrow> string \<Rightarrow> bool" where
  "verifySignature e body secret header = (header = ''sha256='' @ e_hmac e secret body)"

text \<open>The signature header: the secret of the subscription, else the one of the service.\<close>

definition signature_header :: "environment \<Rightarrow> string option \<Rightarrow> string \<Rightarrow> string option" where
  "signature_header e subSecret body =
    (case (case subSecret of Some s \<Rightarrow> Some s | None \<Rightarrow> e_webhook_secret e) of
       None \<Rightarrow> None
     | Some s \<Rightarrow> if s = [] \<or> sign e body s = [] then None else Some (''sha256='' @ sign e body s))"

text \<open>
  The request, its answer (a status of 0 stands for no answer) and the record of the
  attempt. The request leaves the service whatever the answer is.
\<close>

definition deliver :: "string \<Rightarrow> string \<Rightarrow> string option \<Rightarrow> payment \<Rightarrow> unit io" where
  "deliver subId url subSecret p =
     io_bind now_iso (\<lambda>now.
     let body = JSON_stringify (webhook_payload p now) in
     io_bind (io_env (\<lambda>e. signature_header e subSecret body)) (\<lambda>signature.
     io_bind (io_modify (\<lambda>w. w\<lparr>w_posts := w_posts w @
        [\<lparr>hp_url = url, hp_body = body, hp_signature = signature\<rparr>]\<rparr>)) (\<lambda>_.
     io_bind http_fetch (\<lambda>res.
     case res of
       Inl msg \<Rightarrow> webhook_recordDelivery subId 0 (Some msg)
     | Inr (status, statusText, _) \<Rightarrow> webhook_recordDelivery subId status
         (if 200 \<le> status \<and> status \<le> 299 then None
          else Some (''HTTP '' @ show_int status @ '': '' @ statusText))))))"

text \<open>\<open>Promise.allSettled\<close>: every delivery is made and no error comes out.\<close>

fun deliver_all :: "webhook_sub list \<Rightarrow> payment \<Rightarrow> unit io" where
  "deliver_all [] p = io_return ()"
| "deliver_all (s # subs) p =
     io_then (io_try (deliver (ws_id s) (ws_url s) (ws_secret s) p) (\<lambda>_. io_return ())) (deliver_all subs p)"

definition fireForPayment :: "payment \<Rightarrow> unit io" where
  "fireForPayment p = (if p_status p \<notin> set TERMINAL_STATUSES then io_return ()
     else io_bind (webhook_findPending (p_id p) (p_status p)) (\<lambda>subs. deliver_all subs p))"

section \<open>Lemmas\<close>

definition pending_subs :: "world \<Rightarrow> payment \<Rightarrow> webhook_sub list" where
  "pending_subs w p = (if p_status p \<in> set TERMINAL_STATUSES
     then filter (\<lambda>s. ws_payment_id s = p_id p \<and> p_status p \<in> set (ws_events s)) (w_webhooks w) else [])"

text \<open>What the request of one subscription looks like.\<close>

definition delivers :: "environment \<Rightarrow> payment \<Rightarrow> webhook_sub \<Rightarrow> http_post \<Rightarrow> bool" where
  "delivers e p s post = (hp_url post = ws_url s \<and>
     (\<exists>now. hp_body post = JSON_stringify (webhook_payload p now)) \<and>
     hp_signature post = signature_header e (ws_secret s) (hp_body post))"

text \<open>Only the deliveries and their record change: requests are appended, rows keep their place.\<close>

definition webhook_scope :: "world \<Rightarrow> world \<Rightarrow> bool" where
  "webhook_scope w w' = (appends w_posts w w' \<and> w_payments w' = w_payments w \<and> w_audit w' = w_audit w \<and>
     w_bus w' = w_bus w \<and> w_idem w' = w_idem w \<and> w_rules w' = w_rules w \<and> w_mappings w' = w_mappings w \<and>
     w_sse w' = w_sse w \<and> map ws_id (w_webhooks w') = map ws_id (w_webhooks w))"

lemma webhook_scope_trans: "webhook_scope u v \<Longrightarrow> webhook_scope v w \<Longrightarrow> webhook_scope u w"
  by (auto simp: webhook_scope_def appends_def)

interpretation deliveries: io_relation webhook_scope
  by unfold_locales (auto simp: webhook_scope_def appends_def)

lemmas delivery_rules [io_frame] = deliveries.rules

lemma record_scope [io_frame]: "io_keeps webhook_scope (webhook_recordDelivery i st err)"
  unfolding webhook_recordDelivery_def
  by (intro deliveries.query) (auto simp: webhook_scope_def appends_def rows_modify_def)

lemma deliver_scope [io_frame]: "io_keeps webhook_scope (deliver i url secret p)"
  unfolding deliver_def now_iso_def Let_def
  by (intro io_frame deliveries.modify) (auto simp: webhook_scope_def appends_def split: prod.split intro: io_frame)

lemma deliver_all_scope [io_frame]: "io_keeps webhook_scope (deliver_all subs p)"
  by (induction subs) (auto intro!: io_frame)

lemma fire_scope [io_frame]: "io_keeps webhook_scope (fireForPayment p)"
  unfolding fireForPayment_def webhook_findPending_def
  by (intro io_frame deliveries.query) (auto simp: webhook_scope_def appends_def)

text \<open>Recording an attempt sends nothing, and every delivery sends one request.\<close>

lemma record_posts: "w_posts (snd (webhook_recordDelivery i st err e w)) = w_posts w"
  by (simp add: webhook_recordDelivery_def db_query_def)

lemma deliver_sends:
  "\<exists>post. delivers e p s post \<and> w_posts (snd (deliver (ws_id s) (ws_url s) (ws_secret s) p e w)) = w_posts w @ [post]"
  unfolding deliver_def Let_def io_bind_eval [OF now_iso_run] io_run tick_simps
  by (auto simp: delivers_def record_posts split: sum.split prod.split)

lemma deliver_all_sends:
  "\<exists>posts. list_all2 (delivers e p) subs posts \<and> w_posts (snd (deliver_all subs p e w)) = w_posts w @ posts"
proof (induction subs arbitrary: w)
  case (Cons s subs)
  obtain r w1 where r: "deliver (ws_id s) (ws_url s) (ws_secret s) p e w = (r, w1)" by fastforce
  with deliver_sends [of e p s w] obtain post where post: "delivers e p s post" "w_posts w1 = w_posts w @ [post]" by auto
  obtain posts where posts: "list_all2 (delivers e p) subs posts" "w_posts (snd (deliver_all subs p e w1)) = w_posts w1 @ posts"
    using Cons by blast
  have "deliver_all (s # subs) p e w = deliver_all subs p e w1"
    using r by (simp add: io_then_def io_bind_def io_try_def io_return_def split: sum.split)
  with post posts show ?case by (auto intro!: exI [of _ "post # posts"])
qed (simp add: io_run)

lemma deliver_all_returns: "fst (deliver_all subs p e w) = Inr ()"
  by (induction subs arbitrary: w) (auto simp: io_then_def io_bind_def io_try_def io_return_def split: prod.split sum.split)

section \<open>Properties\<close>


text \<open>
  The signature header of a delivery is the one header its receiver accepts: with the
  secret of the subscription, verification of the body succeeds on that header and on no other.
\<close>

lemma signature_verifies:
  assumes "signature_header e (Some secret) body = Some header"
  shows "verifySignature e body secret h \<longleftrightarrow> h = header"
  using assms by (auto simp: signature_header_def verifySignature_def sign_def split: if_splits)

section \<open>Concrete deliveries\<close>

definition paid :: payment where
  "paid = set_status (status_code COMPLETED) 1773397800000 queued_payment"

definition hooked_world :: world where
  "hooked_world = sample_world\<lparr>w_webhooks := [\<lparr>ws_id = ''1'', ws_payment_id = ''PMT-1'', ws_url = ''https://a.example/h'',
     ws_events = [''COMPLETED''], ws_secret = Some ''k'', ws_created_at = 0, ws_fired_at = None, ws_last_http_status = None,
     ws_attempts = 0, ws_last_error = None\<rparr>]\<rparr>"

lemma paid_simps: "p_id paid = ''PMT-1''" "p_status paid = ''COMPLETED''"
  by (simp_all add: paid_def queued_payment_def set_status_def payment_insert_def)


lemma a_signature_checked: "verifySignature sample_env ''body'' ''k'' ''sha256=kbody'' \<and> \<not> verifySignature sample_env ''body'' ''k'' ''sha256=''"
proof -
  have "signature_header sample_env (Some ''k'') ''body'' = Some ''sha256=kbody''" by code_simp
  from signature_verifies [OF this] show ?thesis by simp
qed

end
