(* ===== verification/PaymentsApi.thy ===== *)
theory PaymentsApi
  imports Http Pipeline Webhooks
begin

text \<open>
  The routes of \<open>src/api/routes/payments.ts\<close>: creation with an idempotency key, the lists and
  details of payments, the registration of webhooks. A route is a handler of \<open>Http\<close>.
\<close>

section \<open>Creation\<close>

definition result_field :: "(string \<times> jsval) list \<Rightarrow> string \<Rightarrow> jsval" where
  "result_field res k = opt_prop (JObj res) k"

definition buildPaymentResponse :: "(string \<times> jsval) list \<Rightarrow> jsval" where
  "buildPaymentResponse res = JObj (map (\<lambda>k. (k, result_field res k))
      [''payment_id'', ''status'', ''created_at'', ''origin_rail'', ''destination_rail'', ''route_rule_applied'',
       ''amount'', ''currency'', ''trace_id''] @
    (if truthy (result_field res ''fx'') then [(''fx'', result_field res ''fx'')] else []))"

text \<open>The reply that repeats what a record of the key holds, if there is a record.\<close>

definition repeat_reply :: "idem_record option \<Rightarrow> reply" where
  "repeat_reply found = \<lparr>re_status = (case found of Some r \<Rightarrow> stored_status 200 r | None \<Rightarrow> 200),
     re_body = nullish (case found of Some r \<Rightarrow> stored_body r | None \<Rightarrow> JUndef)
       (JObj [(''payment_id'', case found of Some r \<Rightarrow> JStr (ir_payment_id r) | None \<Rightarrow> JUndef), (''status'', JStr ''QUEUED'')])\<rparr>"

definition request_hash :: "environment \<Rightarrow> payment_request \<Rightarrow> string" where
  "request_hash e req = e_sha256 e (JSON_stringify (request_js req))"

text \<open>The key was claimed: the pipeline runs under the identifier of the claim.\<close>

definition create_claimed :: "payment_request \<Rightarrow> string \<Rightarrow> string \<Rightarrow> string \<Rightarrow> handler" where
  "create_claimed req key trace pid =
     io_bind (pipeline_execute req \<lparr>cx_idempotencyKey = Some key, cx_traceId = Some trace, cx_paymentId = Some pid\<rparr>) (\<lambda>res.
     io_bind (idem_updateResponse key 201 (buildPaymentResponse res)) (\<lambda>_.
     send \<lparr>re_status = 201, re_body = buildPaymentResponse res\<rparr>))"

definition create_with_key :: "payment_request \<Rightarrow> string \<Rightarrow> string \<Rightarrow> handler" where
  "create_with_key req key trace =
     io_bind (io_env (\<lambda>e. request_hash e req)) (\<lambda>hash.
     io_bind (idem_findByKey key) (\<lambda>existing.
     case existing of
       Some r \<Rightarrow> send (if ir_hash r \<noteq> hash then conflict_reply else repeat_reply (Some r))
     | None \<Rightarrow>
         io_bind fresh_ulid (\<lambda>u.
         io_bind date_now (\<lambda>t.
         io_bind (idem_tryInsert key (''PMT-'' @ u) hash t) (\<lambda>claimed.
         if claimed then create_claimed req key trace (''PMT-'' @ u)
         else io_bind (idem_findByKey key) (\<lambda>winner. send (repeat_reply winner)))))))"

definition create_payment :: "string option \<Rightarrow> string \<Rightarrow> jsval \<Rightarrow> handler" where
  "create_payment key trace body = z_parse createPaymentSchema body (\<lambda>req.
     if str_or key [] \<noteq> [] then create_with_key req (str_or key []) trace
     else io_bind (pipeline_execute req \<lparr>cx_idempotencyKey = None, cx_traceId = Some trace, cx_paymentId = None\<rparr>) (\<lambda>res.
       send \<lparr>re_status = 201, re_body = buildPaymentResponse res\<rparr>))"

section \<open>Reading\<close>

definition list_item :: "payment \<Rightarrow> jsval" where
  "list_item p = JObj [(''payment_id'', JStr (p_id p)), (''status'', JStr (p_status p)), (''origin_rail'', JStr (p_origin_rail p)),
     (''destination_rail'', js_null JStr (p_destination_rail p)), (''amount'', JNum (p_amount p)), (''currency'', JStr (p_currency p)),
     (''timestamps'', JObj [(''created_at'', js_time (p_created_at p)), (''completed_at'', js_null js_time (p_completed_at p))])]"

text \<open>A limit the database does not accept (negative, or not whole) makes the query fail.\<close>

definition list_limit :: "jsval \<Rightarrow> jsnum" where
  "list_limit q = Math_min (if num_truthy (Number_val q) then Number_val q else Fin 50) (Fin 200)"

definition sql_limit :: "jsnum \<Rightarrow> nat option" where
  "sql_limit n = (case n of Fin x \<Rightarrow> if 0 \<le> x \<and> x = of_int \<lfloor>x\<rfloor> then Some (nat \<lfloor>x\<rfloor>) else None | _ \<Rightarrow> None)"

definition list_payments :: "jsval \<Rightarrow> string option \<Rightarrow> string option \<Rightarrow> handler" where
  "list_payments limit status r = (case sql_limit (list_limit limit) of
     None \<Rightarrow> io_throw query_rejected
   | Some n \<Rightarrow> io_bind (payment_findRecent n status r) (\<lambda>ps.
       send \<lparr>re_status = 200, re_body = JArr (map list_item ps)\<rparr>))"

definition detail_timestamps :: "payment \<Rightarrow> jsval" where
  "detail_timestamps p = JObj [(''created_at'', js_time (p_created_at p)), (''validated_at'', js_null js_time (p_validated_at p)),
     (''canonicalized_at'', js_null js_time (p_canonicalized_at p)), (''routed_at'', js_null js_time (p_routed_at p)),
     (''queued_at'', js_null js_time (p_queued_at p)), (''sent_at'', js_null js_time (p_sent_at p)),
     (''acked_at'', js_null js_time (p_acked_at p)), (''completed_at'', js_null js_time (p_completed_at p))]"

definition trail_item :: "audit_event \<Rightarrow> jsval" where
  "trail_item a = JObj [(''id'', JStr (ae_id a)), (''event_type'', JStr (ae_event_type a)), (''actor'', JStr (ae_actor a)),
     (''detail'', JObj (ae_detail a)), (''trace_id'', js_null JStr (ae_trace_id a)), (''created_at'', js_time (ae_created_at a))]"

definition payment_detail :: "payment \<Rightarrow> audit_event list \<Rightarrow> jsval" where
  "payment_detail p trail = JObj [(''payment_id'', JStr (p_id p)), (''status'', JStr (p_status p)),
     (''origin_rail'', JStr (p_origin_rail p)), (''destination_rail'', js_null JStr (p_destination_rail p)),
     (''amount'', JNum (p_amount p)), (''currency'', JStr (p_currency p)),
     (''debtor'', JObj [(''alias'', JStr (p_debtor_alias p)), (''name'', js_null JStr (p_debtor_name p))]),
     (''creditor'', JObj [(''alias'', JStr (p_creditor_alias p)), (''name'', js_null JStr (p_creditor_name p))]),
     (''purpose'', js_null JStr (p_purpose p)), (''reference'', js_null JStr (p_reference p)),
     (''original_payload'', js_null id (p_origin_payload p)), (''canonical_payload'', js_null id (p_canonical p)),
     (''translated_payload'', js_null id (p_translated p)), (''rail_ack'', js_null id (p_rail_ack p)),
     (''route_rule_applied'', js_null JStr (p_rule p)), (''trace_id'', js_null JStr (p_trace_id p)),
     (''timestamps'', detail_timestamps p), (''audit_trail'', JArr (map trail_item trail))]"

text \<open>The payment of a path, or the error that it does not exist.\<close>

definition with_payment :: "string \<Rightarrow> (payment \<Rightarrow> handler) \<Rightarrow> handler" where
  "with_payment pid k = io_bind (payment_findById pid) (\<lambda>found. case found of
     None \<Rightarrow> io_throw (NotFoundError ''Payment'' pid) | Some p \<Rightarrow> k p)"

definition get_payment :: "string \<Rightarrow> handler" where
  "get_payment pid = with_payment pid (\<lambda>p. io_bind (audit_findByPaymentId pid) (\<lambda>trail.
     send \<lparr>re_status = 200, re_body = payment_detail p trail\<rparr>))"

section \<open>Webhooks\<close>

record webhook_request =
  wr_url :: string
  wr_events :: "string list option"
  wr_secret :: "string option"

definition z_events :: "jsval \<Rightarrow> string list option" where
  "z_events v = (case v of JArr vs \<Rightarrow> those (map (z_enum id [''COMPLETED'', ''FAILED'', ''REJECTED'']) vs) | _ \<Rightarrow> None)"

definition registerWebhookSchema :: "(string \<Rightarrow> bool) \<Rightarrow> jsval \<Rightarrow> webhook_request option" where
  "registerWebhookSchema is_url = z_object (\<lambda>get. do {
     url \<leftarrow> z_refine is_url z_string (get ''url'');
     events \<leftarrow> z_optional z_events (get ''events'');
     secret \<leftarrow> z_optional (z_refine (\<lambda>s. 8 \<le> length s) z_string) (get ''secret'');
     Some \<lparr>wr_url = url, wr_events = events, wr_secret = secret\<rparr> })"

definition register_webhook :: "string \<Rightarrow> jsval \<Rightarrow> handler" where
  "register_webhook pid body = with_payment pid (\<lambda>_. io_bind (io_env e_url) (\<lambda>is_url.
     z_parse (registerWebhookSchema is_url) body (\<lambda>req.
     io_bind (webhook_create pid (wr_url req) (wr_events req) (wr_secret req)) (\<lambda>sub.
     send (reply_with 201 [(''id'', JStr (ws_id sub)), (''payment_id'', JStr (ws_payment_id sub)), (''url'', JStr (ws_url sub)),
        (''events'', JArr (map JStr (ws_events sub))), (''created_at'', js_time (ws_created_at sub))])))))"

definition webhook_item :: "webhook_sub \<Rightarrow> jsval" where
  "webhook_item s = JObj [(''id'', JStr (ws_id s)), (''url'', JStr (ws_url s)), (''events'', JArr (map JStr (ws_events s))),
     (''fired_at'', js_null js_time (ws_fired_at s)),
     (''last_http_status'', js_null (\<lambda>n. JNum (num_of (of_int n))) (ws_last_http_status s)),
     (''delivery_attempts'', JNum (num_of (of_nat (ws_attempts s)))), (''last_error'', js_null JStr (ws_last_error s)),
     (''created_at'', js_time (ws_created_at s))]"

definition list_webhooks :: "string \<Rightarrow> handler" where
  "list_webhooks pid = with_payment pid (\<lambda>_. io_bind (webhook_findByPaymentId pid) (\<lambda>subs.
     send \<lparr>re_status = 200, re_body = JArr (map webhook_item subs)\<rparr>))"

section \<open>Idempotency\<close>

definition idem_row :: "world \<Rightarrow> string \<Rightarrow> idem_record option" where
  "idem_row w k = rows_find ir_key k (w_idem w)"

lemma findByKey_run:
  "idem_findByKey k e w = (if e_fail e (w_tick w) then (Inl query_rejected, tick w)
     else (Inr (find (\<lambda>r. ir_key r = k \<and> e_now e (w_tick w) < ir_expires_at r) (w_idem w)), tick w))"
  by (simp add: idem_findByKey_def db_query_def)

lemma tryInsert_run:
  "idem_tryInsert k pid h t e w = (if e_fail e (w_tick w) then (Inl query_rejected, tick w)
     else case idem_row w k of Some _ \<Rightarrow> (Inr False, tick w)
       | None \<Rightarrow> (Inr True, (tick w)\<lparr>w_idem := w_idem w @ [\<lparr>ir_key = k, ir_payment_id = pid, ir_hash = h,
           ir_status = None, ir_body = None, ir_created_at = t, ir_expires_at = e_expiry e (e_now e (w_tick w))\<rparr>]\<rparr>))"
  by (simp add: idem_tryInsert_def idem_insert_row_def db_query_def idem_row_def split: option.split)

lemma idem_binds [io_eval]:
  "io_bind (idem_findByKey k) f e w = (if e_fail e (w_tick w) then (Inl query_rejected, tick w)
     else f (find (\<lambda>r. ir_key r = k \<and> e_now e (w_tick w) < ir_expires_at r) (w_idem w)) e (tick w))"
  "io_bind (idem_tryInsert k pid h t) g e w = (if e_fail e (w_tick w) then (Inl query_rejected, tick w)
     else case idem_row w k of Some _ \<Rightarrow> g False e (tick w)
       | None \<Rightarrow> g True e ((tick w)\<lparr>w_idem := w_idem w @ [\<lparr>ir_key = k, ir_payment_id = pid, ir_hash = h,
           ir_status = None, ir_body = None, ir_created_at = t, ir_expires_at = e_expiry e (e_now e (w_tick w))\<rparr>]\<rparr>))"
  by (simp_all add: io_bind_def findByKey_run tryInsert_run split: option.split)

text \<open>An unexpired row is the one that is found; no row, none.\<close>

lemma find_live: "rows_find ir_key k rows = Some r \<Longrightarrow> n < ir_expires_at r \<Longrightarrow>
   find (\<lambda>r. ir_key r = k \<and> n < ir_expires_at r) rows = Some r"
  by (induction rows) (auto simp: rows_find_def split: if_splits)

lemma find_absent: "rows_find ir_key k rows = None \<Longrightarrow> find (\<lambda>r. ir_key r = k \<and> n < ir_expires_at r) rows = None"
  by (auto simp: rows_find_def find_None_iff)

lemma create_claimed_keeps:
  assumes "create_claimed req key trace pid e w = (r, w')" "pid \<noteq> []"
  shows "case r of Inr v \<Rightarrow> \<exists>b. v = Inr \<lparr>re_status = 201, re_body = b\<rparr> \<and>
      w_idem w' = rows_modify ir_key key (\<lambda>r. r\<lparr>ir_status := Some 201, ir_body := Some b\<rparr>) (w_idem w)
    | Inl x \<Rightarrow> w_idem w' = w_idem w"
proof -
  let ?run = "pipeline_run req (Some key) pid trace (e_now e (w_tick w))"
  have x: "pipeline_execute req \<lparr>cx_idempotencyKey = Some key, cx_traceId = Some trace, cx_paymentId = Some pid\<rparr> e w = ?run e (tick w)"
    by (simp add: pipeline_execute_def io_run)
  obtain q w1 where q: "?run e (tick w) = (q, w1)" by fastforce
  have same: "w_idem w1 = w_idem w"
    using io_keepsD [OF pipeline_run_scope [OF assms(2)] q] by (simp add: payment_scope_def same_config_def)
  show ?thesis
  proof (cases q)
    case (Inl y)
    with assms(1) q same show ?thesis by (auto simp: create_claimed_def io_bind_def x)
  next
    case (Inr res)
    with assms(1) q same show ?thesis
      by (auto simp: create_claimed_def io_bind_def x idem_updateResponse_def db_query_def send_def io_run split: if_splits)
  qed
qed

text \<open>
  A first use of a key: it is claimed for a fresh identifier, and the rest is the claimed run,
  unless a query is rejected before that.
\<close>

lemma first_use:
  assumes "createPaymentSchema body = Some req" "key \<noteq> []" "idem_row w key = None"
    and "create_payment (Some key) trace body e w = (r, w')"
  obtains "\<exists>x. r = Inl x" "may_reject e" |
    pid w1 where "pid \<noteq> []" "create_claimed req key trace pid e w1 = (r, w')"
      "w_idem w1 = w_idem w @ [\<lparr>ir_key = key, ir_payment_id = pid, ir_hash = request_hash e req,
           ir_status = None, ir_body = None, ir_created_at = e_now e (w_tick w + 2), ir_expires_at = e_expiry e (e_now e (w_tick w + 3))\<rparr>]"
proof -
  have c: "create_payment (Some key) trace body = create_with_key req key trace"
    using assms(1,2) by (simp add: create_payment_def z_parse_def str_or_def)
  have none: "find (\<lambda>r. ir_key r = key \<and> n < ir_expires_at r) (w_idem w) = None" for n
    using assms(3) by (simp add: idem_row_def find_absent)
  have tick3: "idem_row (tick (tick (tick w))) key = None" using assms(3) by (simp add: idem_row_def)
  show thesis
  proof (cases "e_fail e (w_tick w) \<or> e_fail e (w_tick w + 3)")
    case True
    then have "\<exists>x. r = Inl x"
      using assms(4) by (auto simp: c create_with_key_def io_run idem_binds none tick3 eval_nat_numeral split: if_splits)
    with True that(1) show thesis by (auto simp: may_reject_def)
  next
    case False
    let ?pid = "''PMT-'' @ e_ulid e (Suc (w_tick w))"
    have "create_claimed req key trace ?pid e ((tick (tick (tick (tick w))))\<lparr>w_idem := w_idem w @ [\<lparr>ir_key = key, ir_payment_id = ?pid,
           ir_hash = request_hash e req, ir_status = None, ir_body = None, ir_created_at = e_now e (w_tick w + 2),
           ir_expires_at = e_expiry e (e_now e (w_tick w + 3))\<rparr>]\<rparr>) = (r, w')"
      using assms(4) False by (simp add: c create_with_key_def io_run idem_binds none tick3 eval_nat_numeral)
    then show thesis by (rule that(2) [rotated]) simp_all
  qed
qed

text \<open>A later use of a key that has an unexpired record.\<close>

lemma later_use:
  assumes "createPaymentSchema body = Some req" "key \<noteq> []" "idem_row w key = Some r"
    and "\<not> e_fail e (w_tick w)" "e_now e (w_tick w) < ir_expires_at r"
  shows "create_payment (Some key) trace body e w =
    (Inr (Inr (if ir_hash r \<noteq> request_hash e req then conflict_reply else repeat_reply (Some r))), tick w)"
proof -
  have "find (\<lambda>r. ir_key r = key \<and> e_now e (w_tick w) < ir_expires_at r) (w_idem w) = Some r"
    using assms(3,5) by (simp add: idem_row_def find_live)
  then show ?thesis
    using assms(1,2,4) by (simp add: create_payment_def z_parse_def str_or_def create_with_key_def io_run idem_binds send_def)
qed

section \<open>Properties of the creation\<close>

text \<open>
  C4: A payment created under a new key is created once: the reply is stored with the key, and
  until the key expires a request with the same key and the same content gets the very same
  reply and does nothing else, while one with another content is refused with 409.
\<close>

theorem creation_is_idempotent:
  assumes "createPaymentSchema body = Some req" "key \<noteq> []" "idem_row w key = None"
    and "create_payment (Some key) trace body e w = (Inr (Inr rep), w')"
  shows "re_status rep = 201 \<and> (\<exists>r. idem_row w' key = Some r \<and> ir_hash r = request_hash e req \<and>
    (\<forall>e2 trace2 body2 req2. createPaymentSchema body2 = Some req2 \<and> \<not> e_fail e2 (w_tick w') \<and>
        e_now e2 (w_tick w') < ir_expires_at r \<longrightarrow>
      create_payment (Some key) trace2 body2 e2 w' =
        (Inr (Inr (if request_hash e2 req2 = request_hash e req then rep else conflict_reply)), tick w')))"
proof -
  from first_use [OF assms] obtain pid w1 where c: "pid \<noteq> []" "create_claimed req key trace pid e w1 = (Inr (Inr rep), w')" and
    i: "w_idem w1 = w_idem w @ [\<lparr>ir_key = key, ir_payment_id = pid, ir_hash = request_hash e req, ir_status = None, ir_body = None,
      ir_created_at = e_now e (w_tick w + 2), ir_expires_at = e_expiry e (e_now e (w_tick w + 3))\<rparr>]"
    by auto
  from create_claimed_keeps [OF c(2,1)] obtain b where b: "rep = \<lparr>re_status = 201, re_body = b\<rparr>"
    "w_idem w' = rows_modify ir_key key (\<lambda>r. r\<lparr>ir_status := Some 201, ir_body := Some b\<rparr>) (w_idem w1)" by auto
  let ?r = "\<lparr>ir_key = key, ir_payment_id = pid, ir_hash = request_hash e req, ir_status = Some 201, ir_body = Some b,
      ir_created_at = e_now e (w_tick w + 2), ir_expires_at = e_expiry e (e_now e (w_tick w + 3))\<rparr>"
  have row: "idem_row w' key = Some ?r"
    using assms(3) by (simp add: idem_row_def b(2) i rows_find_modify rows_find_add)
  have "\<exists>kvs. b = JObj kvs"
    using c(2) b(1) by (auto simp: create_claimed_def io_bind_Inr_iff send_def io_run buildPaymentResponse_def)
  then have "repeat_reply (Some ?r) = rep" by (auto simp: repeat_reply_def b(1) stored_status_def stored_body_def)
  then show ?thesis using later_use [OF _ assms(2) row] row b(1) by auto
qed

text \<open>
  C28: When the run of a claimed key fails, the key stays claimed without a reply, and until it
  expires the same request is told that its payment is QUEUED, although it failed: no query
  needs to be rejected for that.
\<close>

theorem failed_run_repeats_as_queued:
  assumes "createPaymentSchema body = Some req" "key \<noteq> []" "idem_row w key = None" "\<not> may_reject e"
    and "create_payment (Some key) trace body e w = (Inl x, w')"
  shows "\<exists>r. idem_row w' key = Some r \<and>
    (\<forall>e2 trace2. e_sha256 e2 = e_sha256 e \<and> \<not> e_fail e2 (w_tick w') \<and> e_now e2 (w_tick w') < ir_expires_at r \<longrightarrow>
      create_payment (Some key) trace2 body e2 w' =
        (Inr (Inr (reply_with 200 [(''payment_id'', JStr (ir_payment_id r)), (''status'', JStr ''QUEUED'')])), tick w'))"
proof -
  from first_use [OF assms(1-3,5)] assms(4) obtain pid w1 where c: "pid \<noteq> []" "create_claimed req key trace pid e w1 = (Inl x, w')" and
    i: "w_idem w1 = w_idem w @ [\<lparr>ir_key = key, ir_payment_id = pid, ir_hash = request_hash e req, ir_status = None, ir_body = None,
      ir_created_at = e_now e (w_tick w + 2), ir_expires_at = e_expiry e (e_now e (w_tick w + 3))\<rparr>]"
    by auto
  let ?r = "\<lparr>ir_key = key, ir_payment_id = pid, ir_hash = request_hash e req, ir_status = None, ir_body = None,
      ir_created_at = e_now e (w_tick w + 2), ir_expires_at = e_expiry e (e_now e (w_tick w + 3))\<rparr>"
  have row: "idem_row w' key = Some ?r"
    using create_claimed_keeps [OF c(2,1)] assms(3) by (simp add: idem_row_def i rows_find_add)
  have "repeat_reply (Some ?r) = reply_with 200 [(''payment_id'', JStr pid), (''status'', JStr ''QUEUED'')]"
    by (simp add: repeat_reply_def stored_status_def stored_body_def)
  then show ?thesis using later_use [OF assms(1,2) row] row by (auto simp: request_hash_def)
qed

text \<open>
  A key whose record has expired but is still in the table can no longer be used: the lookup
  does not see it, the claim conflicts with it, and the request is answered 200 with no
  identifier, while no payment is made and nothing is published.
\<close>

theorem expired_key_loses_payment:
  assumes "createPaymentSchema body = Some req" "key \<noteq> []" "idem_row w key = Some r"
    and "\<not> may_reject e" "\<forall>q \<in> set (w_idem w). ir_key q = key \<longrightarrow> (\<forall>n. ir_expires_at q \<le> e_now e n)"
  shows "create_payment (Some key) trace body e w =
    (Inr (Inr (reply_with 200 [(''payment_id'', JUndef), (''status'', JStr ''QUEUED'')])), w\<lparr>w_tick := w_tick w + 5\<rparr>)"
proof -
  have none: "find (\<lambda>r. ir_key r = key \<and> e_now e n < ir_expires_at r) (w_idem w) = None" for n
    using assms(5) by (auto simp: find_None_iff not_less)
  have "\<not> e_fail e n" for n using assms(4) by (simp add: may_reject_def)
  moreover have "idem_row (tick (tick (tick w))) key = Some r" using assms(3) by (simp add: idem_row_def)
  moreover have "tick (tick (tick (tick (tick w)))) = w\<lparr>w_tick := w_tick w + 5\<rparr>" by (simp add: tick_def eval_nat_numeral)
  ultimately show ?thesis
    using assms(1,2) none
    by (simp add: create_payment_def z_parse_def str_or_def create_with_key_def io_run idem_binds send_def repeat_reply_def)
qed

end
