(* ===== verification/SampleRuns.thy ===== *)
theory SampleRuns
  imports PipelineRefinement PaymentsApi
begin

text \<open>
  Runs of the pipeline and of the creation route on concrete data, evaluated by the
  simplifier, and the properties of the pipeline and of the creation applied to them.
\<close>

section \<open>The pipeline\<close>

text \<open>A run on concrete data.\<close>

definition sample_req :: payment_request where
  "sample_req = the (createPaymentSchema sample_request)"

definition sample_run :: "(js_error + (string \<times> jsval) list) \<times> world" where
  "sample_run = pipeline_run sample_req None ''PMT-01ARZ3NDEK'' ''T1'' 1773397800000 sample_env sample_world"

lemma sample_run_returns: "case fst sample_run of Inl _ \<Rightarrow> False | Inr _ \<Rightarrow> True"
  by code_simp

lemma sample_id: "\<not> blank ''PMT-01ARZ3NDEK''" "payment_row sample_world i = None"
  by (code_simp, simp add: payment_row_def sample_world_def)

lemma pipeline_refines_witness: "observed ''PMT-01ARZ3NDEK'' sample_world (snd sample_run) = pipe (Some QUEUED) 6 1"
  using pipeline_refines [OF sample_id, of sample_req None "''T1''" "1773397800000" sample_env "fst sample_run" "snd sample_run"]
    sample_run_returns
  by (auto simp: sample_run_def split: sum.splits)

text \<open>A run whose canonical message the schema rejects.\<close>

definition strict_env :: environment where
  "strict_env = sample_env\<lparr>e_datetime := \<lambda>s. False\<rparr>"

definition rejected_run :: "(js_error + (string \<times> jsval) list) \<times> world" where
  "rejected_run = pipeline_run sample_req None ''PMT-01ARZ3NDEK'' ''T1'' 1773397800000 strict_env sample_world"

lemma rejected_run_raises: "case fst rejected_run of Inl _ \<Rightarrow> True | Inr _ \<Rightarrow> False"
  by code_simp


lemma pipeline_touches_own_payment_witness:
  "payment_row (snd sample_run) ''PMT-2'' = payment_row sample_world ''PMT-2'' \<and> w_rules (snd sample_run) = sample_rules"
  using pipeline_touches_own_payment [of "''PMT-01ARZ3NDEK''" sample_req None "''T1''" "1773397800000" sample_env sample_world
      "fst sample_run" "snd sample_run" "''PMT-2''"]
  by (simp add: sample_run_def sample_world_def)

section \<open>The creation route\<close>

definition sample_create :: "(js_error + (jsval + reply)) \<times> world" where
  "sample_create = create_payment (Some ''key-1'') ''T1'' sample_request sample_env sample_world"

lemma sample_create_returns: "case fst sample_create of Inr (Inr _) \<Rightarrow> True | _ \<Rightarrow> False"
  by code_simp

lemma sample_schema: "createPaymentSchema sample_request = Some sample_req"
  by code_simp

lemma sample_unused: "idem_row sample_world k = None"
  by (simp add: idem_row_def rows_find_def sample_world_def)

lemma creation_is_idempotent_witness:
  "\<exists>rep. fst sample_create = Inr (Inr rep) \<and> re_status rep = 201 \<and>
    (\<exists>r. idem_row (snd sample_create) ''key-1'' = Some r \<and> ir_hash r = request_hash sample_env sample_req)"
proof -
  obtain rep where "fst sample_create = Inr (Inr rep)"
    using sample_create_returns by (auto split: sum.splits)
  then have "create_payment (Some ''key-1'') ''T1'' sample_request sample_env sample_world = (Inr (Inr rep), snd sample_create)"
    by (simp add: sample_create_def prod_eq_iff)
  from creation_is_idempotent [OF sample_schema _ sample_unused this] \<open>fst sample_create = Inr (Inr rep)\<close> show ?thesis by auto
qed

definition rejected_create :: "(js_error + (jsval + reply)) \<times> world" where
  "rejected_create = create_payment (Some ''key-1'') ''T1'' sample_request strict_env sample_world"

lemma rejected_create_raises: "case fst rejected_create of Inl _ \<Rightarrow> True | Inr _ \<Rightarrow> False"
  by code_simp

lemma failed_run_repeats_as_queued_witness: "\<exists>r. idem_row (snd rejected_create) ''key-1'' = Some r"
proof -
  obtain x where "fst rejected_create = Inl x" using rejected_create_raises by (cases "fst rejected_create") auto
  then have "create_payment (Some ''key-1'') ''T1'' sample_request strict_env sample_world = (Inl x, snd rejected_create)"
    by (simp add: rejected_create_def prod_eq_iff)
  moreover have "\<not> may_reject strict_env" by (simp add: strict_env_def may_reject_def)
  ultimately show ?thesis using failed_run_repeats_as_queued [OF sample_schema _ sample_unused] by blast
qed

definition expired_world :: world where
  "expired_world = sample_world\<lparr>w_idem := [\<lparr>ir_key = ''key-1'', ir_payment_id = ''PMT-0'', ir_hash = [], ir_status = None,
     ir_body = None, ir_created_at = 0, ir_expires_at = 1\<rparr>]\<rparr>"

lemma expired_key_loses_payment_witness:
  "w_payments (snd (create_payment (Some ''key-1'') ''T1'' sample_request sample_env expired_world)) = []"
proof -
  obtain r where "idem_row expired_world ''key-1'' = Some r" by (simp add: idem_row_def rows_find_def expired_world_def)
  from expired_key_loses_payment [OF sample_schema _ this, of sample_env "''T1''"]
  show ?thesis by (simp add: may_reject_def expired_world_def sample_world_def)
qed

end
