(* ===== verification/TranslateApi.thy ===== *)
theory TranslateApi
  imports Translator Http
begin

text \<open>
  The translation routes of \<open>src/api/routes/translate.ts\<close>: one translation, the list of the
  rails, and the preview of a message in the format of every other rail. The translations of
  a preview are modelled one after another, in the order of the rails; each depends on the
  canonical message alone.
\<close>

section \<open>Routes\<close>

record translate_request =
  tr_source :: rail
  tr_destination :: rail
  tr_payload :: jsval
  tr_includeCanonical :: bool
  tr_paymentId :: "string option"

fun z_bool :: "jsval \<Rightarrow> bool option" where
  "z_bool (JBool b) = Some b"
| "z_bool _ = None"

fun z_record :: "jsval \<Rightarrow> jsval option" where
  "z_record (JObj kvs) = Some (JObj kvs)"
| "z_record _ = None"

definition translateRequestSchema :: "jsval \<Rightarrow> translate_request option" where
  "translateRequestSchema = z_object (\<lambda>get. do {
     src \<leftarrow> z_enum rail_code SUPPORTED_RAILS (get ''sourceRail'');
     dst \<leftarrow> z_enum rail_code SUPPORTED_RAILS (get ''destinationRail'');
     payload \<leftarrow> z_record (get ''payload'');
     opts \<leftarrow> z_default (True, None) (z_object (\<lambda>o1. do {
       inc \<leftarrow> z_default True z_bool (o1 ''includeCanonical'');
       pid \<leftarrow> z_optional z_string (o1 ''paymentId'');
       Some (inc, pid) })) (get ''options'');
     Some \<lparr>tr_source = src, tr_destination = dst, tr_payload = payload, tr_includeCanonical = fst opts,
       tr_paymentId = snd opts\<rparr> })"

definition details_js :: "js_error \<Rightarrow> jsval" where
  "details_js x = (case x of AppError a \<Rightarrow> (case err_details a of Some d \<Rightarrow> JObj d | None \<Rightarrow> JUndef) | _ \<Rightarrow> JUndef)"

definition translation_error_reply :: "string \<Rightarrow> js_error \<Rightarrow> reply" where
  "translation_error_reply unexpected x = (if is_TranslationError x
     then reply_with 422 [(''error'', JStr ''TRANSLATION_ERROR''), (''message'', JStr (error_message x)), (''details'', details_js x)]
     else reply_with 500 [(''error'', JStr ''INTERNAL_ERROR''), (''message'', JStr unexpected)])"

definition translate_try :: "string \<Rightarrow> translate_request \<Rightarrow> handler" where
  "translate_try trace q =
     io_bind (case tr_paymentId q of Some i \<Rightarrow> io_return i | None \<Rightarrow> io_bind fresh_ulid (\<lambda>u. io_return (''PMT-'' @ u))) (\<lambda>pid.
     io_bind (translate (rail_code (tr_source q)) (rail_code (tr_destination q)) (tr_payload q) pid (Some trace)) (\<lambda>(c, t).
     io_bind now_iso (\<lambda>now.
     send (reply_with 200 ([(''paymentId'', JStr pid), (''sourceRail'', JStr (rail_code (tr_source q))),
        (''destinationRail'', JStr (rail_code (tr_destination q))), (''translated'', t), (''translatedAt'', JStr now),
        (''traceId'', JStr trace)] @ (if tr_includeCanonical q then [(''canonical'', canonical_js c)] else []))))))"

definition translate_route :: "string \<Rightarrow> jsval \<Rightarrow> handler" where
  "translate_route trace body = z_parse translateRequestSchema body (\<lambda>q.
     if tr_source q = tr_destination q
     then send (reply_with 400 [(''error'', JStr ''INVALID_TRANSLATION''), (''message'', JStr ''Source and destination rails must be different'')])
     else io_try (translate_try trace q) (\<lambda>x. send (translation_error_reply ''Unexpected error during translation'' x)))"

definition rail_entry :: "rail \<Rightarrow> jsval" where
  "rail_entry r = (let m = RAIL_METADATA r in JObj [(''id'', JStr (rail_code r)), (''name'', JStr (rm_name m)),
     (''country'', JStr (rm_country m)), (''currency'', JStr (rm_currency m)), (''region'', JStr (rm_region m)),
     (''hasAdapter'', JBool (rm_hasAdapter m)), (''standard'', JStr (rm_standard m))])"

definition rails_route :: handler where
  "rails_route = send (reply_with 200 [(''rails'', JArr (map rail_entry SUPPORTED_RAILS)),
     (''totalRails'', JNum (Fin (of_nat (length SUPPORTED_RAILS))))])"

definition previewSchema :: "jsval \<Rightarrow> (rail \<times> jsval) option" where
  "previewSchema = z_object (\<lambda>get. do {
     src \<leftarrow> z_enum rail_code SUPPORTED_RAILS (get ''sourceRail'');
     payload \<leftarrow> z_record (get ''payload'');
     Some (src, payload) })"

text \<open>A translation of the preview: its outcome, never its error.\<close>

definition preview_one :: "canonical \<Rightarrow> rail \<Rightarrow> (string \<times> jsval) io" where
  "preview_one c r = io_bind
     (io_try (io_bind (fromCanonical (rail_code r) c) (\<lambda>v. io_return (JObj [(''success'', JBool True), (''data'', v)])))
       (\<lambda>x. io_return (JObj [(''success'', JBool False), (''error'', JStr (error_message x))])))
     (\<lambda>o1. io_return (rail_code r, o1))"

fun preview_all :: "canonical \<Rightarrow> rail list \<Rightarrow> (string \<times> jsval) list io" where
  "preview_all c [] = io_return []"
| "preview_all c (r # rs) = io_bind (preview_one c r) (\<lambda>x. io_bind (preview_all c rs) (\<lambda>xs. io_return (x # xs)))"

definition preview_try :: "string \<Rightarrow> string \<Rightarrow> rail \<Rightarrow> jsval \<Rightarrow> handler" where
  "preview_try trace pid src payload =
     io_bind (toCanonical (rail_code src) payload pid (Some trace)) (\<lambda>c.
     io_bind (preview_all c (filter (\<lambda>r. r \<noteq> src) SUPPORTED_RAILS)) (\<lambda>translations.
     io_bind now_iso (\<lambda>now.
     send (reply_with 200 [(''paymentId'', JStr pid), (''sourceRail'', JStr (rail_code src)), (''canonical'', canonical_js c),
        (''translations'', JObj translations), (''translatedAt'', JStr now), (''traceId'', JStr trace)]))))"

definition preview_route :: "string \<Rightarrow> jsval \<Rightarrow> handler" where
  "preview_route trace body = z_parse previewSchema body (\<lambda>(src, payload).
     io_bind fresh_ulid (\<lambda>u. io_try (preview_try trace (''PMT-'' @ u) src payload)
       (\<lambda>x. send (translation_error_reply ''Unexpected error'' x))))"

section \<open>Lemmas\<close>

lemma send_quiet [io_frame]: "io_keeps quiet (send r)"
  unfolding send_def by (intro io_frame)

lemma z_parse_quiet [io_frame]: "(\<And>a. io_keeps quiet (k a)) \<Longrightarrow> io_keeps quiet (z_parse s v k)"
  unfolding z_parse_def by (auto intro!: io_frame split: option.split)

lemma preview_all_quiet [io_frame]: "io_keeps quiet (preview_all c rs)"
  unfolding preview_one_def by (induction rs) (auto simp: preview_one_def intro!: io_frame)

lemma translate_routes_quiet: "io_keeps quiet (translate_route trace body)" "io_keeps quiet (preview_route trace body)"
  unfolding translate_route_def translate_try_def preview_route_def preview_try_def
  by (auto intro!: io_frame split: option.split prod.split)

lemma fromCanonical_supported: "\<exists>v n. fromCanonical (rail_code r) c e w = (Inr v, w\<lparr>w_tick := n\<rparr>)"
  using fromCanonical_runs [of "rail_code r" c e w] by simp

lemma preview_one_run:
  "\<exists>v n. preview_one c r e w = (Inr (rail_code r, JObj [(''success'', JBool True), (''data'', v)]), w\<lparr>w_tick := n\<rparr>)"
  using fromCanonical_supported [of r c e w] by (auto simp: preview_one_def io_bind_def io_try_def io_return_def)

lemma preview_all_run:
  "\<exists>items n. preview_all c rs e w =
     (Inr (map (\<lambda>(r, v). (rail_code r, JObj [(''success'', JBool True), (''data'', v)])) items), w\<lparr>w_tick := n\<rparr>) \<and> map fst items = rs"
proof (induction rs arbitrary: w)
  case (Cons r rs)
  obtain v n where 1: "preview_one c r e w =
      (Inr (rail_code r, JObj [(''success'', JBool True), (''data'', v)]), w\<lparr>w_tick := n\<rparr>)"
    using preview_one_run [of c r e w] by blast
  obtain items n2 where 2: "preview_all c rs e (w\<lparr>w_tick := n\<rparr>) =
      (Inr (map (\<lambda>(r, v). (rail_code r, JObj [(''success'', JBool True), (''data'', v)])) items), w\<lparr>w_tick := n2\<rparr>)"
      "map fst items = rs"
    using Cons.IH [of "w\<lparr>w_tick := n\<rparr>"] by auto
  show ?case
    by (intro exI [of _ "(r, v) # items"] exI [of _ n2]) (simp add: io_bind_eval [where m = "preview_one c r", OF 1] io_bind_eval [where m = "preview_all c rs", OF 2(1)] 2(2) io_run)
next
  case Nil
  show ?case by (intro exI [of _ "[]"] exI [of _ "w_tick w"]) (simp add: io_run)
qed

lemma preview_schema: "previewSchema v = Some (src, payload) \<Longrightarrow> opt_prop v ''sourceRail'' = JStr (rail_code src)"
  by (cases v) (auto simp: previewSchema_def z_enum_def bind_eq_Some_conv obj_get_def split: jsval.splits dest: find_SomeD)

lemma preview_try_done:
  assumes "preview_try trace pid src payload e w = (Inr r, w')"
  shows "\<exists>c items rep. r = Inr rep \<and> re_status rep = 200 \<and> wf_canonical (e_datetime e) c \<and>
    opt_prop (re_body rep) ''canonical'' = canonical_js c \<and>
    opt_prop (re_body rep) ''translations'' =
      JObj (map (\<lambda>(r, v). (rail_code r, JObj [(''success'', JBool True), (''data'', v)])) items) \<and>
    map fst items = filter (\<lambda>r. r \<noteq> src) SUPPORTED_RAILS"
proof -
  let ?others = "filter (\<lambda>r. r \<noteq> src) SUPPORTED_RAILS"
  obtain c w1 where c: "toCanonical (rail_code src) payload pid (Some trace) e w = (Inr c, w1)"
    using assms by (auto simp: preview_try_def io_bind_Inr_iff)
  obtain items n where p: "preview_all c ?others e w1 =
      (Inr (map (\<lambda>(r, v). (rail_code r, JObj [(''success'', JBool True), (''data'', v)])) items), w1\<lparr>w_tick := n\<rparr>)"
    "map fst items = ?others"
    using preview_all_run [of c ?others e w1] by blast
  have "wf_canonical (e_datetime e) c" using toCanonical_post [OF c] by blast
  with p(2) assms show ?thesis
    unfolding preview_try_def io_bind_eval [where m = "toCanonical (rail_code src) payload pid (Some trace)", OF c]
      io_bind_eval [where m = "preview_all c ?others", OF p(1)] io_bind_eval [where m = now_iso, OF now_iso_run] send_def io_run
    by (intro exI [of _ c] exI [of _ items]) auto
qed

lemma translate_raises:
  "translate (rail_code s) (rail_code d) p pid trace e w = (Inl x, w') \<Longrightarrow> is_TranslationError x \<or> s = PIX"
proof (unfold translate_def io_bind_Inl_iff, elim disjE exE conjE)
  assume "toCanonical (rail_code s) p pid trace e w = (Inl x, w')"
  then show ?thesis using toCanonical_raises [of "rail_code s" p pid trace e w x w'] by (cases s) auto
next
  fix c w1 assume "fromCanonical (rail_code d) c e w1 = (Inl x, w')"
  then show ?thesis using fromCanonical_supported [of d c e w1] by simp
qed (simp add: io_run)

lemma translate_try_raises: "translate_try trace q e w = (Inl x, w') \<Longrightarrow> is_TranslationError x \<or> tr_source q = PIX"
  unfolding translate_try_def io_bind_Inl_iff
  by (auto simp: io_run send_def now_iso_run io_bind_Inl_iff dest: translate_raises split: option.splits)

lemma translate_try_done:
  "translate_try trace q e w = (Inr r, w') \<Longrightarrow> \<exists>rep. r = Inr rep \<and> re_status rep = 200 \<and>
     (opt_prop (re_body rep) ''canonical'' \<noteq> JUndef) = tr_includeCanonical q \<and>
     opt_prop (re_body rep) ''destinationRail'' = JStr (rail_code (tr_destination q))"
  unfolding translate_try_def io_bind_Inr_iff send_def
  by (auto simp: io_bind_eval [where m = now_iso, OF now_iso_run] io_run canonical_js_def)

section \<open>Properties\<close>

text \<open>
  A preview that is answered 200 holds the canonical message, which meets every bound of the
  canonical schema, and a successful translation for each of the six other rails, in their
  order: on no rail does the translation of an accepted message fail. Nothing is stored or sent.
\<close>

theorem preview_is_complete:
  assumes "preview_route trace body e w = (Inr (Inr rep), w')" "re_status rep = 200"
  shows "\<exists>src c items. opt_prop body ''sourceRail'' = JStr (rail_code src) \<and> wf_canonical (e_datetime e) c \<and>
    opt_prop (re_body rep) ''canonical'' = canonical_js c \<and>
    opt_prop (re_body rep) ''translations'' =
      JObj (map (\<lambda>(r, v). (rail_code r, JObj [(''success'', JBool True), (''data'', v)])) items) \<and>
    map fst items = filter (\<lambda>r. r \<noteq> src) SUPPORTED_RAILS \<and> quiet w w'"
proof -
  obtain src payload where q: "previewSchema body = Some (src, payload)"
    using assms(1) by (auto simp: preview_route_def z_parse_def io_run split: option.splits)
  let ?run = "preview_try trace (''PMT-'' @ e_ulid e (w_tick w)) src payload e (tick w)"
  have "\<exists>w1. ?run = (Inr (Inr rep), w1)"
    using assms q by (auto simp: preview_route_def z_parse_def io_run io_try_run send_def translation_error_reply_def
        split: prod.splits sum.splits if_splits)
  then obtain w1 where "?run = (Inr (Inr rep), w1)" ..
  from preview_try_done [OF this] preview_schema [OF q] io_keepsD [OF translate_routes_quiet(2) assms(1)]
  show ?thesis by auto
qed

text \<open>
  A translation request the schema accepts is always answered, whatever goes wrong: 400 when
  both rails are the same, 200 with the translation (and the canonical message exactly when it
  is asked for), 422 for a TranslationError, and 500 only for a PIX payload. Nothing is stored
  or sent.
\<close>

theorem translate_always_answers:
  assumes "translateRequestSchema body = Some q"
  shows "\<exists>rep w'. translate_route trace body e w = (Inr (Inr rep), w') \<and> quiet w w' \<and>
    (if tr_source q = tr_destination q then re_status rep = 400
     else re_status rep = 422 \<or> re_status rep = 500 \<and> tr_source q = PIX \<or>
       re_status rep = 200 \<and> (opt_prop (re_body rep) ''canonical'' \<noteq> JUndef) = tr_includeCanonical q \<and>
       opt_prop (re_body rep) ''destinationRail'' = JStr (rail_code (tr_destination q)))"
proof -
  obtain r w' where run: "translate_route trace body e w = (r, w')" by fastforce
  note quiet = io_keepsD [OF translate_routes_quiet(1) run]
  obtain t w1 where t: "translate_try trace q e w = (t, w1)" by fastforce
  show ?thesis
  proof (cases "tr_source q = tr_destination q")
    case True
    with assms run quiet show ?thesis by (auto simp: translate_route_def z_parse_def send_def io_run)
  next
    case False
    show ?thesis
    proof (cases t)
      case (Inl x)
      with t have "is_TranslationError x \<or> tr_source q = PIX" by (auto dest: translate_try_raises)
      with assms False run quiet t Inl show ?thesis
        by (auto simp: translate_route_def z_parse_def send_def io_run io_try_run translation_error_reply_def)
    next
      case (Inr a)
      from translate_try_done [OF t [unfolded Inr]] assms False run quiet t Inr show ?thesis
        by (auto simp: translate_route_def z_parse_def io_try_run)
    qed
  qed
qed

section \<open>Two requests\<close>

definition sample_translation :: jsval where
  "sample_translation = JObj [(''sourceRail'', JStr ''ACH_NACHA''), (''destinationRail'', JStr ''PIX''), (''payload'', sample_ach)]"

lemma translate_always_answers_witness: "\<exists>rep w'. translate_route ''T1'' sample_translation sample_env sample_world = (Inr (Inr rep), w') \<and>
    re_status rep \<in> {200, 422}"
proof -
  have "translateRequestSchema sample_translation = Some \<lparr>tr_source = ACH_NACHA, tr_destination = PIX, tr_payload = sample_ach,
      tr_includeCanonical = True, tr_paymentId = None\<rparr>" by code_simp
  from translate_always_answers [OF this, of "''T1''" sample_env sample_world] show ?thesis by auto
qed

definition preview_raw :: jsval where
  "preview_raw = (case ach_raw sample_ach (opt_prop sample_ach ''entryDetail'') (opt_prop sample_ach ''batchHeader'')
     ''PMT-01ARZ3NDEKTSV4RRFFQ0'' (Some ''T1'') ''2026-03-13T10:30:00.000Z'' (JStr ''021000020000001'') ''01ARZ3NDEKTSV4RRFFQ2''
     of Inr v \<Rightarrow> v | Inl _ \<Rightarrow> JUndef)"

lemma preview_raw: "ach_raw sample_ach (opt_prop sample_ach ''entryDetail'') (opt_prop sample_ach ''batchHeader'')
     ''PMT-01ARZ3NDEKTSV4RRFFQ0'' (Some ''T1'') ''2026-03-13T10:30:00.000Z'' (JStr ''021000020000001'') ''01ARZ3NDEKTSV4RRFFQ2'' =
   Inr preview_raw"
  by code_simp

lemma preview_accepted: "canonicalPacs008Schema (\<lambda>s. True) preview_raw \<noteq> None"
  by code_simp

lemma sample_preview_run:
  "\<exists>rep w'. preview_route ''T1'' sample_translation sample_env sample_world = (Inr (Inr rep), w') \<and> re_status rep = 200"
proof -
  obtain c where c: "canonicalPacs008Schema (\<lambda>s. True) preview_raw = Some c" using preview_accepted by blast
  have q: "previewSchema sample_translation = Some (ACH_NACHA, sample_ach)" by code_simp
  have u: "e_ulid sample_env 0 = ''01ARZ3NDEKTSV4RRFFQ0''" "e_ulid sample_env 2 = ''01ARZ3NDEKTSV4RRFFQ2''" by code_simp+
  have p: "get_prop sample_ach ''entryDetail'' = Inr (opt_prop sample_ach ''entryDetail'')"
    "get_prop sample_ach ''batchHeader'' = Inr (opt_prop sample_ach ''batchHeader'')"
    "get_prop (opt_prop sample_ach ''entryDetail'') ''traceNumber'' = Inr (JStr ''021000020000001'')"
    by code_simp+
  have t: "ach_trace (opt_prop sample_ach ''entryDetail'') b e w = (Inr (JStr ''021000020000001''), w)" for b e w
    using p(3) by (simp add: ach_trace_def io_run is_nullish_def)
  have "\<exists>w1. toCanonical ''ACH_NACHA'' sample_ach ''PMT-01ARZ3NDEKTSV4RRFFQ0'' (Some ''T1'') sample_env (tick sample_world) = (Inr c, w1)"
    using c u(2) rail_of_code [of ACH_NACHA]
    by (simp add: toCanonical_def achNachaToCanonical_def io_try_run io_run p(1,2) sample_time preview_raw
        io_bind_eval [where m = now_iso, OF now_iso_run] io_bind_eval [OF t] parse_canonical_def eval_nat_numeral)
  then obtain w1 where run: "toCanonical ''ACH_NACHA'' sample_ach ''PMT-01ARZ3NDEKTSV4RRFFQ0'' (Some ''T1'') sample_env (tick sample_world) =
      (Inr c, w1)" ..
  let ?others = "filter (\<lambda>r. r \<noteq> ACH_NACHA) SUPPORTED_RAILS"
  obtain items n where all: "preview_all c ?others sample_env w1 =
      (Inr (map (\<lambda>(r, v). (rail_code r, JObj [(''success'', JBool True), (''data'', v)])) items), w1\<lparr>w_tick := n\<rparr>)"
    using preview_all_run [of c ?others sample_env w1] by blast
  show ?thesis
    by (simp add: preview_route_def z_parse_def q io_run u io_try_run preview_try_def send_def
        io_bind_eval [where m = "toCanonical ''ACH_NACHA'' sample_ach ''PMT-01ARZ3NDEKTSV4RRFFQ0'' (Some ''T1'')", OF run]
        io_bind_eval [where m = "preview_all c ?others", OF all] io_bind_eval [where m = now_iso, OF now_iso_run])
qed

lemma preview_is_complete_witness:
  "\<exists>rep w'. preview_route ''T1'' sample_translation sample_env sample_world = (Inr (Inr rep), w') \<and>
     (\<exists>items. opt_prop (re_body rep) ''translations'' =
        JObj (map (\<lambda>(r, v). (rail_code r, JObj [(''success'', JBool True), (''data'', v)])) items) \<and>
      map fst items = [PIX, SPEI, SWIFT_MT103, ISO20022_MX, FEDNOW, BRE_B])"
proof -
  obtain rep w' where ok: "preview_route ''T1'' sample_translation sample_env sample_world = (Inr (Inr rep), w')"
    "re_status rep = 200" using sample_preview_run by blast
  from preview_is_complete [OF this] obtain src items where
    *: "opt_prop sample_translation ''sourceRail'' = JStr (rail_code src)" and
    items: "opt_prop (re_body rep) ''translations'' =
        JObj (map (\<lambda>(r, v). (rail_code r, JObj [(''success'', JBool True), (''data'', v)])) items)"
      "map fst items = filter (\<lambda>r. r \<noteq> src) SUPPORTED_RAILS"
    by blast
  have "src = ACH_NACHA" using * by (cases src) (simp_all add: sample_translation_def)
  with items(2) have "map fst items = [PIX, SPEI, SWIFT_MT103, ISO20022_MX, FEDNOW, BRE_B]" by (simp add: SUPPORTED_RAILS_def)
  with ok(1) items(1) show ?thesis by (intro exI conjI)
qed

end
