(* ===== verification/Sse.thy ===== *)
theory Sse
  imports Http
begin

text \<open>
  The event stream of \<open>src/api/routes/sse.ts\<close>: the list of connected clients, the counter of
  their identifiers, the keep-alive timers that are running, and everything written to the
  sockets. Whether a write throws is a parameter of the broadcast and of the ping. The loop of the
  broadcast runs over the indices from the last one down and removes entries on the way;
  \<open>broadcast_spec\<close> says what it amounts to.
\<close>

section \<open>The stream\<close>

record sse_client =
  cl_id :: string
  cl_filter :: "string option"

record sse =
  se_clients :: "sse_client list"
  se_counter :: nat
  se_timers :: "string list"
  se_heads :: "(string \<times> nat \<times> (string \<times> string) list) list"
  se_written :: "(string \<times> string) list"

definition no_clients :: sse where
  "no_clients = \<lparr>se_clients = [], se_counter = 0, se_timers = [], se_heads = [], se_written = []\<rparr>"

definition sse_line :: "string \<Rightarrow> string \<Rightarrow> string" where
  "sse_line event data = ''event: '' @ event @ [CHR 0x0A] @ ''data: '' @ data @ [CHR 0x0A, CHR 0x0A]"

definition write_to :: "string \<Rightarrow> string \<Rightarrow> sse \<Rightarrow> sse" where
  "write_to i text s = s\<lparr>se_written := se_written s @ [(i, text)]\<rparr>"

text \<open>\<open>client.paymentFilter && client.paymentFilter !== event.payment_id\<close> is skipped.\<close>

definition wants :: "string \<Rightarrow> sse_client \<Rightarrow> bool" where
  "wants pid c = (case cl_filter c of None \<Rightarrow> True | Some f \<Rightarrow> f = [] \<or> f = pid)"

fun broadcast_loop :: "(sse_client \<Rightarrow> bool) \<Rightarrow> string \<Rightarrow> string \<Rightarrow> nat \<Rightarrow> sse \<Rightarrow> sse" where
  "broadcast_loop ok pid data 0 s = s"
| "broadcast_loop ok pid data (Suc i) s = (let c = se_clients s ! i in
     if \<not> wants pid c then broadcast_loop ok pid data i s
     else if ok c then broadcast_loop ok pid data i (write_to (cl_id c) (sse_line ''payment_update'' data) s)
     else broadcast_loop ok pid data i (s\<lparr>se_clients := take i (se_clients s) @ drop (Suc i) (se_clients s)\<rparr>))"

definition broadcast :: "(sse_client \<Rightarrow> bool) \<Rightarrow> string \<Rightarrow> jsval \<Rightarrow> sse \<Rightarrow> sse" where
  "broadcast ok pid event s = broadcast_loop ok pid (JSON_stringify event) (length (se_clients s)) s"

definition client_id :: "nat \<Rightarrow> string option \<Rightarrow> string" where
  "client_id n f = ''sse-'' @ show_nat (int n) @ (case f of None \<Rightarrow> [] | Some pid \<Rightarrow> ''-'' @ pid)"

definition greeting :: "string \<Rightarrow> string option \<Rightarrow> jsval" where
  "greeting i f = JObj ((''clientId'', JStr i) # (case f of
     None \<Rightarrow> [(''message'', JStr ''Connected to MIPIT payment stream'')]
   | Some pid \<Rightarrow> [(''paymentId'', JStr pid), (''message'', JStr (''Watching payment '' @ pid))]))"

definition stream_head :: "(string \<times> string) list" where
  "stream_head = [(''Content-Type'', ''text/event-stream''), (''Cache-Control'', ''no-cache''),
     (''Connection'', ''keep-alive''), (''Access-Control-Allow-Origin'', ''*''), (''X-Accel-Buffering'', ''no'')]"

text \<open>Connecting: the head, the first event, the entry in the list and the timer of the pings.\<close>

definition open_stream :: "string option \<Rightarrow> sse \<Rightarrow> sse" where
  "open_stream f s = (let n = Suc (se_counter s); i = client_id n f in
     (write_to i (sse_line ''connected'' (JSON_stringify (greeting i f))) s)
       \<lparr>se_counter := n, se_heads := se_heads s @ [(i, 200, stream_head)],
        se_clients := se_clients s @ [\<lparr>cl_id = i, cl_filter = f\<rparr>], se_timers := se_timers s @ [i]\<rparr>)"

text \<open>The two routes: all the payments, or the payment of the path.\<close>

definition stream_all :: "sse \<Rightarrow> sse" where
  "stream_all s = open_stream None s"

definition stream_payment :: "string \<Rightarrow> sse \<Rightarrow> sse" where
  "stream_payment pid s = open_stream (Some pid) s"

text \<open>A timer fires only while it is running; a ping that throws stops its own timer and leaves the list of clients alone.\<close>

definition keep_alive :: "bool \<Rightarrow> string \<Rightarrow> sse \<Rightarrow> sse" where
  "keep_alive ok i s = (if i \<notin> set (se_timers s) then s
     else if ok then write_to i ('': keepalive'' @ [CHR 0x0A, CHR 0x0A]) s
     else s\<lparr>se_timers := removeAll i (se_timers s)\<rparr>)"

text \<open>\<open>findIndex\<close> and \<open>splice\<close>\<close>

fun remove_first :: "('a \<Rightarrow> bool) \<Rightarrow> 'a list \<Rightarrow> 'a list" where
  "remove_first P [] = []"
| "remove_first P (x # xs) = (if P x then xs else x # remove_first P xs)"

definition sse_disconnect :: "string \<Rightarrow> sse \<Rightarrow> sse" where
  "sse_disconnect i s = s\<lparr>se_timers := removeAll i (se_timers s),
     se_clients := remove_first (\<lambda>c. cl_id c = i) (se_clients s)\<rparr>"

definition clients_reply :: "sse \<Rightarrow> reply" where
  "clients_reply s = reply_with 200 [(''connected_clients'', JNum (num_of (of_nat (length (se_clients s))))),
     (''clients'', JArr (map (\<lambda>c. JObj [(''id'', JStr (cl_id c)),
        (''filter'', JStr (case cl_filter c of Some f \<Rightarrow> f | None \<Rightarrow> ''all''))]) (se_clients s)))]"

section \<open>The broadcast loop\<close>

text \<open>What a broadcast is: every client that wants the event and can be written to gets it, one that cannot is dropped.\<close>

definition broadcast_spec :: "(sse_client \<Rightarrow> bool) \<Rightarrow> string \<Rightarrow> jsval \<Rightarrow> sse \<Rightarrow> sse" where
  "broadcast_spec ok pid event s =
     s\<lparr>se_clients := filter (\<lambda>c. wants pid c \<longrightarrow> ok c) (se_clients s),
      se_written := se_written s @ rev (map (\<lambda>c. (cl_id c, sse_line ''payment_update'' (JSON_stringify event)))
        (filter (\<lambda>c. wants pid c \<and> ok c) (se_clients s)))\<rparr>"

lemma broadcast_loop_spec:
  "i \<le> length (se_clients s) \<Longrightarrow> broadcast_loop ok pid data i s =
   s\<lparr>se_clients := filter (\<lambda>c. wants pid c \<longrightarrow> ok c) (take i (se_clients s)) @ drop i (se_clients s),
     se_written := se_written s @ rev (map (\<lambda>c. (cl_id c, sse_line ''payment_update'' data))
       (filter (\<lambda>c. wants pid c \<and> ok c) (take i (se_clients s))))\<rparr>"
proof (induction i arbitrary: s)
  case (Suc i)
  define c where "c = se_clients s ! i"
  have i: "i < length (se_clients s)" "i \<le> length (se_clients s)" using Suc.prems by simp_all
  have d: "drop i (se_clients s) = c # drop (Suc i) (se_clients s)"
    unfolding c_def by (rule Cons_nth_drop_Suc [OF i(1), symmetric])
  have t: "take (Suc i) (se_clients s) = take i (se_clients s) @ [c]"
    unfolding c_def by (rule take_Suc_conv_app_nth [OF i(1)])
  consider "\<not> wants pid c" | "wants pid c" "ok c" | "wants pid c" "\<not> ok c" by blast
  then show ?case
  proof cases
    case 1
    then show ?thesis using Suc.IH [OF i(2)] by (simp add: Let_def c_def [symmetric] t d)
  next
    case 2
    then show ?thesis using i(2) Suc.IH [of "write_to (cl_id c) (sse_line ''payment_update'' data) s"]
      by (simp add: Let_def c_def [symmetric] t d write_to_def)
  next
    case 3
    then show ?thesis
      using i Suc.IH [of "s\<lparr>se_clients := take i (se_clients s) @ drop (Suc i) (se_clients s)\<rparr>"]
      by (simp add: Let_def c_def [symmetric] t)
  qed
qed simp

lemma broadcast_eq: "broadcast ok pid event s = broadcast_spec ok pid event s"
  by (simp add: broadcast_def broadcast_spec_def broadcast_loop_spec)

section \<open>Identifiers\<close>

text \<open>What happens to the stream: a client connects or goes away, an event is published, a timer fires.\<close>

datatype sse_step =
    Connect "string option"
  | Close string
  | Publish "sse_client \<Rightarrow> bool" string jsval
  | Ping bool string

fun sse_next :: "sse_step \<Rightarrow> sse \<Rightarrow> sse" where
  "sse_next (Connect None) s = stream_all s"
| "sse_next (Connect (Some pid)) s = stream_payment pid s"
| "sse_next (Close i) s = sse_disconnect i s"
| "sse_next (Publish ok pid event) s = broadcast ok pid event s"
| "sse_next (Ping ok i) s = keep_alive ok i s"

inductive sse_reachable :: "sse \<Rightarrow> bool" where
  started: "sse_reachable no_clients"
| stepped: "sse_reachable s \<Longrightarrow> sse_reachable (sse_next x s)"

lemma connect_opens: "sse_next (Connect f) s = open_stream f s"
  by (cases f) (simp_all add: stream_all_def stream_payment_def)

lemma client_id_inj:
  assumes "client_id n f = client_id m g"
  shows "n = m"
proof -
  define rest where "rest = (\<lambda>f. case f of None \<Rightarrow> [] | Some pid \<Rightarrow> ''-'' @ (pid :: string))"
  have r: "rest f = [] \<or> hd (rest f) = CHR ''-''" for f by (cases f) (simp_all add: rest_def)
  have digits: "c \<noteq> CHR ''-''" if "c \<in> set (show_nat (int k))" for c k
    using that show_nat_digits [of "int k"] by (auto simp: list_all_iff is_digit_def char_code_def)
  have split: "takeWhile (\<lambda>c. c \<noteq> CHR ''-'') (show_nat (int k) @ rest f) = show_nat (int k)" for k f
    using r [of f] digits [of _ k] by (cases "rest f") (auto simp: takeWhile_append)
  have "show_nat (int n) @ rest f = show_nat (int m) @ rest g"
    using assms by (simp add: client_id_def rest_def)
  then have "show_nat (int n) = show_nat (int m)" by (metis split)
  then show ?thesis by (metis digits_val_show_nat of_nat_0_le_iff of_nat_eq_iff)
qed

text \<open>The identifiers in use were handed out, those of the clients are distinct, and so are those of the timers.\<close>

definition handed_out :: "sse \<Rightarrow> string \<Rightarrow> bool" where
  "handed_out s i = (\<exists>n \<le> se_counter s. \<exists>f. i = client_id n f)"

definition sse_ok :: "sse \<Rightarrow> bool" where
  "sse_ok s = (distinct (map cl_id (se_clients s)) \<and> distinct (se_timers s) \<and>
     (\<forall>i \<in> cl_id ` set (se_clients s) \<union> set (se_timers s). handed_out s i))"

lemma fresh_client_id: "\<not> handed_out s (client_id (Suc (se_counter s)) f)"
  unfolding handed_out_def using client_id_inj by fastforce

lemma handed_out_next: "handed_out s i \<Longrightarrow> se_counter s \<le> se_counter s' \<Longrightarrow> handed_out s' i"
  unfolding handed_out_def by (blast intro: order_trans)

lemma set_remove_first: "set (remove_first P xs) \<subseteq> set xs"
  by (induction xs) auto

lemma distinct_remove_first: "distinct (map f xs) \<Longrightarrow> distinct (map f (remove_first P xs))"
  using set_remove_first [of P] by (induction xs) fastforce+

lemma remove_first_filter: "distinct (map f xs) \<Longrightarrow> remove_first (\<lambda>x. f x = a) xs = filter (\<lambda>x. f x \<noteq> a) xs"
proof (induction xs)
  case (Cons x xs)
  have "filter (\<lambda>y. f y \<noteq> f x) xs = xs" using Cons.prems by (auto simp: filter_id_conv) (metis imageI)
  with Cons show ?case by auto
qed simp

lemma distinct_filter_map: "distinct (map f xs) \<Longrightarrow> distinct (map f (filter P xs))"
  by (induction xs) auto

lemma connect_ok:
  assumes "sse_ok s"
  shows "sse_ok (open_stream f s)"
proof -
  have new: "client_id (Suc (se_counter s)) f \<notin> cl_id ` set (se_clients s) \<union> set (se_timers s)"
    using assms fresh_client_id by (auto simp: sse_ok_def)
  have mono: "handed_out (open_stream f s) i" if "handed_out s i" for i
    using that by (rule handed_out_next) (simp add: open_stream_def Let_def write_to_def)
  have "handed_out (open_stream f s) (client_id (Suc (se_counter s)) f)"
    by (auto simp: handed_out_def open_stream_def Let_def write_to_def)
  with new mono show ?thesis
    using assms by (auto simp: sse_ok_def open_stream_def Let_def write_to_def)
qed

lemma same_clients_ok:
  "sse_ok s \<Longrightarrow> distinct (map cl_id (se_clients s')) \<Longrightarrow> set (se_clients s') \<subseteq> set (se_clients s) \<Longrightarrow>
   distinct (se_timers s') \<Longrightarrow> set (se_timers s') \<subseteq> set (se_timers s) \<Longrightarrow> se_counter s' = se_counter s \<Longrightarrow> sse_ok s'"
  by (auto simp: sse_ok_def handed_out_def)

lemma next_ok: "sse_ok s \<Longrightarrow> sse_ok (sse_next x s)"
proof (cases x)
  case (Close i)
  assume "sse_ok s"
  then show ?thesis
    by (rule same_clients_ok) (use \<open>sse_ok s\<close> set_remove_first [of "\<lambda>c. cl_id c = i" "se_clients s"] in
      \<open>auto simp: Close sse_disconnect_def sse_ok_def distinct_remove_first distinct_removeAll\<close>)
next
  case (Publish ok pid event)
  assume "sse_ok s"
  then show ?thesis
    by (rule same_clients_ok) (use \<open>sse_ok s\<close> in \<open>auto simp: Publish broadcast_eq broadcast_spec_def sse_ok_def distinct_filter_map\<close>)
next
  case (Ping ok i)
  assume "sse_ok s"
  then show ?thesis
    by (rule same_clients_ok) (use \<open>sse_ok s\<close> in \<open>auto simp: Ping keep_alive_def write_to_def sse_ok_def distinct_removeAll\<close>)
qed (simp only: connect_opens connect_ok)

lemma reachable_ok: "sse_reachable s \<Longrightarrow> sse_ok s"
  by (induction rule: sse_reachable.induct) (simp_all add: next_ok, simp add: sse_ok_def no_clients_def)

section \<open>What a client sees\<close>

definition seen_by :: "sse_client \<Rightarrow> sse \<Rightarrow> string list" where
  "seen_by c s = map snd (filter (\<lambda>(i, t). i = cl_id c) (se_written s))"

lemma filter_distinct_one:
  "distinct (map f xs) \<Longrightarrow> x \<in> set xs \<Longrightarrow> filter (\<lambda>y. f y = f x \<and> P y) xs = (if P x then [x] else [])"
proof (induction xs)
  case (Cons y ys)
  show ?case
  proof (cases "x = y")
    case True
    have "filter (\<lambda>z. f z = f x \<and> P z) ys = []" using Cons.prems True by (auto simp: filter_empty_conv) (metis imageI)
    with True show ?thesis by simp
  next
    case False
    with Cons.prems have "x \<in> set ys" "f y \<noteq> f x" by auto
    with Cons show ?thesis by simp
  qed
qed simp

lemma seen_broadcast:
  assumes "sse_ok s" "c \<in> set (se_clients s)" "ok c"
  shows "seen_by c (broadcast ok pid event s) = seen_by c s @
    (if wants pid c then [sse_line ''payment_update'' (JSON_stringify event)] else [])"
proof -
  have "filter (\<lambda>y. cl_id y = cl_id c \<and> (wants pid y \<and> ok y)) (se_clients s) = (if wants pid c \<and> ok c then [c] else [])"
    by (rule filter_distinct_one) (use assms in \<open>simp_all add: sse_ok_def\<close>)
  then have "filter (\<lambda>y. (wants pid y \<and> ok y) \<and> cl_id y = cl_id c) (se_clients s) = (if wants pid c then [c] else [])"
    using assms(3) by (simp add: conj_ac)
  then show ?thesis
    by (simp add: seen_by_def broadcast_eq broadcast_spec_def rev_map [symmetric] filter_map comp_def rev_filter [symmetric])
qed

lemma seen_write: "seen_by c (write_to i t s) = seen_by c s @ (if i = cl_id c then [t] else [])"
  by (simp add: seen_by_def write_to_def)

text \<open>What a step lets a client see, and whether it leaves the client alone.\<close>

fun sees :: "sse_client \<Rightarrow> sse_step \<Rightarrow> string list" where
  "sees c (Publish ok pid event) = (if wants pid c then [sse_line ''payment_update'' (JSON_stringify event)] else [])"
| "sees c (Ping ok i) = (if i = cl_id c then ['': keepalive'' @ [CHR 0x0A, CHR 0x0A]] else [])"
| "sees c _ = []"

fun spares :: "sse_client \<Rightarrow> sse_step \<Rightarrow> bool" where
  "spares c (Publish ok pid event) = ok c"
| "spares c (Ping ok i) = (i = cl_id c \<longrightarrow> ok)"
| "spares c (Close i) = (i \<noteq> cl_id c)"
| "spares c (Connect f) = True"

definition served :: "sse_client \<Rightarrow> sse \<Rightarrow> bool" where
  "served c s = (c \<in> set (se_clients s) \<and> cl_id c \<in> set (se_timers s))"

fun sse_run :: "sse_step list \<Rightarrow> sse \<Rightarrow> sse" where
  "sse_run [] s = s"
| "sse_run (x # xs) s = sse_run xs (sse_next x s)"

lemma remove_first_other: "c \<in> set xs \<Longrightarrow> \<not> P c \<Longrightarrow> c \<in> set (remove_first P xs)"
  by (induction xs) auto

lemma step_seen:
  assumes "sse_ok s" "served c s" "spares c x"
  shows "served c (sse_next x s) \<and> seen_by c (sse_next x s) = seen_by c s @ sees c x"
proof (cases x)
  case (Connect f)
  have "client_id (Suc (se_counter s)) f \<noteq> cl_id c"
    using assms(1,2) fresh_client_id by (auto simp: sse_ok_def served_def)
  moreover have "seen_by c (open_stream f s) = seen_by c (write_to (client_id (Suc (se_counter s)) f)
      (sse_line ''connected'' (JSON_stringify (greeting (client_id (Suc (se_counter s)) f) f))) s)"
    by (simp add: seen_by_def open_stream_def Let_def)
  ultimately show ?thesis
    using assms(2) unfolding Connect connect_opens seen_write by (auto simp: served_def open_stream_def Let_def write_to_def)
next
  case (Close i)
  with assms show ?thesis by (auto simp: served_def sse_disconnect_def seen_by_def intro: remove_first_other)
next
  case (Publish ok pid event)
  with assms have "seen_by c (sse_next x s) = seen_by c s @ sees c x" by (simp add: seen_broadcast served_def)
  then show ?thesis using Publish assms by (auto simp: served_def broadcast_eq broadcast_spec_def)
next
  case (Ping ok i)
  with assms show ?thesis by (auto simp: served_def keep_alive_def seen_write) (auto simp: write_to_def seen_by_def)
qed

lemma run_seen:
  "sse_ok s \<Longrightarrow> served c s \<Longrightarrow> list_all (spares c) xs \<Longrightarrow>
   served c (sse_run xs s) \<and> seen_by c (sse_run xs s) = seen_by c s @ concat (map (sees c) xs)"
  by (induction xs arbitrary: s) (simp_all add: step_seen next_ok)

section \<open>Properties\<close>

text \<open>
  C21: In every reachable state of the stream, whatever other clients come and go and whatever
  sockets fail in between, a connected client whose timer runs and whose own socket takes what is
  written stays connected and sees, in their order and once each, exactly the events it wants (all
  of them, or those of the payment it watches) and its own pings. When it disconnects exactly its
  own entry and its own timer are removed.
\<close>

theorem client_sees_its_events:
  assumes "sse_reachable s" "served c s" "list_all (spares c) xs"
  shows "served c (sse_run xs s) \<and> seen_by c (sse_run xs s) = seen_by c s @ concat (map (sees c) xs) \<and>
    se_clients (sse_disconnect (cl_id c) s) = filter (\<lambda>d. d \<noteq> c) (se_clients s) \<and>
    se_timers (sse_disconnect (cl_id c) s) = filter (\<lambda>i. i \<noteq> cl_id c) (se_timers s)"
proof -
  have ok: "sse_ok s" using assms(1) by (rule reachable_ok)
  then have "remove_first (\<lambda>d. cl_id d = cl_id c) (se_clients s) = filter (\<lambda>d. cl_id d \<noteq> cl_id c) (se_clients s)"
    by (intro remove_first_filter) (simp add: sse_ok_def)
  also have "\<dots> = filter (\<lambda>d. d \<noteq> c) (se_clients s)"
    using ok assms(2) by (auto simp: sse_ok_def served_def distinct_map intro!: filter_cong dest: inj_onD)
  finally show ?thesis using run_seen [OF ok assms(2,3)]
    by (auto simp: sse_disconnect_def removeAll_filter_not_eq intro: filter_cong)
qed

definition two_clients :: sse where
  "two_clients = stream_payment ''PMT-1'' (stream_all no_clients)"

definition watcher :: sse_client where
  "watcher = \<lparr>cl_id = ''sse-2-PMT-1'', cl_filter = Some ''PMT-1''\<rparr>"

definition sample_steps :: "sse_step list" where
  "sample_steps = [Publish (\<lambda>c. True) ''PMT-1'' (JStr ''a''), Ping True ''sse-2-PMT-1'', Ping False ''sse-1'', Connect None,
     Publish (\<lambda>c. True) ''PMT-2'' (JStr ''b''), Close ''sse-1'', Publish (\<lambda>c. cl_filter c \<noteq> None) ''PMT-1'' (JStr ''c'')]"

lemma client_sees_its_events_witness:
  "seen_by watcher (sse_run sample_steps two_clients) = seen_by watcher two_clients @
     [sse_line ''payment_update'' (JSON_stringify (JStr ''a'')), '': keepalive'' @ [CHR 0x0A, CHR 0x0A],
      sse_line ''payment_update'' (JSON_stringify (JStr ''c''))]"
proof -
  have "sse_reachable (sse_next (Connect (Some ''PMT-1'')) (sse_next (Connect None) no_clients))"
    by (intro sse_reachable.intros)
  then have r: "sse_reachable two_clients" by (simp add: two_clients_def)
  have c: "served watcher two_clients" by code_simp
  show ?thesis
    using client_sees_its_events [OF r c, of sample_steps] by (simp add: sample_steps_def wants_def watcher_def)
qed

text \<open>
  A client whose socket fails during a broadcast is dropped from the list, but its timer goes on
  until a ping fails or the socket closes; one whose ping fails is still in the list.
\<close>

lemma list_and_timers_part:
  "se_clients (broadcast (\<lambda>_. False) ''PMT-1'' JNull (stream_all no_clients)) = []"
  "se_timers (broadcast (\<lambda>_. False) ''PMT-1'' JNull (stream_all no_clients)) = [''sse-1'']"
  "se_timers (keep_alive False ''sse-1'' (stream_all no_clients)) = []"
  "map cl_id (se_clients (keep_alive False ''sse-1'' (stream_all no_clients))) = [''sse-1'']"
  by code_simp+

end
