(* ===== verification/Reconciliation.thy ===== *)
theory Reconciliation
  imports Repositories Outcome
begin

text \<open>
  The batch check of \<open>src/reconciliation/reconciliation-service.ts\<close>: one pass over the payments
  of a window that counts them by status and by rail and collects what looks stuck. The
  properties relate the counters of the pass to the payments (\<open>scan_spec\<close>).
\<close>

section \<open>The report\<close>

record recon_options =
  ro_windowHours :: jsnum
  ro_stuckThresholdMinutes :: jsnum

record recon_summary =
  sm_total :: nat
  sm_completed :: nat
  sm_failed :: nat
  sm_rejected :: nat
  sm_stuck :: nat
  sm_dead_letter :: nat
  sm_compensated :: nat

record stuck_payment =
  sp_payment_id :: string
  sp_status :: string
  sp_origin_rail :: string
  sp_destination_rail :: "string option"
  sp_queued_at :: int
  sp_stuck_minutes :: jsnum

record anomaly =
  an_type :: string
  an_payment_id :: string
  an_description :: string

record rail_stats =
  rs_sent :: nat
  rs_completed :: nat
  rs_failed :: nat
  rs_rejected :: nat
  rs_latencies :: "int list"

record rail_line =
  rl_sent :: nat
  rl_completed :: nat
  rl_failed :: nat
  rl_rejected :: nat
  rl_success_rate :: jsnum
  rl_avg_latency :: "jsnum option"

record recon_report =
  rp_generated_at :: string
  rp_window_hours :: jsnum
  rp_summary :: recon_summary
  rp_stuck :: "stuck_payment list"
  rp_breakdown :: "(string \<times> rail_line) list"
  rp_anomalies :: "anomaly list"

text \<open>The variables of the pass.\<close>

record recon_state =
  rc_summary :: recon_summary
  rc_stuck :: "stuck_payment list"
  rc_anomalies :: "anomaly list"
  rc_rails :: "(string \<times> rail_stats) list"

definition recon_defaults :: recon_options where
  "recon_defaults = \<lparr>ro_windowHours = Fin 24, ro_stuckThresholdMinutes = Fin 15\<rparr>"

text \<open>\<open>{ ...DEFAULT_OPTIONS, ...options }\<close>\<close>

definition recon_opts :: "jsnum option \<Rightarrow> jsnum option \<Rightarrow> recon_options" where
  "recon_opts h m = \<lparr>ro_windowHours = (case h of Some x \<Rightarrow> x | None \<Rightarrow> ro_windowHours recon_defaults),
     ro_stuckThresholdMinutes = (case m of Some x \<Rightarrow> x | None \<Rightarrow> ro_stuckThresholdMinutes recon_defaults)\<rparr>"

definition minutes_of :: "int \<Rightarrow> jsnum" where
  "minutes_of ms = Math_round (num_div (Fin (of_int ms)) (Fin 60000))"

section \<open>The pass over the payments\<close>

definition is_stuck :: "int \<Rightarrow> jsnum \<Rightarrow> payment \<Rightarrow> bool" where
  "is_stuck now threshold p = (p_status p \<in> {''QUEUED'', ''SENT_TO_DESTINATION''} \<and>
     (case p_queued_at p of None \<Rightarrow> False
      | Some q \<Rightarrow> 0 < q \<and> num_lt threshold (Fin (of_int (now - q)))))"

definition count_status :: "int \<Rightarrow> jsnum \<Rightarrow> payment \<Rightarrow> recon_summary \<Rightarrow> recon_summary" where
  "count_status now threshold p s =
    (if p_status p = ''COMPLETED'' then s\<lparr>sm_completed := sm_completed s + 1\<rparr>
     else if p_status p = ''FAILED'' then s\<lparr>sm_failed := sm_failed s + 1\<rparr>
     else if p_status p = ''REJECTED'' then s\<lparr>sm_rejected := sm_rejected s + 1\<rparr>
     else if p_status p = ''DEAD_LETTER'' then s\<lparr>sm_dead_letter := sm_dead_letter s + 1\<rparr>
     else if p_status p = ''COMPENSATED'' then s\<lparr>sm_compensated := sm_compensated s + 1\<rparr>
     else if is_stuck now threshold p then s\<lparr>sm_stuck := sm_stuck s + 1\<rparr> else s)"

definition stuck_entry :: "int \<Rightarrow> payment \<Rightarrow> stuck_payment" where
  "stuck_entry now p = (let q = (case p_queued_at p of Some q \<Rightarrow> q | None \<Rightarrow> 0) in
     \<lparr>sp_payment_id = p_id p, sp_status = p_status p, sp_origin_rail = p_origin_rail p,
      sp_destination_rail = p_destination_rail p, sp_queued_at = q, sp_stuck_minutes = minutes_of (now - q)\<rparr>)"

definition no_stats :: rail_stats where
  "no_stats = \<lparr>rs_sent = 0, rs_completed = 0, rs_failed = 0, rs_rejected = 0, rs_latencies = []\<rparr>"

definition count_rail :: "payment \<Rightarrow> rail_stats \<Rightarrow> rail_stats" where
  "count_rail p r = (let r = r\<lparr>rs_sent := rs_sent r + 1\<rparr> in
     if p_status p = ''COMPLETED'' then r\<lparr>rs_completed := rs_completed r + 1,
       rs_latencies := rs_latencies r @ (case p_completed_at p of Some t \<Rightarrow> [t - p_created_at p] | None \<Rightarrow> [])\<rparr>
     else if p_status p = ''FAILED'' then r\<lparr>rs_failed := rs_failed r + 1\<rparr>
     else if p_status p = ''REJECTED'' then r\<lparr>rs_rejected := rs_rejected r + 1\<rparr> else r)"

definition dest_rail :: "payment \<Rightarrow> string" where
  "dest_rail p = (case p_destination_rail p of Some d \<Rightarrow> d | None \<Rightarrow> ''UNKNOWN'')"

definition stalled :: "int \<Rightarrow> jsnum \<Rightarrow> payment \<Rightarrow> bool" where
  "stalled now threshold p = (p_status p \<in> {''CANONICALIZED'', ''ROUTED''} \<and>
     num_lt threshold (Fin (of_int (now - p_created_at p))))"

definition stalled_anomaly :: "int \<Rightarrow> payment \<Rightarrow> anomaly" where
  "stalled_anomaly now p = \<lparr>an_type = ''STALLED_PIPELINE'', an_payment_id = p_id p,
     an_description = ''Payment stuck in '' @ p_status p @ '' for '' @
       num_to_string (minutes_of (now - p_created_at p)) @ '' minutes''\<rparr>"

definition scan_payment :: "int \<Rightarrow> jsnum \<Rightarrow> recon_state \<Rightarrow> payment \<Rightarrow> recon_state" where
  "scan_payment now threshold st p =
    \<lparr>rc_summary = count_status now threshold p (rc_summary st),
     rc_stuck = rc_stuck st @ (if is_stuck now threshold p then [stuck_entry now p] else []),
     rc_anomalies = rc_anomalies st @ (if stalled now threshold p then [stalled_anomaly now p] else []),
     rc_rails = alist_set (rc_rails st) (dest_rail p)
       (count_rail p (case map_of (rc_rails st) (dest_rail p) of Some r \<Rightarrow> r | None \<Rightarrow> no_stats))\<rparr>"

definition scan_start :: "nat \<Rightarrow> recon_state" where
  "scan_start n = \<lparr>rc_summary = \<lparr>sm_total = n, sm_completed = 0, sm_failed = 0, sm_rejected = 0, sm_stuck = 0,
      sm_dead_letter = 0, sm_compensated = 0\<rparr>, rc_stuck = [], rc_anomalies = [], rc_rails = []\<rparr>"

definition scan :: "int \<Rightarrow> jsnum \<Rightarrow> payment list \<Rightarrow> recon_state" where
  "scan now threshold ps = foldl (scan_payment now threshold) (scan_start (length ps)) ps"

text \<open>\<open>Math.round((a / b) * 100)\<close>, 0 when \<open>b\<close> is 0, and the rounded mean.\<close>

definition percentage :: "nat \<Rightarrow> nat \<Rightarrow> jsnum" where
  "percentage a b = (if b = 0 then Fin 0
     else Math_round (num_mul (num_div (Fin (of_nat a)) (Fin (of_nat b))) (Fin 100)))"

definition mean :: "int list \<Rightarrow> jsnum option" where
  "mean xs = (if xs = [] then None
     else Some (Math_round (num_div (foldl (\<lambda>a x. num_add a (Fin (of_int x))) (Fin 0) xs) (Fin (of_nat (length xs))))))"

definition rail_line_of :: "rail_stats \<Rightarrow> rail_line" where
  "rail_line_of r = \<lparr>rl_sent = rs_sent r, rl_completed = rs_completed r, rl_failed = rs_failed r,
     rl_rejected = rs_rejected r, rl_success_rate = percentage (rs_completed r) (rs_sent r),
     rl_avg_latency = mean (rs_latencies r)\<rparr>"

text \<open>A window that does not give a date raises when it is written as a date.\<close>

definition window_start :: "int \<Rightarrow> jsnum \<Rightarrow> js_error + int" where
  "window_start now h =
    (case num_sub (Fin (of_int now)) (num_mul (num_mul (num_mul h (Fin 60)) (Fin 60)) (Fin 1000)) of
       Fin x \<Rightarrow> if \<bar>x\<bar> \<le> 8640000000000000 then Inr (if 0 \<le> x then \<lfloor>x\<rfloor> else \<lceil>x\<rceil>)
         else Inl (PlainError ''Invalid time value'')
     | _ \<Rightarrow> Inl (PlainError ''Invalid time value''))"

definition runReconciliation :: "recon_options \<Rightarrow> recon_report io" where
  "runReconciliation opts =
     io_bind date_now (\<lambda>t.
     io_bind (io_result (window_start t (ro_windowHours opts))) (\<lambda>cutoff.
     io_bind (payment_findSince cutoff) (\<lambda>ps.
     io_bind date_now (\<lambda>now.
     let st = scan now (num_mul (num_mul (ro_stuckThresholdMinutes opts) (Fin 60)) (Fin 1000)) ps in
     io_bind now_iso (\<lambda>generated.
     io_return \<lparr>rp_generated_at = generated, rp_window_hours = ro_windowHours opts, rp_summary = rc_summary st,
       rp_stuck = rc_stuck st, rp_breakdown = map (\<lambda>(r, s). (r, rail_line_of s)) (rc_rails st),
       rp_anomalies = rc_anomalies st\<rparr>)))))"

section \<open>What the pass computes\<close>

abbreviation how_many :: "('a \<Rightarrow> bool) \<Rightarrow> 'a list \<Rightarrow> nat" where
  "how_many P xs \<equiv> length (filter P xs)"

lemma scan_snoc: "foldl (scan_payment now th) (scan_start n) (ps @ [p]) =
   scan_payment now th (foldl (scan_payment now th) (scan_start n) ps) p"
  by simp

lemma scan_payment_rails: "rc_rails (scan_payment now th st p) = alist_set (rc_rails st) (dest_rail p)
     (count_rail p (case map_of (rc_rails st) (dest_rail p) of Some r \<Rightarrow> r | None \<Rightarrow> no_stats))"
  by (simp add: scan_payment_def)

lemma scan_lists:
  "rc_stuck (foldl (scan_payment now th) (scan_start n) ps) = map (stuck_entry now) (filter (is_stuck now th) ps)"
  "rc_anomalies (foldl (scan_payment now th) (scan_start n) ps) = map (stalled_anomaly now) (filter (stalled now th) ps)"
  by (induction ps rule: rev_induct) (simp_all add: scan_start_def, simp_all add: scan_payment_def)

lemma stuck_status: "is_stuck now th p \<Longrightarrow> p_status p \<in> {''QUEUED'', ''SENT_TO_DESTINATION''}"
  by (simp add: is_stuck_def)

lemma scan_summary:
  "rc_summary (foldl (scan_payment now th) (scan_start n) ps) =
    \<lparr>sm_total = n, sm_completed = how_many (\<lambda>p. p_status p = ''COMPLETED'') ps,
     sm_failed = how_many (\<lambda>p. p_status p = ''FAILED'') ps, sm_rejected = how_many (\<lambda>p. p_status p = ''REJECTED'') ps,
     sm_stuck = how_many (is_stuck now th) ps, sm_dead_letter = how_many (\<lambda>p. p_status p = ''DEAD_LETTER'') ps,
     sm_compensated = how_many (\<lambda>p. p_status p = ''COMPENSATED'') ps\<rparr>"
proof (induction ps rule: rev_induct)
  case (snoc p ps)
  then show ?case
    using stuck_status [of now th p] by (auto simp: scan_payment_def count_status_def)
qed (simp add: scan_start_def)

text \<open>Replacing the value of a key changes a sum over the values by the difference.\<close>

definition total_of :: "('a \<Rightarrow> nat) \<Rightarrow> (string \<times> 'a) list \<Rightarrow> nat" where
  "total_of f o1 = sum_list (map (\<lambda>x. f (snd x)) o1)"

lemma total_of_alist_set:
  "total_of f (alist_set o1 k v) + (case map_of o1 k of Some x \<Rightarrow> f x | None \<Rightarrow> 0) = total_of f o1 + f v"
  by (induction o1 k v rule: alist_set.induct) (auto simp: total_of_def)

lemma total_of_step:
  assumes "\<And>r. f (count_rail p r) = f r + d" "f no_stats = 0"
  shows "total_of f (rc_rails (scan_payment now th st p)) = total_of f (rc_rails st) + d"
  using total_of_alist_set [of f "rc_rails st" "dest_rail p"
      "count_rail p (case map_of (rc_rails st) (dest_rail p) of Some r \<Rightarrow> r | None \<Rightarrow> no_stats)"]
  by (simp add: scan_payment_rails assms split: option.splits)

lemma count_rail_adds:
  "rs_sent (count_rail p r) = rs_sent r + 1"
  "rs_completed (count_rail p r) = rs_completed r + (if p_status p = ''COMPLETED'' then 1 else 0)"
  "rs_failed (count_rail p r) = rs_failed r + (if p_status p = ''FAILED'' then 1 else 0)"
  "rs_rejected (count_rail p r) = rs_rejected r + (if p_status p = ''REJECTED'' then 1 else 0)"
  by (simp_all add: count_rail_def Let_def)

lemma scan_totals:
  "total_of rs_sent (rc_rails (scan_payment now th st p)) = total_of rs_sent (rc_rails st) + 1"
  "total_of rs_completed (rc_rails (scan_payment now th st p)) =
     total_of rs_completed (rc_rails st) + (if p_status p = ''COMPLETED'' then 1 else 0)"
  "total_of rs_failed (rc_rails (scan_payment now th st p)) =
     total_of rs_failed (rc_rails st) + (if p_status p = ''FAILED'' then 1 else 0)"
  "total_of rs_rejected (rc_rails (scan_payment now th st p)) =
     total_of rs_rejected (rc_rails st) + (if p_status p = ''REJECTED'' then 1 else 0)"
  by (rule total_of_step; simp add: count_rail_adds no_stats_def)+

lemma scan_rails:
  "total_of rs_sent (rc_rails (foldl (scan_payment now th) (scan_start n) ps)) = length ps \<and>
   total_of rs_completed (rc_rails (foldl (scan_payment now th) (scan_start n) ps)) = how_many (\<lambda>p. p_status p = ''COMPLETED'') ps \<and>
   total_of rs_failed (rc_rails (foldl (scan_payment now th) (scan_start n) ps)) = how_many (\<lambda>p. p_status p = ''FAILED'') ps \<and>
   total_of rs_rejected (rc_rails (foldl (scan_payment now th) (scan_start n) ps)) = how_many (\<lambda>p. p_status p = ''REJECTED'') ps"
proof (induction ps rule: rev_induct)
  case Nil
  then show ?case by (simp add: scan_start_def total_of_def)
next
  case (snoc p ps)
  then show ?case
    unfolding scan_snoc scan_totals by simp
qed

text \<open>The counters of one rail.\<close>

definition rail_ok :: "rail_stats \<Rightarrow> bool" where
  "rail_ok r = (rs_completed r + rs_failed r + rs_rejected r \<le> rs_sent r)"

lemma alist_set_vals: "(j, x) \<in> set (alist_set o1 k v) \<Longrightarrow> x = v \<or> (j, x) \<in> set o1"
  by (induction o1 k v rule: alist_set.induct) (auto split: if_splits)

lemma count_rail_ok: "rail_ok r \<Longrightarrow> rail_ok (count_rail p r)"
  by (auto simp: rail_ok_def count_rail_adds)

lemma scan_rail_ok: "(j, r) \<in> set (rc_rails (foldl (scan_payment now th) (scan_start n) ps)) \<Longrightarrow> rail_ok r"
proof (induction ps arbitrary: j r rule: rev_induct)
  case (snoc p ps)
  let ?st = "foldl (scan_payment now th) (scan_start n) ps"
  have "rail_ok (case map_of (rc_rails ?st) (dest_rail p) of Some r \<Rightarrow> r | None \<Rightarrow> no_stats)"
    using snoc.IH by (auto simp: rail_ok_def no_stats_def dest: map_of_SomeD split: option.split)
  moreover have "(j, r) \<in> set (alist_set (rc_rails ?st) (dest_rail p)
      (count_rail p (case map_of (rc_rails ?st) (dest_rail p) of Some r \<Rightarrow> r | None \<Rightarrow> no_stats)))"
    using snoc.prems by (simp only: scan_snoc scan_payment_rails)
  ultimately show ?case using snoc.IH by (auto dest!: alist_set_vals intro: count_rail_ok)
qed (simp add: scan_start_def)

lemma percentage_bounds:
  assumes "a \<le> b"
  shows "\<exists>k. percentage a b = Fin (of_int k) \<and> 0 \<le> k \<and> k \<le> 100"
proof (cases "b = 0")
  case True
  then show ?thesis by (intro exI [of _ 0]) (simp add: percentage_def)
next
  case False
  have "0 \<le> (of_nat a / of_nat b :: rat)" "of_nat a / of_nat b \<le> (of_int 1 :: rat)"
    using assms False by (simp_all add: divide_le_eq_1)
  then obtain q where q: "num_of (of_nat a / of_nat b) = Fin q" "0 \<le> q" "q \<le> of_int 1"
    using num_of_bound [of "of_nat a / of_nat b" 1] by auto
  have "0 \<le> q * 100" "q * 100 \<le> of_int 100" using q by simp_all
  then obtain x where x: "num_of (q * 100) = Fin x" "0 \<le> x" "x \<le> of_int 100"
    using num_of_bound [of "q * 100" 100] by auto
  have "0 \<le> \<lfloor>x + 1 / 2\<rfloor>" "\<lfloor>x + 1 / 2\<rfloor> \<le> 100" using x(2,3) by (simp_all add: floor_le_iff)
  then show ?thesis using False q(1) x(1) by (intro exI [of _ "\<lfloor>x + 1 / 2\<rfloor>"]) (simp add: percentage_def)
qed

section \<open>Properties\<close>

lemma how_many_sorted: "how_many P (sort_key f xs) = how_many P xs"
  by (simp add: filter_sort)

lemma findSince_found:
  "payment_findSince c e w = (Inr ps, w') \<Longrightarrow>
   ps = sort_key (\<lambda>p. - p_created_at p) (filter (\<lambda>p. c \<le> p_created_at p) (w_payments w)) \<and> w' = tick w"
  by (auto simp: payment_findSince_def db_query_def split: if_splits)

lemma run_report:
  assumes "runReconciliation opts e w = (Inr rep, w')"
  obtains cutoff now th ps st where "window_start (e_now e (w_tick w)) (ro_windowHours opts) = Inr cutoff"
    "ps = sort_key (\<lambda>p. - p_created_at p) (filter (\<lambda>p. cutoff \<le> p_created_at p) (w_payments w))"
    "st = foldl (scan_payment now th) (scan_start (length ps)) ps" "rp_summary rep = rc_summary st" "rp_stuck rep = rc_stuck st"
    "rp_breakdown rep = map (\<lambda>(r, s). (r, rail_line_of s)) (rc_rails st)" "w' = (w\<lparr>w_tick := w_tick w'\<rparr>)"
proof -
  from assms obtain cutoff ps w1 now where c: "window_start (e_now e (w_tick w)) (ro_windowHours opts) = Inr cutoff" and
    q: "payment_findSince cutoff e (tick w) = (Inr ps, w1)" and
    r: "(let st = scan now (num_mul (num_mul (ro_stuckThresholdMinutes opts) (Fin 60)) (Fin 1000)) ps in
     io_bind now_iso (\<lambda>generated.
     io_return \<lparr>rp_generated_at = generated, rp_window_hours = ro_windowHours opts, rp_summary = rc_summary st,
       rp_stuck = rc_stuck st, rp_breakdown = map (\<lambda>(r, s). (r, rail_line_of s)) (rc_rails st),
       rp_anomalies = rc_anomalies st\<rparr>)) e (tick w1) = (Inr rep, w')"
    unfolding runReconciliation_def io_run
    by (auto simp: io_bind_Inr_iff [of "payment_findSince _"] io_run split: sum.splits)
  from findSince_found [OF q] have ps: "w1 = tick (tick w)"
    "ps = sort_key (\<lambda>p. - p_created_at p) (filter (\<lambda>p. cutoff \<le> p_created_at p) (w_payments w))"
    by simp_all
  from r have "rp_summary rep = rc_summary (scan now (num_mul (num_mul (ro_stuckThresholdMinutes opts) (Fin 60)) (Fin 1000)) ps)"
    "rp_stuck rep = rc_stuck (scan now (num_mul (num_mul (ro_stuckThresholdMinutes opts) (Fin 60)) (Fin 1000)) ps)"
    "rp_breakdown rep = map (\<lambda>(r, s). (r, rail_line_of s))
       (rc_rails (scan now (num_mul (num_mul (ro_stuckThresholdMinutes opts) (Fin 60)) (Fin 1000)) ps))"
    "w' = w\<lparr>w_tick := w_tick w'\<rparr>"
    by (auto simp: Let_def io_bind_eval [OF now_iso_run] io_run ps(1) tick_def)
  with that [OF c ps(2) refl] show thesis by (simp add: scan_def)
qed


text \<open>
  On every rail of a report the payments completed, failed and rejected are at most those
  sent, and the success rate is a whole number of percent between 0 and 100.
\<close>

theorem reconciliation_rates:
  assumes "runReconciliation opts e w = (Inr rep, w')" "(r, line) \<in> set (rp_breakdown rep)"
  shows "rl_completed line + rl_failed line + rl_rejected line \<le> rl_sent line \<and>
    (\<exists>k. rl_success_rate line = Fin (of_int k) \<and> 0 \<le> k \<and> k \<le> 100)"
proof -
  obtain cutoff now th ps st where "st = foldl (scan_payment now th) (scan_start (length ps)) ps"
    "rp_breakdown rep = map (\<lambda>(r, s). (r, rail_line_of s)) (rc_rails st)"
    by (rule run_report [OF assms(1)])
  with assms(2) obtain s where s: "line = rail_line_of s" "rail_ok s"
    using scan_rail_ok by fastforce
  then show ?thesis using percentage_bounds [of "rs_completed s" "rs_sent s"] by (auto simp: rail_line_of_def rail_ok_def)
qed

section \<open>A report\<close>

definition recon_world :: world where
  "recon_world = sample_world\<lparr>w_payments := [queued_payment\<lparr>p_destination_rail := Some ''SPEI'', p_queued_at := Some 1773390000000\<rparr>,
     set_status (status_code COMPLETED) 1773397700000 (queued_payment\<lparr>p_id := ''PMT-2'', p_destination_rail := Some ''SPEI''\<rparr>)]\<rparr>"

definition sample_report :: recon_report where
  "sample_report = projr (fst (runReconciliation recon_defaults sample_env recon_world))"

lemma sample_report_run: "runReconciliation recon_defaults sample_env recon_world =
   (Inr sample_report, snd (runReconciliation recon_defaults sample_env recon_world))"
proof -
  have "case fst (runReconciliation recon_defaults sample_env recon_world) of Inr _ \<Rightarrow> True | Inl _ \<Rightarrow> False" by code_simp
  then show ?thesis by (simp add: sample_report_def prod_eq_iff split: sum.splits)
qed

lemma sample_window: "window_start 1773397800000 (ro_windowHours recon_defaults) = Inr 1773311400000"
  by code_simp


lemma sample_breakdown: "rp_breakdown sample_report = [(''SPEI'', \<lparr>rl_sent = 2, rl_completed = 1, rl_failed = 0, rl_rejected = 0,
    rl_success_rate = Fin 50, rl_avg_latency = Some (Fin 100000)\<rparr>)]"
  by code_simp

lemma reconciliation_rates_witness:
  "\<exists>k. rl_success_rate (snd (hd (rp_breakdown sample_report))) = Fin (of_int k) \<and> 0 \<le> k \<and> k \<le> 100"
  using reconciliation_rates [OF sample_report_run, of "''SPEI''" "snd (hd (rp_breakdown sample_report))"]
  by (simp add: sample_breakdown)

end
