(* ===== verification/CircuitBreaker.thy ===== *)
theory CircuitBreaker
  imports JsNumber JsDate
begin

text \<open>
  The circuit breaker of \<open>src/resilience/circuit-breaker.ts\<close>. The code of one call runs in two
  parts, before and after the function it protects, and other calls run in between: the
  system is a step relation over the breaker, the number of calls that are running and the
  clock. All the readings of the clock of one part give the same time.
\<close>

section \<open>The breaker\<close>

datatype circuit_state = CLOSED | OPEN | HALF_OPEN

record breaker_options =
  bo_failureThreshold :: nat
  bo_cooldownMs :: int
  bo_windowMs :: int
  bo_failureRateThreshold :: "jsnum option"

definition breaker_defaults :: breaker_options where
  "breaker_defaults = \<lparr>bo_failureThreshold = 5, bo_cooldownMs = 30000, bo_windowMs = 60000,
     bo_failureRateThreshold = Some (Fin 50)\<rparr>"

record breaker =
  cb_service :: string
  cb_state :: circuit_state
  cb_failures :: "int list"
  cb_successes :: nat
  cb_lastFailureAt :: int
  cb_openedAt :: int

definition new_breaker :: "string \<Rightarrow> breaker" where
  "new_breaker name = \<lparr>cb_service = name, cb_state = CLOSED, cb_failures = [], cb_successes = 0,
     cb_lastFailureAt = 0, cb_openedAt = 0\<rparr>"

definition transitionTo :: "circuit_state \<Rightarrow> int \<Rightarrow> breaker \<Rightarrow> breaker" where
  "transitionTo st now b =
    (let b = b\<lparr>cb_state := st\<rparr>; b = (if st = OPEN then b\<lparr>cb_openedAt := now\<rparr> else b)
     in if st = CLOSED then b\<lparr>cb_failures := [], cb_successes := 0\<rparr> else b)"

definition shouldTransitionToHalfOpen :: "breaker_options \<Rightarrow> int \<Rightarrow> breaker \<Rightarrow> bool" where
  "shouldTransitionToHalfOpen opts now b = (bo_cooldownMs opts \<le> now - cb_openedAt b)"

text \<open>Before the call: \<open>Inl\<close> is the CircuitOpenError with the time of the next retry.\<close>

definition breaker_enter :: "breaker_options \<Rightarrow> int \<Rightarrow> breaker \<Rightarrow> int + breaker" where
  "breaker_enter opts now b =
    (if cb_state b = OPEN then
       if shouldTransitionToHalfOpen opts now b then Inr (transitionTo HALF_OPEN now b)
       else Inl (cb_openedAt b + bo_cooldownMs opts)
     else Inr b)"

definition onSuccess :: "int \<Rightarrow> breaker \<Rightarrow> breaker" where
  "onSuccess now b = (let b = b\<lparr>cb_successes := cb_successes b + 1\<rparr>
     in if cb_state b = HALF_OPEN then transitionTo CLOSED now b else b)"

definition failure_rate :: "breaker \<Rightarrow> jsnum" where
  "failure_rate b = num_mul (num_div (Fin (of_nat (length (cb_failures b))))
     (Fin (of_nat (cb_successes b + length (cb_failures b))))) (Fin 100)"

definition shouldOpen :: "breaker_options \<Rightarrow> breaker \<Rightarrow> bool" where
  "shouldOpen opts b = (bo_failureThreshold opts \<le> length (cb_failures b) \<or>
     10 \<le> cb_successes b + length (cb_failures b) \<and>
     (case bo_failureRateThreshold opts of None \<Rightarrow> False
      | Some r \<Rightarrow> num_truthy r \<and> num_le r (failure_rate b)))"

definition pruneOldFailures :: "breaker_options \<Rightarrow> int \<Rightarrow> breaker \<Rightarrow> breaker" where
  "pruneOldFailures opts now b = b\<lparr>cb_failures := filter (\<lambda>t. now - bo_windowMs opts < t) (cb_failures b)\<rparr>"

definition onFailure :: "breaker_options \<Rightarrow> int \<Rightarrow> breaker \<Rightarrow> breaker" where
  "onFailure opts now b =
    (let b = pruneOldFailures opts now (b\<lparr>cb_failures := cb_failures b @ [now], cb_lastFailureAt := now\<rparr>)
     in if cb_state b = HALF_OPEN then transitionTo OPEN now b
        else if cb_state b = CLOSED \<and> shouldOpen opts b then transitionTo OPEN now b
        else b)"

record breaker_report =
  bs_state :: circuit_state
  bs_failures :: nat
  bs_lastFailureAt :: "int option"
  bs_service :: string

definition getState :: "breaker \<Rightarrow> breaker_report" where
  "getState b = \<lparr>bs_state = cb_state b, bs_failures = length (cb_failures b),
     bs_lastFailureAt = (if cb_lastFailureAt b = 0 then None else Some (cb_lastFailureAt b)), bs_service = cb_service b\<rparr>"

section \<open>The registry\<close>

type_synonym registry = "(string \<times> (breaker_options \<times> breaker)) list"

definition registry_get :: "string \<Rightarrow> breaker_options \<Rightarrow> registry \<Rightarrow> (breaker_options \<times> breaker) \<times> registry" where
  "registry_get name opts reg = (case map_of reg name of Some b \<Rightarrow> (b, reg)
     | None \<Rightarrow> ((opts, new_breaker name), reg @ [(name, (opts, new_breaker name))]))"

definition getAllStates :: "registry \<Rightarrow> breaker_report list" where
  "getAllStates reg = map (\<lambda>(name, (opts, b)). getState b) reg"

section \<open>Calls and their interleavings\<close>

record breaker_system =
  sy_breaker :: breaker
  sy_running :: nat
  sy_now :: int

inductive breaker_step :: "breaker_options \<Rightarrow> breaker_system \<Rightarrow> breaker_system \<Rightarrow> bool"
  for opts :: breaker_options where
  wait: "0 < d \<Longrightarrow> breaker_step opts s (s\<lparr>sy_now := sy_now s + d\<rparr>)"
| enter: "breaker_enter opts (sy_now s) (sy_breaker s) = Inr b \<Longrightarrow>
    breaker_step opts s (s\<lparr>sy_breaker := b, sy_running := sy_running s + 1\<rparr>)"
| refuse: "breaker_enter opts (sy_now s) (sy_breaker s) = Inl t \<Longrightarrow> breaker_step opts s s"
| succeed: "sy_running s = Suc n \<Longrightarrow>
    breaker_step opts s (s\<lparr>sy_breaker := onSuccess (sy_now s) (sy_breaker s), sy_running := n\<rparr>)"
| fail: "sy_running s = Suc n \<Longrightarrow>
    breaker_step opts s (s\<lparr>sy_breaker := onFailure opts (sy_now s) (sy_breaker s), sy_running := n\<rparr>)"

inductive_cases breaker_stepE: "breaker_step opts s s'"

inductive breaker_reachable :: "breaker_options \<Rightarrow> string \<Rightarrow> breaker_system \<Rightarrow> bool"
  for opts :: breaker_options and name :: string where
  start: "0 < t \<Longrightarrow> breaker_reachable opts name \<lparr>sy_breaker = new_breaker name, sy_running = 0, sy_now = t\<rparr>"
| more: "breaker_reachable opts name s \<Longrightarrow> breaker_step opts s s' \<Longrightarrow> breaker_reachable opts name s'"

section \<open>Invariant\<close>

text \<open>
  A closed breaker is below its threshold, every failure it remembers lies within a window
  before the last one, the last one is not in the future, and an open one was opened in the past.
\<close>

definition breaker_inv :: "breaker_options \<Rightarrow> breaker_system \<Rightarrow> bool" where
  "breaker_inv opts s = (let b = sy_breaker s in
     0 < sy_now s \<and> cb_lastFailureAt b \<le> sy_now s \<and> cb_openedAt b \<le> sy_now s \<and>
     (cb_state b = CLOSED \<longrightarrow> length (cb_failures b) < bo_failureThreshold opts) \<and>
     (\<forall>t \<in> set (cb_failures b). cb_lastFailureAt b - bo_windowMs opts < t \<and> t \<le> cb_lastFailureAt b))"

lemmas breaker_ops = transitionTo_def onSuccess_def onFailure_def pruneOldFailures_def breaker_enter_def Let_def

lemma below_threshold: "\<not> shouldOpen opts b \<Longrightarrow> length (cb_failures b) < bo_failureThreshold opts"
  by (auto simp: shouldOpen_def)

lemma breaker_inv_step:
  assumes "breaker_step opts s s'" "breaker_inv opts s" "0 < bo_failureThreshold opts" "0 < bo_windowMs opts"
  shows "breaker_inv opts s'"
  using assms(1)
proof (cases rule: breaker_step.cases)
  case (wait d)
  with assms(2) show ?thesis by (auto simp: breaker_inv_def Let_def)
next
  case (enter b)
  with assms(2) show ?thesis
    by (auto simp: breaker_inv_def breaker_ops split: if_splits)
next
  case (refuse t)
  with assms(2) show ?thesis by simp
next
  case (succeed n)
  with assms(2,3) show ?thesis by (auto simp: breaker_inv_def breaker_ops)
next
  case (fail n)
  with assms(2,4) show ?thesis
    by (auto simp: breaker_inv_def breaker_ops dest: below_threshold)
qed

lemma breaker_inv_reachable:
  "breaker_reachable opts name s \<Longrightarrow> 0 < bo_failureThreshold opts \<Longrightarrow> 0 < bo_windowMs opts \<Longrightarrow> breaker_inv opts s"
proof (induction rule: breaker_reachable.induct)
  case (start t)
  then show ?case by (simp add: breaker_inv_def new_breaker_def)
qed (auto intro: breaker_inv_step)

section \<open>Properties\<close>

text \<open>
  C33: However the calls of a breaker interleave, while it is closed it remembers fewer failures
  than its threshold, all of them from the window before the last failure: the failure that
  reaches the threshold, or the failure rate, has opened it.
\<close>

theorem breaker_closed_below_threshold:
  assumes "breaker_reachable opts name s" "0 < bo_failureThreshold opts" "0 < bo_windowMs opts"
  shows "(cb_state (sy_breaker s) = CLOSED \<longrightarrow> length (cb_failures (sy_breaker s)) < bo_failureThreshold opts) \<and>
    (\<forall>t \<in> set (cb_failures (sy_breaker s)).
       cb_lastFailureAt (sy_breaker s) - bo_windowMs opts < t \<and> t \<le> cb_lastFailureAt (sy_breaker s)) \<and>
    cb_openedAt (sy_breaker s) \<le> sy_now s"
  using breaker_inv_reachable [OF assms] by (simp add: breaker_inv_def Let_def)

text \<open>
  From an open breaker a new call gets through in one step only when the cooldown has passed
  since it opened, and then the breaker is half open; before that every attempt leaves the
  system as it is, with the time of the retry as the error.
\<close>

theorem breaker_open_refuses:
  assumes "breaker_step opts s s'" "cb_state (sy_breaker s) = OPEN" "sy_running s < sy_running s'"
  shows "cb_openedAt (sy_breaker s) + bo_cooldownMs opts \<le> sy_now s \<and> cb_state (sy_breaker s') = HALF_OPEN"
  using assms by (cases rule: breaker_stepE)
    (auto simp: breaker_enter_def transitionTo_def shouldTransitionToHalfOpen_def Let_def split: if_splits)

text \<open>
  An open breaker recovers: once its cooldown has passed the next call is let through, and
  if it succeeds the breaker is closed with its counters reset; if it fails the breaker is open
  again from that moment.
\<close>

theorem breaker_recovers:
  assumes "cb_state b = OPEN" "cb_openedAt b + bo_cooldownMs opts \<le> now"
  shows "\<exists>h. breaker_enter opts now b = Inr h \<and>
    cb_state (onSuccess t h) = CLOSED \<and> cb_failures (onSuccess t h) = [] \<and> cb_successes (onSuccess t h) = 0 \<and>
    cb_state (onFailure opts t h) = OPEN \<and> cb_openedAt (onFailure opts t h) = t"
  using assms by (simp add: breaker_ops shouldTransitionToHalfOpen_def)

section \<open>Two runs\<close>

text \<open>Five failures that are not consecutive open the breaker, and two probes run at once.\<close>

definition five_failures :: breaker where
  "five_failures = foldl (\<lambda>b t. onSuccess t (onFailure breaker_defaults t b)) (new_breaker ''PIX'') [1, 2, 3, 4, 5]"

lemma successes_do_not_reset: "cb_state five_failures = OPEN"
  by code_simp

lemma half_open_admits_every_call:
  "cb_state b = HALF_OPEN \<Longrightarrow> breaker_enter opts now b = Inr b"
  by (simp add: breaker_enter_def)

lemma breaker_closed_below_threshold_witness:
  "length (cb_failures (sy_breaker \<lparr>sy_breaker = new_breaker ''PIX'', sy_running = 0, sy_now = 7\<rparr>)) < 5"
  using breaker_closed_below_threshold [OF breaker_reachable.start [of 7 breaker_defaults "''PIX''"]]
  by (simp add: breaker_defaults_def new_breaker_def)

lemma breaker_open_refuses_witness: "cb_openedAt five_failures + 30000 \<le> 40000"
proof -
  let ?s = "\<lparr>sy_breaker = five_failures, sy_running = 0, sy_now = 40000\<rparr>"
  have e: "breaker_enter breaker_defaults (sy_now ?s) (sy_breaker ?s) = Inr (transitionTo HALF_OPEN 40000 five_failures)"
    by code_simp
  from breaker_open_refuses [OF breaker_step.enter [OF e]] show ?thesis
    by (simp add: successes_do_not_reset breaker_defaults_def)
qed

lemma breaker_recovers_witness:
  "\<exists>h. breaker_enter breaker_defaults 40000 five_failures = Inr h \<and> cb_state (onSuccess 40001 h) = CLOSED"
proof -
  have "cb_openedAt five_failures + bo_cooldownMs breaker_defaults \<le> 40000" by code_simp
  from breaker_recovers [OF successes_do_not_reset this] show ?thesis by blast
qed

end
