(* ===== verification/RateLimiter.thy ===== *)
theory RateLimiter
  imports MipitConstants JsValue
begin

text \<open>
  The token buckets of \<open>src/resilience/rate-limiter.ts\<close>, one for each rail that has a limit,
  with the tokens as the floating-point numbers of the code.
\<close>

section \<open>The buckets\<close>

record token_bucket =
  tb_tokens :: jsnum
  tb_maxTokens :: jsnum
  tb_refillRatePerMs :: jsnum
  tb_lastRefillAt :: int

type_synonym limiter = "(string \<times> token_bucket) list"

definition new_bucket :: "int \<Rightarrow> int \<Rightarrow> token_bucket" where
  "new_bucket maxPerSecond now = \<lparr>tb_tokens = Fin (of_int maxPerSecond), tb_maxTokens = Fin (of_int maxPerSecond),
     tb_refillRatePerMs = num_div (Fin (of_int maxPerSecond)) (Fin 1000), tb_lastRefillAt = now\<rparr>"

definition refill :: "int \<Rightarrow> token_bucket \<Rightarrow> token_bucket" where
  "refill now b = (let elapsed = now - tb_lastRefillAt b in
     if 0 < elapsed then b\<lparr>tb_tokens := Math_min (tb_maxTokens b)
         (num_add (tb_tokens b) (num_mul (Fin (of_int elapsed)) (tb_refillRatePerMs b))), tb_lastRefillAt := now\<rparr>
     else b)"

text \<open>A token is taken, or the error tells after how many milliseconds to retry.\<close>

definition take_token :: "int \<Rightarrow> token_bucket \<Rightarrow> (jsnum + unit) \<times> token_bucket" where
  "take_token now b = (let b = refill now b in
     if num_lt (tb_tokens b) (Fin 1)
     then (Inl (Math_ceil (num_div (num_sub (Fin 1) (tb_tokens b)) (tb_refillRatePerMs b))), b)
     else (Inr (), b\<lparr>tb_tokens := num_sub (tb_tokens b) (Fin 1)\<rparr>))"

definition new_limiter :: "int \<Rightarrow> limiter" where
  "new_limiter now = map (\<lambda>(rail, c). (rail, new_bucket (rl_maxPerSecond c) now)) RAIL_RATE_LIMITS"

text \<open>A rail without a limit is never refused.\<close>

definition acquire :: "string \<Rightarrow> int \<Rightarrow> limiter \<Rightarrow> (jsnum + unit) \<times> limiter" where
  "acquire rail now l = (case map_of l rail of None \<Rightarrow> (Inr (), l)
     | Some b \<Rightarrow> (fst (take_token now b), alist_set l rail (snd (take_token now b))))"

definition canAcquire :: "string \<Rightarrow> int \<Rightarrow> limiter \<Rightarrow> bool \<times> limiter" where
  "canAcquire rail now l = (case map_of l rail of None \<Rightarrow> (True, l)
     | Some b \<Rightarrow> (num_le (Fin 1) (tb_tokens (refill now b)), alist_set l rail (refill now b)))"

record limiter_status =
  ls_rail :: string
  ls_availableTokens :: jsnum
  ls_maxTokens :: jsnum
  ls_utilizationPct :: jsnum

definition status_line :: "string \<Rightarrow> token_bucket \<Rightarrow> limiter_status" where
  "status_line rail b = \<lparr>ls_rail = rail, ls_availableTokens = Math_floor (tb_tokens b), ls_maxTokens = tb_maxTokens b,
     ls_utilizationPct = Math_round (num_mul (num_sub (Fin 1) (num_div (tb_tokens b) (tb_maxTokens b))) (Fin 100))\<rparr>"

definition getStatus :: "int \<Rightarrow> limiter \<Rightarrow> limiter_status list \<times> limiter" where
  "getStatus now l = (let l = map (\<lambda>(rail, b). (rail, refill now b)) l in
     (map (\<lambda>(rail, b). status_line rail b) l, l))"

section \<open>Invariant\<close>

text \<open>A bucket of \<open>m\<close> tokens per second.\<close>

definition bucket_ok :: "int \<Rightarrow> token_bucket \<Rightarrow> bool" where
  "bucket_ok m b = (tb_maxTokens b = Fin (of_int m) \<and> (\<exists>r \<ge> 0. tb_refillRatePerMs b = Fin r) \<and>
     (\<exists>x. tb_tokens b = Fin x \<and> 0 \<le> x \<and> x \<le> of_int m))"

lemma new_bucket_ok:
  assumes "0 \<le> m" "m \<le> 2 ^ 53"
  shows "bucket_ok m (new_bucket m now)"
proof -
  have "(of_int m :: rat) / 1000 \<le> of_int m" using assms(1) by simp
  then obtain r where "num_of (of_int m / 1000) = Fin r" "0 \<le> r"
    using num_of_bound [of "of_int m / 1000" m] assms by auto
  then show ?thesis using assms(1) by (simp add: bucket_ok_def new_bucket_def)
qed

lemma refill_ok:
  assumes "bucket_ok m b"
  shows "bucket_ok m (refill now b)"
proof (cases "0 < now - tb_lastRefillAt b")
  case False
  then show ?thesis using assms by (simp add: refill_def Let_def)
next
  case True
  let ?e = "of_int (now - tb_lastRefillAt b) :: rat"
  from assms obtain r x where b: "tb_maxTokens b = Fin (of_int m)" "tb_refillRatePerMs b = Fin r" "0 \<le> r"
    "tb_tokens b = Fin x" "0 \<le> x" "x \<le> of_int m" by (auto simp: bucket_ok_def)
  have "0 \<le> ?e * r" using True b(3) by simp
  then have "num_add (Fin x) (num_of (?e * r)) = PInf \<or> (\<exists>y \<ge> 0. num_add (Fin x) (num_of (?e * r)) = Fin y)"
  proof (rule num_of_nonneg [THEN disjE])
    assume "\<exists>y \<ge> 0. num_of (?e * r) = Fin y"
    then obtain y where "num_of (?e * r) = Fin y" "0 \<le> y" by blast
    with b(5) num_of_nonneg [of "x + y"] show ?thesis by simp
  qed simp
  moreover have "0 \<le> (of_int m :: rat)" using b(5,6) by simp
  ultimately show ?thesis
    using True b by (auto simp: refill_def Let_def bucket_ok_def Math_min_def simp del: of_int_diff)
qed

lemma take_token_ok:
  assumes "bucket_ok m b" "m \<le> 2 ^ 53"
  shows "bucket_ok m (snd (take_token now b))"
proof -
  from refill_ok [OF assms(1)] obtain x where r: "bucket_ok m (refill now b)" "tb_tokens (refill now b) = Fin x" "0 \<le> x" "x \<le> of_int m"
    by (auto simp: bucket_ok_def)
  show ?thesis
  proof (cases "x < 1")
    case True
    with r show ?thesis by (simp add: take_token_def Let_def)
  next
    case False
    then have "0 \<le> x - 1" "x - 1 \<le> of_int m" "0 \<le> (of_int m :: rat)" using r(3,4) by simp_all
    then obtain y where "num_of (x - 1) = Fin y" "0 \<le> y" "y \<le> of_int m"
      using num_of_bound [of "x - 1" m] assms(2) by auto
    with False r show ?thesis by (simp add: take_token_def Let_def num_sub_def bucket_ok_def)
  qed
qed

definition limiter_ok :: "limiter \<Rightarrow> bool" where
  "limiter_ok l = list_all2 (\<lambda>c kb. fst kb = fst c \<and> bucket_ok (rl_maxPerSecond (snd c)) (snd kb)) RAIL_RATE_LIMITS l"

lemma limits_small: "c \<in> set RAIL_RATE_LIMITS \<Longrightarrow> 0 < rl_maxPerSecond (snd c) \<and> rl_maxPerSecond (snd c) \<le> 2 ^ 53"
  by (auto simp: RAIL_RATE_LIMITS_def)

lemma list_all2_alist_set:
  assumes "list_all2 (\<lambda>c kb. fst kb = fst c \<and> Q c (snd kb)) cs l" "map_of l k = Some b"
    and "\<And>c. c \<in> set cs \<Longrightarrow> Q c b \<Longrightarrow> Q c b'"
  shows "list_all2 (\<lambda>c kb. fst kb = fst c \<and> Q c (snd kb)) cs (alist_set l k b')"
  using assms
proof (induction cs l rule: list_all2_induct)
  case (Cons c cs kb l)
  then show ?case by (cases kb) (auto split: if_splits)
qed simp

lemma limiter_ok_set:
  assumes "limiter_ok l" "map_of l k = Some b"
    and "\<And>m. bucket_ok m b \<Longrightarrow> m \<le> 2 ^ 53 \<Longrightarrow> bucket_ok m b'"
  shows "limiter_ok (alist_set l k b')"
  using assms(1) unfolding limiter_ok_def
  by (rule list_all2_alist_set [OF _ assms(2)]) (use assms(3) limits_small in blast)

lemma limiter_ok_new: "limiter_ok (new_limiter now)"
  by (auto simp: limiter_ok_def new_limiter_def list_all2_map2 intro!: list.rel_refl_strong new_bucket_ok dest!: limits_small)

lemma limiter_ok_acquire: "limiter_ok l \<Longrightarrow> limiter_ok (snd (acquire rail now l))"
  by (auto simp: acquire_def intro: limiter_ok_set take_token_ok split: option.split)

lemma limiter_ok_canAcquire: "limiter_ok l \<Longrightarrow> limiter_ok (snd (canAcquire rail now l))"
  by (auto simp: canAcquire_def intro: limiter_ok_set refill_ok split: option.split)

lemma limiter_ok_getStatus: "limiter_ok l \<Longrightarrow> limiter_ok (snd (getStatus now l))"
  by (auto simp: getStatus_def limiter_ok_def Let_def list_all2_map2 case_prod_beta intro: refill_ok elim!: list_all2_mono)

text \<open>What any sequence of operations leads to, at any times.\<close>

inductive limiter_reachable :: "limiter \<Rightarrow> bool" where
  new: "limiter_reachable (new_limiter now)"
| acquired: "limiter_reachable l \<Longrightarrow> limiter_reachable (snd (acquire rail now l))"
| asked: "limiter_reachable l \<Longrightarrow> limiter_reachable (snd (canAcquire rail now l))"
| reported: "limiter_reachable l \<Longrightarrow> limiter_reachable (snd (getStatus now l))"

lemma limiter_reachable_ok: "limiter_reachable l \<Longrightarrow> limiter_ok l"
  by (induction rule: limiter_reachable.induct)
    (auto intro: limiter_ok_new limiter_ok_acquire limiter_ok_canAcquire limiter_ok_getStatus)

section \<open>A burst\<close>

text \<open>Which of \<open>n\<close> attempts at one moment get a token.\<close>

fun attempts :: "nat \<Rightarrow> string \<Rightarrow> int \<Rightarrow> limiter \<Rightarrow> bool list" where
  "attempts 0 rail now l = []"
| "attempts (Suc n) rail now l = (case fst (acquire rail now l) of Inr _ \<Rightarrow> True | Inl _ \<Rightarrow> False) #
     attempts n rail now (snd (acquire rail now l))"

lemma attempts_bucket:
  assumes "map_of l rail = Some b" "tb_lastRefillAt b = now" "tb_tokens b = Fin (of_nat k)" "k \<le> 2 ^ 53"
  shows "attempts n rail now l = replicate (min n k) True @ replicate (n - k) False"
  using assms
proof (induction n arbitrary: l b k)
  case (Suc n)
  have r: "refill now b = b" using Suc.prems(2) by (simp add: refill_def)
  show ?case
  proof (cases k)
    case 0
    then have a: "fst (acquire rail now l) = Inl (Math_ceil (num_div (num_sub (Fin 1) (tb_tokens b)) (tb_refillRatePerMs b)))"
      "snd (acquire rail now l) = alist_set l rail b"
      using Suc.prems(1,3) by (simp_all add: acquire_def take_token_def r)
    have "attempts n rail now (alist_set l rail b) = replicate (min n k) True @ replicate (n - k) False"
      by (rule Suc.IH [OF _ Suc.prems(2-4)]) simp
    with a 0 show ?thesis by simp
  next
    case (Suc k')
    let ?b = "b\<lparr>tb_tokens := Fin (of_nat k')\<rparr>"
    have "num_sub (Fin (of_nat k)) (Fin 1) = num_of (of_int (int k'))" using Suc by (simp add: num_sub_def)
    moreover have "num_of (of_int (int k')) = Fin (of_int (int k'))"
      by (rule num_of_int) (use Suc Suc.prems(4) in \<open>simp\<close>)
    ultimately have a: "fst (acquire rail now l) = Inr ()" "snd (acquire rail now l) = alist_set l rail ?b"
      using Suc Suc.prems(1,3) by (simp_all add: acquire_def take_token_def r)
    have "attempts n rail now (alist_set l rail ?b) = replicate (min n k') True @ replicate (n - k') False"
      by (rule Suc.IH [of _ ?b]) (use Suc.prems Suc in simp_all)
    with a Suc show ?thesis by simp
  qed
qed simp

section \<open>Properties\<close>

text \<open>
  C34: Whatever is asked of the limiter and whenever, even with a clock that goes back, each rail
  with a limit keeps one bucket, and its tokens stay between 0 and the rail's rate per second.
\<close>

theorem limiter_bounded:
  assumes "limiter_reachable l"
  shows "list_all2 (\<lambda>c kb. fst kb = fst c \<and> tb_maxTokens (snd kb) = Fin (of_int (rl_maxPerSecond (snd c))) \<and>
    (\<exists>x. tb_tokens (snd kb) = Fin x \<and> 0 \<le> x \<and> x \<le> of_int (rl_maxPerSecond (snd c)))) RAIL_RATE_LIMITS l"
  using limiter_reachable_ok [OF assms] unfolding limiter_ok_def
  by (rule list_all2_mono) (auto simp: bucket_ok_def)

lemma limiter_bounded_witness:
  "\<exists>x. tb_tokens (snd (hd (snd (acquire ''PIX'' 5 (new_limiter 1))))) = Fin x \<and> 0 \<le> x \<and> x \<le> 20"
  using limiter_bounded [OF limiter_reachable.acquired [OF limiter_reachable.new], of "''PIX''" 5 1]
  by (auto simp: RAIL_RATE_LIMITS_def list_all2_Cons1)

text \<open>
  From a fresh limiter, of \<open>n\<close> attempts on a rail at one moment exactly the first ones up to
  the rail's rate per second succeed.
\<close>

theorem limiter_burst:
  assumes "map_of RAIL_RATE_LIMITS rail = Some c"
  shows "attempts n rail now (new_limiter now) =
    replicate (min n (nat (rl_maxPerSecond c))) True @ replicate (n - nat (rl_maxPerSecond c)) False"
proof (rule attempts_bucket)
  have "map_of (new_limiter now) rail = map_option (\<lambda>c. new_bucket (rl_maxPerSecond c) now) (map_of RAIL_RATE_LIMITS rail)"
    by (simp add: new_limiter_def map_of_map)
  then show "map_of (new_limiter now) rail = Some (new_bucket (rl_maxPerSecond c) now)" by (simp add: assms)
  show "tb_tokens (new_bucket (rl_maxPerSecond c) now) = Fin (of_nat (nat (rl_maxPerSecond c)))"
    using limits_small [OF map_of_SomeD [OF assms]] by (simp add: new_bucket_def)
  show "nat (rl_maxPerSecond c) \<le> 2 ^ 53"
    using limits_small [OF map_of_SomeD [OF assms]] by (simp add: nat_le_iff)
qed (simp add: new_bucket_def)

lemma limiter_burst_witness: "attempts 10 ''BRE_B'' 0 (new_limiter 0) = replicate 8 True @ [False, False]"
proof -
  have "map_of RAIL_RATE_LIMITS ''BRE_B'' = Some \<lparr>rl_maxPerMinute = 200, rl_maxPerSecond = 8\<rparr>"
    by (simp add: RAIL_RATE_LIMITS_def)
  from limiter_burst [OF this, of 10 0] show ?thesis by (simp add: eval_nat_numeral)
qed

end
