(* ===== verification/Analytics.thy ===== *)
theory Analytics
  imports Reconciliation Http Webhooks CircuitBreaker RateLimiter
begin

text \<open>
  The analytics routes of \<open>src/api/routes/analytics.ts\<close>: percentiles of the latency histogram,
  the summary counted by the database, the states of the breakers and of the rail limiter, and
  the reconciliation on demand. The metrics library's registry is a parameter: the values of
  the histogram, when it has one. The rows of a grouped query come in the order of the first
  payment of each group.
\<close>

section \<open>Latency\<close>

record metric_value =
  mv_stage :: "string option"
  mv_name :: "string option"
  mv_le :: jsval
  mv_value :: jsnum

record bucket =
  bk_le :: jsnum
  bk_count :: jsnum

record stage_data =
  sd_sum :: jsnum
  sd_count :: jsnum
  sd_buckets :: "bucket list"

definition no_data :: stage_data where
  "no_data = \<lparr>sd_sum = Fin 0, sd_count = Fin 0, sd_buckets = []\<rparr>"

definition name_ends :: "string option \<Rightarrow> string \<Rightarrow> bool" where
  "name_ends n s = (case n of None \<Rightarrow> False | Some t \<Rightarrow> length s \<le> length t \<and> drop (length t - length s) t = s)"

definition add_metric :: "(string \<times> stage_data) list \<Rightarrow> metric_value \<Rightarrow> (string \<times> stage_data) list" where
  "add_metric data v = (let stage = (case mv_stage v of Some s \<Rightarrow> s | None \<Rightarrow> ''unknown'');
     d = (case map_of data stage of Some d \<Rightarrow> d | None \<Rightarrow> no_data) in
     alist_set data stage
       (if name_ends (mv_name v) ''_sum'' then d\<lparr>sd_sum := mv_value v\<rparr>
        else if name_ends (mv_name v) ''_count'' then d\<lparr>sd_count := mv_value v\<rparr>
        else if truthy (mv_le v) then d\<lparr>sd_buckets := sd_buckets d @ [\<lparr>bk_le = parseFloat_val (mv_le v), bk_count = mv_value v\<rparr>]\<rparr>
        else d))"

text \<open>
  \<open>sort((a, b) => a.le - b.le)\<close>: a stable insertion, for which two entries whose difference is
  not a number are equal. With such entries the order is the engine's choice; on a list already
  in order the insertion changes nothing.
\<close>

fun insert_bucket :: "bucket \<Rightarrow> bucket list \<Rightarrow> bucket list" where
  "insert_bucket b [] = [b]"
| "insert_bucket b (x # xs) = (if num_lt (Fin 0) (num_sub (bk_le x) (bk_le b)) then b # x # xs else x # insert_bucket b xs)"

definition sort_buckets :: "bucket list \<Rightarrow> bucket list" where
  "sort_buckets bs = foldl (\<lambda>acc b. insert_bucket b acc) [] bs"

definition findPercentile :: "bucket list \<Rightarrow> jsnum \<Rightarrow> jsnum \<Rightarrow> jsnum option" where
  "findPercentile buckets tot p =
    (if num_eq tot (Fin 0) \<or> buckets = [] then None
     else case find (\<lambda>b. num_le (num_mul tot p) (bk_count b)) buckets of
       Some b \<Rightarrow> Some (bk_le b) | None \<Rightarrow> Some (bk_le (last buckets)))"

definition percent :: "nat \<Rightarrow> jsnum" where
  "percent n = num_div (Fin (of_nat n)) (Fin 100)"

definition stage_line :: "stage_data \<Rightarrow> jsval" where
  "stage_line d = (let sorted = sort_buckets (sd_buckets d); f = (\<lambda>p. js_null JNum (findPercentile sorted (sd_count d) (percent p))) in
     JObj [(''p50'', f 50), (''p95'', f 95), (''p99'', f 99), (''count'', JNum (sd_count d))])"

definition latency_route :: "metric_value list option \<Rightarrow> handler" where
  "latency_route metric = (case metric of
     None \<Rightarrow> send (reply_with 200 [(''stages'', JObj []), (''message'', JStr ''No latency data yet'')])
   | Some vs \<Rightarrow> io_bind now_iso (\<lambda>now. send (reply_with 200
       [(''stages'', JObj (map (\<lambda>(s, d). (s, stage_line d)) (foldl add_metric [] vs))), (''generated_at'', JStr now)])))"

section \<open>Summary\<close>

text \<open>\<open>SELECT key, COUNT(*) ... GROUP BY key\<close>\<close>

definition groups :: "('a \<Rightarrow> 'k) \<Rightarrow> 'a list \<Rightarrow> ('k \<times> nat) list" where
  "groups key xs = map (\<lambda>k. (k, length (filter (\<lambda>x. key x = k) xs))) (remdups (map key xs))"

definition payment_rail :: "payment \<Rightarrow> string" where
  "payment_rail p = (case p_destination_rail p of Some d \<Rightarrow> d | None \<Rightarrow> p_origin_rail p)"

record payment_totals =
  pt_total :: nat
  pt_completed :: nat
  pt_failed :: nat
  pt_rejected :: nat

definition total_row :: "payment_totals \<Rightarrow> string \<times> nat \<Rightarrow> payment_totals" where
  "total_row t row = (let t = t\<lparr>pt_total := pt_total t + snd row\<rparr> in
     if fst row = ''COMPLETED'' then t\<lparr>pt_completed := snd row\<rparr>
     else if fst row = ''FAILED'' then t\<lparr>pt_failed := snd row\<rparr>
     else if fst row = ''REJECTED'' then t\<lparr>pt_rejected := snd row\<rparr> else t)"

record rail_totals =
  at_sent :: nat
  at_completed :: nat
  at_failed :: nat

definition no_totals :: rail_totals where
  "no_totals = \<lparr>at_sent = 0, at_completed = 0, at_failed = 0\<rparr>"

definition rail_row :: "(string \<times> rail_totals) list \<Rightarrow> (string \<times> string) \<times> nat \<Rightarrow> (string \<times> rail_totals) list" where
  "rail_row by_rail row = (case row of ((r, status), n) \<Rightarrow>
     let x = (case map_of by_rail r of Some x \<Rightarrow> x | None \<Rightarrow> no_totals); x = x\<lparr>at_sent := at_sent x + n\<rparr> in
     alist_set by_rail r (if status = ''COMPLETED'' then x\<lparr>at_completed := at_completed x + n\<rparr>
       else if status = ''FAILED'' \<or> status = ''REJECTED'' then x\<lparr>at_failed := at_failed x + n\<rparr> else x))"

definition summary_counts :: "(payment_totals \<times> (string \<times> rail_totals) list) io" where
  "summary_counts =
     io_bind (db_query (\<lambda>e n w. (groups p_status (w_payments w), w))) (\<lambda>statuses.
     io_bind (db_query (\<lambda>e n w. (groups (\<lambda>p. (payment_rail p, p_status p)) (w_payments w), w))) (\<lambda>rails.
     io_return (foldl total_row \<lparr>pt_total = 0, pt_completed = 0, pt_failed = 0, pt_rejected = 0\<rparr> statuses,
       foldl rail_row [] rails)))"

definition js_count :: "nat \<Rightarrow> jsval" where
  "js_count n = JNum (num_of (of_nat n))"

primrec circuit_code :: "circuit_state \<Rightarrow> string" where
  "circuit_code CLOSED = ''CLOSED''"
| "circuit_code OPEN = ''OPEN''"
| "circuit_code HALF_OPEN = ''HALF_OPEN''"

definition breaker_js :: "breaker_report \<Rightarrow> jsval" where
  "breaker_js b = JObj [(''state'', JStr (circuit_code (bs_state b))), (''failures'', js_count (bs_failures b)),
     (''lastFailureAt'', js_null (\<lambda>t. JNum (num_of (of_int t))) (bs_lastFailureAt b)), (''service'', JStr (bs_service b))]"

definition limit_js :: "limiter_status \<Rightarrow> jsval" where
  "limit_js s = JObj [(''rail'', JStr (ls_rail s)), (''availableTokens'', JNum (ls_availableTokens s)),
     (''maxTokens'', JNum (ls_maxTokens s)), (''utilizationPct'', JNum (ls_utilizationPct s))]"

definition summary_js :: "string \<Rightarrow> payment_totals \<Rightarrow> (string \<times> rail_totals) list \<Rightarrow> registry \<Rightarrow> limiter_status list \<Rightarrow> jsval" where
  "summary_js now t rails reg limits = JObj
    [(''generated_at'', JStr now),
     (''payments'', JObj [(''total'', js_count (pt_total t)), (''completed'', js_count (pt_completed t)),
        (''failed'', js_count (pt_failed t)), (''rejected'', js_count (pt_rejected t)),
        (''success_rate'', JNum (percentage (pt_completed t) (pt_total t)))]),
     (''by_rail'', JObj (map (\<lambda>(r, x). (r, JObj [(''sent'', js_count (at_sent x)), (''completed'', js_count (at_completed x)),
        (''failed'', js_count (at_failed x)), (''success_rate'', JNum (percentage (at_completed x) (at_sent x)))])) rails)),
     (''circuit_breakers'', JArr (map breaker_js (getAllStates reg))), (''rate_limits'', JArr (map limit_js limits))]"

text \<open>Reading the status of the limiter refills its buckets: the routes answer with the limiter they leave.\<close>

definition limiter_report :: "limiter \<Rightarrow> (limiter_status list \<times> limiter) io" where
  "limiter_report l = io_bind date_now (\<lambda>now. io_return (getStatus now l))"

definition summary_route :: "registry \<Rightarrow> limiter \<Rightarrow> (reply \<times> limiter) io" where
  "summary_route reg l = io_bind summary_counts (\<lambda>(t, rails). io_bind now_iso (\<lambda>now. io_bind (limiter_report l) (\<lambda>(limits, l').
     io_return (\<lparr>re_status = 200, re_body = summary_js now t rails reg limits\<rparr>, l'))))"

definition breakers_route :: "registry \<Rightarrow> handler" where
  "breakers_route reg = io_bind now_iso (\<lambda>now. send (reply_with 200
     [(''breakers'', JArr (map breaker_js (getAllStates reg))), (''generated_at'', JStr now)]))"

definition limits_route :: "limiter \<Rightarrow> (reply \<times> limiter) io" where
  "limits_route l = io_bind (limiter_report l) (\<lambda>(limits, l'). io_bind now_iso (\<lambda>now. io_return (reply_with 200
     [(''limits'', JArr (map limit_js limits)), (''generated_at'', JStr now)], l')))"

definition reconciliation_route :: "string option \<Rightarrow> string option \<Rightarrow> recon_report io" where
  "reconciliation_route hours stuck = runReconciliation
     (recon_opts (Some (parseInt10 (case hours of Some s \<Rightarrow> s | None \<Rightarrow> ''24'')))
       (Some (parseInt10 (case stuck of Some s \<Rightarrow> s | None \<Rightarrow> ''15''))))"

section \<open>Percentiles\<close>

lemma num_le_trans: "num_le a b \<Longrightarrow> num_le b c \<Longrightarrow> num_le a c"
  by (cases a; cases b; cases c) (auto simp: num_le_def num_eq_def)

lemma num_of_mono:
  assumes "0 \<le> x" "x \<le> y"
  shows "num_le (num_of x) (num_of y)"
proof -
  have f: "0 \<le> fl x" "fl x \<le> fl y" using assms by (auto intro: fl_nonneg fl_mono)
  then have i: "fl x \<noteq> 0 \<Longrightarrow> ilog2 \<bar>fl x\<bar> \<le> ilog2 \<bar>fl y\<bar>" by (simp add: ilog2_mono)
  show ?thesis
  proof (cases "fl x \<noteq> 0 \<and> 1024 \<le> ilog2 \<bar>fl x\<bar>")
    case True
    then have "num_of x = PInf" "num_of y = PInf" using f i by (auto simp: num_of_def Let_def)
    then show ?thesis by (simp add: num_le_def num_eq_def)
  next
    case False
    then have "num_of x = Fin (fl x)" unfolding num_of_def Let_def by (simp only: if_False)
    then show ?thesis using f by (auto simp: num_of_def Let_def num_le_def num_eq_def)
  qed
qed

lemma target_mono: "0 \<le> n \<Longrightarrow> 0 \<le> p \<Longrightarrow> p \<le> q \<Longrightarrow> num_le (num_mul (Fin n) (Fin p)) (num_mul (Fin n) (Fin q))"
  by (simp add: num_of_mono mult_left_mono)

text \<open>A histogram as the library reports it: finite bounds in ascending order, then the bucket of \<open>+Inf\<close>, which is not a number to \<open>parseFloat\<close>.\<close>

definition histogram :: "(rat \<times> jsnum) list \<Rightarrow> jsnum \<Rightarrow> bucket list" where
  "histogram fin tot = map (\<lambda>(x, c). \<lparr>bk_le = Fin x, bk_count = c\<rparr>) fin @ [\<lparr>bk_le = parseFloat_val (JStr ''+Inf''), bk_count = tot\<rparr>]"

lemma plus_inf: "parseFloat ''+Inf'' = NaN"
  by code_simp

lemma histogram_percentile:
  "\<not> num_eq t (Fin 0) \<Longrightarrow> findPercentile (histogram fin tot) t p =
     Some (case find (\<lambda>y. num_le (num_mul t p) (snd y)) fin of Some y \<Rightarrow> Fin (fst y) | None \<Rightarrow> NaN)"
  by (auto simp: findPercentile_def histogram_def plus_inf find_append find_map comp_def case_prod_unfold split: option.split)

lemma find_later:
  assumes "sorted (map fst fin)" "find Q fin = Some y" "\<And>z. Q z \<Longrightarrow> P z"
  shows "\<exists>x. find P fin = Some x \<and> fst x \<le> fst y"
  using assms(1,2)
proof (induction fin)
  case (Cons z fin)
  show ?case
  proof (cases "P z")
    case True
    have "y \<in> set (z # fin)" using find_SomeD [OF Cons.prems(2)] by blast
    with Cons.prems(1) True show ?thesis by (auto simp: image_iff)
  next
    case False
    then have "\<not> Q z" using assms(3) by blast
    with Cons False show ?thesis by simp
  qed
qed simp

section \<open>Groups\<close>

lemma how_many_mono: "(\<And>x. P x \<Longrightarrow> Q x) \<Longrightarrow> how_many P xs \<le> how_many Q xs"
  by (induction xs) auto

lemma groups_keys: "map fst (groups key xs) = remdups (map key xs)"
  by (simp add: groups_def comp_def)

lemma sum_groups: "sum_list (map (\<lambda>(k, n). if Q k then n else 0) (groups key xs)) = how_many (\<lambda>x. Q (key x)) xs"
proof -
  have count: "length (filter (\<lambda>x. key x = k) xs) = count_list (map key xs) k" for k
    by (induction xs) auto
  have count_filter: "count_list (filter Q ks) k = (if Q k then count_list ks k else 0)" for ks k
    by (induction ks) auto
  have "sum_list (map (\<lambda>(k, n). if Q k then n else 0) (groups key xs)) =
      sum_list (map (\<lambda>k. if Q k then count_list (map key xs) k else 0) (remdups (map key xs)))"
    by (simp add: groups_def comp_def count)
  also have "\<dots> = (\<Sum>k\<in>key ` set xs. if Q k then count_list (map key xs) k else 0)"
    by (simp add: sum_list_distinct_conv_sum_set)
  also have "\<dots> = (\<Sum>k\<in>key ` set xs. count_list (filter Q (map key xs)) k)"
    by (intro sum.cong refl) (simp add: count_filter)
  also have "\<dots> = length (filter Q (map key xs))"
    by (rule sum_count_set) auto
  also have "\<dots> = how_many (\<lambda>x. Q (key x)) xs" by (simp add: filter_map comp_def)
  finally show ?thesis .
qed

lemma sum_all_groups: "sum_list (map snd (groups key xs)) = length xs"
  using sum_groups [of "\<lambda>_. True" key xs] by (simp add: case_prod_unfold)

section \<open>The loops of the summary\<close>

lemma total_rows:
  "distinct (map fst rows) \<Longrightarrow>
   foldl total_row \<lparr>pt_total = 0, pt_completed = 0, pt_failed = 0, pt_rejected = 0\<rparr> rows =
     \<lparr>pt_total = sum_list (map snd rows),
      pt_completed = sum_list (map (\<lambda>(k, n). if k = ''COMPLETED'' then n else 0) rows),
      pt_failed = sum_list (map (\<lambda>(k, n). if k = ''FAILED'' then n else 0) rows),
      pt_rejected = sum_list (map (\<lambda>(k, n). if k = ''REJECTED'' then n else 0) rows)\<rparr>"
proof (induction rows rule: rev_induct)
  case (snoc row rows)
  obtain k n where row: "row = (k, n)" by (cases row)
  have "k \<notin> fst ` set rows" using snoc.prems row by simp
  then have z: "sum_list (map (\<lambda>(j, m). if j = k then m else 0) rows) = 0"
    by (induction rows) (auto split: if_splits)
  show ?case using snoc z by (auto simp: row total_row_def)
qed simp

text \<open>A counter of a rail, 0 when it has no entry.\<close>

definition rail_count :: "(rail_totals \<Rightarrow> nat) \<Rightarrow> (string \<times> rail_totals) list \<Rightarrow> string \<Rightarrow> nat" where
  "rail_count f by_rail r = (case map_of by_rail r of Some x \<Rightarrow> f x | None \<Rightarrow> 0)"

lemma rail_row_counts:
  "rail_count at_sent (rail_row b ((q, s), n)) r = rail_count at_sent b r + (if q = r then n else 0)"
  "rail_count at_completed (rail_row b ((q, s), n)) r =
     rail_count at_completed b r + (if q = r \<and> s = ''COMPLETED'' then n else 0)"
  "rail_count at_failed (rail_row b ((q, s), n)) r =
     rail_count at_failed b r + (if q = r \<and> s \<in> {''FAILED'', ''REJECTED''} then n else 0)"
  by (auto simp: rail_count_def rail_row_def Let_def no_totals_def split: option.splits)

lemma rail_rows:
  "rail_count at_sent (foldl rail_row [] rows) r = sum_list (map (\<lambda>(k, n). if fst k = r then n else 0) rows)"
  "rail_count at_completed (foldl rail_row [] rows) r =
     sum_list (map (\<lambda>(k, n). if fst k = r \<and> snd k = ''COMPLETED'' then n else 0) rows)"
  "rail_count at_failed (foldl rail_row [] rows) r =
     sum_list (map (\<lambda>(k, n). if fst k = r \<and> snd k \<in> {''FAILED'', ''REJECTED''} then n else 0) rows)"
  by (induction rows rule: rev_induct)
    (simp_all add: rail_row_counts split_paired_all del: insert_iff, simp_all add: rail_count_def)

lemma alist_set_keys: "fst ` set (alist_set o1 k v) = insert k (fst ` set o1)"
  by (induction o1 k v rule: alist_set.induct) auto

lemma rail_keys: "fst ` set (foldl rail_row [] rows) = (\<lambda>row. fst (fst row)) ` set rows"
proof (induction rows rule: rev_induct)
  case (snoc row rows)
  obtain r s n where "row = ((r, s), n)" by (metis surj_pair)
  with snoc show ?case by (simp add: rail_row_def Let_def alist_set_keys)
qed simp

lemma summary_run:
  assumes "summary_counts e w = (Inr (t, rails), w')"
  shows "t = foldl total_row \<lparr>pt_total = 0, pt_completed = 0, pt_failed = 0, pt_rejected = 0\<rparr> (groups p_status (w_payments w)) \<and>
    rails = foldl rail_row [] (groups (\<lambda>p. (payment_rail p, p_status p)) (w_payments w)) \<and> quiet w w'"
  using assms by (auto simp: summary_counts_def io_bind_Inr_iff io_return_def db_query_def quiet_def split: if_splits)

section \<open>Properties\<close>

text \<open>
  The percentiles of a stage are ordered: with the bounds of the histogram in ascending order
  and a positive count, the estimate of a higher percentile is no smaller, or it falls in the
  last bucket, whose bound \<open>parseFloat\<close> does not read as a number.
\<close>

theorem percentiles_ordered:
  assumes "sorted (map fst fin)" "0 < n" "0 \<le> p" "p \<le> q"
  shows "findPercentile (histogram fin rest) (Fin n) (Fin q) = Some NaN \<or>
    (\<exists>x y. findPercentile (histogram fin rest) (Fin n) (Fin p) = Some (Fin x) \<and>
      findPercentile (histogram fin rest) (Fin n) (Fin q) = Some (Fin y) \<and> x \<le> y)"
proof -
  have n: "\<not> num_eq (Fin n) (Fin 0)" using assms(2) by (simp add: num_eq_def)
  show ?thesis
  proof (cases "find (\<lambda>y. num_le (num_mul (Fin n) (Fin q)) (snd y)) fin")
    case (Some y)
    have "num_le (num_mul (Fin n) (Fin p)) (num_mul (Fin n) (Fin q))" using assms by (intro target_mono) simp_all
    then have "\<exists>x. find (\<lambda>y. num_le (num_mul (Fin n) (Fin p)) (snd y)) fin = Some x \<and> fst x \<le> fst y"
      by (intro find_later [OF assms(1) Some]) (rule num_le_trans)
    with Some show ?thesis by (auto simp: histogram_percentile [OF n] simp del: num_mul.simps)
  qed (simp add: histogram_percentile [OF n] del: num_mul.simps)
qed

lemma percentiles_ordered_witness:
  "findPercentile (histogram [(5, Fin 3), (10, Fin 9)] (Fin 10)) (Fin 10) (Fin (95 / 100)) = Some NaN \<or>
   (\<exists>x y. findPercentile (histogram [(5, Fin 3), (10, Fin 9)] (Fin 10)) (Fin 10) (Fin (1 / 2)) = Some (Fin x) \<and>
     findPercentile (histogram [(5, Fin 3), (10, Fin 9)] (Fin 10)) (Fin 10) (Fin (95 / 100)) = Some (Fin y) \<and> x \<le> y)"
  by (rule percentiles_ordered) simp_all

text \<open>
  The summary counts the payments of the database: the totals are the numbers of payments, of
  those completed, failed and rejected; each rail a payment goes to (or comes from, before it is
  routed) has a line with the numbers of its payments, of those completed and of those failed or
  rejected, and with their rate between 0 and 100 percent. Nothing changes.
\<close>

theorem summary_counts_payments:
  assumes "summary_counts e w = (Inr (t, rails), w')"
  defines "ps \<equiv> w_payments w"
  shows "pt_total t = length ps \<and> pt_completed t = how_many (\<lambda>p. p_status p = ''COMPLETED'') ps \<and>
    pt_failed t = how_many (\<lambda>p. p_status p = ''FAILED'') ps \<and> pt_rejected t = how_many (\<lambda>p. p_status p = ''REJECTED'') ps \<and>
    fst ` set rails = payment_rail ` set ps \<and>
    (\<forall>r x. map_of rails r = Some x \<longrightarrow> at_sent x = how_many (\<lambda>p. payment_rail p = r) ps \<and>
      at_completed x = how_many (\<lambda>p. payment_rail p = r \<and> p_status p = ''COMPLETED'') ps \<and>
      at_failed x = how_many (\<lambda>p. payment_rail p = r \<and> p_status p \<in> {''FAILED'', ''REJECTED''}) ps \<and>
      (\<exists>k. percentage (at_completed x) (at_sent x) = Fin (of_int k) \<and> 0 \<le> k \<and> k \<le> 100)) \<and> quiet w w'"
proof -
  let ?key = "\<lambda>p. (payment_rail p, p_status p)"
  note run = summary_run [OF assms(1), folded ps_def]
  have d: "distinct (map fst (groups p_status ps))" by (simp add: groups_keys)
  have keys: "fst ` set rails = payment_rail ` set ps"
  proof -
    have "(\<lambda>row. fst (fst row)) ` set (groups ?key ps) = fst ` set (map fst (groups ?key ps))" by (auto simp: image_image)
    then show ?thesis using run by (simp add: rail_keys groups_keys image_image)
  qed
  have line: "at_sent x = how_many (\<lambda>p. payment_rail p = r) ps"
    "at_completed x = how_many (\<lambda>p. payment_rail p = r \<and> p_status p = ''COMPLETED'') ps"
    "at_failed x = how_many (\<lambda>p. payment_rail p = r \<and> p_status p \<in> {''FAILED'', ''REJECTED''}) ps"
    if "map_of rails r = Some x" for r x
    using that run rail_rows [of "groups ?key ps" r]
      sum_groups [of "\<lambda>k. fst k = r" ?key ps] sum_groups [of "\<lambda>k. fst k = r \<and> snd k = ''COMPLETED''" ?key ps]
      sum_groups [of "\<lambda>k. fst k = r \<and> snd k \<in> {''FAILED'', ''REJECTED''}" ?key ps]
    by (simp_all add: rail_count_def del: insert_iff)
  have "at_completed x \<le> at_sent x" if "map_of rails r = Some x" for r x
    unfolding line [OF that] by (rule how_many_mono) simp
  then show ?thesis
    using run keys line percentage_bounds total_rows [OF d] sum_groups [of _ p_status ps] sum_all_groups [of p_status ps]
    by (simp del: insert_iff)
qed

definition two_payments :: world where
  "two_payments = sample_world\<lparr>w_payments := [queued_payment, queued_payment\<lparr>p_id := ''PMT-2'', p_status := ''COMPLETED''\<rparr>]\<rparr>"

lemma summary_counts_payments_witness:
  "\<exists>t rails w'. summary_counts sample_env two_payments = (Inr (t, rails), w') \<and> pt_total t = 2 \<and> pt_completed t = 1"
proof -
  have "\<exists>t rails w'. summary_counts sample_env two_payments = (Inr (t, rails), w')"
    by (auto simp: summary_counts_def db_query_run io_run two_payments_def)
  then obtain t rails w' where run: "summary_counts sample_env two_payments = (Inr (t, rails), w')" by blast
  have "p_status queued_payment = ''QUEUED''" by code_simp
  with run summary_counts_payments [OF run] show ?thesis by (auto simp: two_payments_def)
qed

end
