(* ===== verification/Compensation.thy ===== *)
theory Compensation
  imports AuditService Webhooks
begin

text \<open>
  The compensation of failed payments, \<open>src/compensation/compensation-service.ts\<close>, with its two
  routes of \<open>src/api/server.ts\<close>.
\<close>

section \<open>The service\<close>

definition COMPENSABLE_STATUSES :: "string list" where
  "COMPENSABLE_STATUSES = [status_code DEAD_LETTER, status_code FAILED]"

text \<open>\<open>String(err)\<close>; the errors that can come here are those of the repositories.\<close>

fun String_error :: "js_error \<Rightarrow> string" where
  "String_error (PlainError m) = ''Error: '' @ m"
| "String_error x = error_message x"

record compensation_result =
  cr_success :: bool
  cr_reason :: string

definition refused :: "string \<Rightarrow> compensation_result" where
  "refused reason = \<lparr>cr_success = False, cr_reason = reason\<rparr>"

definition compensation_log :: "payment \<Rightarrow> string \<Rightarrow> string \<Rightarrow> (string \<times> jsval) list \<Rightarrow> unit io" where
  "compensation_log p i ev detail = audit_log i ev ''compensation-service'' detail (p_trace_id p)"

text \<open>What happens inside the \<open>try\<close>.\<close>

definition compensate_try :: "string \<Rightarrow> payment \<Rightarrow> compensation_result io" where
  "compensate_try i p =
     io_bind (case p_rail_ack p of None \<Rightarrow> io_return ()
        | Some ack \<Rightarrow> compensation_log p i ''COMPENSATION_REVERSAL_REQUIRED''
            [(''rail_ack'', ack), (''note'', JStr ''In production, a pacs.004 (PaymentReturn) message would be sent to the destination rail'')]) (\<lambda>_.
     io_bind (payment_updateStatus i (status_code COMPENSATED)) (\<lambda>_.
     io_bind now_iso (\<lambda>now.
     io_bind (compensation_log p i ''COMPENSATION_COMPLETED''
        [(''required_reversal'', JBool (p_rail_ack p \<noteq> None)), (''compensated_at'', JStr now)]) (\<lambda>_.
     io_return \<lparr>cr_success = True, cr_reason = ''Compensated''\<rparr>))))"

definition compensate_found :: "string \<Rightarrow> payment \<Rightarrow> compensation_result io" where
  "compensate_found i p =
     io_bind (payment_updateStatus i (status_code COMPENSATING)) (\<lambda>_.
     io_bind (compensation_log p i ''COMPENSATION_STARTED''
        [(''previous_status'', JStr (p_status p)), (''destination_rail'', js_null JStr (p_destination_rail p)),
         (''amount'', JNum (p_amount p)), (''currency'', JStr (p_currency p))]) (\<lambda>_.
     io_try (compensate_try i p) (\<lambda>x.
       io_bind (compensation_log p i ''COMPENSATION_FAILED'' [(''error'', JStr (String_error x))]) (\<lambda>_.
       io_return (refused (''Compensation error: '' @ String_error x))))))"

definition compensate :: "string \<Rightarrow> compensation_result io" where
  "compensate i = io_bind (payment_findById i) (\<lambda>found. case found of
     None \<Rightarrow> io_return (refused ''Payment not found'')
   | Some p \<Rightarrow> if p_status p \<in> set COMPENSABLE_STATUSES then compensate_found i p
       else io_return (refused (''Payment status '' @ p_status p @ '' is not compensable'')))"

record batch_result =
  br_processed :: nat
  br_succeeded :: nat
  br_failed :: nat

fun compensate_each :: "payment list \<Rightarrow> nat \<Rightarrow> nat \<Rightarrow> (nat \<times> nat) io" where
  "compensate_each [] s f = io_return (s, f)"
| "compensate_each (p # ps) s f = io_bind (compensate (p_id p)) (\<lambda>r.
     if cr_success r then compensate_each ps (s + 1) f else compensate_each ps s (f + 1))"

definition compensateBatch :: "nat \<Rightarrow> batch_result io" where
  "compensateBatch limit =
     io_bind (payment_findByStatuses [status_code DEAD_LETTER, status_code FAILED] limit) (\<lambda>ps.
     io_bind (compensate_each ps 0 0) (\<lambda>(s, f).
     io_return \<lparr>br_processed = length ps, br_succeeded = s, br_failed = f\<rparr>))"

text \<open>The routes: the status of the answer and its body.\<close>

definition compensate_route :: "string \<Rightarrow> (nat \<times> compensation_result) io" where
  "compensate_route i = io_bind (compensate i) (\<lambda>r. io_return (if cr_success r then 200 else 422, r))"

definition compensate_batch_route :: "nat option \<Rightarrow> batch_result io" where
  "compensate_batch_route limit = compensateBatch (case limit of Some n \<Rightarrow> n | None \<Rightarrow> 50)"

section \<open>Lemmas\<close>

lemma findById_found:
  "payment_findById i e w = (Inr r, w') \<Longrightarrow> r = payment_row w i \<and> w' = tick w"
  by (auto simp: payment_findById_def payment_row_find db_query_def io_run split: if_splits)

lemma findById_fails: "payment_findById i e w = (Inl x, w') \<Longrightarrow> w' = w \<or> w' = tick w"
  by (auto simp: payment_findById_def db_query_def io_run split: if_splits)

lemma not_compensating: "''COMPENSATED'' \<notin> set COMPENSABLE_STATUSES" "''COMPENSATING'' \<notin> set COMPENSABLE_STATUSES"
  by (simp_all add: COMPENSABLE_STATUSES_def)

lemma compensation_logged:
  "compensation_log p i ev detail e w = (Inr u, w') \<Longrightarrow>
   \<exists>a. w_audit w' = w_audit w @ [a] \<and> ae_payment_id a = i \<and> ae_event_type a = ev \<and> w_payments w' = w_payments w"
  by (auto simp: compensation_log_def audit_log_def dest!: audit_inserted)

lemma compensate_try_done:
  assumes "compensate_try i p e w = (Inr r, w')"
  obtains events q t where "w_audit w' = w_audit w @ events" "cr_success r"
    "map ae_event_type events = (if p_rail_ack p = None then [] else [''COMPENSATION_REVERSAL_REQUIRED'']) @ [''COMPENSATION_COMPLETED'']"
    "payment_row w' i = Some q" "p_status q = ''COMPENSATED''" "p_compensated_at q = Some t"
proof -
  from assms obtain w1 q w2 detail where
    rev: "(case p_rail_ack p of None \<Rightarrow> io_return () | Some ack \<Rightarrow> compensation_log p i ''COMPENSATION_REVERSAL_REQUIRED''
        [(''rail_ack'', ack), (''note'', JStr ''In production, a pacs.004 (PaymentReturn) message would be sent to the destination rail'')]) e w = (Inr (), w1)" and
    upd: "payment_updateStatus i ''COMPENSATED'' e w1 = (Inr q, w2)" and
    log: "compensation_log p i ''COMPENSATION_COMPLETED'' detail e (tick w2) = (Inr (), w')" and r: "cr_success r"
    unfolding compensate_try_def by (auto simp: io_bind_Inr_iff now_iso_run io_return_def)
  have "\<exists>ev1. w_audit w1 = w_audit w @ ev1 \<and> w_payments w1 = w_payments w \<and>
     map ae_event_type ev1 = (if p_rail_ack p = None then [] else [''COMPENSATION_REVERSAL_REQUIRED''])"
    using rev by (cases "p_rail_ack p") (auto simp: io_run dest!: compensation_logged)
  then obtain ev1 where ev1: "w_audit w1 = w_audit w @ ev1" "w_payments w1 = w_payments w"
     "map ae_event_type ev1 = (if p_rail_ack p = None then [] else [''COMPENSATION_REVERSAL_REQUIRED''])" by blast
  from status_updated [OF upd] have q: "w_audit w2 = w_audit w1" "payment_row w2 i = Some q" "p_status q = ''COMPENSATED''"
    "\<exists>t. p_compensated_at q = Some t" by (auto simp: set_status_def)
  from compensation_logged [OF log] obtain a where "w_audit w' = w_audit w2 @ [a]" "ae_event_type a = ''COMPENSATION_COMPLETED''"
    "w_payments w' = w_payments w2" by auto
  with that [of "ev1 @ [a]" q] q ev1 r show thesis by (auto simp: payment_row_def)
qed

lemma compensate_result:
  assumes "compensate i e w = (Inr r, w')"
  shows "case payment_row w i of None \<Rightarrow> r = refused ''Payment not found'' \<and> w' = tick w
    | Some p \<Rightarrow> if p_status p \<in> set COMPENSABLE_STATUSES then compensate_found i p e (tick w) = (Inr r, w')
        else r = refused (''Payment status '' @ p_status p @ '' is not compensable'') \<and> w' = tick w"
proof -
  from assms obtain found w1 where f: "payment_findById i e w = (Inr found, w1)" and
    rest: "(case found of None \<Rightarrow> io_return (refused ''Payment not found'')
      | Some p \<Rightarrow> if p_status p \<in> set COMPENSABLE_STATUSES then compensate_found i p
          else io_return (refused (''Payment status '' @ p_status p @ '' is not compensable''))) e w1 = (Inr r, w')"
    unfolding compensate_def io_bind_Inr_iff by blast
  from findById_found [OF f] rest show ?thesis by (auto simp: io_run split: option.splits if_splits)
qed

lemma refused_fails: "\<not> cr_success (refused reason)"
  by (simp add: refused_def)

lemma compensate_found_success:
  assumes "compensate_found i p e w = (Inr r, w')" "cr_success r"
  obtains w1 a where "w_audit w1 = w_audit w @ [a]" "ae_event_type a = ''COMPENSATION_STARTED''"
    "compensate_try i p e w1 = (Inr r, w')"
proof -
  from assms(1) obtain q w2 w1 detail where
    upd: "payment_updateStatus i (status_code COMPENSATING) e w = (Inr q, w2)" and
    log: "compensation_log p i ''COMPENSATION_STARTED'' detail e w2 = (Inr (), w1)" and
    catch: "io_try (compensate_try i p) (\<lambda>x.
       io_bind (compensation_log p i ''COMPENSATION_FAILED'' [(''error'', JStr (String_error x))]) (\<lambda>_.
       io_return (refused (''Compensation error: '' @ String_error x)))) e w1 = (Inr r, w')"
    unfolding compensate_found_def io_bind_Inr_iff by auto
  from catch assms(2) have "compensate_try i p e w1 = (Inr r, w')"
    by (auto simp: io_try_def io_bind_Inr_iff io_run refused_fails split: prod.splits sum.splits)
  with that compensation_logged [OF log] status_updated [OF upd] show thesis by auto
qed

text \<open>A success comes from the \<open>try\<close>, after the two first steps.\<close>

lemma compensate_success:
  assumes "compensate i e w = (Inr r, w')" "cr_success r"
  obtains p w1 a where "payment_row w i = Some p" "p_status p \<in> set COMPENSABLE_STATUSES"
    "w_audit w1 = w_audit w @ [a]" "ae_event_type a = ''COMPENSATION_STARTED''" "compensate_try i p e w1 = (Inr r, w')"
proof -
  from compensate_result [OF assms(1)] assms(2) obtain p where p: "payment_row w i = Some p"
    "p_status p \<in> set COMPENSABLE_STATUSES" "compensate_found i p e (tick w) = (Inr r, w')"
    by (auto simp: refused_fails split: option.splits if_splits)
  from p(3) assms(2) obtain w1 a where "w_audit w1 = w_audit (tick w) @ [a]" "ae_event_type a = ''COMPENSATION_STARTED''"
    "compensate_try i p e w1 = (Inr r, w')" by (rule compensate_found_success)
  with p that show thesis by simp
qed

section \<open>Properties\<close>

text \<open>
  C20: A compensation that succeeds was of a payment in DEAD_LETTER or FAILED, and leaves it
  COMPENSATED with the time, and its start, the reversal it needs if the rail had answered, and
  its completion in the audit trail, in this order.
\<close>

theorem compensate_gate:
  assumes "compensate i e w = (Inr r, w')" "cr_success r"
  shows "\<exists>p q events. payment_row w i = Some p \<and> p_status p \<in> {''DEAD_LETTER'', ''FAILED''} \<and>
    payment_row w' i = Some q \<and> p_status q = ''COMPENSATED'' \<and> p_compensated_at q \<noteq> None \<and>
    w_audit w' = w_audit w @ events \<and>
    map ae_event_type events = [''COMPENSATION_STARTED''] @
      (if p_rail_ack p = None then [] else [''COMPENSATION_REVERSAL_REQUIRED'']) @ [''COMPENSATION_COMPLETED'']"
proof -
  obtain p w1 a where p: "payment_row w i = Some p" "p_status p \<in> set COMPENSABLE_STATUSES"
    "w_audit w1 = w_audit w @ [a]" "ae_event_type a = ''COMPENSATION_STARTED''" and t: "compensate_try i p e w1 = (Inr r, w')"
    using compensate_success [OF assms] by blast
  from t obtain events q t where "w_audit w' = w_audit w1 @ events"
    "map ae_event_type events = (if p_rail_ack p = None then [] else [''COMPENSATION_REVERSAL_REQUIRED'']) @ [''COMPENSATION_COMPLETED'']"
    "payment_row w' i = Some q" "p_status q = ''COMPENSATED''" "p_compensated_at q = Some t"
    by (rule compensate_try_done)
  with p show ?thesis by (auto simp: COMPENSABLE_STATUSES_def intro!: exI [of _ "a # events"])
qed


lemma compensate_each_counts:
  "compensate_each ps s f e w = (Inr (s', f'), w') \<Longrightarrow> s' + f' = s + f + length ps"
proof (induction ps arbitrary: s f w)
  case (Cons p ps)
  from Cons.prems obtain r :: compensation_result and w1 where "(if cr_success r then compensate_each ps (s + 1) f else compensate_each ps s (f + 1)) e w1 = (Inr (s', f'), w')"
    unfolding compensate_each.simps io_bind_Inr_iff by blast
  with Cons.IH [of "s + 1" f w1] Cons.IH [of s "f + 1" w1] show ?case by (auto split: if_splits)
qed (simp add: io_run)

text \<open>
  A batch that returns has tried every payment it found: as many as it processed have
  succeeded or failed, and it processed at most the limit.
\<close>

theorem batch_accounts_for_all:
  assumes "compensateBatch limit e w = (Inr b, w')"
  shows "br_succeeded b + br_failed b = br_processed b \<and> br_processed b \<le> limit \<and>
    br_processed b \<le> length (filter (\<lambda>p. p_status p \<in> {''DEAD_LETTER'', ''FAILED''}) (w_payments w))"
proof -
  from assms obtain ps s f w1 w2 where
    ps: "payment_findByStatuses [''DEAD_LETTER'', ''FAILED''] limit e w = (Inr ps, w1)" and
    each: "compensate_each ps 0 0 e w1 = (Inr (s, f), w2)" and b: "b = \<lparr>br_processed = length ps, br_succeeded = s, br_failed = f\<rparr>"
    unfolding compensateBatch_def by (auto simp: io_bind_Inr_iff io_return_def)
  have "length ps \<le> limit \<and> length ps \<le> length (filter (\<lambda>p. p_status p \<in> {''DEAD_LETTER'', ''FAILED''}) (w_payments w))"
    using ps by (auto simp: payment_findByStatuses_def db_query_def split: if_splits)
  with compensate_each_counts [OF each] b show ?thesis by simp
qed

section \<open>A compensation\<close>

definition failed_world :: world where
  "failed_world = sample_world\<lparr>w_payments := [set_status (status_code FAILED) 1773397800000 queued_payment]\<rparr>"

definition first_attempt :: "(js_error + compensation_result) \<times> world" where
  "first_attempt = compensate ''PMT-1'' sample_env failed_world"

lemma first_attempt: "compensate ''PMT-1'' sample_env failed_world = (Inr \<lparr>cr_success = True, cr_reason = ''Compensated''\<rparr>, snd first_attempt)"
proof -
  have "fst first_attempt = Inr \<lparr>cr_success = True, cr_reason = ''Compensated''\<rparr>" by code_simp
  then show ?thesis by (simp add: first_attempt_def prod_eq_iff)
qed

lemma compensate_gate_witness:
  "map ae_event_type (w_audit (snd first_attempt)) = [''COMPENSATION_STARTED'', ''COMPENSATION_COMPLETED'']"
  using compensate_gate [OF first_attempt]
  by (auto simp: failed_world_def sample_world_def payment_row_def queued_payment_def set_status_def payment_insert_def)


lemma batch_accounts_for_all_witness:
  "br_succeeded (projr (fst (compensateBatch 5 sample_env failed_world))) +
   br_failed (projr (fst (compensateBatch 5 sample_env failed_world))) = 1"
proof -
  have r: "fst (compensateBatch 5 sample_env failed_world) = Inr \<lparr>br_processed = 1, br_succeeded = 1, br_failed = 0\<rparr>"
    by code_simp
  then have "compensateBatch 5 sample_env failed_world =
      (Inr \<lparr>br_processed = 1, br_succeeded = 1, br_failed = 0\<rparr>, snd (compensateBatch 5 sample_env failed_world))"
    by (simp add: prod_eq_iff)
  from batch_accounts_for_all [OF this] r show ?thesis by simp
qed

end
