(* ===== verification/HttpRateLimit.thy ===== *)
theory HttpRateLimit
  imports JsValue
begin

text \<open>
  The limit on HTTP requests by client of \<open>src/api/middleware/rate-limit.ts\<close>: a counter for
  each client that starts again when its window has passed. The options are whole numbers, as
  in the two places that set them.
\<close>

section \<open>The middleware\<close>

record http_limits =
  hl_maxRequests :: int
  hl_windowMs :: int

definition http_limit_defaults :: http_limits where
  "http_limit_defaults = \<lparr>hl_maxRequests = 100, hl_windowMs = 60000\<rparr>"

record window_entry =
  we_count :: int
  we_resetAt :: int

type_synonym windows = "string \<Rightarrow> window_entry option"

record limit_headers =
  lh_limit :: int
  lh_remaining :: int
  lh_reset :: jsnum

text \<open>A request passes, with its headers or without any, or is answered 429.\<close>

datatype limit_answer = Unlimited | Within limit_headers | Exceeded limit_headers jsnum jsval

definition client_key :: "string \<Rightarrow> jsval \<Rightarrow> string" where
  "client_key ip forwarded = (if ip \<noteq> [] then ip else if truthy forwarded then to_string forwarded else ''unknown'')"

definition seconds :: "int \<Rightarrow> jsnum" where
  "seconds ms = Math_ceil (num_div (Fin (of_int ms)) (Fin 1000))"

definition limit_body :: "http_limits \<Rightarrow> jsnum \<Rightarrow> jsval" where
  "limit_body opts retryAfter = JObj
    [(''error'', JStr ''RATE_LIMIT_EXCEEDED''),
     (''message'', JStr (''Too many requests. Limit: '' @ num_to_string (Fin (of_int (hl_maxRequests opts))) @ '' per '' @
        num_to_string (num_div (Fin (of_int (hl_windowMs opts))) (Fin 1000)) @ ''s. Retry after '' @ num_to_string retryAfter @ ''s.'')),
     (''retry_after_seconds'', JNum retryAfter)]"

definition current_entry :: "http_limits \<Rightarrow> string \<Rightarrow> int \<Rightarrow> windows \<Rightarrow> window_entry" where
  "current_entry opts key now w = (let fresh = \<lparr>we_count = 0, we_resetAt = now + hl_windowMs opts\<rparr> in
     case w key of None \<Rightarrow> fresh | Some e \<Rightarrow> if we_resetAt e < now then fresh else e)"

definition limit_request :: "http_limits \<Rightarrow> string \<Rightarrow> string \<Rightarrow> int \<Rightarrow> windows \<Rightarrow> limit_answer \<times> windows" where
  "limit_request opts url key now w =
    (if url \<in> {''/health'', ''/healthz'', ''/metrics''} then (Unlimited, w)
     else let e = (current_entry opts key now w)\<lparr>we_count := we_count (current_entry opts key now w) + 1\<rparr>;
          h = \<lparr>lh_limit = hl_maxRequests opts, lh_remaining = max 0 (hl_maxRequests opts - we_count e), lh_reset = seconds (we_resetAt e)\<rparr>;
          retryAfter = seconds (we_resetAt e - now)
       in (if hl_maxRequests opts < we_count e then Exceeded h retryAfter (limit_body opts retryAfter) else Within h,
           w(key \<mapsto> e)))"

text \<open>The removal of the windows that have passed, every five minutes.\<close>

definition cleanup :: "int \<Rightarrow> windows \<Rightarrow> windows" where
  "cleanup now w = (\<lambda>k. case w k of None \<Rightarrow> None | Some e \<Rightarrow> if we_resetAt e < now then None else Some e)"

section \<open>Sequences of requests\<close>

definition passes :: "limit_answer \<Rightarrow> bool" where
  "passes a = (case a of Exceeded _ _ _ \<Rightarrow> False | _ \<Rightarrow> True)"

text \<open>Which of the requests of one client, at these times, pass.\<close>

fun serve :: "http_limits \<Rightarrow> string \<Rightarrow> string \<Rightarrow> int list \<Rightarrow> windows \<Rightarrow> bool list" where
  "serve opts url key [] w = []"
| "serve opts url key (t # ts) w = passes (fst (limit_request opts url key t w)) #
     serve opts url key ts (snd (limit_request opts url key t w))"

definition limited :: "string \<Rightarrow> bool" where
  "limited url = (url \<notin> {''/health'', ''/healthz'', ''/metrics''})"

lemma limit_request_run:
  "limited url \<Longrightarrow> passes (fst (limit_request opts url key now w)) = (we_count (current_entry opts key now w) < hl_maxRequests opts)"
  "limited url \<Longrightarrow> snd (limit_request opts url key now w) =
     w(key \<mapsto> (current_entry opts key now w)\<lparr>we_count := we_count (current_entry opts key now w) + 1\<rparr>)"
  by (auto simp: limited_def limit_request_def passes_def Let_def)

lemma serve_in_window:
  assumes "limited url" "w key = Some \<lparr>we_count = c, we_resetAt = r\<rparr>"
    and "\<forall>t \<in> set ts. t \<le> r" "0 \<le> c" "0 \<le> hl_maxRequests opts"
  shows "serve opts url key ts w = replicate (min (length ts) (nat (hl_maxRequests opts - c))) True @
    replicate (length ts - nat (hl_maxRequests opts - c)) False"
  using assms
proof (induction ts arbitrary: w c)
  case (Cons u ts)
  have e: "current_entry opts key u w = \<lparr>we_count = c, we_resetAt = r\<rparr>" using Cons.prems(2,3) by (simp add: current_entry_def)
  let ?w = "w(key \<mapsto> \<lparr>we_count = c + 1, we_resetAt = r\<rparr>)"
  have "serve opts url key ts ?w = replicate (min (length ts) (nat (hl_maxRequests opts - (c + 1)))) True @
      replicate (length ts - nat (hl_maxRequests opts - (c + 1))) False"
    by (rule Cons.IH) (use Cons.prems in auto)
  then have s: "serve opts url key (u # ts) w = (c < hl_maxRequests opts) #
      replicate (min (length ts) (nat (hl_maxRequests opts - (c + 1)))) True @
      replicate (length ts - nat (hl_maxRequests opts - (c + 1))) False"
    by (simp add: limit_request_run [OF Cons.prems(1)] e)
  show ?case
  proof (cases "c < hl_maxRequests opts")
    case True
    then have "nat (hl_maxRequests opts - c) = Suc (nat (hl_maxRequests opts - (c + 1)))" by simp
    with s True show ?thesis by simp
  qed (use s in simp)
qed simp

lemma serve_fresh:
  assumes "limited url" "\<forall>t \<in> set ts. t \<le> t0 + hl_windowMs opts" "0 \<le> hl_maxRequests opts"
    and "\<forall>e. w key = Some e \<longrightarrow> we_resetAt e < t0"
  shows "serve opts url key (t0 # ts) w = replicate (min (Suc (length ts)) (nat (hl_maxRequests opts))) True @
    replicate (Suc (length ts) - nat (hl_maxRequests opts)) False"
proof -
  have e: "current_entry opts key t0 w = \<lparr>we_count = 0, we_resetAt = t0 + hl_windowMs opts\<rparr>"
    using assms(4) by (auto simp: current_entry_def Let_def split: option.split)
  let ?w = "w(key \<mapsto> \<lparr>we_count = 1, we_resetAt = t0 + hl_windowMs opts\<rparr>)"
  have "serve opts url key ts ?w = replicate (min (length ts) (nat (hl_maxRequests opts - 1))) True @
      replicate (length ts - nat (hl_maxRequests opts - 1)) False"
    by (rule serve_in_window [of _ _ _ _ "t0 + hl_windowMs opts"]) (use assms in auto)
  then have s: "serve opts url key (t0 # ts) w = (0 < hl_maxRequests opts) #
      replicate (min (length ts) (nat (hl_maxRequests opts - 1))) True @ replicate (length ts - nat (hl_maxRequests opts - 1)) False"
    by (simp add: limit_request_run [OF assms(1)] e)
  show ?thesis
  proof (cases "0 < hl_maxRequests opts")
    case True
    then have "nat (hl_maxRequests opts) = Suc (nat (hl_maxRequests opts - 1))" by simp
    with s True show ?thesis by simp
  qed (use s in simp)
qed

section \<open>Properties\<close>

text \<open>
  C35: Of the requests of one client from the first one of a window until the window has passed,
  exactly the first \<open>maxRequests\<close> pass and every later one is refused.
\<close>

theorem window_quota:
  assumes "limited url" "0 \<le> hl_maxRequests opts"
    and "\<forall>e. w key = Some e \<longrightarrow> we_resetAt e < t0" "\<forall>t \<in> set ts. t \<le> t0 + hl_windowMs opts"
  shows "serve opts url key (t0 # ts) w = replicate (min (Suc (length ts)) (nat (hl_maxRequests opts))) True @
    replicate (Suc (length ts) - nat (hl_maxRequests opts)) False"
  by (rule serve_fresh) (use assms in auto)

lemma window_quota_witness: "serve \<lparr>hl_maxRequests = 2, hl_windowMs = 1000\<rparr> ''/payments'' ''10.0.0.1'' [5, 6, 900, 1005] (\<lambda>k. None) =
    [True, True, False, False]"
  using window_quota [of "''/payments''" "\<lparr>hl_maxRequests = 2, hl_windowMs = 1000\<rparr>" "\<lambda>k. None" "''10.0.0.1''" 5 "[6, 900, 1005]"]
  by (simp add: limited_def)

text \<open>What the requests leave behind, to follow a client past the end of a window.\<close>

lemma serve_append: "serve opts url key (ts @ us) w = serve opts url key ts w @
   serve opts url key us (foldl (\<lambda>w t. snd (limit_request opts url key t w)) w ts)"
  by (induction ts arbitrary: w) simp_all

lemma served_resetAt:
  assumes "limited url" "w key = Some e" "\<forall>t \<in> set ts. t \<le> we_resetAt e"
  shows "\<exists>c. foldl (\<lambda>w t. snd (limit_request opts url key t w)) w ts key = Some (e\<lparr>we_count := c\<rparr>)"
  using assms(2,3)
proof (induction ts arbitrary: w e)
  case Nil
  then show ?case by (auto intro: exI [of _ "we_count e"])
next
  case (Cons t ts)
  let ?e = "e\<lparr>we_count := we_count e + 1\<rparr>"
  have "snd (limit_request opts url key t w) key = Some ?e"
    using Cons.prems by (auto simp: limit_request_run [OF assms(1)] current_entry_def)
  from Cons.IH [where w = "snd (limit_request opts url key t w)" and e = ?e] this Cons.prems(2) show ?case by simp
qed

text \<open>
  The window does not slide: a client can send one request, wait for the last moment of its
  window, and then have twice the quota less one pass within one millisecond.
\<close>

theorem two_windows_at_once:
  assumes "limited url" "0 < m" "hl_maxRequests opts = int m" "0 \<le> hl_windowMs opts"
    and "\<forall>e. w key = Some e \<longrightarrow> we_resetAt e < t0"
  shows "serve opts url key (t0 # replicate (m - 1) (t0 + hl_windowMs opts) @ replicate m (t0 + hl_windowMs opts + 1)) w =
    replicate (2 * m) True"
proof -
  let ?r = "t0 + hl_windowMs opts"
  let ?w = "foldl (\<lambda>w t. snd (limit_request opts url key t w)) w (t0 # replicate (m - 1) ?r)"
  have 1: "serve opts url key (t0 # replicate (m - 1) ?r) w = replicate m True"
    using serve_fresh [of url "replicate (m - 1) ?r" t0 opts w key] assms by (simp del: serve.simps)
  have "current_entry opts key t0 w = \<lparr>we_count = 0, we_resetAt = ?r\<rparr>"
    using assms(5) by (auto simp: current_entry_def Let_def split: option.split)
  then have "\<exists>c. ?w key = Some \<lparr>we_count = c, we_resetAt = ?r\<rparr>"
    using served_resetAt [OF assms(1), of "snd (limit_request opts url key t0 w)" key "\<lparr>we_count = 1, we_resetAt = ?r\<rparr>"
        "replicate (m - 1) ?r"] by (simp add: limit_request_run [OF assms(1)])
  then have "\<forall>e. ?w key = Some e \<longrightarrow> we_resetAt e < ?r + 1" by auto
  moreover have "replicate m (?r + 1) = (?r + 1) # replicate (m - 1) (?r + 1)" using assms(2) by (cases m) simp_all
  ultimately have 2: "serve opts url key (replicate m (?r + 1)) ?w = replicate m True"
    using serve_fresh [of url "replicate (m - 1) (?r + 1)" "?r + 1" opts ?w key] assms by (simp del: serve.simps)
  have "t0 # replicate (m - 1) ?r @ replicate m (?r + 1) = (t0 # replicate (m - 1) ?r) @ replicate m (?r + 1)" by simp
  then show ?thesis unfolding serve_append using 1 2 by (simp only: serve_append replicate_add [symmetric] mult_2)
qed

lemma two_windows_at_once_witness:
  "serve \<lparr>hl_maxRequests = 2, hl_windowMs = 1000\<rparr> ''/payments'' ''10.0.0.1'' [5, 1005, 1006, 1006] (\<lambda>k. None) =
    [True, True, True, True]"
  using two_windows_at_once [of "''/payments''" 2 "\<lparr>hl_maxRequests = 2, hl_windowMs = 1000\<rparr>" "\<lambda>k. None" "''10.0.0.1''" 5]
  by (simp add: limited_def eval_nat_numeral)

text \<open>
  Removing the windows that have passed changes no answer, then or later: a client is served
  as if its old window were still there.
\<close>

lemma cleanup_is_invisible:
  assumes "earlier \<le> now"
  shows "fst (limit_request opts url key now (cleanup earlier w)) = fst (limit_request opts url key now w) \<and>
    (limited url \<longrightarrow> snd (limit_request opts url key now (cleanup earlier w)) key = snd (limit_request opts url key now w) key)"
proof -
  have "current_entry opts key now (cleanup earlier w) = current_entry opts key now w"
    using assms by (auto simp: current_entry_def cleanup_def Let_def split: option.split)
  then show ?thesis by (auto simp: limit_request_def Let_def limited_def)
qed

end
