(* ===== verification/Sanitize.thy ===== *)
theory Sanitize
  imports JsRegex JsValue
begin

text \<open>
  The check of request bodies of \<open>src/api/middleware/sanitize.ts\<close>: a walk over the body that
  stops at the first forbidden key, dangerous or oversized text, or oversized array. The
  reference is the list of what the walk looks at (\<open>visits\<close>): the body passes when each item
  of that list does.
\<close>

section \<open>The patterns\<close>

definition rx_words_i :: "string list \<Rightarrow> rx" where
  "rx_words_i ws = rx_alts (map rx_lit_i ws)"

definition DANGEROUS_PATTERNS :: "rx list" where
  "DANGEROUS_PATTERNS =
    [rx_seq [rx_lit_i ''<script'', WordB, rx_star (Cls (\<lambda>c. c \<noteq> CHR ''>'')), rx_chr (CHR ''>'')],
     rx_lit_i ''javascript:'',
     rx_seq [rx_lit_i ''on'', rx_plus (Cls is_word), rx_star (Cls is_space), rx_chr (CHR ''='')],
     rx_seq [WordB, rx_words_i [''union'', ''select'', ''insert'', ''update'', ''delete'', ''drop'', ''alter'', ''exec'', ''execute''], WordB,
       rx_star (Cls (\<lambda>c. \<not> is_line_end c)), WordB, rx_words_i [''from'', ''into'', ''table'', ''where''], WordB],
     rx_seq [rx_lit ''--'', Cls is_space],
     rx_seq [rx_chr (CHR '';''), rx_star (Cls is_space), rx_words_i [''drop'', ''delete'', ''update'', ''insert'']]]"

definition FORBIDDEN_KEYS :: "string list" where
  "FORBIDDEN_KEYS = [''__proto__'', ''constructor'', ''prototype'']"

definition dangerous :: "string \<Rightarrow> bool" where
  "dangerous s = list_ex (\<lambda>r. rx_search r s) DANGEROUS_PATTERNS"

section \<open>The walk\<close>

definition at_path :: "string \<Rightarrow> string \<Rightarrow> string" where
  "at_path path key = (if path = [] then key else path @ ''.'' @ key)"

definition at_index :: "string \<Rightarrow> nat \<Rightarrow> string" where
  "at_index path i = path @ ''['' @ show_nat (int i) @ '']''"

definition check_text :: "string \<Rightarrow> string \<Rightarrow> string option" where
  "check_text path s =
    (if dangerous s then Some (''Potentially dangerous input detected in '' @ path)
     else if 10240 < length s then Some (''Field '' @ path @ '' exceeds maximum length (10KB)'') else None)"

definition or_else :: "'a option \<Rightarrow> 'a option \<Rightarrow> 'a option" where
  "or_else a b = (case a of Some x \<Rightarrow> Some x | None \<Rightarrow> b)"

text \<open>
  The message of the first error, \<open>None\<close> when there is none: of the value of a property, of the
  properties of an object, of an array walked as an object (its keys are its indexes), of the
  elements of an array.
\<close>

fun san_value :: "string \<Rightarrow> jsval \<Rightarrow> string option"
  and san_entries :: "string \<Rightarrow> (string \<times> jsval) list \<Rightarrow> string option"
  and san_indexed :: "string \<Rightarrow> nat \<Rightarrow> jsval list \<Rightarrow> string option"
  and san_element :: "string \<Rightarrow> jsval \<Rightarrow> string option"
  and san_elements :: "string \<Rightarrow> nat \<Rightarrow> jsval list \<Rightarrow> string option" where
  "san_value path (JStr s) = check_text path s"
| "san_value path (JArr vs) = (if 1000 < length vs
     then Some (''Array '' @ path @ '' exceeds maximum size (1000 elements)'') else san_elements path 0 vs)"
| "san_value path (JObj kvs) = san_entries path kvs"
| "san_value path _ = None"
| "san_entries path [] = None"
| "san_entries path ((k, v) # kvs) = (if k \<in> set FORBIDDEN_KEYS
     then Some (''Forbidden key detected: '' @ at_path path k)
     else or_else (san_value (at_path path k) v) (san_entries path kvs))"
| "san_indexed path i [] = None"
| "san_indexed path i (v # vs) = or_else (san_value (at_path path (show_nat (int i))) v) (san_indexed path (Suc i) vs)"
| "san_element path (JObj kvs) = san_entries path kvs"
| "san_element path (JArr vs) = san_indexed path 0 vs"
| "san_element path _ = None"
| "san_elements path i [] = None"
| "san_elements path i (v # vs) = or_else (san_element (at_index path i) v) (san_elements path (Suc i) vs)"

text \<open>The hook: the error body of a request that is refused.\<close>

definition sanitize_request :: "jsval \<Rightarrow> jsval option" where
  "sanitize_request body = map_option (\<lambda>m. JObj [(''error'', JStr ''INVALID_INPUT''), (''message'', JStr m)])
     (san_element [] body)"

section \<open>What the walk looks at\<close>

datatype item = Text string | Key string | Size nat

fun harmless :: "item \<Rightarrow> bool" where
  "harmless (Text s) = (\<not> dangerous s \<and> length s \<le> 10240)"
| "harmless (Key k) = (k \<notin> set FORBIDDEN_KEYS)"
| "harmless (Size n) = (n \<le> 1000)"

text \<open>A text is looked at as the value of a property, or as an element of an array inside an array.\<close>

fun vis_value :: "jsval \<Rightarrow> item list"
  and vis_entries :: "(string \<times> jsval) list \<Rightarrow> item list"
  and vis_indexed :: "jsval list \<Rightarrow> item list"
  and vis_element :: "jsval \<Rightarrow> item list"
  and vis_elements :: "jsval list \<Rightarrow> item list" where
  "vis_value (JStr s) = [Text s]"
| "vis_value (JArr vs) = Size (length vs) # vis_elements vs"
| "vis_value (JObj kvs) = vis_entries kvs"
| "vis_value _ = []"
| "vis_entries [] = []"
| "vis_entries ((k, v) # kvs) = Key k # vis_value v @ vis_entries kvs"
| "vis_indexed [] = []"
| "vis_indexed (v # vs) = vis_value v @ vis_indexed vs"
| "vis_element (JObj kvs) = vis_entries kvs"
| "vis_element (JArr vs) = vis_indexed vs"
| "vis_element _ = []"
| "vis_elements [] = []"
| "vis_elements (v # vs) = vis_element v @ vis_elements vs"

lemma or_else_None: "or_else a b = None \<longleftrightarrow> a = None \<and> b = None"
  by (cases a) (simp_all add: or_else_def)

lemma check_text_None: "check_text path s = None \<longleftrightarrow> harmless (Text s)"
  by (simp add: check_text_def)

lemma walk_visits:
  "san_value path v = None \<longleftrightarrow> list_all harmless (vis_value v)"
  "san_entries path kvs = None \<longleftrightarrow> list_all harmless (vis_entries kvs)"
  "san_indexed path i vs = None \<longleftrightarrow> list_all harmless (vis_indexed vs)"
  "san_element path v = None \<longleftrightarrow> list_all harmless (vis_element v)"
  "san_elements path i vs = None \<longleftrightarrow> list_all harmless (vis_elements vs)"
  by (induction path v and path kvs and path i vs and path v and path i vs
      rule: san_value_san_entries_san_indexed_san_element_san_elements.induct)
    (simp_all add: or_else_None check_text_None not_less del: harmless.simps(1))

section \<open>Properties\<close>

text \<open>
  C38: A request body passes exactly when every key of every object in it is allowed, every text
  that is the value of a property is harmless (no dangerous pattern, at most 10240 characters)
  and no array that is the value of a property has more than 1000 elements.
\<close>

theorem sanitizer_accepts_iff:
  "sanitize_request body = None \<longleftrightarrow> list_all harmless (vis_element body)"
  by (simp add: sanitize_request_def walk_visits)

text \<open>
  A text directly inside an array that is the value of a property is not looked at: whatever
  it contains, the body passes.
\<close>

theorem array_texts_unchecked:
  "sanitize_request (JObj [(''items'', JArr (map JStr texts))]) = None \<longleftrightarrow> length texts \<le> 1000"
proof -
  have "vis_elements (map JStr texts) = []" by (induction texts) simp_all
  then show ?thesis
    by (simp only: sanitize_request_def option.map_disc_iff walk_visits) (simp add: FORBIDDEN_KEYS_def not_less)
qed

lemma a_script_is_refused: "sanitize_request (JObj [(''name'', JStr ''<SCRIPT src=x>'')]) \<noteq> None"
  by code_simp

lemma a_select_is_refused: "sanitize_request (JObj [(''q'', JArr [JObj [(''r'', JStr ''Select a from b'')]])]) \<noteq> None"
  by code_simp

lemma a_name_passes: "sanitize_request (JObj [(''name'', JStr ''Ana Selection'')]) = None"
  by code_simp

end
