(* ===== verification/UiProxy.thy ===== *)
theory UiProxy
  imports Http
begin

text \<open>
  The proxy for the user interface of \<open>src/api/routes/ui-proxy.ts\<close>: the request made to an
  adapter or to its mock, and the answer made of what came back. The variables of the process
  and \<open>fetch\<close> are parameters; a response says its status, its content type and its text, which
  may fail to arrive.
\<close>

section \<open>Targets\<close>

record rail_targets =
  tg_healthUrl :: string
  tg_mockBaseUrl :: string

type_synonym process_env = "string \<Rightarrow> string option"

definition env_or :: "process_env \<Rightarrow> string \<Rightarrow> string \<Rightarrow> string" where
  "env_or env name d = (case env name of Some v \<Rightarrow> v | None \<Rightarrow> d)"

definition configured_targets :: "process_env \<Rightarrow> (string \<times> rail_targets) list" where
  "configured_targets env =
    [(''PIX'', \<lparr>tg_healthUrl = env_or env ''UI_PROXY_PIX_HEALTH_URL'' ''http://adapter-pix:9101/health'',
        tg_mockBaseUrl = env_or env ''UI_PROXY_PIX_MOCK_BASE_URL'' ''http://adapter-pix:9001''\<rparr>),
     (''SPEI'', \<lparr>tg_healthUrl = env_or env ''UI_PROXY_SPEI_HEALTH_URL'' ''http://adapter-spei:9102/health'',
        tg_mockBaseUrl = env_or env ''UI_PROXY_SPEI_MOCK_BASE_URL'' ''http://adapter-spei:9002''\<rparr>),
     (''BRE_B'', \<lparr>tg_healthUrl = env_or env ''UI_PROXY_BREB_HEALTH_URL'' ''http://adapter-breb:9103/health'',
        tg_mockBaseUrl = env_or env ''UI_PROXY_BREB_MOCK_BASE_URL'' ''http://adapter-breb:9003''\<rparr>)]"

definition getRailTargets :: "process_env \<Rightarrow> string \<Rightarrow> js_error + rail_targets" where
  "getRailTargets env r = (case map_of (configured_targets env) (toUpperCase r) of
     None \<Rightarrow> Inl (PlainError (''Unsupported rail: '' @ r))
   | Some t \<Rightarrow> if tg_healthUrl t = [] \<or> tg_mockBaseUrl t = []
       then Inl (PlainError (''UI proxy target is not configured for rail: '' @ r)) else Inr t)"

definition joinUrl :: "string \<Rightarrow> string \<Rightarrow> string" where
  "joinUrl base path = (if base \<noteq> [] \<and> last base = CHR ''/'' then butlast base else base) @ path"

section \<open>Requests\<close>

datatype proxy_route = ServiceHealth | MockHealth | MockStats | MockConfig | UpdateMockConfig jsval | RejectNext | TimeoutNext | Reset

record upstream_request =
  uq_method :: string
  uq_url :: string
  uq_body :: "string option"

fun upstream_request_of :: "rail_targets \<Rightarrow> proxy_route \<Rightarrow> upstream_request" where
  "upstream_request_of t ServiceHealth = \<lparr>uq_method = ''GET'', uq_url = tg_healthUrl t, uq_body = None\<rparr>"
| "upstream_request_of t MockHealth = \<lparr>uq_method = ''GET'', uq_url = joinUrl (tg_mockBaseUrl t) ''/health'', uq_body = None\<rparr>"
| "upstream_request_of t MockStats = \<lparr>uq_method = ''GET'', uq_url = joinUrl (tg_mockBaseUrl t) ''/admin/stats'', uq_body = None\<rparr>"
| "upstream_request_of t MockConfig = \<lparr>uq_method = ''GET'', uq_url = joinUrl (tg_mockBaseUrl t) ''/admin/config'', uq_body = None\<rparr>"
| "upstream_request_of t (UpdateMockConfig body) = \<lparr>uq_method = ''POST'', uq_url = joinUrl (tg_mockBaseUrl t) ''/admin/config'',
     uq_body = Some (JSON_stringify (nullish body (JObj [])))\<rparr>"
| "upstream_request_of t RejectNext = \<lparr>uq_method = ''POST'', uq_url = joinUrl (tg_mockBaseUrl t) ''/admin/reject-next'', uq_body = None\<rparr>"
| "upstream_request_of t TimeoutNext = \<lparr>uq_method = ''POST'', uq_url = joinUrl (tg_mockBaseUrl t) ''/admin/timeout-next'', uq_body = None\<rparr>"
| "upstream_request_of t Reset = \<lparr>uq_method = ''POST'', uq_url = joinUrl (tg_mockBaseUrl t) ''/admin/reset'', uq_body = None\<rparr>"

record upstream_response =
  up_status :: nat
  up_contentType :: "string option"
  up_text :: "js_error + string"

definition sendUpstream :: "environment \<Rightarrow> upstream_response \<Rightarrow> js_error + reply" where
  "sendUpstream e u = (case up_text u of Inl x \<Rightarrow> Inl x
   | Inr raw \<Rightarrow> Inr \<lparr>re_status = up_status u, re_body =
       (if str_includes (case up_contentType u of Some t \<Rightarrow> t | None \<Rightarrow> []) ''application/json''
        then (case e_json_parse e raw of Some v \<Rightarrow> v | None \<Rightarrow> JObj [(''raw'', JStr raw)]) else JStr raw)\<rparr>)"

definition unavailable :: "js_error \<Rightarrow> reply" where
  "unavailable x = reply_with 502 [(''code'', JStr ''UPSTREAM_UNAVAILABLE''), (''message'', JStr (error_message x))]"

text \<open>
  The answer, and the request made. The promise of \<open>sendUpstream\<close> is returned, not awaited: its
  error is not caught here and goes to the error handler.
\<close>

definition proxy :: "environment \<Rightarrow> process_env \<Rightarrow> (upstream_request \<Rightarrow> js_error + upstream_response) \<Rightarrow> string \<Rightarrow> proxy_route
    \<Rightarrow> (js_error + reply) \<times> upstream_request option" where
  "proxy e env fetch r route = (case getRailTargets env r of
     Inl x \<Rightarrow> (Inr (unavailable x), None)
   | Inr t \<Rightarrow> let q = upstream_request_of t route in
       (case fetch q of Inl x \<Rightarrow> Inr (unavailable x) | Inr u \<Rightarrow> sendUpstream e u, Some q))"

section \<open>Properties\<close>

definition proxy_paths :: "string list" where
  "proxy_paths = [''/health'', ''/admin/stats'', ''/admin/config'', ''/admin/reject-next'', ''/admin/timeout-next'', ''/admin/reset'']"

lemma upstream_url: "uq_url (upstream_request_of t route) = tg_healthUrl t \<or>
    (\<exists>path \<in> set proxy_paths. uq_url (upstream_request_of t route) = joinUrl (tg_mockBaseUrl t) path)"
  by (cases route) (simp_all add: proxy_paths_def)

text \<open>
  Whatever rail name and body a client sends, the proxy asks nothing but the configured
  health URL of one of the three rails, or one of six fixed paths under its configured mock; it
  answers 502 when the rail is not one of the three, when it is not configured and when the
  request fails. The one error that escapes is that of a response whose text does not arrive.
\<close>

theorem proxy_stays_on_its_targets:
  assumes "proxy e env fetch r route = (res, made)"
  shows "(case made of None \<Rightarrow> \<exists>x. res = Inr (unavailable x)
    | Some q \<Rightarrow> \<exists>t. (toUpperCase r, t) \<in> set (configured_targets env) \<and>
        (uq_url q = tg_healthUrl t \<or> (\<exists>path \<in> set proxy_paths. uq_url q = joinUrl (tg_mockBaseUrl t) path)) \<and>
        (case fetch q of Inl x \<Rightarrow> res = Inr (unavailable x)
         | Inr u \<Rightarrow> case up_text u of Inl x \<Rightarrow> res = Inl x | Inr raw \<Rightarrow> \<exists>rep. res = Inr rep \<and> re_status rep = up_status u))"
proof (cases "getRailTargets env r")
  case (Inl x)
  with assms show ?thesis by (auto simp: proxy_def)
next
  case (Inr t)
  then have "map_of (configured_targets env) (toUpperCase r) = Some t"
    by (auto simp: getRailTargets_def split: option.splits if_splits)
  then have t: "(toUpperCase r, t) \<in> set (configured_targets env)" by (rule map_of_SomeD)
  have "made = Some (upstream_request_of t route)" using assms Inr by (simp add: proxy_def Let_def)
  moreover have "res = (case fetch (upstream_request_of t route) of Inl x \<Rightarrow> Inr (unavailable x) | Inr u \<Rightarrow> sendUpstream e u)"
    using assms Inr by (simp add: proxy_def Let_def)
  ultimately show ?thesis
    using t upstream_url [of t route] by (auto simp: sendUpstream_def split: sum.splits intro!: exI [of _ t])
qed

lemma proxy_stays_on_its_targets_witness:
  "uq_url (the (snd (proxy sample_env (\<lambda>v. None) (\<lambda>q. Inl (PlainError ''refused'')) ''pix'' MockStats))) = ''http://adapter-pix:9001/admin/stats''"
proof -
  have t: "toUpperCase ''pix'' = ''PIX''" by code_simp
  have p: "proxy sample_env (\<lambda>v. None) (\<lambda>q. Inl (PlainError ''refused'')) ''pix'' MockStats =
      (Inr (unavailable (PlainError ''refused'')), Some \<lparr>uq_method = ''GET'', uq_url = ''http://adapter-pix:9001/admin/stats'', uq_body = None\<rparr>)"
    by (simp add: proxy_def getRailTargets_def configured_targets_def env_or_def t joinUrl_def)
  from proxy_stays_on_its_targets [OF p] show ?thesis by (simp add: p)
qed

end
