(* ===== verification/Server.thy ===== *)
theory Server
  imports PaymentsApi TranslateApi Analytics Compensation HttpRateLimit Sanitize UiProxy Sse
begin

text \<open>
  The HTTP server of \<open>src/api/server.ts\<close>: the routes behind the hooks, in the order in which
  the hooks run (rate limit, trace, token, sanitizer). Which route a request is for is decided
  by the framework; the request carries it. The state of the server is the tables with the
  state the process keeps beside them: the windows of the rate limit and the rail limiter.
\<close>

section \<open>Routes\<close>

datatype endpoint =
    Health
  | Token
  | CreatePayment "string option"
  | ListPayments jsval "string option" "string option"
  | GetPayment string
  | RegisterWebhook string
  | ListWebhooks string
  | Translate
  | Rails
  | Preview
  | Summary
  | Breakers
  | Limits
  | Latency "metric_value list option"
  | ReconciliationReport "string option" "string option"
  | Compensate string
  | CompensateBatch
  | ProxyTo string proxy_route

text \<open>The reports as JSON.\<close>

definition stuck_js :: "stuck_payment \<Rightarrow> jsval" where
  "stuck_js s = JObj [(''payment_id'', JStr (sp_payment_id s)), (''status'', JStr (sp_status s)),
     (''origin_rail'', JStr (sp_origin_rail s)), (''destination_rail'', js_null JStr (sp_destination_rail s)),
     (''queued_at'', js_time (sp_queued_at s)), (''stuck_minutes'', JNum (sp_stuck_minutes s))]"

definition anomaly_js :: "anomaly \<Rightarrow> jsval" where
  "anomaly_js a = JObj [(''type'', JStr (an_type a)), (''payment_id'', JStr (an_payment_id a)), (''description'', JStr (an_description a))]"

definition rail_line_js :: "rail_line \<Rightarrow> jsval" where
  "rail_line_js l = JObj [(''sent'', js_count (rl_sent l)), (''completed'', js_count (rl_completed l)),
     (''failed'', js_count (rl_failed l)), (''rejected'', js_count (rl_rejected l)),
     (''success_rate'', JNum (rl_success_rate l)), (''avg_latency_ms'', js_null JNum (rl_avg_latency l))]"

definition recon_js :: "recon_report \<Rightarrow> jsval" where
  "recon_js r = (let s = rp_summary r in JObj
     [(''generated_at'', JStr (rp_generated_at r)), (''window_hours'', JNum (rp_window_hours r)),
      (''summary'', JObj [(''total_payments'', js_count (sm_total s)), (''completed'', js_count (sm_completed s)),
         (''failed'', js_count (sm_failed s)), (''rejected'', js_count (sm_rejected s)), (''stuck_in_queue'', js_count (sm_stuck s)),
         (''dead_letter'', js_count (sm_dead_letter s)), (''compensated'', js_count (sm_compensated s))]),
      (''stuck_payments'', JArr (map stuck_js (rp_stuck r))),
      (''rail_breakdown'', JObj (map (\<lambda>(k, l). (k, rail_line_js l)) (rp_breakdown r))),
      (''anomalies'', JArr (map anomaly_js (rp_anomalies r)))])"

definition result_js :: "compensation_result \<Rightarrow> jsval" where
  "result_js r = JObj [(''success'', JBool (cr_success r)), (''reason'', JStr (cr_reason r))]"

definition batch_js :: "batch_result \<Rightarrow> jsval" where
  "batch_js b = JObj [(''processed'', js_count (br_processed b)), (''succeeded'', js_count (br_succeeded b)), (''failed'', js_count (br_failed b))]"

text \<open>The limit of a batch: 50 when the body has none; a number the database does not accept fails the query.\<close>

definition batch_limit :: "jsval \<Rightarrow> js_error + nat option" where
  "batch_limit body = (let l = opt_prop body ''limit'' in if is_nullish l then Inr None
     else case sql_limit (Number_val l) of Some n \<Rightarrow> Inr (Some n) | None \<Rightarrow> Inl query_rejected)"

record process =
  pr_started :: int
  pr_token :: string
  pr_env :: process_env
  pr_fetch :: "upstream_request \<Rightarrow> js_error + upstream_response"
  pr_breakers :: registry
  pr_limiter :: limiter

definition health_route :: "process \<Rightarrow> handler" where
  "health_route p = io_bind date_now (\<lambda>now. send (reply_with 200 [(''status'', JStr ''ok''),
     (''uptime'', JNum (Math_floor (num_div (Fin (of_int (now - pr_started p))) (Fin 1000)))), (''version'', JStr ''0.1.0'')]))"

definition token_route :: "process \<Rightarrow> handler" where
  "token_route p = send (reply_with 200 [(''access_token'', JStr (pr_token p)), (''token_type'', JStr ''Bearer''), (''expires_in'', JNum (Fin 86400))])"

text \<open>The handler of a route: its reply, and the rail limiter it leaves.\<close>

definition keeps_limiter :: "process \<Rightarrow> handler \<Rightarrow> ((jsval + reply) \<times> limiter) io" where
  "keeps_limiter p h = io_bind h (\<lambda>r. io_return (r, pr_limiter p))"

fun endpoint_handler :: "process \<Rightarrow> endpoint \<Rightarrow> string \<Rightarrow> jsval \<Rightarrow> ((jsval + reply) \<times> limiter) io" where
  "endpoint_handler p Summary trace body = io_bind (summary_route (pr_breakers p) (pr_limiter p)) (\<lambda>(r, l). io_return (Inr r, l))"
| "endpoint_handler p Limits trace body = io_bind (limits_route (pr_limiter p)) (\<lambda>(r, l). io_return (Inr r, l))"
| "endpoint_handler p Health trace body = keeps_limiter p (health_route p)"
| "endpoint_handler p Token trace body = keeps_limiter p (token_route p)"
| "endpoint_handler p (CreatePayment key) trace body = keeps_limiter p (create_payment key trace body)"
| "endpoint_handler p (ListPayments limit status r) trace body = keeps_limiter p (list_payments limit status r)"
| "endpoint_handler p (GetPayment i) trace body = keeps_limiter p (get_payment i)"
| "endpoint_handler p (RegisterWebhook i) trace body = keeps_limiter p (register_webhook i body)"
| "endpoint_handler p (ListWebhooks i) trace body = keeps_limiter p (list_webhooks i)"
| "endpoint_handler p Translate trace body = keeps_limiter p (translate_route trace body)"
| "endpoint_handler p Rails trace body = keeps_limiter p rails_route"
| "endpoint_handler p Preview trace body = keeps_limiter p (preview_route trace body)"
| "endpoint_handler p Breakers trace body = keeps_limiter p (breakers_route (pr_breakers p))"
| "endpoint_handler p (Latency metric) trace body = keeps_limiter p (latency_route metric)"
| "endpoint_handler p (ReconciliationReport hours stuck) trace body = keeps_limiter p
     (io_bind (reconciliation_route hours stuck) (\<lambda>r. send \<lparr>re_status = 200, re_body = recon_js r\<rparr>))"
| "endpoint_handler p (Compensate i) trace body = keeps_limiter p
     (io_bind (compensate_route i) (\<lambda>(s, r). send \<lparr>re_status = s, re_body = result_js r\<rparr>))"
| "endpoint_handler p CompensateBatch trace body = keeps_limiter p
     (io_bind (io_result (batch_limit body)) (\<lambda>l. io_bind (compensate_batch_route l) (\<lambda>b.
      send \<lparr>re_status = 200, re_body = batch_js b\<rparr>)))"
| "endpoint_handler p (ProxyTo r q) trace body = keeps_limiter p
     (io_bind (io_env (\<lambda>e. fst (proxy e (pr_env p) (pr_fetch p) r q))) (\<lambda>res. io_bind (io_result res) send))"

section \<open>A request\<close>

text \<open>The routes outside the scope with the token hook.\<close>

definition is_public :: "endpoint \<Rightarrow> bool" where
  "is_public r = (r \<in> {Health, Token})"

record http_request =
  hq_url :: string
  hq_ip :: string
  hq_forwarded :: jsval
  hq_trace :: "string option"
  hq_token_error :: "string option"
  hq_body :: jsval
  hq_endpoint :: endpoint

record server =
  sv_world :: world
  sv_windows :: windows
  sv_process :: process

text \<open>\<open>HTTP_RATE_LIMIT_MAX\<close> and \<open>HTTP_RATE_LIMIT_WINDOW_MS\<close>, or their defaults.\<close>

definition server_limits :: http_limits where
  "server_limits = \<lparr>hl_maxRequests = 200, hl_windowMs = 60000\<rparr>"

text \<open>The reply of the rate limit, if it refuses.\<close>

definition limit_refusal :: "limit_answer \<Rightarrow> reply option" where
  "limit_refusal a = (case a of Exceeded _ _ body \<Rightarrow> Some \<lparr>re_status = 429, re_body = body\<rparr> | _ \<Rightarrow> None)"

definition sanitizer_refusal :: "jsval \<Rightarrow> reply option" where
  "sanitizer_refusal body = map_option (\<lambda>b. \<lparr>re_status = 400, re_body = b\<rparr>) (sanitize_request body)"

definition token_refusal :: "http_request \<Rightarrow> reply option" where
  "token_refusal q = (if is_public (hq_endpoint q) then None else authMiddleware (hq_token_error q))"

text \<open>Past the hooks: the handler, or the error handler.\<close>

definition run_endpoint :: "http_request \<Rightarrow> string \<Rightarrow> environment \<Rightarrow> server \<Rightarrow> reply \<times> server" where
  "run_endpoint q trace e s = (case endpoint_handler (sv_process s) (hq_endpoint q) trace (hq_body q) e (sv_world s) of
     (Inl x, w) \<Rightarrow> (errorHandler e trace (Thrown x), s\<lparr>sv_world := w\<rparr>)
   | (Inr (Inl v, l), w) \<Rightarrow> (errorHandler e trace (ZodError v), s\<lparr>sv_world := w, sv_process := (sv_process s)\<lparr>pr_limiter := l\<rparr>\<rparr>)
   | (Inr (Inr r, l), w) \<Rightarrow> (r, s\<lparr>sv_world := w, sv_process := (sv_process s)\<lparr>pr_limiter := l\<rparr>\<rparr>))"

definition serve_request :: "http_limits \<Rightarrow> http_request \<Rightarrow> environment \<Rightarrow> server \<Rightarrow> reply \<times> server" where
  "serve_request limits q e s = (let w = sv_world s;
     (a, windows) = limit_request limits (hq_url q) (client_key (hq_ip q) (hq_forwarded q)) (e_now e (w_tick w)) (sv_windows s);
     s1 = s\<lparr>sv_world := tick w, sv_windows := windows\<rparr> in
     case limit_refusal a of Some r \<Rightarrow> (r, s1)
     | None \<Rightarrow> (case tracingMiddleware (hq_trace q) e (sv_world s1) of
         (Inl x, w2) \<Rightarrow> (errorHandler e [] (Thrown x), s1\<lparr>sv_world := w2\<rparr>)
       | (Inr trace, w2) \<Rightarrow> let s2 = s1\<lparr>sv_world := w2\<rparr> in
           (case token_refusal q of Some r \<Rightarrow> (r, s2)
           | None \<Rightarrow> (case sanitizer_refusal (hq_body q) of Some r \<Rightarrow> (r, s2)
              | None \<Rightarrow> run_endpoint q trace e s2))))"

section \<open>Lemmas\<close>

lemma tracing_runs: "\<exists>t n. tracingMiddleware header e w = (Inr t, w\<lparr>w_tick := n\<rparr>)"
  by (cases header) (auto simp: tracingMiddleware_def io_run fresh_ulid_def tick_def intro: exI [of _ "w_tick w"])

lemma quiet_tick_to: "quiet w (w\<lparr>w_tick := n\<rparr>)" "quiet w (tick w)"
  by (simp_all add: quiet_def)

definition refused_by_hooks :: "http_limits \<Rightarrow> http_request \<Rightarrow> environment \<Rightarrow> server \<Rightarrow> reply option" where
  "refused_by_hooks limits q e s =
     (case limit_refusal (fst (limit_request limits (hq_url q) (client_key (hq_ip q) (hq_forwarded q))
         (e_now e (w_tick (sv_world s))) (sv_windows s))) of
        Some r \<Rightarrow> Some r
      | None \<Rightarrow> (case token_refusal q of Some r \<Rightarrow> Some r | None \<Rightarrow> sanitizer_refusal (hq_body q)))"

lemma refusal_status: "refused_by_hooks limits q e s = Some r \<Longrightarrow> re_status r \<in> {400, 401, 429}"
  by (auto simp: refused_by_hooks_def limit_refusal_def token_refusal_def authMiddleware_def sanitizer_refusal_def
      split: option.splits limit_answer.splits if_splits)

lemma server_swap: "s\<lparr>sv_windows := a, sv_world := b\<rparr> = s\<lparr>sv_world := b, sv_windows := a\<rparr>"
  by (cases s) simp

lemma serve_request_cases:
  "\<exists>trace n. serve_request limits q e s =
     (let s1 = s\<lparr>sv_world := (sv_world s)\<lparr>w_tick := n\<rparr>, sv_windows := snd (limit_request limits (hq_url q)
          (client_key (hq_ip q) (hq_forwarded q)) (e_now e (w_tick (sv_world s))) (sv_windows s))\<rparr> in
      case refused_by_hooks limits q e s of Some r \<Rightarrow> (r, s1) | None \<Rightarrow> run_endpoint q trace e s1)"
proof -
  obtain t n where t: "tracingMiddleware (hq_trace q) e (tick (sv_world s)) = (Inr t, (tick (sv_world s))\<lparr>w_tick := n\<rparr>)"
    using tracing_runs by blast
  have w: "(tick (sv_world s))\<lparr>w_tick := n\<rparr> = (sv_world s)\<lparr>w_tick := n\<rparr>" "tick (sv_world s) = (sv_world s)\<lparr>w_tick := Suc (w_tick (sv_world s))\<rparr>"
    by (simp_all add: tick_def)
  show ?thesis
  proof (cases "limit_refusal (fst (limit_request limits (hq_url q) (client_key (hq_ip q) (hq_forwarded q))
         (e_now e (w_tick (sv_world s))) (sv_windows s)))")
    case None
    then show ?thesis
      by (intro exI [of _ t] exI [of _ n])
        (simp add: server_swap serve_request_def refused_by_hooks_def case_prod_beta Let_def t w(1) split: option.split)
  next
    case (Some r)
    then show ?thesis
      by (intro exI [of _ t] exI [of _ "Suc (w_tick (sv_world s))"])
        (simp add: serve_request_def refused_by_hooks_def case_prod_beta Let_def w(2))
  qed
qed

lemma limit_own_window: "snd (limit_request limits url k now w) = w(k := snd (limit_request limits url k now w) k)"
  by (auto simp: limit_request_def Let_def)

section \<open>Properties\<close>

text \<open>
  C9: A request that one of the hooks refuses (over the limit, without a valid token on a route
  that needs one, or with a dangerous body) gets 429, 401 or 400 and reaches no handler: no
  table, no message and no state of the process changes but the window of its client. A request
  no hook refuses is answered by the handler of its route.
\<close>

theorem hooks_guard_the_routes:
  "\<exists>trace s1. sv_process s1 = sv_process s \<and> quiet (sv_world s) (sv_world s1) \<and>
    (let k = client_key (hq_ip q) (hq_forwarded q) in sv_windows s1 = (sv_windows s)(k := sv_windows s1 k)) \<and>
    (case refused_by_hooks limits q e s of
       Some r \<Rightarrow> serve_request limits q e s = (r, s1) \<and> re_status r \<in> {400, 401, 429}
     | None \<Rightarrow> serve_request limits q e s = run_endpoint q trace e s1)"
proof -
  obtain trace n where run: "serve_request limits q e s =
     (let s1 = s\<lparr>sv_world := (sv_world s)\<lparr>w_tick := n\<rparr>, sv_windows := snd (limit_request limits (hq_url q)
          (client_key (hq_ip q) (hq_forwarded q)) (e_now e (w_tick (sv_world s))) (sv_windows s))\<rparr> in
      case refused_by_hooks limits q e s of Some r \<Rightarrow> (r, s1) | None \<Rightarrow> run_endpoint q trace e s1)"
    using serve_request_cases by blast
  show ?thesis
    by (intro exI [of _ trace] exI [of _ "s\<lparr>sv_world := (sv_world s)\<lparr>w_tick := n\<rparr>, sv_windows := snd (limit_request limits (hq_url q)
          (client_key (hq_ip q) (hq_forwarded q)) (e_now e (w_tick (sv_world s))) (sv_windows s))\<rparr>"])
      (auto simp: run Let_def quiet_tick_to limit_own_window [symmetric] dest: refusal_status split: option.split)
qed

end
