(* ===== verification/Consumers.thy ===== *)
theory Consumers
  imports AuditService Messaging Webhooks
begin

text \<open>
  The consumers of \<open>src/messaging/consumer.ts\<close> and \<open>src/messaging/dlq-handler.ts\<close>: what becomes
  of one message and of the payment it names. A message is acknowledged, refused (with or
  without going back to the queue), or, when the handler raises outside its own \<open>try\<close>, left
  as it is. The announcement to the webhooks is not awaited by the code; the model runs it
  where it is started.
\<close>

section \<open>Acknowledgements of the rails\<close>

datatype settlement = Ack | Nack bool

text \<open>An identifier taken from a message, where the repository expects a string.\<close>

definition payment_id_arg :: "jsval \<Rightarrow> js_error + string" where
  "payment_id_arg v = (if truthy v then as_string v else Inr [])"

definition text_column :: "environment \<Rightarrow> jsval \<Rightarrow> string option" where
  "text_column e v = (if is_nullish v then None else case v of JStr s \<Rightarrow> Some s | _ \<Rightarrow> Some (e_param_text e v))"

definition final_status :: "jsval \<Rightarrow> payment_status" where
  "final_status rail_status = (if rail_status = JStr ''ACCEPTED'' then COMPLETED
     else if rail_status = JStr ''REJECTED'' then REJECTED else FAILED)"

definition ack_apply :: "bool \<Rightarrow> jsval \<Rightarrow> unit io" where
  "ack_apply hooked ack =
    (let railAck = opt_prop ack ''rail_ack''; status = status_code (final_status (opt_prop railAck ''status'')) in
     io_bind (io_result (payment_id_arg (opt_prop ack ''payment_id''))) (\<lambda>pid.
     io_bind (payment_updateRailAck pid railAck status) (\<lambda>updated.
     io_bind (io_result (as_string (opt_prop ack ''source_rail''))) (\<lambda>source.
     io_bind (io_env (\<lambda>e. text_column e (opt_prop ack ''trace_id''))) (\<lambda>trace.
     io_bind (audit_log pid ''ACK_RECEIVED'' (''adapter-'' @ toLowerCase source)
        [(''rail_status'', opt_prop railAck ''status''), (''final_payment_status'', JStr status),
         (''adapter_id'', opt_prop ack ''adapter_id''), (''instance_id'', opt_prop ack ''instance_id''),
         (''latency_ms'', opt_prop ack ''latency_ms''), (''rail_tx_id'', opt_prop railAck ''rail_tx_id''),
         (''error'', opt_prop railAck ''error'')] trace) (\<lambda>_.
     io_bind (broadcastPaymentEvent [(''payment_id'', JStr pid), (''status'', JStr status),
        (''origin_rail'', JStr source), (''latency_ms'', opt_prop ack ''latency_ms''),
        (''error'', opt_prop (opt_prop railAck ''error'') ''message''),
        (''timestamp'', opt_prop ack ''processed_at'')]) (\<lambda>_.
     if hooked then io_try (fireForPayment updated) (\<lambda>_. io_return ()) else io_return ())))))))"

definition ack_handle :: "bool \<Rightarrow> string \<Rightarrow> settlement io" where
  "ack_handle hooked content = io_bind (io_env (\<lambda>e. e_json_parse e content)) (\<lambda>parsed.
     case parsed of None \<Rightarrow> io_return (Nack False)
     | Some ack \<Rightarrow> io_bind (io_result (get_prop ack ''payment_id'')) (\<lambda>pid.
         if \<not> truthy pid \<or> \<not> truthy (opt_prop (opt_prop ack ''rail_ack'') ''status'') then io_return (Nack False)
         else io_try (io_then (ack_apply hooked ack) (io_return Ack)) (\<lambda>_. io_return (Nack False))))"

section \<open>Dead letters\<close>

definition dlq_apply :: "jsval \<Rightarrow> unit io" where
  "dlq_apply msg =
     io_bind (io_result (payment_id_arg (opt_prop msg ''payment_id''))) (\<lambda>pid.
     io_bind (payment_updateStatus pid (status_code DEAD_LETTER)) (\<lambda>_.
     io_bind (io_env (\<lambda>e. text_column e (opt_prop msg ''trace_id''))) (\<lambda>trace.
     audit_log pid ''DEAD_LETTER'' ''dlq-handler''
       [(''destination_rail'', opt_prop msg ''destination_rail''), (''retry_count'', opt_prop msg ''retry_count''),
        (''max_retries'', JNum (Fin (of_int DLQ_MAX_RETRIES))), (''original_error'', opt_prop msg ''original_error''),
        (''failed_at'', opt_prop msg ''failed_at'')] trace)))"

definition dlq_handle :: "string \<Rightarrow> settlement io" where
  "dlq_handle content = io_bind (io_env (\<lambda>e. e_json_parse e content)) (\<lambda>parsed.
     case parsed of None \<Rightarrow> io_return Ack
     | Some msg \<Rightarrow> io_bind (io_result (get_prop msg ''payment_id'')) (\<lambda>_.
         io_try (io_then (dlq_apply msg) (io_return Ack)) (\<lambda>_. io_return (Nack True))))"

section \<open>Counting retries\<close>

record amqp_message =
  mq_exchange :: string
  mq_key :: string
  mq_content :: string
  mq_headers :: "(string \<times> jsval) list option"

definition retry_count :: "amqp_message \<Rightarrow> jsval" where
  "retry_count m = nullish (case mq_headers m of Some h \<Rightarrow> opt_prop (JObj h) ''x-retry-count'' | None \<Rightarrow> JUndef) (JNum (Fin 0))"

definition retries_exhausted :: "jsval \<Rightarrow> bool" where
  "retries_exhausted v = num_le (Fin (of_int DLQ_MAX_RETRIES)) (Number_val v)"

definition shouldDeadLetter :: "amqp_message \<Rightarrow> bool" where
  "shouldDeadLetter m = retries_exhausted (retry_count m)"

text \<open>\<open>v + 1\<close>: a text or an object is concatenated.\<close>

definition plus_one :: "jsval \<Rightarrow> jsval" where
  "plus_one v = (case v of JStr s \<Rightarrow> JStr (s @ ''1'') | JArr vs \<Rightarrow> JStr (to_string (JArr vs) @ ''1'')
     | JObj kvs \<Rightarrow> JStr (to_string (JObj kvs) @ ''1'') | _ \<Rightarrow> JNum (num_add (Number_val v) (Fin 1)))"

text \<open>\<open>{ ...v }\<close>\<close>

definition js_spread :: "jsval \<Rightarrow> (string \<times> jsval) list" where
  "js_spread v = (case v of JObj kvs \<Rightarrow> kvs
     | JArr vs \<Rightarrow> zip (map (\<lambda>i. show_nat (int i)) [0..<length vs]) vs
     | JStr s \<Rightarrow> zip (map (\<lambda>i. show_nat (int i)) [0..<length s]) (map (\<lambda>c. JStr [c]) s)
     | _ \<Rightarrow> [])"

definition dlq_payload :: "jsval \<Rightarrow> jsval \<Rightarrow> string \<Rightarrow> string \<Rightarrow> jsval" where
  "dlq_payload parsed retries error now = JObj (alist_set (alist_set (alist_set (js_spread parsed)
     ''retry_count'' retries) ''original_error'' (JStr error)) ''failed_at'' (JStr now))"

text \<open>
  What is published for a message that could not be processed. The value \<open>null\<close> as content
  raises when its payment is logged, after the publication.
\<close>

definition handleFailedMessage ::
  "environment \<Rightarrow> string \<Rightarrow> string \<Rightarrow> string \<Rightarrow> amqp_message \<Rightarrow> amqp_message \<times> (js_error + unit)" where
  "handleFailedMessage e dlx error now m =
    (if retries_exhausted (retry_count m) then
       let parsed = (case e_json_parse e (mq_content m) of Some v \<Rightarrow> v | None \<Rightarrow> JObj []) in
       (\<lparr>mq_exchange = dlx, mq_key = ''dlq.failed'',
          mq_content = JSON_stringify (dlq_payload parsed (retry_count m) error now), mq_headers = None\<rparr>,
        bindr (get_prop parsed ''payment_id'') (\<lambda>_. Inr ()))
     else
       (m\<lparr>mq_headers := Some (alist_set (case mq_headers m of Some h \<Rightarrow> h | None \<Rightarrow> []) ''x-retry-count''
           (plus_one (retry_count m)))\<rparr>, Inr ()))"

section \<open>Running a handler\<close>

lemma try_settle: "io_try (io_then m (io_return a)) (\<lambda>_. io_return b) e w =
   (case m e w of (Inl x, w') \<Rightarrow> (Inr b, w') | (Inr u, w') \<Rightarrow> (Inr a, w'))"
  by (auto simp: io_try_def io_then_def io_bind_def io_return_def split: prod.splits sum.splits)

lemma ack_handle_run: "ack_handle hooked content e w = (case e_json_parse e content of
     None \<Rightarrow> (Inr (Nack False), w)
   | Some v \<Rightarrow> if is_nullish v then (Inl TypeError, w)
       else if \<not> truthy (opt_prop v ''payment_id'') \<or> \<not> truthy (opt_prop (opt_prop v ''rail_ack'') ''status'')
       then (Inr (Nack False), w)
       else case ack_apply hooked v e w of (Inl x, w') \<Rightarrow> (Inr (Nack False), w') | (Inr u, w') \<Rightarrow> (Inr Ack, w'))"
  by (simp add: ack_handle_def io_run get_prop_def opt_prop_def try_settle split: option.split)

lemma dlq_handle_run: "dlq_handle content e w = (case e_json_parse e content of
     None \<Rightarrow> (Inr Ack, w)
   | Some v \<Rightarrow> if is_nullish v then (Inl TypeError, w)
       else case dlq_apply v e w of (Inl x, w') \<Rightarrow> (Inr (Nack True), w') | (Inr u, w') \<Rightarrow> (Inr Ack, w'))"
  by (simp add: dlq_handle_def io_run get_prop_def try_settle split: option.split)

lemma payment_id_arg_Inr: "payment_id_arg v = Inr pid \<Longrightarrow> pid \<noteq> [] \<Longrightarrow> v = JStr pid"
  by (cases v) (auto simp: payment_id_arg_def split: if_splits)

lemma updated_id: "payment_updateStatus i s e w = (Inr q, w') \<Longrightarrow> i \<noteq> []"
  "payment_updateRailAck i a s e w = (Inr q, w') \<Longrightarrow> i \<noteq> []"
  by (auto simp: payment_update_defs blank_def io_run)

lemma fire_try_scope: "io_try (fireForPayment p) (\<lambda>_. io_return ()) e w = (r, w') \<Longrightarrow> webhook_scope w w'"
  by (rule io_keepsD [where m = "io_try (fireForPayment p) (\<lambda>_. io_return ())"]) (intro io_frame)

text \<open>What a successful application did.\<close>

lemma ack_apply_done:
  assumes "ack_apply hooked v e w = (Inr u, w')"
  obtains pid p q ev where "opt_prop v ''payment_id'' = JStr pid" "payment_row w pid = Some p"
    "q = set_rail_ack (opt_prop v ''rail_ack'')
      (status_code (final_status (opt_prop (opt_prop v ''rail_ack'') ''status''))) (e_now e (w_tick w)) p"
    "payment_row w' pid = Some q" "w_audit w' = w_audit w @ [ev]" "ae_event_type ev = ''ACK_RECEIVED''"
    "ae_payment_id ev = pid" "w_bus w' = w_bus w"
proof -
  from assms obtain pid q w1 actor trace detail w2 sse where
    pid: "payment_id_arg (opt_prop v ''payment_id'') = Inr pid" and
    upd: "payment_updateRailAck pid (opt_prop v ''rail_ack'')
      (status_code (final_status (opt_prop (opt_prop v ''rail_ack'') ''status''))) e w = (Inr q, w1)" and
    log: "audit_insert pid ''ACK_RECEIVED'' actor detail trace e w1 = (Inr (), w2)" and
    fire: "(if hooked then io_try (fireForPayment q) (\<lambda>_. io_return ()) else io_return ()) e (w2\<lparr>w_sse := sse\<rparr>) = (Inr u, w')"
    unfolding ack_apply_def Let_def audit_log_def broadcastPaymentEvent_def
    by (auto simp: io_bind_Inr_iff io_result_def io_env_def io_modify_def)
  from rail_ack_updated [OF upd] obtain p where p: "payment_row w pid = Some p"
    "q = set_rail_ack (opt_prop v ''rail_ack'')
      (status_code (final_status (opt_prop (opt_prop v ''rail_ack'') ''status''))) (e_now e (w_tick w)) p"
    "w_audit w1 = w_audit w" "w_bus w1 = w_bus w" "payment_row w1 pid = Some q" by auto
  from audit_inserted [OF log] obtain ev where ev: "w_audit w2 = w_audit w1 @ [ev]" "ae_event_type ev = ''ACK_RECEIVED''"
    "ae_payment_id ev = pid" "w_payments w2 = w_payments w1" "w_bus w2 = w_bus w1" by auto
  have same: "w_payments w' = w_payments w2" "w_audit w' = w_audit w2" "w_bus w' = w_bus w2"
    using fire by (auto simp: io_run webhook_scope_def dest: fire_try_scope split: if_splits)
  have "payment_row w' pid = Some q" using p(5) by (simp add: payment_row_def same ev)
  then show thesis
    using that [OF payment_id_arg_Inr [OF pid updated_id(2) [OF upd]] p(1,2)] ev(1-3) p(3,4)
    by (simp add: same ev)
qed

section \<open>Properties of the acknowledgements\<close>

text \<open>
  C29: Every message on the acknowledgement queue is settled whatever it holds and whatever
  queries are rejected: it is acknowledged or refused for good, never put back on the queue.
  The one exception is the JSON text \<open>null\<close>, on which the handler raises a TypeError and the
  message stays unsettled; a text that is not JSON is refused without a trace.
\<close>

theorem ack_settles:
  "case e_json_parse e content of
     None \<Rightarrow> ack_handle hooked content e w = (Inr (Nack False), w)
   | Some v \<Rightarrow> if is_nullish v then ack_handle hooked content e w = (Inl TypeError, w)
       else fst (ack_handle hooked content e w) \<in> {Inr Ack, Inr (Nack False)}"
  by (auto simp: ack_handle_run split: option.split prod.split sum.split)

text \<open>
  C10: An acknowledged message named an existing payment, and that payment is now in the status
  the rail's answer stands for (COMPLETED exactly when it is ACCEPTED), with the answer and the
  time stored, one audit event ACK_RECEIVED appended and nothing published, whatever status
  the payment had before.
\<close>

theorem ack_applied:
  assumes "ack_handle hooked content e w = (Inr Ack, w')"
  shows "\<exists>v pid p q ev. e_json_parse e content = Some v \<and> opt_prop v ''payment_id'' = JStr pid \<and>
    payment_row w pid = Some p \<and> payment_row w' pid = Some q \<and>
    p_status q = status_code (final_status (opt_prop (opt_prop v ''rail_ack'') ''status'')) \<and>
    p_rail_ack q = Some (opt_prop v ''rail_ack'') \<and> p_acked_at q \<noteq> None \<and>
    w_audit w' = w_audit w @ [ev] \<and> ae_event_type ev = ''ACK_RECEIVED'' \<and> ae_payment_id ev = pid \<and>
    w_bus w' = w_bus w"
proof -
  from assms obtain v where v: "e_json_parse e content = Some v" "ack_apply hooked v e w = (Inr (), w')"
    by (auto simp: ack_handle_run split: option.splits if_splits prod.splits sum.splits)
  from v(2) show ?thesis by (rule ack_apply_done) (use v(1) in \<open>auto simp: set_rail_ack_def\<close>)
qed

text \<open>An accepted payment.\<close>

definition sample_ack :: jsval where
  "sample_ack = JObj [(''payment_id'', JStr ''PMT-1''), (''source_rail'', JStr ''SPEI''),
     (''rail_ack'', JObj [(''status'', JStr ''ACCEPTED''), (''rail_tx_id'', JStr ''TX9'')])]"

definition queued_world :: world where
  "queued_world = sample_world\<lparr>w_payments := [queued_payment]\<rparr>"

definition ack_env :: environment where
  "ack_env = sample_env\<lparr>e_json_parse := \<lambda>s. Some sample_ack\<rparr>"

lemma ack_applied_witness:
  "map_option p_status (payment_row (snd (ack_handle True ''{}'' ack_env queued_world)) ''PMT-1'') = Some ''COMPLETED''"
proof -
  have "fst (ack_handle True ''{}'' ack_env queued_world) = Inr Ack" by code_simp
  then have "ack_handle True ''{}'' ack_env queued_world = (Inr Ack, snd (ack_handle True ''{}'' ack_env queued_world))"
    by (simp add: prod_eq_iff)
  from ack_applied [OF this] show ?thesis by (auto simp: ack_env_def sample_ack_def final_status_def)
qed

section \<open>Properties of the dead letters\<close>

lemma dlq_apply_done:
  assumes "dlq_apply v e w = (Inr u, w')"
  obtains pid p q ev where "opt_prop v ''payment_id'' = JStr pid" "payment_row w pid = Some p"
    "q = set_status ''DEAD_LETTER'' (e_now e (w_tick w)) p" "payment_row w' pid = Some q"
    "w_audit w' = w_audit w @ [ev]" "ae_event_type ev = ''DEAD_LETTER''" "ae_payment_id ev = pid"
proof -
  from assms obtain pid q w1 trace detail where
    pid: "payment_id_arg (opt_prop v ''payment_id'') = Inr pid" and
    upd: "payment_updateStatus pid ''DEAD_LETTER'' e w = (Inr q, w1)" and
    log: "audit_insert pid ''DEAD_LETTER'' ''dlq-handler'' detail trace e w1 = (Inr u, w')"
    unfolding dlq_apply_def audit_log_def
    by (auto simp: io_bind_Inr_iff io_result_def io_env_def)
  from status_updated [OF upd] obtain p where p: "payment_row w pid = Some p"
    "q = set_status ''DEAD_LETTER'' (e_now e (w_tick w)) p" "w_audit w1 = w_audit w" "payment_row w1 pid = Some q" by auto
  from audit_inserted [OF log] obtain ev where ev: "w_audit w' = w_audit w1 @ [ev]" "ae_event_type ev = ''DEAD_LETTER''"
    "ae_payment_id ev = pid" "w_payments w' = w_payments w1" by auto
  show thesis
    using that [OF payment_id_arg_Inr [OF pid updated_id(1) [OF upd]] p(1,2)] ev p(3,4)
    by (simp add: payment_row_def)
qed

text \<open>
  C19: A dead letter that is acknowledged was no JSON, or its payment exists and is now
  DEAD_LETTER with the time and one audit event; in every other case but the text \<open>null\<close> it goes
  back to the queue. A dead letter whose payment does not exist goes back every time, whatever
  else happens: it never leaves the queue.
\<close>

theorem dlq_settles:
  assumes "e_json_parse e content = Some v" "\<not> is_nullish v" "dlq_handle content e w = (r, w')"
  shows "(r = Inr (Nack True) \<or> r = Inr Ack \<and>
      (\<exists>pid q ev. opt_prop v ''payment_id'' = JStr pid \<and> payment_row w pid \<noteq> None \<and> payment_row w' pid = Some q \<and>
        p_status q = status_code DEAD_LETTER \<and> p_dead_letter_at q = Some (e_now e (w_tick w)) \<and>
        w_audit w' = w_audit w @ [ev] \<and> ae_event_type ev = ''DEAD_LETTER'')) \<and>
    ((\<forall>pid. opt_prop v ''payment_id'' = JStr pid \<longrightarrow> payment_row w pid = None) \<longrightarrow> r = Inr (Nack True))"
proof (cases "dlq_apply v e w")
  case (Pair r1 w1)
  have run: "dlq_handle content e w = (case r1 of Inl x \<Rightarrow> (Inr (Nack True), w1) | Inr u \<Rightarrow> (Inr Ack, w1))"
    using assms(1,2) Pair by (simp add: dlq_handle_run split: sum.split)
  show ?thesis
  proof (cases r1)
    case (Inl x)
    with run assms(3) show ?thesis by simp
  next
    case (Inr u)
    with Pair obtain pid p q ev where *: "opt_prop v ''payment_id'' = JStr pid" "payment_row w pid = Some p"
      "q = set_status ''DEAD_LETTER'' (e_now e (w_tick w)) p" "payment_row w1 pid = Some q"
      "w_audit w1 = w_audit w @ [ev]" "ae_event_type ev = ''DEAD_LETTER''"
      using dlq_apply_done by metis
    with Inr run assms(3) show ?thesis by (auto simp: set_status_def)
  qed
qed

lemma dlq_settles_witness:
  "map_option p_status (payment_row (snd (dlq_handle ''{}'' ack_env queued_world)) ''PMT-1'') = Some ''DEAD_LETTER''"
proof -
  have r: "fst (dlq_handle ''{}'' ack_env queued_world) = Inr Ack" by code_simp
  have v: "e_json_parse ack_env ''{}'' = Some sample_ack" "\<not> is_nullish sample_ack"
    by (simp_all add: ack_env_def sample_ack_def is_nullish_def)
  from dlq_settles [OF this, of queued_world "fst (dlq_handle ''{}'' ack_env queued_world)"
      "snd (dlq_handle ''{}'' ack_env queued_world)"] r
  show ?thesis by (auto simp: sample_ack_def prod_eq_iff)
qed

text \<open>A message that keeps failing is published again with its retries counted, then dead-lettered.\<close>

fun failures :: "environment \<Rightarrow> string \<Rightarrow> string \<Rightarrow> string \<Rightarrow> nat \<Rightarrow> amqp_message \<Rightarrow> amqp_message" where
  "failures e dlx error now 0 m = m"
| "failures e dlx error now (Suc k) m = fst (handleFailedMessage e dlx error now (failures e dlx error now k m))"

lemma retry_count_set: "retry_count (m\<lparr>mq_headers := Some (alist_set h ''x-retry-count'' (JNum n))\<rparr>) = JNum n"
  by (simp add: retry_count_def)

lemma failures_counted:
  assumes "retry_count m = JNum (Fin 0)" "k \<le> 3"
  shows "retry_count (failures e dlx error now k m) = JNum (Fin (of_nat k)) \<and>
    mq_exchange (failures e dlx error now k m) = mq_exchange m \<and> mq_key (failures e dlx error now k m) = mq_key m \<and>
    mq_content (failures e dlx error now k m) = mq_content m"
  using assms(2)
proof (induction k)
  case (Suc k)
  let ?m = "failures e dlx error now k m"
  have IH: "retry_count ?m = JNum (Fin (of_nat k))" using Suc by simp
  have "\<not> retries_exhausted (retry_count ?m)"
    using Suc.prems by (simp add: IH retries_exhausted_def DLQ_MAX_RETRIES_def num_le_def num_eq_def)
  moreover have "plus_one (JNum (Fin (of_nat k))) = JNum (Fin (of_nat (Suc k)))"
    using Suc.prems num_of_int [of "int k + 1"] by (simp add: plus_one_def)
  ultimately show ?case using Suc by (simp add: handleFailedMessage_def IH retry_count_set)
qed (use assms(1) in \<open>simp add: retry_count_def\<close>)

text \<open>
  C30: A message without a retry header is published again unchanged, but for the header that
  counts, the first three times it fails; the fourth failure sends it to the dead-letter
  exchange, under a key that reaches the dead-letter queue, with the three retries and the
  error in its body.
\<close>

theorem four_failures_dead_letter:
  assumes "retry_count m = JNum (Fin 0)"
  shows "map (\<lambda>k. let f = failures e EXCHANGE_DLX error now k m in (mq_key f, mq_content f, retry_count f)) [1, 2, 3] =
      map (\<lambda>n. (mq_key m, mq_content m, JNum (Fin n))) [1, 2, 3] \<and>
    (let d = failures e EXCHANGE_DLX error now 4 m in
      queues_of \<lparr>bm_exchange = mq_exchange d, bm_key = mq_key d, bm_body = b\<rparr> = [QUEUE_DLQ] \<and>
      mq_content d = JSON_stringify (dlq_payload
        (case e_json_parse e (mq_content m) of Some v \<Rightarrow> v | None \<Rightarrow> JObj []) (JNum (Fin 3)) error now))"
proof -
  let ?f = "\<lambda>k. failures e EXCHANGE_DLX error now k m"
  note c = failures_counted [OF assms, of _ e EXCHANGE_DLX error now]
  have "retries_exhausted (retry_count (?f 3))"
    using c [of 3] by (simp add: retries_exhausted_def DLQ_MAX_RETRIES_def num_le_def num_eq_def)
  moreover have "?f 4 = fst (handleFailedMessage e EXCHANGE_DLX error now (?f 3))"
    using failures.simps(2) [of e EXCHANGE_DLX error now 3 m] by (simp del: failures.simps)
  ultimately have "?f 4 = \<lparr>mq_exchange = EXCHANGE_DLX, mq_key = ''dlq.failed'', mq_content = JSON_stringify (dlq_payload
        (case e_json_parse e (mq_content m) of Some v \<Rightarrow> v | None \<Rightarrow> JObj []) (JNum (Fin 3)) error now), mq_headers = None\<rparr>"
    using c [of 3] by (simp add: handleFailedMessage_def Let_def del: failures.simps)
  then show ?thesis using c [of 1] c [of 2] c [of 3] dead_letter_queue [of "''failed''" b]
    by (simp add: Let_def del: failures.simps One_nat_def)
qed

definition failing_message :: amqp_message where
  "failing_message = \<lparr>mq_exchange = EXCHANGE_PAYMENTS, mq_key = ROUTE_PIX, mq_content = ''{}'', mq_headers = None\<rparr>"

lemma four_failures_dead_letter_witness:
  "mq_key (failures ack_env EXCHANGE_DLX ''timeout'' ''now'' 3 failing_message) = ROUTE_PIX \<and>
   mq_content (failures ack_env EXCHANGE_DLX ''timeout'' ''now'' 4 failing_message) =
     JSON_stringify (dlq_payload sample_ack (JNum (Fin 3)) ''timeout'' ''now'')"
proof -
  have "retry_count failing_message = JNum (Fin 0)" "mq_key failing_message = ROUTE_PIX"
    by (simp_all add: retry_count_def failing_message_def)
  with four_failures_dead_letter [OF this(1), of ack_env "''timeout''" "''now''"] show ?thesis
    by (simp add: Let_def ack_env_def del: failures.simps One_nat_def)
qed

end
