(* ===== verification/IdempotencyRace.thy ===== *)
theory IdempotencyRace
  imports PaymentsApi "HOL-Library.Multiset"
begin

text \<open>
  Requests with idempotency keys that are served at the same time. Between two awaits of
  \<open>POST /payments\<close> (\<open>src/api/routes/payments.ts\<close>) other requests run: a request is cut into
  the steps that run without interruption on the table of keys, and the system interleaves the
  steps of any number of requests with anything else that leaves that table alone.
\<close>

section \<open>The steps of a request\<close>

record client =
  ct_request :: payment_request
  ct_key :: string
  ct_trace :: string

datatype phase = Start | Absent | Claimed string | Ran string "(string \<times> jsval) list" | Lost | Answered reply | Failed js_error

fun advance :: "client \<Rightarrow> phase \<Rightarrow> phase io" where
  "advance c Start = io_bind (io_env (\<lambda>e. request_hash e (ct_request c))) (\<lambda>hash.
     io_bind (idem_findByKey (ct_key c)) (\<lambda>existing. io_return (case existing of
       Some r \<Rightarrow> Answered (if ir_hash r \<noteq> hash then conflict_reply else repeat_reply (Some r)) | None \<Rightarrow> Absent)))"
| "advance c Absent = io_bind (io_env (\<lambda>e. request_hash e (ct_request c))) (\<lambda>hash.
     io_bind fresh_ulid (\<lambda>u. io_bind date_now (\<lambda>t.
     io_bind (idem_tryInsert (ct_key c) (''PMT-'' @ u) hash t) (\<lambda>claimed.
     io_return (if claimed then Claimed (''PMT-'' @ u) else Lost)))))"
| "advance c (Claimed pid) = io_bind (pipeline_execute (ct_request c)
       \<lparr>cx_idempotencyKey = Some (ct_key c), cx_traceId = Some (ct_trace c), cx_paymentId = Some pid\<rparr>) (\<lambda>res. io_return (Ran pid res))"
| "advance c (Ran pid res) = io_bind (idem_updateResponse (ct_key c) 201 (buildPaymentResponse res)) (\<lambda>_.
     io_return (Answered \<lparr>re_status = 201, re_body = buildPaymentResponse res\<rparr>))"
| "advance c Lost = io_bind (idem_findByKey (ct_key c)) (\<lambda>winner. io_return (Answered (repeat_reply winner)))"
| "advance c (Answered r) = io_return (Answered r)"
| "advance c (Failed x) = io_return (Failed x)"

text \<open>One request alone: its steps one after the other, at most four of them.\<close>

fun serve_alone :: "nat \<Rightarrow> client \<Rightarrow> phase \<Rightarrow> handler" where
  "serve_alone n c (Answered r) = send r"
| "serve_alone 0 c p = io_throw TypeError"
| "serve_alone (Suc n) c p = io_bind (advance c p) (serve_alone n c)"

lemma bind_if: "io_bind (if b then m else n) f = (if b then io_bind m f else io_bind n f)"
  by simp

lemma bind_option: "io_bind (case x of None \<Rightarrow> m | Some a \<Rightarrow> g a) f = (case x of None \<Rightarrow> io_bind m f | Some a \<Rightarrow> io_bind (g a) f)"
  by (cases x) simp_all

lemma bind_env_twice: "io_bind (io_env h) (\<lambda>a. io_bind m (\<lambda>b. io_bind (io_env h) (\<lambda>c. f a b c))) = io_bind (io_env h) (\<lambda>a. io_bind m (\<lambda>b. f a b a))"
  by (auto simp: io_bind_def io_env_def fun_eq_iff split: prod.split sum.split)

lemma claimed_steps:
  "io_bind (advance c (Claimed pid)) (serve_alone (Suc n) c) = create_claimed (ct_request c) (ct_key c) (ct_trace c) pid"
  by (simp add: create_claimed_def io_bind_assoc)

lemma absent_steps:
  "io_bind (advance c Absent) (serve_alone (Suc (Suc n)) c) =
   io_bind (io_env (\<lambda>e. request_hash e (ct_request c))) (\<lambda>hash.
     io_bind fresh_ulid (\<lambda>u. io_bind date_now (\<lambda>t.
     io_bind (idem_tryInsert (ct_key c) (''PMT-'' @ u) hash t) (\<lambda>claimed.
     if claimed then create_claimed (ct_request c) (ct_key c) (ct_trace c) (''PMT-'' @ u)
     else io_bind (idem_findByKey (ct_key c)) (\<lambda>winner. send (repeat_reply winner))))))"
proof -
  have "io_bind (io_return (if b then Claimed pid else Lost)) (serve_alone (Suc (Suc n)) c) =
      (if b then create_claimed (ct_request c) (ct_key c) (ct_trace c) pid
       else io_bind (idem_findByKey (ct_key c)) (\<lambda>winner. send (repeat_reply winner)))" for b pid
    using claimed_steps [of c pid n] by (cases b) (simp_all add: io_bind_assoc)
  then show ?thesis by (simp add: io_bind_assoc del: serve_alone.simps io_bind_return)
qed

lemma start_steps: "serve_alone (Suc (Suc (Suc (Suc n)))) c Start = create_with_key (ct_request c) (ct_key c) (ct_trace c)"
proof -
  let ?rest = "\<lambda>hash. io_bind fresh_ulid (\<lambda>u. io_bind date_now (\<lambda>t.
     io_bind (idem_tryInsert (ct_key c) (''PMT-'' @ u) hash t) (\<lambda>claimed.
     if claimed then create_claimed (ct_request c) (ct_key c) (ct_trace c) (''PMT-'' @ u)
     else io_bind (idem_findByKey (ct_key c)) (\<lambda>winner. send (repeat_reply winner)))))"
  have "serve_alone (Suc (Suc (Suc n))) c (case existing of
       Some r \<Rightarrow> Answered (if ir_hash r \<noteq> hash then conflict_reply else repeat_reply (Some r)) | None \<Rightarrow> Absent) =
     (case existing of Some r \<Rightarrow> send (if ir_hash r \<noteq> hash then conflict_reply else repeat_reply (Some r))
      | None \<Rightarrow> io_bind (io_env (\<lambda>e. request_hash e (ct_request c))) ?rest)" for existing hash
    using absent_steps [of c n] by (cases existing) (simp_all add: send_def)
  then have "serve_alone (Suc (Suc (Suc (Suc n)))) c Start =
     io_bind (io_env (\<lambda>e. request_hash e (ct_request c))) (\<lambda>hash. io_bind (idem_findByKey (ct_key c)) (\<lambda>existing.
       case existing of Some r \<Rightarrow> send (if ir_hash r \<noteq> hash then conflict_reply else repeat_reply (Some r))
       | None \<Rightarrow> io_bind (io_env (\<lambda>e. request_hash e (ct_request c))) ?rest))"
    by (simp add: io_bind_assoc)
  also have "\<dots> = create_with_key (ct_request c) (ct_key c) (ct_trace c)"
    by (auto simp: create_with_key_def fun_eq_iff io_bind_def io_env_def split: prod.split sum.split option.split)
  finally show ?thesis .
qed

section \<open>Many requests at once\<close>

record race =
  rc_world :: world
  rc_phases :: "phase list"
  rc_runs :: "(string \<times> string) list"

definition run_of :: "client \<Rightarrow> phase \<Rightarrow> (string \<times> string) list" where
  "run_of c p = (case p of Claimed pid \<Rightarrow> [(ct_key c, pid)] | _ \<Rightarrow> [])"

definition phase_after :: "js_error + phase \<Rightarrow> phase" where
  "phase_after r = (case r of Inl x \<Rightarrow> Failed x | Inr p \<Rightarrow> p)"

inductive race_step :: "environment \<Rightarrow> client list \<Rightarrow> race \<Rightarrow> race \<Rightarrow> bool" for e cs where
  request: "i < length cs \<Longrightarrow> rc_phases s ! i = p \<Longrightarrow> advance (cs ! i) p e (rc_world s) = (r, w') \<Longrightarrow>
    race_step e cs s \<lparr>rc_world = w', rc_phases = (rc_phases s)[i := phase_after r], rc_runs = rc_runs s @ run_of (cs ! i) p\<rparr>"
| elsewhere: "w_idem w' = w_idem (rc_world s) \<Longrightarrow> race_step e cs s (s\<lparr>rc_world := w'\<rparr>)"

inductive race_reachable :: "environment \<Rightarrow> client list \<Rightarrow> race \<Rightarrow> bool" for e cs where
  start: "race_reachable e cs \<lparr>rc_world = w, rc_phases = replicate (length cs) Start, rc_runs = []\<rparr>"
| step: "race_reachable e cs s \<Longrightarrow> race_step e cs s s' \<Longrightarrow> race_reachable e cs s'"

text \<open>What a claim holds: the record of its key, under its own identifier.\<close>

definition holds :: "world \<Rightarrow> string \<times> string \<Rightarrow> bool" where
  "holds w kp = (snd kp \<noteq> [] \<and> (\<exists>r. idem_row w (fst kp) = Some r \<and> ir_payment_id r = snd kp))"

definition claims :: "client list \<Rightarrow> phase list \<Rightarrow> (string \<times> string) list" where
  "claims cs ps = concat (map (\<lambda>(c, p). run_of c p) (zip cs ps))"

definition race_ok :: "client list \<Rightarrow> race \<Rightarrow> bool" where
  "race_ok cs s = (length (rc_phases s) = length cs \<and> distinct (map fst (rc_runs s @ claims cs (rc_phases s))) \<and>
     list_all (holds (rc_world s)) (rc_runs s @ claims cs (rc_phases s)))"

lemma claims_update:
  assumes "i < length cs" "length ps = length cs"
  shows "mset (claims cs (ps[i := p])) + mset (run_of (cs ! i) (ps ! i)) = mset (claims cs ps) + mset (run_of (cs ! i) p)"
proof -
  define before where "before = concat (map (\<lambda>(c, p). run_of c p) (zip (take i cs) (take i ps)))"
  define after where "after = concat (map (\<lambda>(c, p). run_of c p) (zip (drop (Suc i) cs) (drop (Suc i) ps)))"
  have split: "claims cs (ps[i := q]) = before @ run_of (cs ! i) q @ after" for q
  proof -
    have "cs = take i cs @ cs ! i # drop (Suc i) cs" using assms(1) by (rule id_take_nth_drop)
    moreover have "ps[i := q] = take i ps @ q # drop (Suc i) ps" using assms by (simp add: upd_conv_take_nth_drop)
    ultimately have "zip cs (ps[i := q]) = zip (take i cs @ cs ! i # drop (Suc i) cs) (take i ps @ q # drop (Suc i) ps)" by simp
    also have "\<dots> = zip (take i cs) (take i ps) @ (cs ! i, q) # zip (drop (Suc i) cs) (drop (Suc i) ps)"
      using assms by (subst zip_append) simp_all
    finally show ?thesis by (simp add: claims_def before_def after_def)
  qed
  have "claims cs ps = before @ run_of (cs ! i) (ps ! i) @ after" using split [of "ps ! i"] by simp
  then show ?thesis by (simp add: split [of p] ac_simps)
qed

text \<open>
  The effect of one step on the claims: what it keeps stays claimed, and a new claim is of a key
  that had no record.
\<close>

lemma holds_unchanged: "w_idem w' = w_idem w \<Longrightarrow> holds w' = holds w"
  by (simp add: fun_eq_iff holds_def idem_row_def)

lemma find_step: "io_keeps (\<lambda>w w'. w_idem w' = w_idem w) (idem_findByKey k)"
  by (simp add: io_keeps_def findByKey_run)

lemma execute_step:
  assumes "pid \<noteq> []" "pipeline_execute req \<lparr>cx_idempotencyKey = k, cx_traceId = t, cx_paymentId = Some pid\<rparr> e w = (r, w')"
  shows "w_idem w' = w_idem w"
proof -
  obtain t2 n where "pipeline_run req k pid t2 n e (tick w) = (r, w') \<or> pipeline_run req k pid t2 n e (tick (tick w)) = (r, w')"
    using assms by (cases t) (auto simp: pipeline_execute_def io_run)
  then show ?thesis
    using io_keepsD [OF pipeline_run_scope [OF assms(1)]] by (fastforce simp: payment_scope_def same_config_def)
qed

lemma response_step:
  "idem_updateResponse k st b e w = (r, w') \<Longrightarrow> holds w kp \<Longrightarrow> holds w' kp"
  by (auto simp: idem_updateResponse_def db_query_def holds_def idem_row_def rows_find_modify split: if_splits)

lemma claim_step:
  assumes "idem_tryInsert k pid h t e w = (r, w')" "pid \<noteq> []"
  shows "(holds w kp \<longrightarrow> holds w' kp) \<and> (r = Inr True \<longrightarrow> idem_row w k = None \<and> holds w' (k, pid))"
  using assms by (auto simp: tryInsert_run holds_def idem_row_def rows_find_add split: if_splits option.splits)

text \<open>The steps that only read the table of keys.\<close>

lemma reading_step:
  assumes "advance c p e w = (r, w')" "p = Start \<or> p = Lost \<or> p = Answered a \<or> p = Failed x"
  shows "holds w' = holds w \<and> run_of c (phase_after r) = []"
proof -
  consider "p = Start" | "p = Lost" | "p = Answered a" | "p = Failed x" using assms(2) by blast
  then have "w_idem w' = w_idem w \<and> run_of c (phase_after r) = []"
    by cases (use assms(1) in \<open>auto simp: io_run idem_binds phase_after_def run_of_def split: if_splits option.split\<close>)
  then show ?thesis by (blast intro: holds_unchanged)
qed

lemma advance_idem:
  assumes "advance c p e w = (r, w')" "list_all (holds w) (run_of c p)"
  shows "(\<forall>kp. holds w kp \<longrightarrow> holds w' kp) \<and>
    (\<forall>kp \<in> set (run_of c (phase_after r)). fst kp = ct_key c \<and> idem_row w (fst kp) = None \<and> holds w' kp) \<and>
    length (run_of c (phase_after r)) \<le> 1 \<and> (run_of c p \<noteq> [] \<longrightarrow> run_of c (phase_after r) = [])"
proof (cases p)
  case Absent
  let ?pid = "''PMT-'' @ e_ulid e (w_tick w)"
  obtain q w1 where q: "idem_tryInsert (ct_key c) ?pid (request_hash e (ct_request c)) (e_now e (w_tick w + 1)) e (tick (tick w)) = (q, w1)"
    by fastforce
  have t: "holds (tick (tick w)) kp = holds w kp" "idem_row (tick (tick w)) k = idem_row w k" for kp k
    by (simp_all add: holds_def idem_row_def)
  have "advance c phase.Absent e w = (case q of Inl x \<Rightarrow> (Inl x, w1) | Inr b \<Rightarrow> (Inr (if b then Claimed ?pid else Lost), w1))"
    using q by (simp add: io_run io_bind_def [of "idem_tryInsert k i h n" for k i h n] io_return_def split: sum.split)
  then have w': "w' = w1" and p: "run_of c (phase_after r) = (if q = Inr True then [(ct_key c, ?pid)] else [])"
    using assms(1) Absent by (auto simp: phase_after_def run_of_def simp del: advance.simps split: sum.splits if_splits)
  have keeps: "holds w kp \<longrightarrow> holds w' kp" for kp using claim_step(1) [OF q, of kp] by (simp add: t w')
  have new: "q = Inr True \<longrightarrow> idem_row w (ct_key c) = None \<and> holds w' (ct_key c, ?pid)"
    using claim_step [OF q] by (simp add: t w')
  have "run_of c p = []" using Absent by (simp add: run_of_def)
  then show ?thesis using keeps new by (simp add: p)
next
  case (Claimed pid)
  with assms(2) have "pid \<noteq> []" by (simp add: run_of_def holds_def)
  with Claimed assms(1) have "holds w' = holds w"
    by (intro holds_unchanged) (auto simp: io_bind_def io_return_def split: prod.splits sum.splits dest: execute_step)
  moreover have "run_of c (phase_after r) = []"
    using Claimed assms(1) by (auto simp: io_bind_def io_return_def phase_after_def run_of_def split: prod.splits sum.splits)
  ultimately show ?thesis by simp
next
  case (Ran pid res)
  with assms(1) show ?thesis
    by (auto simp: io_bind_def io_return_def phase_after_def run_of_def split: prod.splits sum.splits dest: response_step)
next
  case Start
  with reading_step [OF assms(1)] show ?thesis by simp
next
  case Lost
  with reading_step [OF assms(1)] show ?thesis by simp
next
  case (Answered a)
  with reading_step [OF assms(1)] show ?thesis by simp
next
  case (Failed x)
  with reading_step [OF assms(1)] show ?thesis by simp
qed

lemma fresh_key: "list_all (holds w) xs \<Longrightarrow> idem_row w k = None \<Longrightarrow> k \<notin> fst ` set xs"
  by (auto simp: list_all_iff holds_def)

lemma race_ok_step:
  assumes "race_ok cs s" "race_step e cs s s'"
  shows "race_ok cs s'"
  using assms(2)
proof (cases rule: race_step.cases)
  case (elsewhere w')
  then show ?thesis using assms(1) holds_unchanged [of w' "rc_world s"] by (simp add: race_ok_def)
next
  case (request i p r w')
  let ?c = "cs ! i" and ?ps = "(rc_phases s)[i := phase_after r]"
  let ?old = "rc_runs s @ claims cs (rc_phases s)" and ?new = "run_of (cs ! i) (phase_after r)"
  have l: "length (rc_phases s) = length cs" and d: "distinct (map fst ?old)" and h: "list_all (holds (rc_world s)) ?old"
    using assms(1) by (simp_all add: race_ok_def)
  have m: "mset ((rc_runs s @ run_of ?c p) @ claims cs ?ps) = mset (?old @ ?new)"
    using claims_update [OF request(2) l, of "phase_after r"] request(3) by (simp add: ac_simps)
  have "(?c, p) \<in> set (zip cs (rc_phases s))" using request(2,3) l by (auto simp: in_set_zip)
  then have "list_all (holds (rc_world s)) (run_of ?c p)" using h by (fastforce simp: claims_def list_all_iff)
  note step = advance_idem [OF request(4) this]
  have len: "?new = [] \<or> (\<exists>kp. ?new = [kp])" using step by (cases ?new) auto
  have all: "list_all (holds w') (?old @ ?new)" using step h by (auto simp: list_all_iff)
  have "distinct (map fst (?old @ ?new))"
  proof (cases "?new = []")
    case False
    with len obtain kp where kp: "?new = [kp]" by blast
    with step have "idem_row (rc_world s) (fst kp) = None" by auto
    from fresh_key [OF h this] kp d show ?thesis by auto
  qed (use d in simp)
  moreover have "mset (map fst ((rc_runs s @ run_of ?c p) @ claims cs ?ps)) = mset (map fst (?old @ ?new))"
    using m by (simp only: mset_map)
  ultimately have dist: "distinct (map fst ((rc_runs s @ run_of ?c p) @ claims cs ?ps))"
    using mset_eq_imp_distinct_iff by blast
  have hold: "list_all (holds w') ((rc_runs s @ run_of ?c p) @ claims cs ?ps)"
    using all mset_eq_setD [OF m] unfolding list_all_iff by blast
  show ?thesis unfolding race_ok_def request(1) using l dist hold by simp
qed

lemma race_reachable_ok: "race_reachable e cs s \<Longrightarrow> race_ok cs s"
proof (induction rule: race_reachable.induct)
  case (start w)
  have "claims cs (replicate (length cs) Start) = []"
    by (auto simp: claims_def run_of_def set_zip)
  then show ?case by (simp add: race_ok_def)
qed (rule race_ok_step)

section \<open>Properties\<close>

text \<open>
  C5: However requests with idempotency keys interleave, with each other and with whatever else
  changes the other tables, the pipeline runs at most once for a key, and its run is the one of
  the payment that the record of the key names.
\<close>

theorem one_run_per_key:
  assumes "race_reachable e cs s"
  shows "distinct (map fst (rc_runs s)) \<and>
    (\<forall>(k, pid) \<in> set (rc_runs s). \<exists>r. idem_row (rc_world s) k = Some r \<and> ir_payment_id r = pid)"
proof (intro conjI ballI)
  show "distinct (map fst (rc_runs s))" using race_reachable_ok [OF assms] by (simp add: race_ok_def)
next
  fix kp assume "kp \<in> set (rc_runs s)"
  then have "holds (rc_world s) kp" using race_reachable_ok [OF assms] by (simp add: race_ok_def list_all_iff)
  then show "case kp of (k, pid) \<Rightarrow> \<exists>r. idem_row (rc_world s) k = Some r \<and> ir_payment_id r = pid"
    by (cases kp) (simp add: holds_def)
qed


text \<open>Two requests with one key: both look it up before either claims it, and only the second one claims it.\<close>

definition race_request :: payment_request where
  "race_request = \<lparr>rq_amount = Fin 100, rq_currency = ''BRL'', rq_debtor = \<lparr>rp_alias = ''PIX-ana'', rp_name = None\<rparr>,
     rq_creditor = \<lparr>rp_alias = ''SPEI-646180110400000007'', rp_name = None\<rparr>, rq_purpose = ''P2P'', rq_reference = ''R''\<rparr>"

definition racers :: "client list" where
  "racers = [\<lparr>ct_request = race_request, ct_key = ''k'', ct_trace = ''T1''\<rparr>, \<lparr>ct_request = race_request, ct_key = ''k'', ct_trace = ''T2''\<rparr>]"

definition race_move :: "nat \<Rightarrow> race \<Rightarrow> race" where
  "race_move i s = (case advance (racers ! i) (rc_phases s ! i) sample_env (rc_world s) of (r, w') \<Rightarrow>
     \<lparr>rc_world = w', rc_phases = (rc_phases s)[i := phase_after r], rc_runs = rc_runs s @ run_of (racers ! i) (rc_phases s ! i)\<rparr>)"

lemma race_moved: "race_reachable sample_env racers s \<Longrightarrow> i < 2 \<Longrightarrow> race_reachable sample_env racers (race_move i s)"
  unfolding race_move_def by (rule race_reachable.step, assumption) (auto simp: racers_def intro: race_step.request split: prod.split)

definition raced :: race where
  "raced = race_move 0 (race_move 1 (race_move 1 (race_move 0 \<lparr>rc_world = sample_world, rc_phases = [Start, Start], rc_runs = []\<rparr>)))"

lemma raced_reachable: "race_reachable sample_env racers raced"
proof -
  have "race_reachable sample_env racers \<lparr>rc_world = sample_world, rc_phases = replicate (length racers) Start, rc_runs = []\<rparr>"
    by (rule race_reachable.start)
  then have "race_reachable sample_env racers \<lparr>rc_world = sample_world, rc_phases = [Start, Start], rc_runs = []\<rparr>"
    by (simp add: racers_def)
  then show ?thesis unfolding raced_def by (intro race_moved) simp_all
qed

lemma one_run_per_key_witness: "distinct (map fst (rc_runs (race_move 1 raced)))"
  using one_run_per_key [OF race_moved [OF raced_reachable, of 1]] by simp

lemma the_first_lost: "rc_phases raced = [Lost, Claimed ''PMT-01ARZ3NDEKTSV4RRFFQ2'']"
  by code_simp

end
