(* ===== verification/System.thy ===== *)
theory System
  imports Server Consumers IdempotencyRace
begin

text \<open>
  The whole service of \<open>src/index.ts\<close>: requests, acknowledgements, dead letters and the periodic
  reconciliation, in any order. What every operation keeps is a relation between the tables
  before and after (\<open>service\<close>), proved operation by operation with the rules of
  \<open>io_relation\<close>; the rows of the payments keep the shape \<open>row_ok\<close>.
\<close>

section \<open>The shape of a payment\<close>

text \<open>A status is one of the enumeration, and what it stands for has been recorded.\<close>

fun has_record :: "payment_status \<Rightarrow> payment \<Rightarrow> bool" where
  "has_record VALIDATED p = (p_validated_at p \<noteq> None)"
| "has_record CANONICALIZED p = (p_canonicalized_at p \<noteq> None \<and> p_canonical p \<noteq> None)"
| "has_record ROUTED p = (p_routed_at p \<noteq> None \<and> p_destination_rail p \<noteq> None \<and> p_rule p \<noteq> None)"
| "has_record QUEUED p = (p_queued_at p \<noteq> None)"
| "has_record COMPLETED p = (p_completed_at p \<noteq> None \<and> p_rail_ack p \<noteq> None)"
| "has_record REJECTED p = (p_rail_ack p \<noteq> None)"
| "has_record FAILED p = (p_failed_at p \<noteq> None \<or> p_rail_ack p \<noteq> None)"
| "has_record DEAD_LETTER p = (p_dead_letter_at p \<noteq> None)"
| "has_record COMPENSATED p = (p_compensated_at p \<noteq> None)"
| "has_record _ p = True"

definition row_ok :: "payment \<Rightarrow> bool" where
  "row_ok p = ((\<exists>s. p_status p = status_code s \<and> has_record s p) \<and> (p_rail_ack p = None \<or> p_acked_at p \<noteq> None))"

definition rows_ok :: "world \<Rightarrow> bool" where
  "rows_ok w = list_all row_ok (w_payments w)"

text \<open>What was ordered: the columns of a payment that its processing does not write.\<close>

definition instruction :: "payment \<Rightarrow> payment" where
  "instruction p = p\<lparr>p_status := [], p_destination_rail := None, p_canonical := None, p_translated := None,
     p_rail_ack := None, p_rule := None, p_validated_at := None, p_canonicalized_at := None, p_routed_at := None,
     p_queued_at := None, p_sent_at := None, p_acked_at := None, p_completed_at := None, p_failed_at := None,
     p_compensated_at := None, p_dead_letter_at := None, p_updated_at := None\<rparr>"

definition instructions :: "world \<Rightarrow> payment list" where
  "instructions w = map instruction (w_payments w)"

text \<open>A key stays with the payment and the request it was claimed for.\<close>

definition keys_kept :: "world \<Rightarrow> world \<Rightarrow> bool" where
  "keys_kept w w' = (\<forall>k r. idem_row w k = Some r \<longrightarrow>
     (\<exists>q. idem_row w' k = Some q \<and> ir_payment_id q = ir_payment_id r \<and> ir_hash q = ir_hash r))"

definition service :: "world \<Rightarrow> world \<Rightarrow> bool" where
  "service w w' = ((rows_ok w \<longrightarrow> rows_ok w') \<and> appends instructions w w' \<and> appends w_audit w w' \<and>
     appends w_bus w w' \<and> keys_kept w w' \<and> w_rules w' = w_rules w \<and> w_mappings w' = w_mappings w)"

lemma keys_kept_refl: "w_idem w' = w_idem w \<Longrightarrow> keys_kept w w'"
  by (auto simp: keys_kept_def idem_row_def)

lemma keys_kept_trans: "keys_kept u v \<Longrightarrow> keys_kept v w \<Longrightarrow> keys_kept u w"
  unfolding keys_kept_def by metis

lemma appends_trans: "appends f u v \<Longrightarrow> appends f v w \<Longrightarrow> appends f u w"
  unfolding appends_def by (metis append_assoc)

lemma appends_refl: "f w' = f w \<Longrightarrow> appends f w w'"
  by (simp add: appends_def)

interpretation service: io_relation service
proof
  show "service w w" for w by (simp add: service_def keys_kept_refl appends_refl)
  show "service u v \<Longrightarrow> service v w \<Longrightarrow> service u w" for u v w
    unfolding service_def using appends_trans keys_kept_trans by metis
  show "service w (tick w)" for w by (simp add: service_def rows_ok_def instructions_def keys_kept_refl appends_refl)
qed

lemmas service_rules [io_frame] = service.rules

lemma quiet_service: "io_keeps quiet m \<Longrightarrow> io_keeps service m"
  by (simp add: io_keeps_def quiet_def service_def rows_ok_def instructions_def keys_kept_refl appends_refl)

lemma service_unchanged:
  "w_payments w' = w_payments w \<Longrightarrow> w_idem w' = w_idem w \<Longrightarrow> w_audit w' = w_audit w \<Longrightarrow> w_bus w' = w_bus w \<Longrightarrow>
   w_rules w' = w_rules w \<Longrightarrow> w_mappings w' = w_mappings w \<Longrightarrow> service w w'"
  by (simp add: service_def rows_ok_def instructions_def keys_kept_refl appends_refl)

section \<open>The operations on the tables\<close>

lemma payment_update_service:
  assumes "\<And>n p. row_ok p \<Longrightarrow> row_ok (f n p)" "\<And>n p. instruction (f n p) = instruction p"
  shows "io_keeps service (payment_update i f)"
proof -
  have "service w (w\<lparr>w_payments := rows_modify p_id i (f n) (w_payments w)\<rparr>)" for n w
    using assms by (auto simp: service_def rows_ok_def instructions_def rows_modify_def list_all_iff keys_kept_refl appends_refl
        intro!: appends_refl)
  then show ?thesis unfolding payment_update_def Let_def by (intro io_frame service.query) simp
qed

lemma set_status_ok:
  assumes "row_ok p" "s \<notin> {COMPLETED, REJECTED, CANONICALIZED, ROUTED}"
  shows "row_ok (set_status (status_code s) n p)"
proof -
  have "has_record s (set_status (status_code s) n p)" using assms(2) by (cases s) (simp_all add: set_status_def)
  moreover have "p_status (set_status (status_code s) n p) = status_code s" "p_rail_ack (set_status (status_code s) n p) = p_rail_ack p"
    "p_acked_at (set_status (status_code s) n p) = p_acked_at p" by (simp_all add: set_status_def)
  ultimately show ?thesis using assms(1) unfolding row_ok_def by metis
qed

lemma set_rail_ack_ok:
  assumes "s \<in> {COMPLETED, REJECTED, FAILED}"
  shows "row_ok (set_rail_ack a (status_code s) n p)"
proof -
  have "has_record s (set_rail_ack a (status_code s) n p)" using assms by (cases s) (simp_all add: set_rail_ack_def)
  then show ?thesis unfolding row_ok_def by (intro conjI exI [of _ s]) (simp_all add: set_rail_ack_def)
qed

lemma has_record_translated: "has_record s (set_translated t n p) = has_record s p"
  by (cases s) (simp_all add: set_translated_def)

lemma set_others_ok:
  "row_ok (set_route d rule (status_code ROUTED) n p)" if "row_ok p" for p
proof -
  have "has_record ROUTED (set_route d rule (status_code ROUTED) n p)" by (simp add: set_route_def)
  then show ?thesis using that unfolding row_ok_def by (intro conjI exI [of _ ROUTED]) (auto simp: set_route_def)
qed

lemma set_canonical_ok: "row_ok p \<Longrightarrow> row_ok (set_canonical c (status_code CANONICALIZED) n p)"
  unfolding row_ok_def by (intro conjI exI [of _ CANONICALIZED]) (auto simp: set_canonical_def)

lemma set_translated_ok: "row_ok p \<Longrightarrow> row_ok (set_translated t n p)"
  unfolding row_ok_def by (auto simp: has_record_translated) (auto simp: set_translated_def)

lemma instruction_kept:
  "instruction (set_status s n p) = instruction p" "instruction (set_canonical c s n p) = instruction p"
  "instruction (set_route d rule s n p) = instruction p" "instruction (set_translated t n p) = instruction p"
  "instruction (set_rail_ack a s n p) = instruction p"
  by (simp_all add: instruction_def set_status_def set_canonical_def set_route_def set_translated_def set_rail_ack_def)

lemma payment_updates_service [io_frame]:
  "s \<notin> {COMPLETED, REJECTED, CANONICALIZED, ROUTED} \<Longrightarrow> io_keeps service (payment_updateStatus i (status_code s))"
  "io_keeps service (payment_updateCanonical i c (status_code CANONICALIZED))"
  "io_keeps service (payment_updateRoute i d rule (status_code ROUTED))"
  "io_keeps service (payment_updateTranslated i t)"
  "q \<in> {COMPLETED, REJECTED, FAILED} \<Longrightarrow> io_keeps service (payment_updateRailAck i a (status_code q))"
  unfolding payment_updateStatus_def payment_updateCanonical_def payment_updateRoute_def
    payment_updateTranslated_def payment_updateRailAck_def
  by (intro io_frame payment_update_service set_status_ok set_canonical_ok set_others_ok set_translated_ok set_rail_ack_ok instruction_kept; assumption)+

lemma payment_create_service [io_frame]:
  assumes "np_status np = Some (status_code RECEIVED)"
  shows "io_keeps service (payment_create np)"
proof -
  have "row_ok (payment_insert i created np)" for i created
    unfolding row_ok_def by (intro conjI exI [of _ RECEIVED]) (simp_all add: payment_insert_def assms str_or_def)
  then show ?thesis
    unfolding payment_create_def Let_def
    by (intro io_frame service.query) (simp add: service_def rows_ok_def instructions_def keys_kept_refl appends_def)
qed

lemma reads_service [io_frame]:
  "io_keeps service (payment_findById i)" "io_keeps service (payment_findRecent n st r)"
  "io_keeps service (payment_findByStatuses ss n)" "io_keeps service (payment_findSince t)"
  "io_keeps service (audit_findByPaymentId i)" "io_keeps service (idem_findByKey k)"
  "io_keeps service (webhook_findByPaymentId i)" "io_keeps service (webhook_create i url events secret)"
  unfolding payment_findById_def payment_findRecent_def payment_findByStatuses_def payment_findSince_def
    audit_findByPaymentId_def idem_findByKey_def webhook_findByPaymentId_def webhook_create_def
  by (unfold Let_def) (intro io_frame service.query; simp add: service_unchanged)+

lemma audit_insert_service [io_frame]: "io_keeps service (audit_insert i ev actor detail trace)"
  unfolding audit_insert_def
  by (intro io_frame service.query) (simp add: service_def rows_ok_def instructions_def keys_kept_refl appends_def)

lemma audit_logs_service [io_frame]:
  "io_keeps service (audit_log i ev actor detail trace)"
  "io_keeps service (service_logRoutingDecision i d rule actor trace)"
  "io_keeps service (service_logError i ev err actor trace)"
  unfolding audit_service_defs audit_logRoutingDecision_def audit_logError_def now_iso_def
  by (intro io_frame)+

lemma keys_service [io_frame]:
  "io_keeps service (idem_tryInsert k pid h t)" "io_keeps service (idem_updateResponse k st b)"
proof -
  have "keys_kept w (w\<lparr>w_idem := w_idem w @ [r]\<rparr>)" for w r
    by (auto simp: keys_kept_def idem_row_def rows_find_add)
  then have 1: "service w (w\<lparr>w_idem := w_idem w @ [r]\<rparr>)" for w r by (simp add: service_def rows_ok_def instructions_def appends_refl)
  show "io_keeps service (idem_tryInsert k pid h t)"
    unfolding idem_tryInsert_def idem_insert_row_def
    by (intro io_frame service.query) (auto simp: 1 service.refl split: option.split)
  have "keys_kept w (w\<lparr>w_idem := rows_modify ir_key k (\<lambda>r. r\<lparr>ir_status := Some st, ir_body := Some b\<rparr>) (w_idem w)\<rparr>)" for w
    by (auto simp: keys_kept_def idem_row_def rows_find_modify)
  then show "io_keeps service (idem_updateResponse k st b)"
    unfolding idem_updateResponse_def
    by (intro service.query) (simp add: service_def rows_ok_def instructions_def appends_refl)
qed

lemma sends_service [io_frame]:
  "io_keeps service (publishToAdapter r msg)" "io_keeps service (broadcastPaymentEvent ev)" "io_keeps service (send rep)"
  "io_keeps service (fireForPayment p)"
proof -
  show "io_keeps service (publishToAdapter r msg)"
    unfolding publishToAdapter_def channel_publish_def
    by (intro io_frame service.query) (simp add: service_def rows_ok_def instructions_def keys_kept_refl appends_def)
  show "io_keeps service (broadcastPaymentEvent ev)"
    unfolding broadcastPaymentEvent_def by (intro service.modify) (simp add: service_unchanged)
  show "io_keeps service (send rep)" unfolding send_def by (intro io_frame)
  show "io_keeps service (fireForPayment p)"
    using fire_scope [of p] by (auto simp: io_keeps_def webhook_scope_def intro: service_unchanged)
qed

section \<open>The operations of the components\<close>

lemmas quiet_calls_service = translator_quiet [THEN quiet_service] normalize_quiet [THEN quiet_service]
  resolve_quiet [THEN quiet_service] now_iso_quiet [THEN quiet_service] translate_routes_quiet [THEN quiet_service]

lemma failed_not_special: "FAILED \<notin> {COMPLETED, REJECTED, CANONICALIZED, ROUTED}" "VALIDATED \<notin> {COMPLETED, REJECTED, CANONICALIZED, ROUTED}"
  "QUEUED \<notin> {COMPLETED, REJECTED, CANONICALIZED, ROUTED}" "COMPENSATING \<notin> {COMPLETED, REJECTED, CANONICALIZED, ROUTED}"
  "COMPENSATED \<notin> {COMPLETED, REJECTED, CANONICALIZED, ROUTED}" "DEAD_LETTER \<notin> {COMPLETED, REJECTED, CANONICALIZED, ROUTED}"
  by simp_all

lemma pipeline_service [io_frame]: "io_keeps service (pipeline_run req key pid trace t)" "io_keeps service (pipeline_execute req cx)"
proof -
  show run: "io_keeps service (pipeline_run req key pid trace t)" for req key pid trace t
    unfolding pipeline_run_def pipeline_intake_def pipeline_dispatch_def pipeline_failed_def
    by (intro io_frame quiet_calls_service failed_not_special; simp add: pipeline_row_def)
  show "io_keeps service (pipeline_execute req cx)"
    unfolding pipeline_execute_def by (intro io_frame run)
qed

lemma z_parse_service [io_frame]: "(\<And>a. io_keeps service (k a)) \<Longrightarrow> io_keeps service (z_parse s v k)"
  unfolding z_parse_def by (auto intro!: io_frame split: sum.split)

lemma routes_service [io_frame]:
  "io_keeps service (create_payment key trace body)"
  "io_keeps service (list_payments limit status r)"
  "io_keeps service (get_payment i)"
  "io_keeps service (register_webhook i body)"
  "io_keeps service (list_webhooks i)"
  unfolding create_payment_def create_with_key_def create_claimed_def list_payments_def get_payment_def
    register_webhook_def list_webhooks_def with_payment_def
  by (intro io_frame)+

lemma compensation_service [io_frame]: "io_keeps service (compensate i)" "io_keeps service (compensateBatch n)"
proof -
  show c: "io_keeps service (compensate i)" for i
    unfolding compensate_def compensate_found_def compensate_try_def compensation_log_def
    by (intro io_frame quiet_calls_service failed_not_special)
  have "io_keeps service (compensate_each ps s f)" for ps s f
    by (induction ps s f rule: compensate_each.induct) (auto intro!: io_frame c)
  then show "io_keeps service (compensateBatch n)"
    unfolding compensateBatch_def by (auto intro!: io_frame split: prod.split)
qed

lemma consumers_service [io_frame]: "io_keeps service (ack_handle hooked content)" "io_keeps service (dlq_handle content)"
proof -
  have "final_status v \<in> {COMPLETED, REJECTED, FAILED}" for v by (simp add: final_status_def)
  then show "io_keeps service (ack_handle hooked content)"
    unfolding ack_handle_def ack_apply_def Let_def
    by (intro io_frame) auto
  show "io_keeps service (dlq_handle content)"
    unfolding dlq_handle_def dlq_apply_def by (intro io_frame failed_not_special)
qed

lemma reconciliation_service [io_frame]: "io_keeps service (runReconciliation opts)"
  unfolding runReconciliation_def Let_def by (intro io_frame quiet_calls_service)

lemma reports_service [io_frame]:
  "io_keeps service (summary_route reg l)" "io_keeps service (limits_route l)"
  "io_keeps service (latency_route metric)" "io_keeps service (breakers_route reg)"
proof -
  have "io_keeps service (limiter_report l)" for l unfolding limiter_report_def
    by (auto intro!: io_frame split: prod.split)
  moreover have "io_keeps service summary_counts" unfolding summary_counts_def
    by (intro io_frame service.query) (simp_all add: service.refl)
  ultimately show "io_keeps service (summary_route reg l)" "io_keeps service (limits_route l)"
    unfolding summary_route_def limits_route_def
    by (auto intro!: io_frame quiet_calls_service split: prod.split)
  show "io_keeps service (latency_route metric)" "io_keeps service (breakers_route reg)"
    unfolding latency_route_def breakers_route_def by (intro io_frame quiet_calls_service)+
qed

lemma keeps_limiter_service [io_frame]: "io_keeps service h \<Longrightarrow> io_keeps service (keeps_limiter p h)"
  unfolding keeps_limiter_def by (intro io_frame)

lemma endpoint_service: "io_keeps service (endpoint_handler p r trace body)"
  by (cases r) (auto intro!: io_frame quiet_calls_service split: prod.split
      simp: health_route_def token_route_def rails_route_def reconciliation_route_def compensate_route_def compensate_batch_route_def)

section \<open>The running service\<close>

text \<open>The reconciliation of the timer: its report is only logged, and so is its error.\<close>

definition periodic_reconciliation :: "unit io" where
  "periodic_reconciliation = io_try
     (io_bind (runReconciliation (recon_opts (Some (Fin 1)) (Some (Fin 15)))) (\<lambda>_. io_return ()))
     (\<lambda>_. io_return ())"

text \<open>
  The topology, declared at the start and again after every reconnection: the broker keeps the
  bindings it has.
\<close>

definition bind_queue :: "binding list \<Rightarrow> binding \<Rightarrow> binding list" where
  "bind_queue bs b = (if b \<in> set bs then bs else bs @ [b])"

definition setupRabbitMQTopology :: "binding list \<Rightarrow> binding list" where
  "setupRabbitMQTopology bs = foldl bind_queue bs
    [\<lparr>bd_queue = QUEUE_ACK, bd_exchange = EXCHANGE_PAYMENTS, bd_key = ACK_PIX\<rparr>,
     \<lparr>bd_queue = QUEUE_ACK, bd_exchange = EXCHANGE_PAYMENTS, bd_key = ACK_SPEI\<rparr>,
     \<lparr>bd_queue = QUEUE_ACK, bd_exchange = EXCHANGE_PAYMENTS, bd_key = ACK_BREB\<rparr>,
     \<lparr>bd_queue = QUEUE_DLQ, bd_exchange = EXCHANGE_DLX, bd_key = DLQ_KEY\<rparr>]"

lemma bind_queue_set: "set (foldl bind_queue bs xs) = set bs \<union> set xs"
  by (induction xs arbitrary: bs) (auto simp: bind_queue_def)

lemma bind_queue_known: "set xs \<subseteq> set bs \<Longrightarrow> foldl bind_queue bs xs = bs"
  by (induction xs) (auto simp: bind_queue_def)

text \<open>The start declares the topology of \<open>Messaging\<close>, and a reconnection changes nothing.\<close>

lemma topology_declared: "setupRabbitMQTopology [] = topology" "setupRabbitMQTopology (setupRabbitMQTopology bs) = setupRabbitMQTopology bs"
proof -
  show "setupRabbitMQTopology [] = topology"
    by (simp add: setupRabbitMQTopology_def topology_def bind_queue_def EXCHANGE_PAYMENTS_def EXCHANGE_DLX_def
        ACK_PIX_def ACK_SPEI_def ACK_BREB_def DLQ_KEY_def QUEUE_DLQ_def QUEUE_ACK_def)
  show "setupRabbitMQTopology (setupRabbitMQTopology bs) = setupRabbitMQTopology bs"
    unfolding setupRabbitMQTopology_def by (rule bind_queue_known) (simp only: bind_queue_set Un_upper2)
qed

datatype happening =
    Requested http_request
  | Acknowledged string
  | DeadLettered string
  | TimerFired

datatype outcome =
    Replied reply
  | Settled "js_error + settlement"
  | Checked

definition on_tables :: "'a io \<Rightarrow> environment \<Rightarrow> server \<Rightarrow> (js_error + 'a) \<times> server" where
  "on_tables m e s = (case m e (sv_world s) of (r, w) \<Rightarrow> (r, s\<lparr>sv_world := w\<rparr>))"

fun happens :: "http_limits \<Rightarrow> environment \<Rightarrow> happening \<Rightarrow> server \<Rightarrow> outcome \<times> server" where
  "happens limits e (Requested q) s = map_prod Replied id (serve_request limits q e s)"
| "happens limits e (Acknowledged content) s = map_prod Settled id (on_tables (ack_handle True content) e s)"
| "happens limits e (DeadLettered content) s = map_prod Settled id (on_tables (dlq_handle content) e s)"
| "happens limits e TimerFired s = map_prod (\<lambda>_. Checked) id (on_tables periodic_reconciliation e s)"

fun run_service :: "http_limits \<Rightarrow> (environment \<times> happening) list \<Rightarrow> server \<Rightarrow> outcome list \<times> server" where
  "run_service limits [] s = ([], s)"
| "run_service limits ((e, h) # hs) s = (let (o1, s1) = happens limits e h s; (os, s2) = run_service limits hs s1 in (o1 # os, s2))"

lemma quiet_relation: "quiet w w' \<Longrightarrow> service w w'"
  by (simp add: quiet_def service_unchanged)

lemma run_endpoint_service: "service (sv_world s) (sv_world (snd (run_endpoint q trace e s)))"
  using io_keepsD [OF endpoint_service [of "sv_process s" "hq_endpoint q" trace "hq_body q"]]
  by (auto simp: run_endpoint_def split: prod.split sum.split)

lemma serve_request_service: "service (sv_world s) (sv_world (snd (serve_request limits q e s)))"
proof -
  obtain trace n where *: "serve_request limits q e s =
     (let s1 = s\<lparr>sv_world := (sv_world s)\<lparr>w_tick := n\<rparr>, sv_windows := snd (limit_request limits (hq_url q)
          (client_key (hq_ip q) (hq_forwarded q)) (e_now e (w_tick (sv_world s))) (sv_windows s))\<rparr> in
      case refused_by_hooks limits q e s of Some r \<Rightarrow> (r, s1) | None \<Rightarrow> run_endpoint q trace e s1)"
    using serve_request_cases by blast
  have "service (sv_world s) ((sv_world s)\<lparr>w_tick := n\<rparr>)" by (rule quiet_relation [OF quiet_tick_to(1)])
  then show ?thesis
    by (auto simp: * Let_def split: option.split intro: service.trans [OF _ run_endpoint_service])
qed

lemma on_tables_service: "io_keeps service m \<Longrightarrow> service (sv_world s) (sv_world (snd (on_tables m e s)))"
  by (auto simp: on_tables_def dest: io_keepsD split: prod.split)

lemma happens_service: "service (sv_world s) (sv_world (snd (happens limits e h s)))"
proof (cases h)
  case (Requested q)
  then show ?thesis by (simp add: serve_request_service)
next
  case TimerFired
  have "io_keeps service periodic_reconciliation" unfolding periodic_reconciliation_def by (intro io_frame)
  with TimerFired show ?thesis by (simp add: on_tables_service)
qed (simp_all add: on_tables_service consumers_service)

lemma run_service_service: "service (sv_world s) (sv_world (snd (run_service limits hs s)))"
proof (induction limits hs s rule: run_service.induct)
  case (2 limits e h hs s)
  show ?case
    using happens_service [of s limits e h] 2 by (auto simp: Let_def split: prod.split intro: service.trans)
qed (simp add: service.refl)

section \<open>Properties\<close>

text \<open>
  C2: Whatever requests, acknowledgements, dead letters and reconciliations the service meets, in
  whatever order, with whatever contents and whatever queries rejected: if the payments were
  well formed they still are. Every status is one of the enumeration and what it stands for is
  recorded (a completed payment has its time and the answer of the rail, a routed one its
  destination and its rule, ...), and an answer of a rail has its time.
\<close>

theorem rows_stay_well_formed:
  assumes "rows_ok (sv_world s)"
  shows "rows_ok (sv_world (snd (run_service limits hs s)))"
  using run_service_service [of s limits hs] assms by (simp add: service_def)

text \<open>
  C6: No run of the service loses or rewrites what it was told: the payments keep their
  instructions (identifier, parties, amount, currency, origin, key, time of creation), none is
  removed, the audit trail and the published messages only grow, a claimed key stays with its
  payment and its request, and the configuration is left alone.
\<close>

theorem service_only_adds:
  "let w = sv_world s; w' = sv_world (snd (run_service limits hs s)) in
   (\<exists>new. instructions w' = instructions w @ new) \<and> (\<exists>events. w_audit w' = w_audit w @ events) \<and>
   (\<exists>msgs. w_bus w' = w_bus w @ msgs) \<and> keys_kept w w' \<and> w_rules w' = w_rules w \<and> w_mappings w' = w_mappings w"
  using run_service_service [of s limits hs] by (auto simp: service_def appends_def Let_def)

section \<open>A run\<close>

text \<open>A payment whose acknowledgement comes, then a dead letter.\<close>

definition sample_process :: process where
  "sample_process = \<lparr>pr_started = 0, pr_token = ''token'', pr_env = (\<lambda>_. None),
     pr_fetch = (\<lambda>_. Inl (PlainError ''fetch failed'')), pr_breakers = [], pr_limiter = []\<rparr>"

definition sample_server :: server where
  "sample_server = \<lparr>sv_world = queued_world, sv_windows = (\<lambda>_. None), sv_process = sample_process\<rparr>"

definition sample_happenings :: "(environment \<times> happening) list" where
  "sample_happenings = [(ack_env, Acknowledged ''{}''), (ack_env, DeadLettered ''{}'')]"

lemma queued_ok: "row_ok queued_payment"
proof -
  have "row_ok (payment_insert i created np)" if "np_status np = None" for i created np
    using that unfolding row_ok_def by (intro conjI exI [of _ RECEIVED]) (simp_all add: payment_insert_def str_or_def)
  then show ?thesis unfolding queued_payment_def by (intro set_status_ok) simp_all
qed

lemma rows_stay_well_formed_witness:
  "rows_ok (sv_world (snd (run_service server_limits sample_happenings sample_server)))"
  by (rule rows_stay_well_formed) (simp add: sample_server_def queued_world_def rows_ok_def queued_ok)

end
