(* ===== verification/Lifecycle.thy ===== *)
theory Lifecycle
  imports System SampleRuns
begin

text \<open>
  A payment from its creation to the answer of its rail: what \<open>POST /payments\<close> reports as created can be
  settled by any acknowledgement, and what happens when the acknowledgement overtakes the last
  write of the pipeline.
\<close>

section \<open>What a created payment leaves\<close>

lemma audit_log_rows: "audit_log i ev actor detail trace e w = (Inr u, w') \<Longrightarrow> w_payments w' = w_payments w"
  by (auto simp: audit_log_def dest!: audit_inserted)

text \<open>After a run that returns, the payment has a row, and its status is QUEUED.\<close>

lemma dispatched_row:
  assumes "pipeline_dispatch req pid trace origin now c e w = (Inr res, w')"
  obtains q where "payment_row w' pid = Some q" "p_status q = status_code QUEUED" "\<not> blank pid"
    "map_of res ''payment_id'' = Some (JStr pid)" "map_of res ''status'' = Some (JStr (status_code QUEUED))"
proof -
  from assms obtain q w1 w2 route detail where
    upd: "payment_updateStatus pid ''QUEUED'' e w1 = (Inr q, w2)" and
    rest: "w_payments w' = w_payments w2" and res: "res = pipeline_result req pid trace origin now route c"
    unfolding pipeline_dispatch_def
    by (auto simp: io_bind_Inr_iff io_return_def now_iso_run broadcastPaymentEvent_def io_modify_def dest!: audit_log_rows)
  from status_updated [OF upd] obtain p where "q = set_status ''QUEUED'' (e_now e (w_tick w1)) p" "payment_row w2 pid = Some q"
    by auto
  moreover from upd have "\<not> blank pid" by (auto simp: payment_updateStatus_def io_run)
  ultimately show thesis using rest res
    by (intro that [of q]) (simp_all add: payment_row_def set_status_def pipeline_result_def)
qed

lemma io_try_Inr: "io_try m h e w = (Inr a, w') \<longleftrightarrow>
   m e w = (Inr a, w') \<or> (\<exists>x v. m e w = (Inl x, v) \<and> h x e v = (Inr a, w'))"
  by (auto simp: io_try_def split: prod.splits sum.splits)

lemma run_row:
  assumes "pipeline_run req key pid trace t e w = (Inr res, w')"
  obtains q where "payment_row w' pid = Some q" "p_status q = status_code QUEUED" "\<not> blank pid"
    "map_of res ''payment_id'' = Some (JStr pid)"
proof -
  have failed: "pipeline_failed pid trace x e v \<noteq> (Inr res, w')" for x v
    by (auto simp: pipeline_failed_def io_then_def io_bind_Inr_iff io_run)
  from assms obtain origin c w1 where "pipeline_dispatch req pid trace origin (toISOString t) c e w1 = (Inr res, w')"
    using failed by (auto simp: pipeline_run_def io_bind_Inr_iff io_try_Inr)
  then show thesis by (rule dispatched_row) (rule that)
qed

section \<open>The answer of the rail\<close>

lemma blank_iff: "blank s \<longleftrightarrow> (\<forall>c \<in> set s. is_space c)"
proof -
  have "(\<forall>c \<in> set (dropWhile is_space s). is_space c) \<longleftrightarrow> (\<forall>c \<in> set s. is_space c)"
    by (metis Un_iff set_append set_dropWhileD set_takeWhileD takeWhile_dropWhile_id)
  then show ?thesis by (auto simp: blank_def trim_def dropWhile_eq_Nil_conv)
qed

lemma audit_log_runs:
  assumes "\<not> may_reject f" "\<not> blank i" "\<not> blank ev" "\<not> blank actor" "detail \<noteq> []"
  shows "audit_log i ev actor detail trace f w \<noteq> (Inl x, w')"
  using assms by (simp add: audit_log_def audit_insert_def io_run db_query_def may_reject_def)

lemma update_runs:
  assumes "\<not> may_reject f" "payment_row w i = Some p" "\<And>n q. p_id (g n q) = p_id q"
  shows "\<exists>q w'. payment_update i g f w = (Inr q, w')"
  using assms by (auto simp: payment_update_def Let_def db_query_run may_reject_def payment_row_find rows_find_modify io_run)

lemma ack_apply_runs:
  assumes "\<not> may_reject f" "\<not> blank pid" "payment_row w pid = Some p"
    "opt_prop v ''payment_id'' = JStr pid" "opt_prop v ''source_rail'' = JStr src" "truthy (opt_prop v ''rail_ack'')"
  shows "\<exists>w'. ack_apply hooked v f w = (Inr (), w')"
proof -
  let ?s = "final_status (opt_prop (opt_prop v ''rail_ack'') ''status'')"
  have pid: "payment_id_arg (JStr pid) = Inr pid"
    using assms(2) by (auto simp: payment_id_arg_def blank_def)
  have "\<not> blank (status_code ?s)" by (cases ?s) (simp_all add: blank_iff is_space_def)
  then have "\<exists>q w1. payment_updateRailAck pid (opt_prop v ''rail_ack'') (status_code ?s) f w = (Inr q, w1)"
    using update_runs [OF assms(1,3), of "set_rail_ack (opt_prop v ''rail_ack'') (status_code ?s)"] assms(2,6)
    by (simp add: payment_updateRailAck_def set_rail_ack_def)
  then obtain q w1 where upd: "payment_updateRailAck pid (opt_prop v ''rail_ack'') (status_code ?s) f w = (Inr q, w1)" by blast
  have "\<not> blank (''adapter-'' @ toLowerCase src)" by (simp add: blank_iff is_space_def)
  then have log: "audit_log pid ''ACK_RECEIVED'' (''adapter-'' @ toLowerCase src) (d # ds) trace f w1 \<noteq> (Inl x, w2)" for d ds trace x w2
    by (intro audit_log_runs assms(1,2)) (simp_all add: blank_iff is_space_def)
  have "ack_apply hooked v f w \<noteq> (Inl x, w2)" for x w2
    using log by (auto simp: ack_apply_def Let_def assms(4,5) pid upd io_bind_Inl_iff io_result_def io_env_def
        broadcastPaymentEvent_def io_modify_def io_try_def io_return_def split: prod.splits sum.splits if_splits)
  then show ?thesis by (metis old.sum.exhaust old.unit.exhaust surj_pair)
qed

lemma truthy_prop: "truthy (opt_prop a ''status'') \<Longrightarrow> truthy a"
  by (cases a) (auto simp: opt_prop_def is_nullish_def split: if_splits)

text \<open>What the route has done when it has answered a new request.\<close>

lemma claimed_row:
  assumes "create_claimed req key trace pid e w = (Inr (Inr rep), w')"
  obtains q where "payment_row w' pid = Some q" "p_status q = status_code QUEUED" "\<not> blank pid"
    "opt_prop (re_body rep) ''payment_id'' = JStr pid" "re_status rep = 201"
proof -
  from assms obtain t res w1 where run: "pipeline_run req (Some key) pid trace t e (tick w) = (Inr res, w1)"
    and same: "w_payments w' = w_payments w1" and rep: "rep = \<lparr>re_status = 201, re_body = buildPaymentResponse res\<rparr>"
    by (auto simp: create_claimed_def pipeline_execute_def io_bind_Inr_iff io_run idem_updateResponse_def db_query_def
        send_def date_now_def split: if_splits)
  from run show thesis
  proof (rule run_row)
    fix q assume "payment_row w1 pid = Some q" "p_status q = status_code QUEUED" "\<not> blank pid"
      "map_of res ''payment_id'' = Some (JStr pid)"
    with same rep show thesis
      by (intro that [of q]) (simp_all add: payment_row_def buildPaymentResponse_def result_field_def)
  qed
qed

lemma created_row:
  assumes "create_payment key trace body e w = (Inr (Inr rep), w')" "idem_row w (str_or key []) = None"
  obtains pid q where "payment_row w' pid = Some q" "p_status q = status_code QUEUED" "\<not> blank pid"
    "opt_prop (re_body rep) ''payment_id'' = JStr pid" "re_status rep = 201"
proof -
  from assms(1) obtain req where req: "createPaymentSchema body = Some req"
    by (auto simp: create_payment_def z_parse_def io_run split: option.splits)
  show thesis
  proof (cases "str_or key [] = []")
    case True
    with assms(1) req obtain pid t res w1 where run: "pipeline_run req None pid trace t e w1 = (Inr res, w')"
      and rep: "rep = \<lparr>re_status = 201, re_body = buildPaymentResponse res\<rparr>"
      by (auto simp: create_payment_def z_parse_def pipeline_execute_def io_bind_Inr_iff io_run send_def io_return_def)
    from run show thesis
    proof (rule run_row)
      fix q assume "payment_row w' pid = Some q" "p_status q = status_code QUEUED" "\<not> blank pid"
        "map_of res ''payment_id'' = Some (JStr pid)"
      with rep show thesis
        by (intro that [of pid q]) (simp_all add: buildPaymentResponse_def result_field_def)
    qed
  next
    case False
    with assms req obtain pid w1 where "create_claimed req (str_or key []) trace pid e w1 = (Inr (Inr rep), w')"
      by (auto simp: create_payment_def z_parse_def create_with_key_def io_run idem_binds idem_row_def find_absent split: if_splits)
    then show thesis by (rule claimed_row) (rule that)
  qed
qed

section \<open>Properties\<close>

text \<open>
  C3: A new request (without a key, or with a key never used) that is answered at all is answered 201
  with the identifier of a payment that is in the table and QUEUED; and whenever the
  acknowledgement of that payment comes while the database answers, the message is acknowledged
  and the payment reaches the status the rail's answer stands for, with the answer stored.
\<close>

theorem created_payment_gets_its_answer:
  assumes "create_payment key trace body e w = (Inr (Inr rep), w1)" "idem_row w (str_or key []) = None"
    and "\<not> may_reject f" "e_json_parse f content = Some v"
    and "opt_prop v ''payment_id'' = opt_prop (re_body rep) ''payment_id''"
    and "opt_prop v ''source_rail'' = JStr src" "truthy (opt_prop (opt_prop v ''rail_ack'') ''status'')"
  shows "\<exists>pid p q w2. re_status rep = 201 \<and> opt_prop (re_body rep) ''payment_id'' = JStr pid \<and>
    payment_row w1 pid = Some p \<and> p_status p = status_code QUEUED \<and>
    ack_handle True content f w1 = (Inr Ack, w2) \<and> payment_row w2 pid = Some q \<and>
    p_status q = status_code (final_status (opt_prop (opt_prop v ''rail_ack'') ''status'')) \<and>
    p_rail_ack q = Some (opt_prop v ''rail_ack'')"
  using assms(1,2)
proof (rule created_row)
  fix pid p
  assume p: "payment_row w1 pid = Some p" "p_status p = status_code QUEUED" "\<not> blank pid"
    "opt_prop (re_body rep) ''payment_id'' = JStr pid" "re_status rep = 201"
  obtain w2 where run: "ack_apply True v f w1 = (Inr (), w2)"
    using ack_apply_runs [OF assms(3) p(3,1) _ assms(6) truthy_prop [OF assms(7)]] assms(5) p(4) by auto
  have "pid \<noteq> []" "\<not> is_nullish v" using p(3,4) assms(5) by (auto simp: blank_def is_nullish_def)
  then have "ack_handle True content f w1 = (Inr Ack, w2)"
    using run assms(4,5,7) p(4) by (simp add: ack_handle_run)
  with run p assms(5) show ?thesis
    by (elim ack_apply_done) (auto simp: set_rail_ack_def)
qed

text \<open>The creation of \<open>SampleRuns\<close>, accepted by its rail.\<close>

definition created_reply :: reply where
  "created_reply = projr (projr (fst sample_create))"

definition acceptance :: jsval where
  "acceptance = JObj [(''payment_id'', opt_prop (re_body created_reply) ''payment_id''), (''source_rail'', JStr ''SPEI''),
     (''rail_ack'', JObj [(''status'', JStr ''ACCEPTED'')])]"

lemma created_payment_gets_its_answer_witness:
  "\<exists>pid q. payment_row (snd (ack_handle True ''{}'' (sample_env\<lparr>e_json_parse := \<lambda>s. Some acceptance\<rparr>) (snd sample_create))) pid = Some q \<and>
     p_status q = ''COMPLETED''"
proof -
  let ?f = "sample_env\<lparr>e_json_parse := \<lambda>s. Some acceptance\<rparr>"
  obtain rep where rep: "fst sample_create = Inr (Inr rep)"
    using sample_create_returns by (auto split: sum.splits)
  then have create: "create_payment (Some ''key-1'') ''T1'' sample_request sample_env sample_world = (Inr (Inr created_reply), snd sample_create)"
    by (simp add: sample_create_def created_reply_def prod_eq_iff)
  have f: "\<not> may_reject ?f" "e_json_parse ?f ''{}'' = Some acceptance" by (simp_all add: may_reject_def)
  have v: "opt_prop acceptance ''payment_id'' = opt_prop (re_body created_reply) ''payment_id''"
    "opt_prop acceptance ''source_rail'' = JStr ''SPEI''" "opt_prop (opt_prop acceptance ''rail_ack'') ''status'' = JStr ''ACCEPTED''"
    by (simp_all add: acceptance_def)
  have t: "truthy (opt_prop (opt_prop acceptance ''rail_ack'') ''status'')" unfolding v(3) by simp
  from created_payment_gets_its_answer [OF create sample_unused f v(1,2) t]
  show ?thesis unfolding v(3) by (elim exE conjE, intro exI) (auto simp: final_status_def)
qed

text \<open>An answer that overtakes the last write of the pipeline is lost from the status.\<close>

lemma late_queued_overwrites:
  assumes "ack_handle hooked content f w = (Inr Ack, w1)" "e_json_parse f content = Some v"
    and "opt_prop v ''payment_id'' = JStr pid" "payment_updateStatus pid (status_code QUEUED) e w1 = (Inr q, w2)"
  shows "p_status q = status_code QUEUED \<and> p_rail_ack q = Some (opt_prop v ''rail_ack'') \<and> p_acked_at q \<noteq> None"
proof -
  from assms(1,2) have "ack_apply hooked v f w = (Inr (), w1)"
    by (auto simp: ack_handle_run split: if_splits prod.splits sum.splits)
  then obtain p n where "payment_row w1 pid = Some (set_rail_ack (opt_prop v ''rail_ack'')
      (status_code (final_status (opt_prop (opt_prop v ''rail_ack'') ''status''))) n p)"
    by (rule ack_apply_done) (use assms(3) in auto)
  with status_updated [OF assms(4)] show ?thesis by (auto simp: set_status_def set_rail_ack_def)
qed

end
