(* ===== verification/Reconnect.thy ===== *)
theory Reconnect
  imports JsValue
begin

text \<open>
  Reconnection to the broker, \<open>src/resilience/reconnect.ts\<close>: the delay before each attempt and
  the loop of attempts. What the attempts meet is a function from the number of the attempt;
  the loop is partial, so that going on for ever is the value \<open>None\<close>.
\<close>

section \<open>The delay\<close>

record reconnect_options =
  ro_baseMs :: jsnum
  ro_maxMs :: jsnum
  ro_maxAttempts :: "nat option"

text \<open>\<open>Infinity\<close> attempts are \<open>None\<close>.\<close>

definition reconnect_defaults :: reconnect_options where
  "reconnect_defaults = \<lparr>ro_baseMs = Fin 1000, ro_maxMs = Fin 30000, ro_maxAttempts = None\<rparr>"

definition pow2 :: "nat \<Rightarrow> jsnum" where
  "pow2 n = (if n \<le> 1023 then Fin (2 ^ n) else PInf)"

definition calculateDelay :: "reconnect_options \<Rightarrow> nat \<Rightarrow> jsnum \<Rightarrow> jsnum" where
  "calculateDelay opts attempt rnd = Math_min (num_add (num_mul (ro_baseMs opts) (pow2 attempt)) (num_mul rnd (ro_baseMs opts)))
     (ro_maxMs opts)"

section \<open>The loop\<close>

text \<open>An attempt fails, or connects and sets up the topology, or connects and fails to.\<close>

datatype attempt_outcome = NoConnection | Connected | SetupFailed

datatype reconnection = Reconnected nat | GaveUp nat

text \<open>
  \<open>tries\<close> counts the attempts made; \<open>attempt\<close> is the counter of the code, which a connection
  resets before its set-up is known to have worked.
\<close>

partial_function (option) reconnect_loop ::
  "nat option \<Rightarrow> (nat \<Rightarrow> attempt_outcome) \<Rightarrow> nat \<Rightarrow> nat \<Rightarrow> reconnection option" where
  "reconnect_loop limit out tries attempt =
    (if (case limit of None \<Rightarrow> True | Some m \<Rightarrow> attempt < m) then
       (case out tries of
          NoConnection \<Rightarrow> reconnect_loop limit out (Suc tries) (Suc attempt)
        | SetupFailed \<Rightarrow> reconnect_loop limit out (Suc tries) 0
        | Connected \<Rightarrow> Some (Reconnected (Suc tries)))
     else Some (GaveUp tries))"

text \<open>The connections of the process: the ones made so far are numbered.\<close>

record reconnector =
  rq_connection :: "nat option"
  rq_attempt :: nat
  rq_reconnecting :: bool

definition new_reconnector :: reconnector where
  "new_reconnector = \<lparr>rq_connection = None, rq_attempt = 0, rq_reconnecting = False\<rparr>"

definition connect :: "nat \<Rightarrow> reconnector \<Rightarrow> reconnector" where
  "connect c q = q\<lparr>rq_connection := Some c, rq_attempt := 0\<rparr>"

text \<open>A loop starts only when none is running.\<close>

definition scheduleReconnect :: "reconnector \<Rightarrow> reconnector \<times> bool" where
  "scheduleReconnect q = (if rq_reconnecting q then (q, False) else (q\<lparr>rq_reconnecting := True\<rparr>, True))"

definition on_closed_again :: "reconnector \<Rightarrow> reconnector \<times> bool" where
  "on_closed_again q = scheduleReconnect (q\<lparr>rq_reconnecting := False\<rparr>)"

definition reconnected :: "nat \<Rightarrow> reconnector \<Rightarrow> reconnector" where
  "reconnected c q = q\<lparr>rq_connection := Some c, rq_attempt := 0, rq_reconnecting := False\<rparr>"

definition getConnection :: "reconnector \<Rightarrow> js_error + nat" where
  "getConnection q = (case rq_connection q of Some c \<Rightarrow> Inr c | None \<Rightarrow> Inl (PlainError ''RabbitMQ not connected''))"

definition isConnected :: "reconnector \<Rightarrow> bool" where
  "isConnected q = (rq_connection q \<noteq> None)"

section \<open>Lemmas\<close>

lemma loop_refused:
  assumes "\<forall>i < k. out (tries + i) = NoConnection" "\<forall>m. limit = Some m \<longrightarrow> attempt + k \<le> m"
  shows "reconnect_loop limit out tries attempt = reconnect_loop limit out (tries + k) (attempt + k)"
  using assms
proof (induction k)
  case (Suc k)
  have "reconnect_loop limit out (tries + k) (attempt + k) = reconnect_loop limit out (Suc (tries + k)) (Suc (attempt + k))"
    using Suc.prems by (subst reconnect_loop.simps) (auto split: option.split)
  moreover have "reconnect_loop limit out tries attempt = reconnect_loop limit out (tries + k) (attempt + k)"
    by (rule Suc.IH) (use Suc.prems in auto)
  ultimately show ?case by simp
qed simp

text \<open>With set-ups that always fail, or no connection and no limit, no value is reached.\<close>

lemma loop_never_returns:
  assumes "reconnect_loop limit out tries attempt = Some r"
  shows "(\<forall>m. limit = Some m \<longrightarrow> attempt < m) \<longrightarrow> (\<forall>n. out n = SetupFailed) \<or> limit = None \<and> (\<forall>n. out n = NoConnection) \<longrightarrow> False"
proof (rule reconnect_loop.raw_induct [OF _ assms, where P = "\<lambda>limit out tries attempt r. (\<forall>m. limit = Some m \<longrightarrow> attempt < m) \<longrightarrow>
    (\<forall>n. out n = SetupFailed) \<or> limit = None \<and> (\<forall>n. out n = NoConnection) \<longrightarrow> False"], goal_cases)
  case (1 loop limit out tries attempt r)
  show ?case
  proof (intro impI)
    assume a: "\<forall>m. limit = Some m \<longrightarrow> attempt < m" "(\<forall>n. out n = SetupFailed) \<or> limit = None \<and> (\<forall>n. out n = NoConnection)"
    then have c: "case limit of None \<Rightarrow> True | Some m \<Rightarrow> attempt < m" by (simp split: option.split)
    from a(2) show False
    proof
      assume s: "\<forall>n. out n = SetupFailed"
      with 1(2) c have "loop limit out (Suc tries) 0 = Some r" by simp
      from 1(1) [OF this] a(1) s show False by (auto dest: gr_implies_not0)
    next
      assume n: "limit = None \<and> (\<forall>n. out n = NoConnection)"
      with 1(2) have "loop limit out (Suc tries) (Suc attempt) = Some r" by simp
      from 1(1) [OF this] n show False by simp
    qed
  qed
qed

section \<open>Properties\<close>

lemma pow2_nonneg: "pow2 n = PInf \<or> (\<exists>y \<ge> 1. pow2 n = Fin y)"
  by (simp add: pow2_def)

text \<open>
  With a base of at most the maximum, the delay before an attempt is a number between the
  base and the maximum, whatever the number of attempts so far and the random part.
\<close>

theorem delay_bounds:
  assumes "ro_baseMs opts = Fin (of_int base)" "ro_maxMs opts = Fin (of_int most)" "0 < base" "base \<le> most" "most \<le> 2 ^ 53"
    and "0 \<le> r"
  shows "\<exists>d. calculateDelay opts n (Fin r) = Fin d \<and> of_int base \<le> d \<and> d \<le> of_int most"
proof -
  have b: "(0::rat) < of_int base" "(of_int base :: rat) \<le> of_int most" "base \<le> 2 ^ 53" using assms by simp_all
  have 1: "num_mul (Fin (of_int base)) (pow2 n) = PInf \<or> (\<exists>y \<ge> of_int base. num_mul (Fin (of_int base)) (pow2 n) = Fin y)"
  proof (cases "n \<le> 1023")
    case True
    have "(of_int base :: rat) \<le> of_int base * 2 ^ n" using b(1) by simp
    with True num_of_ge [of base "of_int base * 2 ^ n"] assms(3) b(3) show ?thesis by (simp add: pow2_def)
  next
    case False
    then show ?thesis using assms(3) by (simp add: pow2_def inf_times_def)
  qed
  have 2: "num_of (r * of_int base) = PInf \<or> (\<exists>y \<ge> 0. num_of (r * of_int base) = Fin y)"
    using num_of_nonneg [of "r * of_int base"] assms(6) b(1) by simp
  have 3: "num_of (x + y) = PInf \<or> (\<exists>z \<ge> of_int base. num_of (x + y) = Fin z)"
    if "of_int base \<le> x" "0 \<le> y" for x y
    using num_of_ge [of base "x + y"] that assms(3) b(3) by simp
  from 1 2 3 have "num_add (num_mul (Fin (of_int base)) (pow2 n)) (num_mul (Fin r) (Fin (of_int base))) = PInf \<or>
      (\<exists>z \<ge> of_int base. num_add (num_mul (Fin (of_int base)) (pow2 n)) (num_mul (Fin r) (Fin (of_int base))) = Fin z)"
    by (elim disjE exE conjE) simp_all
  then show ?thesis using b(2) by (auto simp: calculateDelay_def assms(1,2) Math_min_def)
qed

text \<open>
  C36: When every attempt is refused before the first one that connects and sets up, the loop ends
  with that one, if the limit allows it; with a limit of \<open>m\<close> and no success it gives up after
  exactly \<open>m\<close> attempts.
\<close>

theorem reconnect_ends:
  assumes "\<forall>i < k. out i = NoConnection"
  shows "(out k = Connected \<and> (\<forall>m. limit = Some m \<longrightarrow> k < m) \<longrightarrow> reconnect_loop limit out 0 0 = Some (Reconnected (Suc k))) \<and>
    reconnect_loop (Some k) out 0 0 = Some (GaveUp k)"
proof
  have "(\<forall>m. limit = Some m \<longrightarrow> k < m) \<Longrightarrow> reconnect_loop limit out 0 0 = reconnect_loop limit out k k"
    using loop_refused [of k out 0 limit 0] assms by (auto intro: less_imp_le)
  then show "out k = Connected \<and> (\<forall>m. limit = Some m \<longrightarrow> k < m) \<longrightarrow> reconnect_loop limit out 0 0 = Some (Reconnected (Suc k))"
    by (auto simp: reconnect_loop.simps [of limit out k k] split: option.split)
  show "reconnect_loop (Some k) out 0 0 = Some (GaveUp k)"
    using loop_refused [of k out 0 "Some k" 0] assms by (simp add: reconnect_loop.simps [of "Some k" out k k])
qed

text \<open>
  C37: The limit on the attempts does not bound the loop: while connections are made whose
  set-up fails, the counter starts again each time and the loop never ends, whatever the limit.
\<close>

theorem failing_setup_never_gives_up:
  assumes "\<forall>n. out n = SetupFailed" "0 < m"
  shows "reconnect_loop (Some m) out 0 0 = None"
  using loop_never_returns [of "Some m" out 0 0] assms by (cases "reconnect_loop (Some m) out 0 0") auto

lemma delay_bounds_witness: "\<exists>d. calculateDelay reconnect_defaults 7 (Fin (1 / 2)) = Fin d \<and> 1000 \<le> d \<and> d \<le> 30000"
  using delay_bounds [of reconnect_defaults 1000 30000 "1 / 2" 7] by (simp add: reconnect_defaults_def)

lemma reconnect_ends_witness:
  "reconnect_loop None (\<lambda>n. if n < 2 then NoConnection else Connected) 0 0 = Some (Reconnected 3)"
  using reconnect_ends [of 2 "\<lambda>n. if n < 2 then NoConnection else Connected" None] by (simp add: eval_nat_numeral)

lemma failing_setup_never_gives_up_witness: "reconnect_loop (Some 3) (\<lambda>n. SetupFailed) 0 0 = None"
  using failing_setup_never_gives_up [of "\<lambda>n. SetupFailed" 3] by simp

end
