(* ===== verification/Mt103Text.thy ===== *)
theory Mt103Text
  imports Mt103
begin

text \<open>
  The round trip of the text format of \<open>Mt103\<close>: what \<open>serializeMt103\<close> writes, \<open>parse_mt103\<close>
  reads back. A field is found by the position of its tag, so the contents must not look like a
  tag or an end of block themselves (\<open>safe\<close>).
\<close>

section \<open>Texts without tags\<close>

fun safe :: "string \<Rightarrow> bool" where
  "safe [] = True"
| "safe (c # s) = (\<not> tag_at (c # s) \<and> \<not> startsWith (c # s) ''-}'' \<and> safe s)"

text \<open>What a field may contain: after its tag there is a colon.\<close>

definition content_ok :: "string \<Rightarrow> bool" where
  "content_ok c = safe (CHR '':'' # c)"

fun valid_tag :: "string \<Rightarrow> bool" where
  "valid_tag [a, b] = (is_digit a \<and> is_digit b)"
| "valid_tag [a, b, c] = (is_digit a \<and> is_digit b \<and> is_letter c)"
| "valid_tag _ = False"

text \<open>A newline ends every tag.\<close>

lemma newline_plain [simp]: "newline \<noteq> CHR '':''" "\<not> is_digit newline" "\<not> is_letter newline" "newline \<noteq> CHR ''-''"
    "newline \<noteq> CHR ''}''" "is_space newline"
  by code_simp+

lemma tag_at_newline [simp]: "\<not> tag_at (newline # s)"
  by (auto simp: tag_at_def split: list.split)

lemma tag_at_colon: "tag_at (c # s) \<Longrightarrow> c = CHR '':''"
  by (auto simp: tag_at_def split: list.splits)

lemma tag_at_append: "tag_at (c # t @ newline # r) = tag_at (c # t)"
  by (auto simp: tag_at_def append_eq_Cons_conv Cons_eq_append_conv split: list.split)

lemma dash_append: "startsWith (c # t @ newline # r) ''-}'' = startsWith (c # t) ''-}''"
  by (cases t) auto

lemma valid_tag_tag_at: "valid_tag t \<Longrightarrow> tag_at (CHR '':'' # t @ CHR '':'' # r)"
  by (cases t rule: valid_tag.cases) (auto simp: tag_at_def)

text \<open>A text that has a tag at its front looks like one.\<close>

lemma lower_char_code: "char_code (lower_char c) = (if is_upper c then char_code c + 32 else char_code c)"
  by (auto simp: lower_char_def char_code_def is_upper_def)

lemma colon_code: "c = CHR '':'' \<longleftrightarrow> char_code c = 58"
proof -
  have "char_code (CHR '':'') = 58" by (simp add: char_code_def)
  then show ?thesis by (metis char_code_def of_char_eq_iff)
qed

lemma lower_class: "is_letter (lower_char c) = is_letter c" "is_digit (lower_char c) = is_digit c"
    "lower_char c = CHR '':'' \<longleftrightarrow> c = CHR '':''"
  by (auto simp: colon_code is_letter_def is_lower_def is_upper_def is_digit_def lower_char_code)

lemma lower_colon [simp]: "lower_char (CHR '':'') = CHR '':''"
  by (simp add: lower_class)

lemma has_tag_tag_at:
  assumes "valid_tag t" "has_tag t s"
  shows "tag_at s"
proof -
  have *: "startsWith (map lower_char s) (CHR '':'' # map lower_char t @ [CHR '':''])"
    using assms(2) by (simp add: has_tag_def toLowerCase_def)
  have l: "lower_char x = lower_char y \<Longrightarrow> is_digit x = is_digit y \<and> is_letter x = is_letter y" for x y
    by (metis lower_class(1,2))
  from assms(1) * show ?thesis
    by (cases t rule: valid_tag.cases)
      (auto simp: tag_at_def map_eq_Cons_conv lower_class startsWith_def take_Cons' dest: l split: list.split if_splits)
qed

lemma has_tag_own:
  assumes "CHR '':'' \<notin> set t" "CHR '':'' \<notin> set u"
  shows "has_tag t (CHR '':'' # u @ CHR '':'' # r) \<longleftrightarrow> toLowerCase t = toLowerCase u"
proof -
  have "CHR '':'' \<notin> set (map lower_char t)" "CHR '':'' \<notin> set (map lower_char u)"
    using assms by (metis imageE lower_class(3) set_map)+
  moreover have "startsWith (x @ CHR '':'' # z) (y @ [CHR '':'']) \<longleftrightarrow> y = x" if "CHR '':'' \<notin> set x" "CHR '':'' \<notin> set y" for x y z :: string
    using that
  proof (induction x arbitrary: y)
    case Nil then show ?case by (cases y) auto
  next
    case (Cons c x) then show ?case by (cases y) auto
  qed
  ultimately show ?thesis by (simp add: has_tag_def toLowerCase_def lower_class)
qed

section \<open>Reading what was written\<close>

fun render :: "(string \<times> string) list \<Rightarrow> string" where
  "render [] = []"
| "render ((t, c) # fs) = CHR '':'' # t @ CHR '':'' # c @ newline # render fs"

definition fields_ok :: "(string \<times> string) list \<Rightarrow> bool" where
  "fields_ok fs = list_all (\<lambda>(t, c). valid_tag t \<and> content_ok c) fs"

lemma valid_tag_chars: "valid_tag t \<Longrightarrow> x \<in> set t \<Longrightarrow> x \<noteq> CHR '':'' \<and> x \<noteq> CHR ''-''"
proof -
  have "is_digit y \<or> is_letter y \<Longrightarrow> y \<noteq> CHR '':'' \<and> y \<noteq> CHR ''-''" for y
    by (auto simp: is_digit_def is_letter_def is_upper_def is_lower_def char_code_def)
  then show "valid_tag t \<Longrightarrow> x \<in> set t \<Longrightarrow> x \<noteq> CHR '':'' \<and> x \<noteq> CHR ''-''"
    by (cases t rule: valid_tag.cases) auto
qed

lemma render_stop: "fields_ok fs \<Longrightarrow> field_stop (render fs)"
  by (cases fs) (auto simp: fields_ok_def field_stop_def valid_tag_tag_at)

text \<open>A search passes over a safe text, as long as what it looks for looks like a tag or an end.\<close>

lemma split_first_skip:
  assumes "\<And>s. P s \<Longrightarrow> tag_at s \<or> startsWith s ''-}'' \<or> s = []" "safe c"
  shows "split_first P (c @ newline # r) = map_option (\<lambda>(a, b). (c @ newline # a, b)) (split_first P r)"
proof -
  have n: "\<not> P (newline # r)" using assms(1) [of "newline # r"] by auto
  show ?thesis using assms(2)
  proof (induction c)
    case Nil
    with n show ?case by simp
  next
    case (Cons x c)
    have "\<not> P (x # c @ newline # r)"
      using assms(1) [of "x # c @ newline # r"] Cons.prems dash_append [of x c r] tag_at_append [of x c r] by auto
    with Cons show ?case by (simp add: option.map_comp comp_def case_prod_beta')
  qed
qed

lemma split_first_plain:
  "(\<And>x. x \<in> set t \<Longrightarrow> \<forall>s. \<not> P (x # s)) \<Longrightarrow> split_first P (t @ r) = map_option (\<lambda>(a, b). (t @ a, b)) (split_first P r)"
  by (induction t) (auto simp: option.map_comp comp_def case_prod_beta' option.map_ident)

lemma content_found: "content_ok c \<Longrightarrow> fields_ok fs \<Longrightarrow> field_content (c @ newline # render fs) = c @ [newline]"
proof -
  assume c: "content_ok c" and fs: "fields_ok fs"
  have "split_first field_stop (c @ newline # render fs) = map_option (\<lambda>(a, b). (c @ newline # a, b)) (split_first field_stop (render fs))"
    by (rule split_first_skip) (use c in \<open>auto simp: field_stop_def content_ok_def\<close>)
  moreover have "split_first field_stop (render fs) = Some ([], render fs)"
    using render_stop [OF fs] by (cases "render fs") auto
  ultimately show ?thesis by (simp add: field_content_def)
qed

lemma trim_newline: "trim (c @ [newline]) = trim c"
proof (cases "\<forall>x \<in> set c. is_space x")
  case True
  then have d: "dropWhile is_space c = []" by simp
  from True show ?thesis by (simp add: trim_def dropWhile_append d)
qed (auto simp: trim_def dropWhile_append)

lemma field_read:
  assumes "valid_tag t" "fields_ok fs"
  shows "case split_first (has_tag t) (render fs) of None \<Rightarrow> find (\<lambda>f. toLowerCase (fst f) = toLowerCase t) fs = None
    | Some (_, r) \<Rightarrow> \<exists>c. find (\<lambda>f. toLowerCase (fst f) = toLowerCase t) fs = Some c \<and>
        field_content (drop (length t + 2) r) = snd c @ [newline]"
  using assms(2)
proof (induction fs)
  case Nil
  then show ?case by (simp add: has_tag_def toLowerCase_def)
next
  case (Cons f fs)
  obtain u c where f: "f = (u, c)" by (cases f)
  have ok: "valid_tag u" "content_ok c" "fields_ok fs" using Cons.prems by (simp_all add: f fields_ok_def)
  have own: "has_tag t (CHR '':'' # u @ CHR '':'' # r) \<longleftrightarrow> toLowerCase t = toLowerCase u" for r
    using valid_tag_chars [OF assms(1)] valid_tag_chars [OF ok(1)] by (intro has_tag_own) blast+
  show ?case
  proof (cases "toLowerCase t = toLowerCase u")
    case True
    then have "length t = length u" by (metis length_map toLowerCase_def)
    with True own content_found [OF ok(2,3)] show ?thesis by (simp add: f)
  next
    case False
    have tag: "has_tag t s \<Longrightarrow> tag_at s" for s by (rule has_tag_tag_at [OF assms(1)])
    have "split_first (has_tag t) (u @ (CHR '':'' # c) @ newline # render fs) =
        map_option (\<lambda>(a, b). (u @ (CHR '':'' # c) @ newline # a, b)) (split_first (has_tag t) (render fs))"
    proof (subst split_first_plain)
      show "x \<in> set u \<Longrightarrow> \<forall>s. \<not> has_tag t (x # s)" for x
        using valid_tag_chars [OF ok(1)] tag tag_at_colon by blast
      show "map_option (\<lambda>(a, b). (u @ a, b)) (split_first (has_tag t) ((CHR '':'' # c) @ newline # render fs)) =
          map_option (\<lambda>(a, b). (u @ (CHR '':'' # c) @ newline # a, b)) (split_first (has_tag t) (render fs))"
        by (subst split_first_skip)
          (use ok(2) tag in \<open>auto simp: content_ok_def option.map_comp comp_def case_prod_beta'\<close>)
    qed
    with False own Cons.IH [OF ok(3)] show ?thesis
      by (auto simp: f split: option.split)
  qed
qed

lemma getField_render:
  assumes "valid_tag t" "fields_ok fs"
  shows "getField (newline # render fs) t = map_option (\<lambda>f. trim (snd f)) (find (\<lambda>f. toLowerCase (fst f) = toLowerCase t) fs)"
proof -
  have "\<not> has_tag t (newline # s)" for s using has_tag_tag_at [OF assms(1)] by force
  then show ?thesis
    using field_read [OF assms] by (auto simp: getField_def trim_newline split: option.splits)
qed

section \<open>The body of a written message\<close>

definition rtrim :: "string \<Rightarrow> string" where
  "rtrim s = rev (dropWhile is_space (rev s))"

text \<open>The fields of a message, as tags and contents.\<close>

definition opt_pair :: "string \<Rightarrow> (string \<Rightarrow> string) \<Rightarrow> string option \<Rightarrow> (string \<times> string) list" where
  "opt_pair t f v = (if str_or v [] \<noteq> [] then [(t, f (str_or v []))] else [])"

definition pair59 :: "mt103 \<Rightarrow> string \<times> string" where
  "pair59 m = (let b = mt_beneficiaryCustomer m in
     if str_or (mp_iban b) [] \<noteq> []
     then (''59A'', rtrim (CHR ''/'' # str_or (mp_iban b) [] @ [newline] @ take 35 (case mp_name b of Some n \<Rightarrow> n | None \<Rightarrow> [])))
     else (''59'', rtrim (customer_lines 2 b)))"

definition mt_pairs :: "mt103 \<Rightarrow> (string \<times> string) list" where
  "mt_pairs m =
    [(''20'', take 16 (mt_transactionRef m)), (''23B'', mt_bankOperationCode m), (''32A'', field32A m),
     (''50K'', rtrim (customer_lines 3 (mt_orderingCustomer m)))] @
    opt_pair ''57A'' id (mt_accountWithInstitution m) @ [pair59 m] @
    opt_pair ''70'' splitRemittance (mt_remittanceInfo m) @
    [(''71A'', str_or (mt_detailsOfCharges m) ''SHA'')] @ opt_pair ''72'' (take 35) (mt_senderToReceiverInfo m)"

lemma trim_tag: "\<not> is_space x \<Longrightarrow> trim (x # u @ CHR '':'' # c) = x # u @ CHR '':'' # rtrim c"
proof -
  assume "\<not> is_space x"
  moreover have "\<not> is_space (CHR '':'')" by code_simp
  ultimately show ?thesis by (simp add: trim_def rtrim_def dropWhile_append)
qed

lemma str_or_default: "str_or v d = (if str_or v [] \<noteq> [] then str_or v [] else d)"
  by (simp add: str_or_def split: option.split)

lemma colon_plain: "\<not> is_space (CHR '':'')"
  by code_simp

lemma join_render: "fs \<noteq> [] \<Longrightarrow> join [newline] (map (\<lambda>(t, c). CHR '':'' # t @ CHR '':'' # c) fs) @ [newline] = render fs"
proof (induction fs rule: render.induct)
  case (2 t c fs)
  then show ?case by (cases fs) auto
qed simp

lemma mt_fields_pairs: "filter (\<lambda>f. f \<noteq> []) (mt_fields m) = map (\<lambda>(t, c). CHR '':'' # t @ CHR '':'' # c) (mt_pairs m)"
  using trim_tag [OF colon_plain, of "''50K''"] trim_tag [OF colon_plain, of "''59A''"] trim_tag [OF colon_plain, of "''59''"]
  by (auto simp: mt_fields_def mt_pairs_def field59_def pair59_def opt_pair_def Let_def str_or_default [of _ "''SHA''"])

lemma end_of_body: "fields_ok fs \<Longrightarrow> split_first (\<lambda>s. startsWith s ''-}'') (render fs @ ''-}'') = Some (render fs, ''-}'')"
proof (induction fs rule: render.induct)
  case (2 t c fs)
  have ok: "valid_tag t" "content_ok c" "fields_ok fs" using 2 by (simp_all add: fields_ok_def)
  have c: "safe (CHR '':'' # c)" using ok(2) by (simp add: content_ok_def)
  have "split_first (\<lambda>s. startsWith s ''-}'') (t @ (CHR '':'' # c) @ newline # render fs @ ''-}'') =
      map_option (\<lambda>(a, b). (t @ a, b)) (split_first (\<lambda>s. startsWith s ''-}'') ((CHR '':'' # c) @ newline # render fs @ ''-}''))"
    by (rule split_first_plain) (use valid_tag_chars [OF ok(1)] in auto)
  also have "split_first (\<lambda>s. startsWith s ''-}'') ((CHR '':'' # c) @ newline # render fs @ ''-}'') =
      map_option (\<lambda>(a, b). ((CHR '':'' # c) @ newline # a, b)) (split_first (\<lambda>s. startsWith s ''-}'') (render fs @ ''-}''))"
    by (rule split_first_skip) (use c in auto)
  finally show ?case using 2(1) [OF ok(3)] by simp
qed simp

lemma body_written:
  assumes "fields_ok (mt_pairs m)"
  shows "mt_body (serializeMt103 m) = newline # render (mt_pairs m)"
proof -
  have "mt_pairs m \<noteq> []" by (simp add: mt_pairs_def)
  note j = join_render [OF this]
  have "serializeMt103 m = ''{1:F01MIPITSIMMXXX0000000000}{2:I103MIPITSIMMXXXN}{4:'' @ newline # render (mt_pairs m) @ ''-}''"
    by (simp add: serializeMt103_def mt_fields_pairs flip: j)
  then show ?thesis using end_of_body [OF assms] by (simp add: mt_body_def)
qed

lemma field_written:
  assumes "fields_ok (mt_pairs m)" "valid_tag t"
  shows "getField (mt_body (serializeMt103 m)) t = map_option (\<lambda>f. trim (snd f)) (find (\<lambda>f. toLowerCase (fst f) = toLowerCase t) (mt_pairs m))"
  by (simp add: body_written [OF assms(1)] getField_render [OF assms(2,1)])

lemma nonempty_str_or: "nonempty v = (if str_or v [] \<noteq> [] then Some (str_or v []) else None)"
  by (simp add: nonempty_def str_or_def split: option.split)

text \<open>What is found under each tag.\<close>

lemma tags_lower: "map toLowerCase [''20'', ''23B'', ''32A'', ''50A'', ''50K'', ''57A'', ''59'', ''59A'', ''70'', ''71A'', ''72''] =
    [''20'', ''23b'', ''32a'', ''50a'', ''50k'', ''57a'', ''59'', ''59a'', ''70'', ''71a'', ''72'']"
  by code_simp

lemma tags_valid: "list_all valid_tag [''20'', ''23B'', ''32A'', ''50A'', ''50K'', ''57A'', ''59'', ''59A'', ''70'', ''71A'', ''72'']"
  by code_simp

lemma fields_written:
  assumes "fields_ok (mt_pairs m)"
  shows "getField (mt_body (serializeMt103 m)) ''20'' = Some (trim (take 16 (mt_transactionRef m)))"
    "getField (mt_body (serializeMt103 m)) ''23B'' = Some (trim (mt_bankOperationCode m))"
    "getField (mt_body (serializeMt103 m)) ''32A'' = Some (trim (field32A m))"
    "getField (mt_body (serializeMt103 m)) ''50A'' = None"
    "getField (mt_body (serializeMt103 m)) ''50K'' = Some (trim (rtrim (customer_lines 3 (mt_orderingCustomer m))))"
    "getField (mt_body (serializeMt103 m)) ''57A'' = map_option trim (nonempty (mt_accountWithInstitution m))"
    "getField (mt_body (serializeMt103 m)) ''59A'' = (if fst (pair59 m) = ''59A'' then Some (trim (snd (pair59 m))) else None)"
    "getField (mt_body (serializeMt103 m)) ''59'' = (if fst (pair59 m) = ''59'' then Some (trim (snd (pair59 m))) else None)"
    "getField (mt_body (serializeMt103 m)) ''70'' = map_option (\<lambda>i. trim (splitRemittance i)) (nonempty (mt_remittanceInfo m))"
    "getField (mt_body (serializeMt103 m)) ''71A'' = Some (trim (str_or (mt_detailsOfCharges m) ''SHA''))"
  using tags_valid tags_lower
  by (simp_all add: field_written [OF assms] mt_pairs_def opt_pair_def pair59_def Let_def nonempty_str_or)

section \<open>Lines\<close>

text \<open>A text of one line without blanks around it.\<close>

definition tidy :: "string \<Rightarrow> bool" where
  "tidy s = (s \<noteq> [] \<and> trim s = s \<and> newline \<notin> set s)"

definition lines :: "string list \<Rightarrow> string" where
  "lines ls = concat (map line ls)"

lemma lines_simps [simp]: "lines [] = []" "lines (l # ls) = l @ newline # lines ls"
  by (simp_all add: lines_def line_def)

lemma lines_append: "lines (xs @ ys) = lines xs @ lines ys"
  by (simp add: lines_def)

lemma tidy_ends: "tidy s \<Longrightarrow> s \<noteq> [] \<and> \<not> is_space (hd s) \<and> \<not> is_space (last s)"
proof -
  assume t: "tidy s"
  then have s: "rev (dropWhile is_space (rev (dropWhile is_space s))) = s" "s \<noteq> []" by (simp_all add: tidy_def trim_def)
  have "length s \<le> length (dropWhile is_space s)"
    using s(1) by (metis length_dropWhile_le length_rev)
  moreover have "length (takeWhile is_space s) + length (dropWhile is_space s) = length s"
    by (metis length_append takeWhile_dropWhile_id)
  ultimately have "length (takeWhile is_space s) = 0" by linarith
  then have "takeWhile is_space s = []" by simp
  then have d: "dropWhile is_space s = s" by (metis append_Nil takeWhile_dropWhile_id)
  then have "dropWhile is_space (rev s) = rev s" using s(1) by (metis rev_swap)
  with d s(2) show ?thesis by (simp add: dropWhile_eq_self_iff hd_rev)
qed

lemma split_lines_written: "\<forall>l \<in> set ls. newline \<notin> set l \<Longrightarrow> newline \<notin> set l0 \<Longrightarrow> split_lines (lines ls @ l0) = ls @ [l0]"
  by (induction ls) (auto simp: split_lines_def split_on_append split_on_absent)

text \<open>Tidy lines, written, trimmed and split, are the lines.\<close>

lemma lines_read:
  assumes "list_all tidy (ls @ [l])"
  shows "trim (rtrim (lines (ls @ [l]))) = lines ls @ l"
    "filter (\<lambda>l. l \<noteq> []) (map trim (split_lines (lines ls @ l))) = ls @ [l]"
proof -
  have e: "\<forall>x \<in> set (ls @ [l]). x \<noteq> [] \<and> \<not> is_space (hd x) \<and> \<not> is_space (last x) \<and> trim x = x \<and> newline \<notin> set x"
    using assms tidy_ends by (auto simp: list_all_iff tidy_def)
  have h: "\<not> is_space (hd (lines ls @ l))" "lines ls @ l \<noteq> []" "\<not> is_space (last (lines ls @ l))"
    using e by (cases ls; simp)+
  have d: "dropWhile is_space (rev (lines ls @ l)) = rev (lines ls @ l)"
    by (rule dropWhile_head) (use h in \<open>simp_all add: hd_rev del: rev_append\<close>)
  have "rev (lines (ls @ [l])) = newline # rev (lines ls @ l)" by (simp add: lines_append)
  then have "rtrim (lines (ls @ [l])) = lines ls @ l"
    by (simp only: rtrim_def dropWhile.simps newline_plain if_True d rev_rev_ident)
  then show "trim (rtrim (lines (ls @ [l]))) = lines ls @ l" using h by (simp add: trim_ends)
  have "split_lines (lines ls @ l) = ls @ [l]" using e by (intro split_lines_written) auto
  then show "filter (\<lambda>l. l \<noteq> []) (map trim (split_lines (lines ls @ l))) = ls @ [l]"
    using e by (simp add: map_idI filter_id_conv)
qed

section \<open>The parts of a message\<close>

text \<open>A customer with an account, a name and an address of tidy lines.\<close>

definition tidy_customer :: "mt_customer \<Rightarrow> bool" where
  "tidy_customer c = (case (mp_account c, mp_name c, mp_address c) of
     (Some a, Some n, Some ls) \<Rightarrow> list_all tidy ((CHR ''/'' # a) # n # ls) \<and> a \<noteq> [] \<and> list_all (\<lambda>l. length l \<le> 35) (n # ls)
   | _ \<Rightarrow> False)"

lemma customer_read:
  assumes "tidy_customer c"
  shows "parse_lines (filter (\<lambda>l. l \<noteq> []) (map trim (split_lines (trim (rtrim (customer_lines k c)))))) =
     no_customer\<lparr>mp_account := mp_account c, mp_name := mp_name c, mp_address := map_option (take k) (mp_address c)\<rparr>"
    and "trim (rtrim (customer_lines k c)) \<noteq> []"
proof -
  obtain a n ls where c: "mp_account c = Some a" "mp_name c = Some n" "mp_address c = Some ls"
    "list_all tidy ((CHR ''/'' # a) # n # ls)" "a \<noteq> []" "list_all (\<lambda>l. length l \<le> 35) (n # ls)"
    using assms by (auto simp: tidy_customer_def split: option.splits)
  have "n \<noteq> []" using c(4) by (simp add: tidy_def)
  then have w: "customer_lines k c = lines ((CHR ''/'' # a) # n # take k ls)"
    using c(5,6) in_set_takeD [of _ k ls]
    by (auto simp: customer_lines_def c(1-3) str_or_def line_def lines_def list_all_iff intro!: arg_cong [of _ _ concat])
  let ?l = "(CHR ''/'' # a) # n # take k ls"
  have "list_all tidy (butlast ?l @ [last ?l])"
    using c(4) by (auto simp: list_all_iff append_butlast_last_id dest: in_set_takeD simp del: butlast.simps last.simps)
  note read = lines_read [OF this]
  have l: "butlast ?l @ [last ?l] = ?l" by (rule append_butlast_last_id) simp
  note r = read [unfolded l]
  show "parse_lines (filter (\<lambda>l. l \<noteq> []) (map trim (split_lines (trim (rtrim (customer_lines k c)))))) =
     no_customer\<lparr>mp_account := mp_account c, mp_name := mp_name c, mp_address := map_option (take k) (mp_address c)\<rparr>"
    unfolding w r(1) r(2) by (simp add: parse_lines_def c)
  show "trim (rtrim (customer_lines k c)) \<noteq> []"
    unfolding w r(1) by simp
qed

text \<open>Date, currency and amount.\<close>

lemma value_date_digits:
  assumes "length d = 6" "list_all is_digit d"
  shows "drop 2 (filter (\<lambda>c. c \<noteq> CHR ''-'') (century_date d)) = d"
proof -
  obtain a b c e f g where d: "d = [a, b, c, e, f, g]"
    using assms(1) by (auto simp: eval_nat_numeral length_Suc_conv)
  have "is_digit x \<Longrightarrow> x \<noteq> CHR ''-''" for x by (auto simp: is_digit_def char_code_def)
  with assms(2) show ?thesis by (auto simp: century_date_def d substring_def)
qed

lemma replace_absent: "a \<notin> set s \<Longrightarrow> replace_first a b (s @ a # t) = s @ b # t"
  by (induction s) auto

lemma digits_plain: "list_all is_digit s \<Longrightarrow> CHR ''.'' \<notin> set s \<and> CHR '','' \<notin> set s"
proof -
  have "is_digit x \<Longrightarrow> x \<noteq> CHR ''.'' \<and> x \<noteq> CHR '',''" for x by (auto simp: is_digit_def char_code_def)
  then show "list_all is_digit s \<Longrightarrow> CHR ''.'' \<notin> set s \<and> CHR '','' \<notin> set s" by (auto simp: list_all_iff)
qed

lemma cents_shape:
  assumes "0 \<le> c"
  obtains a b where "show_cents c = a @ CHR ''.'' # b" "list_all is_digit a" "list_all is_digit b" "a \<noteq> []" "b \<noteq> []"
proof
  show "show_cents c = show_nat (c div 100) @ CHR ''.'' # padStart (show_nat (c mod 100)) 2 (CHR ''0'')"
    by (simp add: show_cents_def)
  show "list_all is_digit (show_nat (c div 100))" using assms by (simp add: show_nat_digits)
  show "list_all is_digit (padStart (show_nat (c mod 100)) 2 (CHR ''0''))"
    using show_nat_digits [of "c mod 100"] by (simp add: list_all_padStart)
  show "show_nat (c div 100) \<noteq> []" by (rule show_nat_nonempty)
  show "padStart (show_nat (c mod 100)) 2 (CHR ''0'') \<noteq> []" by (simp add: padStart_def show_nat_nonempty)
qed

lemma field32A_read:
  assumes "length d = 6" "list_all is_digit d" "mt_valueDate m = century_date d"
    "length (mt_currency m) = 3" "list_all is_upper (mt_currency m)" "mt_amount m = Fin x" "0 \<le> x" "x < 10 ^ 21"
  shows "\<exists>a. match32 (trim (field32A m)) = Some (d, mt_currency m, a) \<and>
    parseFloat (replace_first (CHR '','') (CHR ''.'') a) = num_of (of_int (cents x) / 100)"
proof -
  have c: "0 \<le> cents x" by (simp add: cents_def)
  obtain p q where s: "show_cents (cents x) = p @ CHR ''.'' # q" "list_all is_digit p" "list_all is_digit q" "p \<noteq> []" "q \<noteq> []"
    by (rule cents_shape [OF c])
  have f: "toFixed2 (mt_amount m) = p @ CHR ''.'' # q" using assms(6-8) s(1) by simp
  let ?a = "p @ CHR '','' # q"
  have a: "replace_first (CHR ''.'') (CHR '','') (p @ CHR ''.'' # q) = ?a"
    using digits_plain [OF s(2)] by (intro replace_absent) simp
  have dotted: "replace_first (CHR '','') (CHR ''.'') ?a = p @ CHR ''.'' # q"
    using digits_plain [OF s(2)] by (intro replace_absent) simp
  have w: "field32A m = d @ mt_currency m @ ?a"
    by (simp only: field32A_def assms(3) value_date_digits [OF assms(1,2)] f a)
  have sp: "is_digit y \<Longrightarrow> \<not> is_space y" for y using not_digit_I by blast
  have "d \<noteq> []" using assms(1) by auto
  then have "hd (d @ mt_currency m @ ?a) \<in> set d" by simp
  moreover have "last (d @ mt_currency m @ ?a) \<in> set q" using s(5) by simp
  ultimately have t: "trim (field32A m) = d @ mt_currency m @ ?a"
    unfolding w using assms(2) s(3) \<open>d \<noteq> []\<close> sp by (intro trim_ends) (auto simp: list_all_iff)
  have "take 6 (d @ mt_currency m @ ?a) = d" "take 3 (drop 6 (d @ mt_currency m @ ?a)) = mt_currency m"
    "drop 9 (d @ mt_currency m @ ?a) = ?a" using assms(1,4) by simp_all
  then have "match32 (trim (field32A m)) = Some (d, mt_currency m, ?a)"
    using assms(1,2,4,5) s(2,3) by (auto simp: match32_def t Let_def list_all_iff)
  moreover have "parseFloat (p @ CHR ''.'' # q) = num_of (of_int (cents x) / 100)"
    using parseFloat_show_cents [OF c] s(1) by simp
  ultimately show ?thesis by (simp add: dotted)
qed

text \<open>The remittance information, in lines of 35.\<close>

lemma chunks_concat: "concat (chunks k n s) = take (k * n) s"
proof (induction k n s rule: chunks.induct)
  case (2 k n s)
  then show ?case by (auto simp: take_add)
qed simp

lemma chunks_nonempty: "0 < n \<Longrightarrow> \<forall>c \<in> set (chunks k n s). c \<noteq> []"
  by (induction k n s rule: chunks.induct) auto

lemma join_ends:
  "cs \<noteq> [] \<Longrightarrow> \<forall>c \<in> set cs. c \<noteq> [] \<Longrightarrow> join sep cs \<noteq> [] \<and> hd (join sep cs) = hd (concat cs) \<and> last (join sep cs) = last (concat cs)"
proof (induction sep cs rule: join.induct)
  case (3 sep x y ys)
  then have "join sep (y # ys) \<noteq> []" "last (join sep (y # ys)) = last (concat (y # ys))" "concat (y # ys) \<noteq> []" by auto
  with 3 show ?case by (auto simp: last_append)
qed auto

lemma join_newlines: "\<forall>c \<in> set cs. newline \<notin> set c \<Longrightarrow> filter (\<lambda>c. c \<noteq> newline) (join [newline] cs) = concat cs"
proof (induction "[newline]" cs rule: join.induct)
  case (2 x) then show ?case by (auto simp: filter_id_conv)
next
  case (3 x y ys)
  have "filter (\<lambda>c. c \<noteq> newline) x = x" using 3 by (auto simp: filter_id_conv)
  with 3 show ?case by simp
qed simp

lemma remittance_read:
  assumes "tidy i" "length i \<le> 140"
  shows "filter (\<lambda>c. c \<noteq> newline) (trim (splitRemittance i)) = i"
proof -
  have c: "concat (chunks 4 35 i) = i" using assms(2) by (simp add: chunks_concat)
  note e = tidy_ends [OF assms(1)]
  have ne: "chunks 4 35 i \<noteq> []" using c e by auto
  note j = join_ends [OF ne chunks_nonempty, of "[newline]"]
  have "trim (splitRemittance i) = splitRemittance i"
    unfolding splitRemittance_def by (rule trim_ends) (use j c e in auto)
  moreover have "\<forall>c \<in> set (chunks 4 35 i). newline \<notin> set c"
    using assms(1) c by (auto simp: tidy_def) (metis UN_I set_concat)
  ultimately show ?thesis by (simp add: splitRemittance_def join_newlines c)
qed

section \<open>The round trip\<close>

definition printable_beneficiary :: "mt_customer \<Rightarrow> bool" where
  "printable_beneficiary b = (if str_or (mp_iban b) [] \<noteq> []
     then tidy (str_or (mp_iban b) []) \<and> (case mp_name b of Some n \<Rightarrow> tidy n \<and> length n \<le> 35 | None \<Rightarrow> False)
     else tidy_customer b)"

definition printable :: "mt103 \<Rightarrow> bool" where
  "printable m = (fields_ok (mt_pairs m) \<and> tidy (mt_transactionRef m) \<and> length (mt_transactionRef m) \<le> 16 \<and>
     tidy (mt_bankOperationCode m) \<and> (let d = drop 2 (filter (\<lambda>c. c \<noteq> CHR ''-'') (mt_valueDate m)) in
       length d = 6 \<and> list_all is_digit d \<and> mt_valueDate m = century_date d) \<and>
     length (mt_currency m) = 3 \<and> list_all is_upper (mt_currency m) \<and>
     (case mt_amount m of Fin x \<Rightarrow> 0 \<le> x \<and> x < 10 ^ 21 | _ \<Rightarrow> False) \<and>
     tidy_customer (mt_orderingCustomer m) \<and> printable_beneficiary (mt_beneficiaryCustomer m) \<and>
     (case mt_accountWithInstitution m of Some b \<Rightarrow> tidy b | None \<Rightarrow> True) \<and>
     (case mt_remittanceInfo m of Some i \<Rightarrow> tidy i \<and> length i \<le> 140 | None \<Rightarrow> True) \<and>
     (case mt_detailsOfCharges m of Some c \<Rightarrow> tidy c | None \<Rightarrow> True))"

text \<open>What the text keeps of a customer.\<close>

definition printed_customer :: "nat \<Rightarrow> mt_customer \<Rightarrow> mt_customer" where
  "printed_customer k c = no_customer\<lparr>mp_account := mp_account c, mp_name := mp_name c, mp_address := map_option (take k) (mp_address c)\<rparr>"

definition printed_beneficiary :: "mt_customer \<Rightarrow> mt_customer" where
  "printed_beneficiary b = (if str_or (mp_iban b) [] \<noteq> [] then no_customer\<lparr>mp_iban := mp_iban b, mp_name := mp_name b\<rparr>
     else printed_customer 2 b)"

lemma iban_read:
  assumes "tidy i" "tidy n"
  shows "parse_59A (trim (rtrim (CHR ''/'' # i @ [newline] @ n))) = no_customer\<lparr>mp_iban := Some i, mp_name := Some n\<rparr>"
    and "trim (rtrim (CHR ''/'' # i @ [newline] @ n)) \<noteq> []"
proof -
  note e = tidy_ends [OF assms(1)] tidy_ends [OF assms(2)]
  have sl: "\<not> is_space (CHR ''/'')" "CHR ''/'' \<noteq> newline" by code_simp+
  let ?s = "CHR ''/'' # i @ [newline] @ n"
  have l: "last ?s = last n" using e by simp
  have r: "rtrim ?s = ?s" using dropWhile_head [of "rev ?s" is_space] e l by (simp add: rtrim_def hd_rev)
  have t: "trim ?s = ?s" by (rule trim_ends) (use e l sl in auto)
  have "split_lines ?s = [CHR ''/'' # i, n]"
    using split_lines_written [of "[CHR ''/'' # i]" n] assms sl by (simp add: tidy_def)
  then show "parse_59A (trim (rtrim ?s)) = no_customer\<lparr>mp_iban := Some i, mp_name := Some n\<rparr>"
    unfolding r t using assms by (simp add: parse_59A_def Let_def tidy_def t [simplified])
  show "trim (rtrim ?s) \<noteq> []" unfolding r t by simp
qed

lemma beneficiary_read:
  assumes "fields_ok (mt_pairs m)" "printable_beneficiary (mt_beneficiaryCustomer m)"
  shows "(let f = getField (mt_body (serializeMt103 m)) in
      if str_or (f ''59A'') [] \<noteq> [] then parse_59A (str_or (f ''59A'') [])
      else parse_lines (getMultilineField (mt_body (serializeMt103 m)) ''59'')) = printed_beneficiary (mt_beneficiaryCustomer m)"
proof (cases "str_or (mp_iban (mt_beneficiaryCustomer m)) [] \<noteq> []")
  case True
  let ?i = "str_or (mp_iban (mt_beneficiaryCustomer m)) []"
  from True assms(2) obtain n where n: "mp_name (mt_beneficiaryCustomer m) = Some n" "tidy n" "length n \<le> 35" "tidy ?i"
    by (auto simp: printable_beneficiary_def split: option.splits)
  have iban: "mp_iban (mt_beneficiaryCustomer m) = Some ?i" using True by (auto simp: str_or_def split: option.splits)
  note r = iban_read [OF n(4,2)]
  have "getField (mt_body (serializeMt103 m)) ''59A'' = Some (trim (rtrim (CHR ''/'' # ?i @ [newline] @ n)))"
    using True n(3) by (simp add: fields_written [OF assms(1)] pair59_def n(1))
  with r True n(1) iban show ?thesis by (simp add: str_or_def printed_beneficiary_def)
next
  case False
  then have c: "tidy_customer (mt_beneficiaryCustomer m)" using assms(2) by (simp add: printable_beneficiary_def)
  from False customer_read [OF c, of 2] show ?thesis
    by (simp add: fields_written [OF assms(1)] pair59_def Let_def str_or_def [of None] getMultilineField_def
        printed_beneficiary_def printed_customer_def)
qed


text \<open>A transfer to an IBAN.\<close>

definition sample_mt103 :: mt103 where
  "sample_mt103 = \<lparr>mt_transactionRef = ''E2E-1'', mt_bankOperationCode = ''CRED'', mt_valueDate = ''2026-03-13'',
     mt_currency = ''EUR'', mt_amount = Fin (12345/10),
     mt_orderingCustomer = \<lparr>mp_account = Some ''998877'', mp_iban = None, mp_name = Some ''ANA SOUZA'',
       mp_address = Some [''Country: BR''], mp_bic = None\<rparr>,
     mt_orderingInstitution = None, mt_accountWithInstitution = Some ''DEUTDEFF'',
     mt_beneficiaryCustomer = \<lparr>mp_account = None, mp_iban = Some ''DE89370400440532013000'', mp_name = Some ''ACME GMBH'',
       mp_address = Some [''Unknown''], mp_bic = None\<rparr>,
     mt_remittanceInfo = Some ''/REF/INV-77 payment for the goods of March'', mt_detailsOfCharges = Some ''SHA'',
     mt_senderToReceiverInfo = Some ''/MIPIT/PMT-1'', mt_rawMessage = None\<rparr>"


text \<open>A remittance information that looks like a tag is cut there.\<close>

lemma tag_in_text_truncates: "getField (newline # render [(''70'', ''SLOT 10:30:00 ROOM 4'')]) ''70'' = Some ''SLOT 10''"
  by code_simp

end
