(* ===== verification/Messages.thy ===== *)
theory Messages
  imports Translator
begin

text \<open>
  The messages of the rails as their interfaces declare them. The translators receive a
  message as a value of no known type and cast it to the interface of its rail; here an
  interface is a term of type \<open>ts_type\<close> and \<open>has_type\<close> says when a dynamic value has the
  declared shape. What is absent is \<open>undefined\<close>, and an object may have more properties
  than its interface names.

  The first group of lemmas types what the translators write, the second shows that a
  message of its interface is read without an error of the language: the schema alone can
  refuse it.
\<close>

section \<open>Types of values\<close>

datatype ts_type = TString | TNumber | TLit "string list" | TNumLit "int list"
  | TArray ts_type | TObject "ts_field list"
and ts_field = Req string ts_type | Opt string ts_type

fun is_str :: "jsval \<Rightarrow> bool" where
  "is_str (JStr _) = True" | "is_str _ = False"

fun is_obj :: "jsval \<Rightarrow> bool" where
  "is_obj (JObj _) = True" | "is_obj _ = False"

fun is_num :: "jsval \<Rightarrow> bool" where
  "is_num (JNum _) = True" | "is_num _ = False"

fun all_elements :: "(jsval \<Rightarrow> bool) \<Rightarrow> jsval \<Rightarrow> bool" where
  "all_elements P (JArr vs) = list_all P vs" | "all_elements P _ = False"

primrec has_type :: "ts_type \<Rightarrow> jsval \<Rightarrow> bool"
  and has_field :: "ts_field \<Rightarrow> jsval \<Rightarrow> bool" where
  "has_type TString = is_str"
| "has_type TNumber = is_num"
| "has_type (TLit ls) = (\<lambda>v. \<exists>s \<in> set ls. v = JStr s)"
| "has_type (TNumLit ns) = (\<lambda>v. \<exists>n \<in> set ns. v = JNum (Fin (of_int n)))"
| "has_type (TArray t) = all_elements (has_type t)"
| "has_type (TObject fs) = (\<lambda>v. is_obj v \<and> list_all (\<lambda>p. p v) (map has_field fs))"
| "has_field (Req k t) = (\<lambda>v. has_type t (opt_prop v k))"
| "has_field (Opt k t) = (\<lambda>v. opt_prop v k = JUndef \<or> has_type t (opt_prop v k))"

section \<open>The declared messages\<close>

text \<open>PIX and SPEI\<close>

definition PixOutboundPayload :: ts_type where
  "PixOutboundPayload = TObject
     [Req ''endToEndId'' TString, Req ''pixKey'' TString, Req ''amount'' TNumber, Req ''currency'' TString,
      Opt ''debtorName'' TString, Req ''debtorAccount'' TString, Opt ''creditorName'' TString,
      Req ''creditorAccount'' TString, Req ''purpose'' TString, Req ''reference'' TString, Req ''createdAt'' TString]"

definition SpeiOutboundPayload :: ts_type where
  "SpeiOutboundPayload = TObject
     [Req ''claveRastreo'' TString, Req ''clabe'' TString, Req ''monto'' TNumber, Req ''moneda'' TString,
      Opt ''nombreOrdenante'' TString, Req ''cuentaOrdenante'' TString, Opt ''nombreBeneficiario'' TString,
      Req ''cuentaBeneficiario'' TString, Req ''concepto'' TString, Req ''referencia'' TString,
      Req ''fechaOperacion'' TString]"

definition NativePixPayload :: ts_type where
  "NativePixPayload = TObject
     [Opt ''endToEndId'' TString, Opt ''valor'' (TObject [Opt ''original'' TString]),
      Opt ''pagador'' (TObject [Opt ''ispb'' TString, Opt ''nome'' TString, Opt ''cpf'' TString,
        Opt ''contaTransacional'' (TObject [Opt ''numero'' TString, Opt ''tipoConta'' TString])]),
      Opt ''recebedor'' (TObject [Opt ''ispb'' TString, Opt ''nome'' TString, Opt ''cpf'' TString]),
      Opt ''chave'' TString, Opt ''tipoChave'' TString, Opt ''tipo'' TString, Opt ''campoLivre'' TString]"

text \<open>SWIFT MT103; \<open>ops\<close> the type of the operation code, which a parsed text may break.\<close>

definition mt_customer_type :: "ts_field list \<Rightarrow> ts_type" where
  "mt_customer_type fs = TObject ([Opt ''account'' TString, Opt ''name'' TString, Opt ''address'' (TArray TString)] @ fs)"

definition mt_institution_type :: ts_type where
  "mt_institution_type = TObject [Opt ''bic'' TString, Opt ''name'' TString, Opt ''address'' (TArray TString)]"

definition mt103_type :: "ts_type \<Rightarrow> ts_type \<Rightarrow> ts_type" where
  "mt103_type ops charges = TObject
     [Req ''transactionRef'' TString, Req ''bankOperationCode'' ops, Req ''valueDate'' TString,
      Req ''currency'' TString, Req ''amount'' TNumber,
      Req ''orderingCustomer'' (mt_customer_type [Opt ''bic'' TString]),
      Opt ''orderingInstitution'' mt_institution_type, Opt ''accountWithInstitution'' mt_institution_type,
      Req ''beneficiaryCustomer'' (mt_customer_type [Opt ''iban'' TString]),
      Opt ''remittanceInfo'' TString, Opt ''detailsOfCharges'' charges,
      Opt ''senderToReceiverInfo'' TString, Opt ''rawMessage'' TString]"

definition SwiftMt103Message :: ts_type where
  "SwiftMt103Message = mt103_type (TLit [''CRED'', ''CRTS'', ''SPAY'', ''SPRI'', ''SSTD'']) (TLit [''OUR'', ''SHA'', ''BEN''])"

text \<open>Bre-B\<close>

definition BreBKeyType :: ts_type where
  "BreBKeyType = TLit [''TELEFONO'', ''NIT'', ''EMAIL'', ''ALIAS'']"

definition BreBAccountType :: ts_type where
  "BreBAccountType = TLit [''CACC'', ''SVGS'', ''TRAN'']"

definition breb_party_type :: ts_type where
  "breb_party_type = TObject [Req ''codigoEntidad'' TString, Req ''nombre'' TString, Opt ''nit'' TString,
     Opt ''cc'' TString, Opt ''numeroCuenta'' TString, Opt ''tipoCuenta'' BreBAccountType]"

definition BreBPaymentRequest :: ts_type where
  "BreBPaymentRequest = TObject
     [Req ''idTransaccion'' TString, Req ''valor'' (TObject [Req ''original'' TString]),
      Req ''pagador'' breb_party_type, Req ''beneficiario'' breb_party_type, Req ''llave'' TString,
      Opt ''tipoLlave'' BreBKeyType, Opt ''concepto'' TString, Opt ''fechaHora'' TString]"

definition BreBPaymentResponse :: ts_type where
  "BreBPaymentResponse = TObject
     [Req ''idTransaccion'' TString, Req ''idConfirmacion'' TString,
      Req ''estado'' (TLit [''ACEPTADA'', ''RECHAZADA'', ''EN_PROCESO'', ''DEVUELTA'']),
      Opt ''fechaLiquidacion'' TString, Opt ''codigoError'' TString, Opt ''descripcionError'' TString]"

text \<open>ISO 20022 MX; an agent by its BIC, by its clearing member or both.\<close>

definition iso_header_agent_type :: ts_type where
  "iso_header_agent_type = TObject [Req ''FinInstnId'' (TObject
     [Opt ''BICFI'' TString, Opt ''ClrSysMmbId'' (TObject [Req ''MmbId'' TString])])]"

definition iso_agent_type :: ts_type where
  "iso_agent_type = TObject [Req ''FinInstnId'' (TObject
     [Opt ''BICFI'' TString, Opt ''ClrSysMmbId'' (TObject
        [Opt ''ClrSysId'' (TObject [Req ''Cd'' TString]), Req ''MmbId'' TString])])]"

definition other_id_type :: ts_type where
  "other_id_type = TObject [Req ''Othr'' (TObject [Req ''Id'' TString])]"

definition postal_address_type :: ts_type where
  "postal_address_type = TObject [Opt ''Ctry'' TString, Opt ''AdrLine'' (TArray TString)]"

definition party_id_type :: ts_type where
  "party_id_type = TObject [Opt ''PrvtId'' other_id_type, Opt ''OrgId'' other_id_type]"

definition iso_party_type :: ts_type where
  "iso_party_type = TObject [Opt ''Nm'' TString, Opt ''PstlAdr'' postal_address_type, Opt ''Id'' party_id_type]"

definition iso_account_type :: ts_type where
  "iso_account_type = TObject [Req ''Id'' (TObject
     [Opt ''IBAN'' TString, Opt ''Othr'' (TObject
        [Req ''Id'' TString, Opt ''SchmeNm'' (TObject [Opt ''Cd'' TString, Opt ''Prtry'' TString])])])]"

definition iso_header_type :: ts_type where
  "iso_header_type = TObject
     [Req ''MsgId'' TString, Req ''CreDtTm'' TString, Req ''NbOfTxs'' TString,
      Req ''SttlmInf'' (TObject [Req ''SttlmMtd'' (TLit [''INDA'', ''INGA'', ''COVE'', ''CLRG''])]),
      Opt ''InstgAgt'' iso_header_agent_type, Opt ''InstdAgt'' iso_header_agent_type]"

definition iso_remittance_type :: ts_type where
  "iso_remittance_type = TObject [Opt ''Ustrd'' TString, Opt ''Strd'' (TArray (TObject
     [Opt ''CdtrRefInf'' (TObject [Req ''Ref'' TString])]))]"

definition iso_transfer_type :: ts_type where
  "iso_transfer_type = TObject
     [Req ''PmtId'' (TObject [Opt ''InstrId'' TString, Req ''EndToEndId'' TString, Opt ''TxId'' TString]),
      Req ''IntrBkSttlmAmt'' (TObject [Req ''Ccy'' TString, Req ''value'' TString]),
      Opt ''InstdAmt'' (TObject [Req ''Ccy'' TString, Req ''value'' TString]),
      Opt ''IntrBkSttlmDt'' TString, Opt ''XchgRate'' TString,
      Opt ''DbtrAgt'' iso_agent_type, Req ''Dbtr'' iso_party_type, Req ''DbtrAcct'' iso_account_type,
      Opt ''CdtrAgt'' iso_agent_type, Req ''Cdtr'' iso_party_type, Req ''CdtrAcct'' iso_account_type,
      Opt ''Purp'' (TObject [Opt ''Cd'' TString, Opt ''Prtry'' TString]),
      Opt ''RmtInf'' iso_remittance_type]"

definition Iso20022Pacs008 :: ts_type where
  "Iso20022Pacs008 = TObject [Req ''GrpHdr'' iso_header_type, Req ''CdtTrfTxInf'' iso_transfer_type]"

text \<open>FedNow\<close>

definition fednow_header_agent_type :: ts_type where
  "fednow_header_agent_type = TObject [Req ''FIId'' (TObject [Req ''FinInstnId'' (TObject
     [Opt ''BICFI'' TString, Opt ''ClrSysMmbId'' (TObject [Req ''MmbId'' TString])])])]"

definition fednow_agent_type :: ts_type where
  "fednow_agent_type = TObject [Req ''FinInstnId'' (TObject [Req ''ClrSysMmbId'' (TObject
     [Req ''ClrSysId'' (TObject [Req ''Cd'' (TLit [''USABA''])]), Req ''MmbId'' TString])])]"

definition fednow_party_type :: "ts_field list \<Rightarrow> ts_type" where
  "fednow_party_type fs = TObject ([Opt ''Nm'' TString, Opt ''PstlAdr'' postal_address_type] @ fs)"

definition fednow_account_type :: ts_type where
  "fednow_account_type = TObject
     [Req ''Id'' (TObject [Req ''Othr'' (TObject [Req ''Id'' TString,
        Opt ''SchmeNm'' (TObject [Req ''Cd'' (TLit [''BBAN''])])])]),
      Opt ''Tp'' (TObject [Req ''Cd'' (TLit [''CACC'', ''SVGS''])])]"

definition fednow_business_header_type :: ts_type where
  "fednow_business_header_type = TObject
     [Req ''Fr'' fednow_header_agent_type, Req ''To'' fednow_header_agent_type, Req ''BizMsgIdr'' TString,
      Req ''MsgDefIdr'' (TLit [''pacs.008.001.08'']), Req ''BizSvc'' (TLit [''fednow'']), Req ''CreDt'' TString]"

definition fednow_group_type :: ts_type where
  "fednow_group_type = TObject
     [Req ''MsgId'' TString, Req ''CreDtTm'' TString, Req ''NbOfTxs'' TString,
      Req ''SttlmInf'' (TObject [Req ''SttlmMtd'' (TLit [''CLRG'']),
         Req ''ClrSys'' (TObject [Req ''Cd'' (TLit [''USABA''])])])]"

definition fednow_transfer_type :: ts_type where
  "fednow_transfer_type = TObject
     [Req ''PmtId'' (TObject [Req ''EndToEndId'' TString, Opt ''TxId'' TString, Opt ''UETR'' TString]),
      Req ''IntrBkSttlmAmt'' (TObject [Req ''Ccy'' (TLit [''USD'']), Req ''value'' TString]),
      Req ''IntrBkSttlmDt'' TString,
      Req ''DbtrAgt'' fednow_agent_type, Req ''Dbtr'' (fednow_party_type [Opt ''Id'' party_id_type]),
      Req ''DbtrAcct'' fednow_account_type,
      Req ''CdtrAgt'' fednow_agent_type, Req ''Cdtr'' (fednow_party_type []),
      Req ''CdtrAcct'' fednow_account_type,
      Opt ''Purp'' (TObject [Opt ''Cd'' TString]), Opt ''RmtInf'' (TObject [Opt ''Ustrd'' TString]),
      Opt ''LclInstrm'' (TObject [Req ''Prtry'' (TLit [''INST''])])]"

definition FedNowPaymentMessage :: ts_type where
  "FedNowPaymentMessage = TObject
     [Opt ''BusinessMessageHeader'' fednow_business_header_type,
      Req ''FIToFICstmrCdtTrf'' (TObject [Req ''GrpHdr'' fednow_group_type, Req ''CdtTrfTxInf'' fednow_transfer_type])]"

text \<open>ACH/NACHA\<close>

definition AchTransactionCode :: ts_type where
  "AchTransactionCode = TNumLit [22, 23, 27, 28, 32, 33, 37, 38]"

definition AchSecCode :: ts_type where
  "AchSecCode = TLit [''PPD'', ''CCD'', ''CTX'', ''WEB'', ''TEL'', ''IAT'']"

definition AchEntryDetail :: ts_type where
  "AchEntryDetail = TObject
     [Req ''recordType'' (TLit [''6'']), Req ''transactionCode'' AchTransactionCode,
      Req ''routingTransitNumber'' TString, Req ''accountNumber'' TString, Req ''amount'' TNumber,
      Opt ''individualIdNumber'' TString, Req ''individualName'' TString, Opt ''discretionaryData'' TString,
      Req ''addendaRecordIndicator'' (TLit [''0'', ''1'']), Opt ''traceNumber'' TString]"

definition AchBatchHeader :: ts_type where
  "AchBatchHeader = TObject
     [Req ''recordType'' (TLit [''5'']), Req ''serviceClassCode'' (TLit [''200'', ''220'', ''225'']),
      Req ''companyName'' TString, Req ''companyId'' TString, Req ''secCode'' AchSecCode,
      Req ''companyEntryDescription'' TString, Opt ''companyDescriptiveDate'' TString,
      Req ''effectiveEntryDate'' TString, Req ''originatingDfiId'' TString, Req ''batchNumber'' TString]"

definition AchNachaTransaction :: ts_type where
  "AchNachaTransaction = TObject
     [Req ''batchHeader'' AchBatchHeader, Req ''entryDetail'' AchEntryDetail,
      Opt ''addenda'' (TArray (TObject [Req ''recordType'' (TLit [''7'']), Req ''addendaTypeCode'' TString,
        Req ''paymentRelatedInfo'' TString, Req ''addendaSequence'' TString, Req ''traceNumber'' TString])),
      Req ''odfi'' (TObject [Req ''name'' TString, Req ''routingNumber'' TString, Opt ''city'' TString,
        Opt ''state'' TString, Opt ''countryCode'' TString]),
      Req ''originator'' (TObject [Req ''name'' TString, Req ''accountNumber'' TString,
        Req ''routingNumber'' TString, Opt ''taxId'' TString])]"

section \<open>What is written\<close>

lemma typed_js_opt [simp]: "js_opt v = JUndef \<or> is_str (js_opt v)"
  by (simp add: js_opt_def split: option.split)

lemma typed_js_lines [simp]: "js_lines v = JUndef \<or> all_elements is_str (js_lines v)"
  by (simp add: js_lines_def list_all_iff split: option.split)

lemma pix_written: "has_type PixOutboundPayload (canonicalToPix c)"
  by (simp add: PixOutboundPayload_def canonicalToPix_def)

lemma spei_written: "has_type SpeiOutboundPayload (canonicalToSpei c)"
  by (simp add: SpeiOutboundPayload_def canonicalToSpei_def)

text \<open>The parts of a FedNow message have the types of their fields.\<close>

lemma fednow_parts_written [simp]:
  "has_type fednow_header_agent_type (fednow_header_party r)"
  "has_type fednow_agent_type (fednow_agent_js r)"
  "has_type (fednow_party_type []) (fednow_party_js p)"
  "has_type (fednow_party_type [Opt ''Id'' party_id_type]) (fednow_party_js p)"
  "has_type fednow_account_type (fednow_account_js a)"
  by (simp_all add: fednow_header_agent_type_def fednow_header_party_def fednow_agent_type_def fednow_agent_js_def
      fednow_party_type_def fednow_party_js_def postal_address_type_def fednow_account_type_def fednow_account_js_def)

lemma fednow_written: "has_type FedNowPaymentMessage (fednow_message c now uetr)"
  by (simp add: FedNowPaymentMessage_def fednow_business_header_type_def fednow_group_type_def
      fednow_transfer_type_def fednow_message_def case_prod_unfold Let_def split: option.split)

lemma settlement_literal [simp]:
  "settlement_code m = ''INDA'' \<or> settlement_code m = ''INGA'' \<or> settlement_code m = ''COVE'' \<or> settlement_code m = ''CLRG''"
  by (cases m) simp_all

text \<open>What \<open>has_type\<close> asks of an optional field whose value is built by cases.\<close>

lemma iso_parts_written [simp]:
  "bic_agent b = JUndef \<or> has_type iso_header_agent_type (bic_agent b)"
  "buildAgent b r = JUndef \<or> has_type iso_agent_type (buildAgent b r)"
  "has_type iso_party_type (buildParty p)"
  "has_type iso_account_type (buildAccount a t v)"
  "buildRemittance c = JUndef \<or> has_type iso_remittance_type (buildRemittance c)"
  by (simp_all add: iso_header_agent_type_def bic_agent_def iso_agent_type_def buildAgent_def iso_party_type_def
      buildParty_def postal_address_type_def party_id_type_def other_id_type_def iso_account_type_def
      buildAccount_def buildRemittance_def iso_remittance_type_def Let_def split: option.split)

lemma iso_written: "has_type Iso20022Pacs008 (canonicalToIso20022Mx c)"
proof -
  have "has_type iso_header_type (opt_prop (canonicalToIso20022Mx c) ''GrpHdr'')"
    by (simp add: iso_header_type_def canonicalToIso20022Mx_def split: option.split)
  moreover have "has_type iso_transfer_type (opt_prop (canonicalToIso20022Mx c) ''CdtTrfTxInf'')"
    by (simp add: iso_transfer_type_def canonicalToIso20022Mx_def split: option.split)
  ultimately show ?thesis by (simp add: Iso20022Pacs008_def) (simp add: canonicalToIso20022Mx_def)
qed

lemma map_of_opt_field [simp]:
  "map_of (opt_field k f v) j = (if j = k then map_option f v else None)"
  by (auto simp: opt_field_def split: option.split)

lemma customer_written [simp]: "has_type (mt_customer_type [Opt ''bic'' TString]) (customer_js c)"
  "has_type (mt_customer_type [Opt ''iban'' TString]) (customer_js c)"
  by (auto simp: mt_customer_type_def customer_js_def map_add_def list_all_iff split: option.split)

lemma mt103_typed:
  assumes "has_type ops (JStr (mt_bankOperationCode m))"
    "\<And>d. mt_detailsOfCharges m = Some d \<Longrightarrow> has_type charges (JStr d)"
  shows "has_type (mt103_type ops charges) (mt103_js m)"
  using assms by (simp add: mt103_type_def mt103_js_def mt_institution_type_def map_add_def split: option.split)

lemma mt103_written: "has_type SwiftMt103Message (mt103_js (canonicalToSwiftMt103 c))"
  unfolding SwiftMt103Message_def
  by (rule mt103_typed) (simp_all add: canonicalToSwiftMt103_def Let_def)

lemma ach_written: "has_type AchNachaTransaction (ach_js (ach_transaction now c))"
proof -
  let ?m = "ach_js (ach_transaction now c)"
  have "has_type AchBatchHeader (opt_prop ?m ''batchHeader'')"
    by (simp add: AchBatchHeader_def AchSecCode_def ach_js_def ach_transaction_def case_prod_unfold Let_def)
  moreover have "has_type AchEntryDetail (opt_prop ?m ''entryDetail'')"
    by (simp add: AchEntryDetail_def AchTransactionCode_def ach_js_def ach_transaction_def case_prod_unfold Let_def)
  ultimately show ?thesis
    by (simp add: AchNachaTransaction_def)
      (simp add: ach_js_def addenda_js_def list_all_iff Let_def split: option.split)
qed

text \<open>A Bre-B message is typed but for the kind of account its interface does not know.\<close>

lemma breb_party_written:
  "has_type breb_party_type (breb_party_js p ent nm acc) \<longleftrightarrow> pt_accountType p \<noteq> Some SLRY"
proof (cases "pt_accountType p")
  case (Some t)
  then show ?thesis
    by (cases t) (simp_all add: breb_party_type_def BreBAccountType_def breb_party_js_def split: option.split)
qed (simp add: breb_party_type_def BreBAccountType_def breb_party_js_def split: option.split)

lemma breb_written:
  "has_type BreBPaymentRequest (breb_request c idt) \<longleftrightarrow>
     pt_accountType (c_debtor c) \<noteq> Some SLRY \<and> pt_accountType (c_creditor c) \<noteq> Some SLRY"
  by (simp add: BreBPaymentRequest_def breb_request_def Let_def breb_party_written)
text \<open>The interface of the message written for each rail.\<close>

fun outbound_type :: "rail \<Rightarrow> ts_type" where
  "outbound_type PIX = PixOutboundPayload"
| "outbound_type SPEI = SpeiOutboundPayload"
| "outbound_type SWIFT_MT103 = SwiftMt103Message"
| "outbound_type ISO20022_MX = Iso20022Pacs008"
| "outbound_type ACH_NACHA = AchNachaTransaction"
| "outbound_type FEDNOW = FedNowPaymentMessage"
| "outbound_type BRE_B = BreBPaymentRequest"

definition salary_account :: "canonical \<Rightarrow> bool" where
  "salary_account c = (pt_accountType (c_debtor c) = Some SLRY \<or> pt_accountType (c_creditor c) = Some SLRY)"

lemma fromCanonical_yields_typed:
  assumes "rail_of r = Some x"
  shows "io_yields e (\<lambda>v. has_type (outbound_type x) v = (x = BRE_B \<longrightarrow> \<not> salary_account c)) (fromCanonical r c)"
proof (cases x)
  case BRE_B
  then show ?thesis
    using assms by (simp add: fromCanonical_def canonicalToBreb_def salary_account_def breb_written
        io_yields_bind io_yields_return)
next
  case FEDNOW
  then show ?thesis
    using assms by (simp add: fromCanonical_def canonicalToFednow_def fednow_written io_yields_bind io_yields_return)
next
  case ACH_NACHA
  then show ?thesis
    using assms by (simp add: fromCanonical_def canonicalToAchNacha_def ach_written io_bind_assoc io_bind_return
        io_yields_bind io_yields_return)
qed (use assms in \<open>simp_all add: fromCanonical_def pix_written spei_written mt103_written iso_written io_yields_return\<close>)

text \<open>
  C13: Writing a canonical message in the format of a supported rail never fails, changes
  nothing but the steps of the environment, and gives a message of the interface declared
  for the rail, on every rail but Bre-B: there the message has its declared type exactly
  when neither account is a salary account, a kind the interface does not have. On any other
  rail it raises the TranslationError that names the rail, and changes nothing.
\<close>

theorem written_messages_typed:
  "case rail_of r of
     None \<Rightarrow> fromCanonical r c e w = (Inl (TranslationError r (''Unsupported destination rail: '' @ r) []), w)
   | Some x \<Rightarrow> \<exists>v n. fromCanonical r c e w = (Inr v, w\<lparr>w_tick := n\<rparr>) \<and>
       has_type (outbound_type x) v = (x = BRE_B \<longrightarrow> \<not> salary_account c)"
proof (cases "rail_of r")
  case None
  then show ?thesis using fromCanonical_runs [of r c e w] by simp
next
  case (Some x)
  then obtain v n where v: "fromCanonical r c e w = (Inr v, w\<lparr>w_tick := n\<rparr>)"
    using fromCanonical_runs [of r c e w] by auto
  then show ?thesis using io_yieldsD [OF fromCanonical_yields_typed [OF Some] v] Some by auto
qed

text \<open>On Bre-B, where the accounts matter: a message without accounts.\<close>

lemma written_messages_typed_witness:
  "\<exists>v n. fromCanonical ''BRE_B'' sample_canonical sample_env sample_world = (Inr v, sample_world\<lparr>w_tick := n\<rparr>) \<and>
     has_type (outbound_type BRE_B) v"
proof -
  have "\<not> salary_account sample_canonical" by code_simp
  then show ?thesis
    using written_messages_typed [of "''BRE_B''" sample_canonical sample_env sample_world] by (simp add: rail_of_def SUPPORTED_RAILS_def)
qed

section \<open>What is read\<close>

text \<open>Reading the parts of a typed value.\<close>

lemma get_obj [simp]: "is_obj v \<Longrightarrow> get_prop v k = Inr (opt_prop v k)"
  by (cases v) auto

fun the_str :: "jsval \<Rightarrow> string" where
  "the_str (JStr s) = s" | "the_str _ = []"

lemma as_str [simp]: "is_str v \<Longrightarrow> as_string v = Inr (the_str v)"
  by (cases v) auto

definition opt_str :: "jsval \<Rightarrow> bool" where
  "opt_str v = (v = JUndef \<or> is_str v)"

lemma opt_map_str [simp]:
  "opt_str v \<Longrightarrow> opt_map_string f v = Inr (if v = JUndef then JUndef else JStr (f (the_str v)))"
  by (cases v) (auto simp: opt_str_def opt_map_string_def is_nullish_def)

lemma opt_slice_arr [simp]:
  "v = JUndef \<or> all_elements P v \<Longrightarrow> \<exists>u. opt_slice n v = Inr u"
  by (cases v) (auto simp: opt_slice_def js_slice_def is_nullish_def)

lemma opt_prop_of_optional:
  "v = JUndef \<or> is_obj v \<and> (opt_prop v k = JUndef \<or> P (opt_prop v k)) \<Longrightarrow> opt_prop v k = JUndef \<or> P (opt_prop v k)"
  by auto

lemma first_element:
  "v = JUndef \<or> all_elements P v \<Longrightarrow> opt_prop v ''0'' = JUndef \<or> P (opt_prop v ''0'')"
proof (cases v)
  case (JArr vs)
  have "array_index ''0'' = Some 0" by code_simp
  with JArr show "v = JUndef \<or> all_elements P v \<Longrightarrow> ?thesis"
    by (cases vs) (simp_all add: opt_prop_def is_nullish_def)
qed auto

lemma optional_str: "v = JUndef \<or> is_obj v \<and> (opt_prop v k = JUndef \<or> is_str (opt_prop v k)) \<Longrightarrow> opt_str (opt_prop v k)"
  by (auto simp: opt_str_def)

lemma optional_arr: "v = JUndef \<or> is_obj v \<and> (opt_prop v k = JUndef \<or> all_elements P (opt_prop v k)) \<Longrightarrow>
   \<exists>u. opt_slice n (opt_prop v k) = Inr u"
  by (rule opt_slice_arr [where P = P]) auto

text \<open>The reading of a party's name, address and country.\<close>

lemma fednow_party_read:
  assumes "is_obj txn" "has_type (fednow_party_type fs) (opt_prop txn k)"
  shows "\<exists>kvs. fednow_party txn k acc = Inr kvs"
proof -
  let ?p = "opt_prop txn k"
  have p: "is_obj ?p" "opt_str (opt_prop ?p ''Nm'')"
    using assms by (auto simp: fednow_party_type_def opt_str_def)
  have "\<exists>u. opt_slice 4 (opt_prop (opt_prop ?p ''PstlAdr'') ''AdrLine'') = Inr u"
    using assms by (intro optional_arr [where P = is_str]) (auto simp: fednow_party_type_def postal_address_type_def)
  then show ?thesis using assms(1) p by (auto simp: fednow_party_def)
qed

lemma fednow_read:
  assumes "is_obj m" "has_type fednow_group_type (opt_prop m ''GrpHdr'')" "has_type fednow_transfer_type (opt_prop m ''CdtTrfTxInf'')"
  shows "\<exists>raw. fednow_raw m pid trace now mid = Inr raw"
proof -
  let ?t = "opt_prop m ''CdtTrfTxInf''"
  have t: "is_obj ?t" "is_obj (opt_prop ?t ''PmtId'')" "is_obj (opt_prop ?t ''IntrBkSttlmAmt'')"
    "has_type fednow_agent_type (opt_prop ?t ''DbtrAgt'')" "has_type fednow_agent_type (opt_prop ?t ''CdtrAgt'')"
    "has_type fednow_account_type (opt_prop ?t ''DbtrAcct'')" "has_type fednow_account_type (opt_prop ?t ''CdtrAcct'')"
    "is_str (opt_prop (opt_prop ?t ''PmtId'') ''EndToEndId'')"
    "opt_str (opt_prop (opt_prop ?t ''PmtId'') ''TxId'')" "opt_str (opt_prop (opt_prop ?t ''PmtId'') ''UETR'')"
    "has_type (fednow_party_type [Opt ''Id'' party_id_type]) (opt_prop ?t ''Dbtr'')"
    "has_type (fednow_party_type []) (opt_prop ?t ''Cdtr'')"
    using assms(3) by (auto simp: fednow_transfer_type_def opt_str_def)
  have agents: "is_obj (opt_prop ?t k)" "is_obj (opt_prop (opt_prop ?t k) ''FinInstnId'')"
    "is_obj (opt_prop (opt_prop (opt_prop ?t k) ''FinInstnId'') ''ClrSysMmbId'')"
    if "k = ''DbtrAgt'' \<or> k = ''CdtrAgt''" for k
    using that t(4,5) by (auto simp: fednow_agent_type_def)
  have accounts: "is_obj (opt_prop ?t k)" "is_obj (opt_prop (opt_prop ?t k) ''Id'')"
    "is_obj (opt_prop (opt_prop (opt_prop ?t k) ''Id'') ''Othr'')"
    if "k = ''DbtrAcct'' \<or> k = ''CdtrAcct''" for k
    using that t(6,7) by (auto simp: fednow_account_type_def)
  have optional: "opt_str (opt_prop (opt_prop ?t ''Purp'') ''Cd'')" "opt_str (opt_prop (opt_prop ?t ''RmtInf'') ''Ustrd'')"
    using assms(3) by (auto intro!: optional_str simp: fednow_transfer_type_def)
  obtain d where d: "\<And>a. fednow_party ?t ''Dbtr'' a = Inr (d a)"
    using fednow_party_read [OF t(1,11)] by metis
  obtain c where c: "\<And>a. fednow_party ?t ''Cdtr'' a = Inr (c a)"
    using fednow_party_read [OF t(1,12)] by metis
  have "is_obj (opt_prop m ''GrpHdr'')" using assms(2) by (simp add: fednow_group_type_def)
  then show ?thesis
    using assms(1) t agents accounts optional by (simp add: fednow_raw_def d c)
qed
lemma iso_party_read:
  assumes "is_obj txn" "has_type iso_party_type (opt_prop txn k)"
  shows "\<exists>kvs. iso_party txn k acc = Inr kvs"
proof -
  let ?p = "opt_prop txn k"
  have p: "is_obj ?p" "opt_str (opt_prop ?p ''Nm'')"
    using assms by (auto simp: iso_party_type_def opt_str_def)
  have "\<exists>u. opt_slice 4 (opt_prop (opt_prop ?p ''PstlAdr'') ''AdrLine'') = Inr u"
    using assms by (intro optional_arr [where P = is_str]) (auto simp: iso_party_type_def postal_address_type_def)
  then show ?thesis using assms(1) p by (auto simp: iso_party_def)
qed

lemma iso_account_read:
  "is_obj txn \<Longrightarrow> has_type iso_account_type (opt_prop txn k) \<Longrightarrow> \<exists>x. iso_account txn k = Inr x"
  by (auto simp: iso_account_def iso_account_type_def)

lemma iso_agent_read:
  "is_obj txn \<Longrightarrow> opt_prop txn k = JUndef \<or> has_type iso_agent_type (opt_prop txn k) \<Longrightarrow> \<exists>x. iso_agent txn k = Inr x"
  by (auto simp: iso_agent_def iso_agent_type_def opt_step_def is_nullish_def)

lemma iso_amount_read: "ia = JUndef \<or> is_obj ia \<Longrightarrow> \<exists>a. iso_amount_of ia = Inr a"
  by (auto simp: iso_amount_of_def)

lemma iso_fx_read: "ia = JUndef \<or> is_obj ia \<Longrightarrow> \<exists>f. iso_fx xr ia cur = Inr f"
  using iso_amount_read [of ia] by (auto simp: iso_fx_def)

lemma nullish_str: "opt_str v \<Longrightarrow> is_str d \<Longrightarrow> is_str (nullish v d)"
  by (cases v) (auto simp: opt_str_def)

lemma nullish_opt_str: "opt_str v \<Longrightarrow> opt_str d \<Longrightarrow> opt_str (nullish v d)"
  by (cases v) (auto simp: opt_str_def)

lemma first_nonnull_str: "list_all opt_str vs \<Longrightarrow> is_str d \<Longrightarrow> is_str (first_nonnull vs d)"
  unfolding first_nonnull_def by (induction vs) (auto intro: nullish_str)

lemma iso_reference_read:
  assumes "ri = JUndef \<or> has_type iso_remittance_type ri"
  shows "opt_str (nullish (opt_prop ri ''Ustrd'') (opt_path ri [''Strd'', ''0'', ''CdtrRefInf'', ''Ref'']))"
proof (rule nullish_opt_str)
  show "opt_str (opt_prop ri ''Ustrd'')"
    using assms by (auto simp: iso_remittance_type_def opt_str_def)
  let ?P = "has_type (TObject [Opt ''CdtrRefInf'' (TObject [Req ''Ref'' TString])])"
  have "opt_prop ri ''Strd'' = JUndef \<or> all_elements ?P (opt_prop ri ''Strd'')"
    using assms by (auto simp: iso_remittance_type_def)
  from first_element [OF this] show "opt_str (opt_path ri [''Strd'', ''0'', ''CdtrRefInf'', ''Ref''])"
    by (auto simp: opt_str_def)
qed

lemma iso_read:
  assumes m: "has_type Iso20022Pacs008 m"
  shows "\<exists>raw. iso_raw m pid trace now mid = Inr raw"
proof -
  let ?t = "opt_prop m ''CdtTrfTxInf''" and ?g = "opt_prop m ''GrpHdr''"
  let ?ri = "opt_prop ?t ''RmtInf''" and ?ia = "opt_prop ?t ''InstdAmt''"
  have t: "is_obj m" "is_obj ?g" "is_obj ?t" "is_obj (opt_prop ?t ''PmtId'')" "is_obj (opt_prop ?t ''IntrBkSttlmAmt'')"
    "is_str (opt_prop (opt_prop ?t ''IntrBkSttlmAmt'') ''Ccy'')" "?ia = JUndef \<or> is_obj ?ia"
    "is_str (opt_prop (opt_prop ?t ''PmtId'') ''EndToEndId'')"
    "opt_str (opt_prop (opt_prop ?t ''PmtId'') ''TxId'')" "opt_str (opt_prop (opt_prop ?t ''PmtId'') ''InstrId'')"
    using m by (auto simp: Iso20022Pacs008_def iso_header_type_def iso_transfer_type_def opt_str_def)
  have optional: "opt_str (opt_prop ?ia ''Ccy'')"
    "opt_str (opt_prop (opt_prop ?t ''Purp'') ''Cd'')" "opt_str (opt_prop (opt_prop ?t ''Purp'') ''Prtry'')"
    using m by (auto intro!: optional_str simp: Iso20022Pacs008_def iso_transfer_type_def)
  have purpose: "is_str (first_nonnull [opt_prop (opt_prop ?t ''Purp'') ''Cd'', opt_prop (opt_prop ?t ''Purp'') ''Prtry''] (JStr ''P2P''))"
    using optional by (intro first_nonnull_str) simp_all
  have remit: "opt_str (nullish (opt_prop ?ri ''Ustrd'') (opt_path ?ri [''Strd'', ''0'', ''CdtrRefInf'', ''Ref'']))"
    using m by (intro iso_reference_read) (auto simp: Iso20022Pacs008_def iso_transfer_type_def)
  have parts: "has_type iso_account_type (opt_prop ?t ''DbtrAcct'')" "has_type iso_account_type (opt_prop ?t ''CdtrAcct'')"
    "has_type iso_party_type (opt_prop ?t ''Dbtr'')" "has_type iso_party_type (opt_prop ?t ''Cdtr'')"
    "opt_prop ?t ''DbtrAgt'' = JUndef \<or> has_type iso_agent_type (opt_prop ?t ''DbtrAgt'')"
    "opt_prop ?t ''CdtrAgt'' = JUndef \<or> has_type iso_agent_type (opt_prop ?t ''CdtrAgt'')"
    using m by (simp_all add: Iso20022Pacs008_def iso_transfer_type_def)
  obtain da ca dg cg where a: "iso_account ?t ''DbtrAcct'' = Inr da" "iso_account ?t ''CdtrAcct'' = Inr ca"
    "iso_agent ?t ''DbtrAgt'' = Inr dg" "iso_agent ?t ''CdtrAgt'' = Inr cg"
    using iso_account_read [OF t(3) parts(1)] iso_account_read [OF t(3) parts(2)]
      iso_agent_read [OF t(3) parts(5)] iso_agent_read [OF t(3) parts(6)] by blast
  obtain d c where p: "\<And>x. iso_party ?t ''Dbtr'' x = Inr (d x)" "\<And>x. iso_party ?t ''Cdtr'' x = Inr (c x)"
    using iso_party_read [OF t(3) parts(3)] iso_party_read [OF t(3) parts(4)] by metis
  obtain am where am: "iso_amount_of ?ia = Inr am" using iso_amount_read [OF t(7)] by blast
  obtain fx where fx: "\<And>xr cur. iso_fx xr ?ia cur = Inr (fx xr cur)" using iso_fx_read [OF t(7)] by metis
  show ?thesis
    using t(1-6,8-10) optional(1)
    by (simp add: iso_raw_def case_prod_unfold a p am fx as_str [OF purpose] opt_map_str [OF remit] del: opt_path.simps)
qed

section \<open>MT103, ACH and the native messages\<close>

lemma country_read:
  "v = JUndef \<or> all_elements is_str v \<Longrightarrow> \<exists>u. extractCountryFromAddress v = Inr u"
proof (cases v)
  case (JArr vs)
  moreover assume "v = JUndef \<or> all_elements is_str v"
  ultimately have "vs \<noteq> [] \<Longrightarrow> is_str (last vs)" by (auto simp: list_all_iff)
  with JArr show ?thesis by (cases "vs = []") (simp_all add: extractCountryFromAddress_def is_nullish_def Let_def)
qed (auto simp: extractCountryFromAddress_def is_nullish_def)

lemma mt_party_read:
  assumes "has_type (mt_customer_type fs) c"
  shows "\<exists>kvs. mt_party_raw c acc = Inr kvs"
proof -
  have c: "is_obj c" "opt_str (opt_prop c ''name'')"
    "opt_prop c ''address'' = JUndef \<or> all_elements is_str (opt_prop c ''address'')"
    using assms by (auto simp: mt_customer_type_def opt_str_def)
  obtain u u' where "opt_slice 4 (opt_prop c ''address'') = Inr u" "extractCountryFromAddress (opt_prop c ''address'') = Inr u'"
    using opt_slice_arr [OF c(3)] country_read [OF c(3)] by blast
  then show ?thesis using c(1,2) by (simp add: mt_party_raw_def)
qed

lemma swift_read:
  assumes "has_type (mt103_type ops charges) m"
  shows "\<exists>raw. swift_raw m pid trace now u = Inr raw"
proof -
  have m: "is_obj m" "is_str (opt_prop m ''transactionRef'')" "is_str (opt_prop m ''currency'')"
    "opt_str (opt_prop m ''remittanceInfo'')"
    "has_type (mt_customer_type [Opt ''bic'' TString]) (opt_prop m ''orderingCustomer'')"
    "has_type (mt_customer_type [Opt ''iban'' TString]) (opt_prop m ''beneficiaryCustomer'')"
    using assms by (auto simp: mt103_type_def opt_str_def)
  have o: "is_obj (opt_prop m ''orderingCustomer'')" "is_obj (opt_prop m ''beneficiaryCustomer'')"
    using m(5,6) by (simp_all add: mt_customer_type_def)
  obtain d c where "\<And>a. mt_party_raw (opt_prop m ''orderingCustomer'') a = Inr (d a)"
    "\<And>a. mt_party_raw (opt_prop m ''beneficiaryCustomer'') a = Inr (c a)"
    using mt_party_read [OF m(5)] mt_party_read [OF m(6)] by metis
  then show ?thesis using m(1-4) o by (simp add: swift_raw_def Let_def)
qed

lemma ach_trace_read:
  assumes "has_type AchEntryDetail en" "has_type AchBatchHeader ba"
  shows "\<exists>tn w'. ach_trace en ba e w = (Inr tn, w') \<and> is_str tn"
proof -
  have en: "is_obj en" "is_obj ba" "opt_str (opt_prop en ''traceNumber'')"
    using assms by (auto simp: AchEntryDetail_def AchBatchHeader_def opt_str_def)
  then show ?thesis
    by (cases "opt_prop en ''traceNumber''") (auto simp: ach_trace_def io_run is_nullish_def opt_str_def)
qed

lemma opt_text_str [simp]: "is_str v \<Longrightarrow> opt_text v f = Inr (f (the_str v))"
  by (simp add: opt_text_def)

lemma ach_read:
  assumes m: "has_type AchNachaTransaction m" and tn: "is_str tn"
  shows "\<exists>raw. ach_raw m (opt_prop m ''entryDetail'') (opt_prop m ''batchHeader'') pid trace now tn u = Inr raw"
proof -
  let ?n = "opt_prop m ''entryDetail''" and ?b = "opt_prop m ''batchHeader''" and ?o = "opt_prop m ''originator''"
  have f: "is_obj m" "is_obj ?n" "is_obj ?b" "is_str (opt_prop ?b ''originatingDfiId'')"
    "is_str (opt_prop ?n ''routingTransitNumber'')" "is_str (opt_prop ?n ''individualName'')"
    "is_str (opt_prop ?n ''accountNumber'')" "is_str (opt_prop ?b ''companyEntryDescription'')"
    "is_str (opt_prop ?o ''name'')" "is_str (opt_prop ?b ''companyName'')"
    using m by (simp_all add: AchNachaTransaction_def AchEntryDetail_def AchBatchHeader_def)
  have name: "is_str (nullish (opt_prop ?o ''name'') (opt_prop ?b ''companyName''))"
    using f(9,10) by (intro nullish_str) (simp_all add: opt_str_def)
  let ?P = "has_type (TObject [Req ''recordType'' (TLit [''7'']), Req ''addendaTypeCode'' TString,
    Req ''paymentRelatedInfo'' TString, Req ''addendaSequence'' TString, Req ''traceNumber'' TString])"
  have "opt_prop m ''addenda'' = JUndef \<or> all_elements ?P (opt_prop m ''addenda'')"
    using m by (simp add: AchNachaTransaction_def)
  from first_element [OF this] have "opt_str (opt_path m [''addenda'', ''0'', ''paymentRelatedInfo''])"
    by (auto simp: opt_str_def)
  then show ?thesis using f tn name by (simp add: ach_raw_def Let_def del: opt_path.simps)
qed

lemma breb_party_read:
  assumes "has_type breb_party_type p"
  shows "\<exists>kvs. breb_party_raw p d = Inr kvs"
proof -
  have "is_obj p" "opt_str (opt_prop p ''nombre'')"
    using assms by (simp_all add: breb_party_type_def opt_str_def)
  then show ?thesis by (simp add: breb_party_raw_def)
qed

lemma breb_key_read: "is_str v \<Longrightarrow> \<exists>t. inferTipoLlave v = Inr t"
  by (cases v) (auto simp: inferTipoLlave_def)

lemma breb_read:
  assumes m: "has_type BreBPaymentRequest m"
  shows "\<exists>raw. breb_native_raw m pid trace now mid = Inr raw"
proof -
  have f: "is_obj m" "is_obj (opt_prop m ''valor'')" "is_str (opt_prop m ''llave'')" "is_str (opt_prop m ''idTransaccion'')"
    "opt_str (opt_prop m ''concepto'')" "has_type breb_party_type (opt_prop m ''pagador'')"
    "has_type breb_party_type (opt_prop m ''beneficiario'')"
    using m by (simp_all add: BreBPaymentRequest_def opt_str_def)
  obtain t where t: "inferTipoLlave (opt_prop m ''llave'') = Inr t" using breb_key_read [OF f(3)] by blast
  obtain d where d: "\<And>x. breb_party_raw (opt_prop m ''pagador'') x = Inr (d x)" using breb_party_read [OF f(6)] by metis
  obtain c where c: "\<And>x. breb_party_raw (opt_prop m ''beneficiario'') x = Inr (c x)" using breb_party_read [OF f(7)] by metis
  show ?thesis
    using f(1-5) by (cases "is_nullish (opt_prop m ''tipoLlave'')") (simp_all add: breb_native_raw_def t d c)
qed

lemma has_key_of: "is_obj p \<Longrightarrow> opt_prop p k \<noteq> JUndef \<Longrightarrow> has_key k p = Inr True"
  by (cases p) (auto simp: has_key_def split: option.splits dest: map_of_SomeD intro: rev_image_eqI)

lemma breb_native:
  assumes "has_type BreBPaymentRequest m"
  shows "isNativeBrebPayload m = Inr True"
proof -
  have "is_obj m" "is_obj (opt_prop m ''valor'')" "is_obj (opt_prop m ''pagador'')" "is_obj (opt_prop m ''beneficiario'')"
    using assms by (simp_all add: BreBPaymentRequest_def breb_party_type_def)
  then have "has_key ''valor'' m = Inr True" "has_key ''pagador'' m = Inr True" "has_key ''beneficiario'' m = Inr True"
    by (auto intro!: has_key_of)
  then show ?thesis by (simp add: isNativeBrebPayload_def)
qed

lemma pix_read:
  assumes "is_str e2e"
  shows "\<exists>raw. pix_native_raw m pid trace now e2e = Inr raw"
  using assms by (cases e2e) (simp_all add: pix_native_raw_def js_slice_def Let_def)

section \<open>Translations of typed messages\<close>

text \<open>What the schema raises: the one error whose details are the issues zod found.\<close>

definition schema_refusal :: "string \<Rightarrow> js_error \<Rightarrow> bool" where
  "schema_refusal r x = (\<exists>msg issues. x = TranslationError r msg [(''zodErrors'', issues)])"

text \<open>A computation that raises nothing but what the schema raises.\<close>

definition only_refuses :: "environment \<Rightarrow> string \<Rightarrow> 'a io \<Rightarrow> bool" where
  "only_refuses e r m = (\<forall>w x w'. m e w = (Inl x, w') \<longrightarrow> schema_refusal r x)"

definition never_raises :: "environment \<Rightarrow> ('a \<Rightarrow> bool) \<Rightarrow> 'a io \<Rightarrow> bool" where
  "never_raises e Q m = (\<forall>w. \<exists>a w'. m e w = (Inr a, w') \<and> Q a)"

lemma refuses_bind:
  assumes "never_raises e Q m" "\<And>a. Q a \<Longrightarrow> only_refuses e r (f a)"
  shows "only_refuses e r (io_bind m f)"
  unfolding only_refuses_def io_bind_Inl_iff
proof (intro allI impI)
  fix w x w'
  assume a: "m e w = (Inl x, w') \<or> (\<exists>a w1. m e w = (Inr a, w1) \<and> f a e w1 = (Inl x, w'))"
  obtain b v where b: "m e w = (Inr b, v)" "Q b" using assms(1) unfolding never_raises_def by blast
  with a have "f b e v = (Inl x, w')" by simp
  with assms(2) [OF b(2)] show "schema_refusal r x" unfolding only_refuses_def by blast
qed

lemma refuses_result: "\<exists>a. m = Inr a \<Longrightarrow> (\<And>a. m = Inr a \<Longrightarrow> only_refuses e r (f a)) \<Longrightarrow> only_refuses e r (io_bind (io_result m) f)"
  by (elim exE) (simp add: only_refuses_def io_run)

lemma schema_refusal_translation: "schema_refusal r x \<Longrightarrow> is_TranslationError x"
  by (auto simp: schema_refusal_def TranslationError_def)

lemma rethrow_refusal:
  "schema_refusal r y \<Longrightarrow> rethrow_as_translation r msg y e w = (Inl x, w') \<Longrightarrow> schema_refusal r x"
  using schema_refusal_translation [of r y] by (simp add: rethrow_as_translation_def io_throw_def)

lemma refuses_try:
  assumes "only_refuses e r m"
  shows "only_refuses e r (io_try m (rethrow_as_translation r msg))"
  unfolding only_refuses_def
proof (intro allI impI)
  fix w x w'
  assume t: "io_try m (rethrow_as_translation r msg) e w = (Inl x, w')"
  obtain res w1 where m: "m e w = (res, w1)" by fastforce
  show "schema_refusal r x"
  proof (cases res)
    case (Inl y)
    with m assms have "schema_refusal r y" unfolding only_refuses_def by blast
    with t m Inl show ?thesis by (auto simp: io_try_def dest: rethrow_refusal)
  qed (use t m in \<open>simp add: io_try_def\<close>)
qed

lemma refuses_parse: "only_refuses e r (parse_canonical r msg raw)"
  by (auto simp: only_refuses_def parse_canonical_def schema_refusal_def io_run split: option.splits)

lemma never_now: "never_raises e (\<lambda>_. True) now_iso"
  by (simp add: never_raises_def now_iso_run)

lemma never_ulid: "never_raises e (\<lambda>_. True) fresh_ulid"
  by (simp add: never_raises_def fresh_ulid_def)

lemma never_fresh: "never_raises e (\<lambda>_. True) (fresh_if_nullish q v)"
  by (simp add: never_raises_def fresh_if_nullish_def io_run)

lemma never_fresh_str: "opt_str v \<Longrightarrow> never_raises e is_str (fresh_if_nullish q v)"
  by (auto simp: never_raises_def fresh_if_nullish_def io_run opt_str_def is_nullish_def)

lemma never_bind:
  assumes "never_raises e P m" "\<And>a. P a \<Longrightarrow> never_raises e Q (f a)"
  shows "never_raises e Q (io_bind m f)"
  unfolding never_raises_def
proof
  fix w
  obtain a w1 where a: "m e w = (Inr a, w1)" "P a" using assms(1) unfolding never_raises_def by blast
  obtain b w2 where "f a e w1 = (Inr b, w2)" "Q b" using assms(2) [OF a(2)] unfolding never_raises_def by blast
  with a(1) show "\<exists>b w'. io_bind m f e w = (Inr b, w') \<and> Q b" by (simp add: io_bind_def)
qed

lemma never_result_bind: "\<exists>a. m = Inr a \<Longrightarrow> (\<And>a. m = Inr a \<Longrightarrow> never_raises e Q (f a)) \<Longrightarrow> never_raises e Q (io_bind (io_result m) f)"
  by (elim exE) (simp add: never_raises_def io_run)

lemma never_result: "\<exists>a. m = Inr a \<and> Q a \<Longrightarrow> never_raises e Q (io_result m)"
  by (auto simp: never_raises_def io_run)

lemma never_return: "Q a \<Longrightarrow> never_raises e Q (io_return a)"
  by (simp add: never_raises_def io_return_def)

lemma never_if: "never_raises e Q m \<Longrightarrow> never_raises e Q n \<Longrightarrow> never_raises e Q (if b then m else n)"
  by simp

lemma fednow_refuses:
  assumes "has_type FedNowPaymentMessage p"
  shows "only_refuses e ''FEDNOW'' (fednowToCanonical p pid trace)"
proof -
  let ?m = "opt_prop p ''FIToFICstmrCdtTrf''"
  have m: "is_obj p" "is_obj ?m" "has_type fednow_group_type (opt_prop ?m ''GrpHdr'')"
    "has_type fednow_transfer_type (opt_prop ?m ''CdtTrfTxInf'')" "is_obj (opt_prop ?m ''GrpHdr'')"
    using assms by (simp_all add: FedNowPaymentMessage_def) (simp add: fednow_group_type_def)
  show ?thesis
    unfolding fednowToCanonical_def
    using m(1,2,5) fednow_read [OF m(2-4)]
    by (intro refuses_try refuses_result refuses_bind [OF never_now] refuses_bind [OF never_fresh] refuses_parse) auto
qed

lemma iso_refuses:
  assumes "is_obj p" "has_type Iso20022Pacs008 (nullish (opt_path p [''Document'', ''FIToFICstmrCdtTrf'']) p)"
  shows "only_refuses e ''ISO20022_MX'' (iso20022MxToCanonical p pid trace)"
proof -
  obtain q where q: "iso_message p = Inr q" "has_type Iso20022Pacs008 q"
    using assms by (simp add: iso_message_def)
  then have m: "is_obj q" "is_obj (opt_prop q ''GrpHdr'')"
    by (simp_all add: Iso20022Pacs008_def iso_header_type_def)
  show ?thesis
    unfolding iso20022MxToCanonical_def
    using m q(1) iso_read [OF q(2)]
    by (intro refuses_try refuses_result refuses_bind [OF never_now] refuses_bind [OF never_fresh] refuses_parse) auto
qed

lemma ach_refuses:
  assumes "has_type AchNachaTransaction p"
  shows "only_refuses e ''ACH_NACHA'' (achNachaToCanonical p pid trace)"
proof -
  have m: "is_obj p" "has_type AchEntryDetail (opt_prop p ''entryDetail'')" "has_type AchBatchHeader (opt_prop p ''batchHeader'')"
    using assms by (simp_all add: AchNachaTransaction_def)
  have t: "never_raises e is_str (ach_trace (opt_prop p ''entryDetail'') (opt_prop p ''batchHeader''))"
    using ach_trace_read [OF m(2,3)] by (simp add: never_raises_def)
  show ?thesis
    unfolding achNachaToCanonical_def
    using m(1) ach_read [OF assms]
    by (auto intro!: refuses_try refuses_result refuses_bind [OF never_now] refuses_bind [OF t]
        refuses_bind [OF never_ulid] refuses_parse)
qed

lemma breb_refuses:
  assumes "has_type BreBPaymentRequest p"
  shows "only_refuses e ''BRE_B'' (brebToCanonical p pid trace)"
proof -
  have m: "is_obj p" using assms by (simp add: BreBPaymentRequest_def)
  have "never_raises e (\<lambda>_. True) (breb_raw p pid trace now)" for now
    unfolding breb_raw_def
    using m breb_read [OF assms]
    by (auto intro!: never_result_bind never_bind [OF never_fresh] never_result simp: breb_native [OF assms])
  then show ?thesis
    unfolding brebToCanonical_def
    by (intro refuses_try refuses_bind [OF never_now] refuses_parse) (rule refuses_bind [where Q = "\<lambda>_. True"], simp, rule refuses_parse)
qed

lemma pix_native_refuses:
  assumes "has_type NativePixPayload p" "pix_is_native p = Inr True"
  shows "only_refuses e ''PIX'' (pixToCanonical p pid trace)"
proof -
  have "opt_str (opt_prop p ''endToEndId'')" using assms(1) by (simp add: NativePixPayload_def opt_str_def)
  then show ?thesis
    unfolding pixToCanonical_def assms(2)
    by (auto intro!: refuses_bind [OF never_now] refuses_result refuses_bind [OF never_fresh_str] pix_read refuses_parse)
qed

lemma swift_refuses:
  assumes "is_str p \<or> has_type SwiftMt103Message p"
  shows "only_refuses e ''SWIFT_MT103'' (swiftMt103ToCanonical p pid trace)"
proof -
  let ?m = "case p of JStr s \<Rightarrow> io_bind (parseMt103 s) (\<lambda>m. io_return (mt103_js m)) | _ \<Rightarrow> io_return p"
  let ?Q = "\<lambda>v. \<exists>ops charges. has_type (mt103_type ops charges) v"
  have parsed: "never_raises e ?Q (io_bind (parseMt103 s) (\<lambda>m. io_return (mt103_js m)))" for s
  proof (rule never_bind)
    show "never_raises e (\<lambda>_. True) (parseMt103 s)"
      unfolding parseMt103_def Let_def
      by (intro never_if never_bind [OF never_now] never_bind [OF never_ulid] never_return TrueI
          never_bind [where P = "\<lambda>_. True"])
    fix m
    have "has_type (mt103_type TString TString) (mt103_js m)" by (rule mt103_typed) simp_all
    then show "never_raises e ?Q (io_return (mt103_js m))" by (auto simp: never_raises_def io_return_def)
  qed
  have struct: "never_raises e ?Q (io_return p)" if "has_type SwiftMt103Message p"
    using that by (auto simp: never_raises_def io_return_def SwiftMt103Message_def)
  have "never_raises e ?Q ?m"
    using assms parsed struct by (cases p) auto
  then show ?thesis
    unfolding swiftMt103ToCanonical_def
    by (auto intro!: refuses_try refuses_bind [OF _ refuses_bind [OF never_now]] refuses_bind [OF never_ulid]
        refuses_result refuses_parse dest: swift_read)
qed

text \<open>
  The payloads a translation to the canonical model is declared to take: on PIX the native
  message, known by one of its keys (a request goes through the mapping table), on SWIFT a
  text or the message, on ISO 20022 the message alone or in its document.
\<close>

fun declared_payload :: "rail \<Rightarrow> jsval \<Rightarrow> bool" where
  "declared_payload PIX p = (has_type NativePixPayload p \<and> pix_is_native p = Inr True)"
| "declared_payload SPEI p = False"
| "declared_payload SWIFT_MT103 p = (is_str p \<or> has_type SwiftMt103Message p)"
| "declared_payload ISO20022_MX p = (is_obj p \<and>
     has_type Iso20022Pacs008 (nullish (opt_path p [''Document'', ''FIToFICstmrCdtTrf'']) p))"
| "declared_payload ACH_NACHA p = has_type AchNachaTransaction p"
| "declared_payload FEDNOW p = has_type FedNowPaymentMessage p"
| "declared_payload BRE_B p = has_type BreBPaymentRequest p"

lemma toCanonical_refuses:
  assumes "declared_payload x p"
  shows "only_refuses e (rail_code x) (toCanonical (rail_code x) p pid trace)"
  using assms rail_of_code [of x]
  by (cases x) (simp_all add: toCanonical_def pix_native_refuses swift_refuses iso_refuses ach_refuses
      fednow_refuses breb_refuses)

text \<open>
  C14: A message of the interface its rail declares is never met with an error of the
  language: when its translation to the canonical model does not return, the canonical
  schema refused it, and the error carries the issues zod found.
\<close>

theorem declared_message_only_refused:
  assumes "declared_payload x p" "toCanonical (rail_code x) p pid trace e w = (Inl y, w')"
  shows "\<exists>msg issues. y = TranslationError (rail_code x) msg [(''zodErrors'', issues)]"
  using toCanonical_refuses [OF assms(1), of e pid trace] assms(2)
  unfolding only_refuses_def schema_refusal_def by blast

definition sample_pix :: jsval where
  "sample_pix = JObj [(''endToEndId'', JStr ''E2E-1''), (''chave'', JStr ''ana@mail.br'')]"

lemma sample_pix_refused:
  "\<exists>y w'. toCanonical (rail_code PIX) sample_pix ''PMT-01ARZ3NDEK'' None sample_env sample_world = (Inl y, w')"
proof -
  obtain raw where raw: "pix_native_raw sample_pix ''PMT-01ARZ3NDEK'' None ''2026-03-13T10:30:00.000Z'' (JStr ''E2E-1'') = Inr raw"
    using pix_read [of "JStr ''E2E-1''"] by fastforce
  have "canonicalPacs008Schema (\<lambda>s. True) (projr (pix_native_raw sample_pix ''PMT-01ARZ3NDEK'' None
      ''2026-03-13T10:30:00.000Z'' (JStr ''E2E-1''))) = None" by code_simp
  then have refused: "canonicalPacs008Schema (\<lambda>s. True) raw = None" by (simp add: raw)
  have p: "pix_is_native sample_pix = Inr True" "opt_prop sample_pix ''endToEndId'' = JStr ''E2E-1''"
    by code_simp+
  have r: "rail_of ''PIX'' = Some PIX" by code_simp
  show ?thesis
    by (simp add: toCanonical_def r pixToCanonical_def io_run io_bind_eval [OF now_iso_run] p fresh_if_nullish_def
        is_nullish_def sample_time raw parse_canonical_def refused)
qed

lemma declared_message_only_refused_witness:
  "\<exists>y w' msg issues. toCanonical ''PIX'' sample_pix ''PMT-01ARZ3NDEK'' None sample_env sample_world = (Inl y, w') \<and>
     y = TranslationError ''PIX'' msg [(''zodErrors'', issues)]"
proof -
  have "declared_payload PIX sample_pix" by code_simp
  with sample_pix_refused declared_message_only_refused [of PIX sample_pix] show ?thesis by fastforce
qed
end
