(* ===== verification/Contracts.thy ===== *)
theory Contracts
  imports Server Messages Consumers
begin

text \<open>
  What the service demands of its environment (\<open>src/config/env.ts\<close>), and the shapes it declares
  for its replies (\<open>src/api/schemas/payment-response.ts\<close>) and for the acknowledgements of the rails
  (\<open>src/canonical/pacs002.schema.ts\<close>). No code of the service checks the last two; the
  properties compare them with what the routes send and what the consumer takes.
\<close>

section \<open>The environment\<close>

datatype node_env = Development | Production | Test

primrec node_env_code :: "node_env \<Rightarrow> string" where
  "node_env_code Development = ''development''"
| "node_env_code Production = ''production''"
| "node_env_code Test = ''test''"

record service_env =
  NODE_ENV :: node_env
  PORT :: jsnum
  DATABASE_URL :: string
  RABBITMQ_URL :: string
  JWT_SECRET :: string
  OTEL_EXPORTER_OTLP_ENDPOINT :: string
  OTEL_SERVICE_NAME :: string
  LOG_LEVEL :: string
  OPEN_EXCHANGE_RATES_APP_ID :: "string option"
  WEBHOOK_SECRET :: "string option"

definition z_min :: "nat \<Rightarrow> jsval \<Rightarrow> string option" where
  "z_min n = z_refine (\<lambda>s. n \<le> length s) z_string"

fun is_integer :: "jsnum \<Rightarrow> bool" where
  "is_integer (Fin x) = (x = of_int \<lfloor>x\<rfloor>)"
| "is_integer _ = False"

text \<open>\<open>z.coerce.number().int().positive()\<close>\<close>

definition z_port :: "jsval \<Rightarrow> jsnum option" where
  "z_port v = z_refine (\<lambda>n. is_integer n \<and> num_lt (Fin 0) n) z_number (JNum (Number_val v))"

definition z_url :: "(string \<Rightarrow> bool) \<Rightarrow> jsval \<Rightarrow> string option" where
  "z_url is_url = z_refine is_url z_string"

definition envSchema :: "(string \<Rightarrow> bool) \<Rightarrow> jsval \<Rightarrow> service_env option" where
  "envSchema is_url = z_object (\<lambda>get. do {
     node \<leftarrow> z_default Development (z_enum node_env_code [Development, Production, Test]) (get ''NODE_ENV'');
     port \<leftarrow> z_default (Fin 8080) z_port (get ''PORT'');
     db \<leftarrow> z_url is_url (get ''DATABASE_URL'');
     broker \<leftarrow> z_url is_url (get ''RABBITMQ_URL'');
     jwt \<leftarrow> z_min 16 (get ''JWT_SECRET'');
     otel \<leftarrow> z_url is_url (get ''OTEL_EXPORTER_OTLP_ENDPOINT'');
     service \<leftarrow> z_default ''mipit-core'' (z_min 1) (get ''OTEL_SERVICE_NAME'');
     level \<leftarrow> z_default ''info'' (z_enum id [''fatal'', ''error'', ''warn'', ''info'', ''debug'', ''trace'']) (get ''LOG_LEVEL'');
     fx \<leftarrow> z_optional z_string (get ''OPEN_EXCHANGE_RATES_APP_ID'');
     hook \<leftarrow> z_optional (z_min 16) (get ''WEBHOOK_SECRET'');
     Some \<lparr>NODE_ENV = node, PORT = port, DATABASE_URL = db, RABBITMQ_URL = broker, JWT_SECRET = jwt,
       OTEL_EXPORTER_OTLP_ENDPOINT = otel, OTEL_SERVICE_NAME = service, LOG_LEVEL = level,
       OPEN_EXCHANGE_RATES_APP_ID = fx, WEBHOOK_SECRET = hook\<rparr> })"

text \<open>The variables of a process are texts.\<close>

definition process_object :: "(string \<times> string) list \<Rightarrow> jsval" where
  "process_object vars = JObj (map (\<lambda>(k, v). (k, JStr v)) vars)"

text \<open>The process ends with a code when its variables do not meet the schema.\<close>

datatype start = Exits nat | Starts service_env

definition validateEnv :: "(string \<Rightarrow> bool) \<Rightarrow> (string \<times> string) list \<Rightarrow> start" where
  "validateEnv is_url vars = (case envSchema is_url (process_object vars) of Some e \<Rightarrow> Starts e | None \<Rightarrow> Exits 1)"

section \<open>Declared replies\<close>

definition z_present :: "jsval \<Rightarrow> unit option" where
  "z_present v = Some ()"

fun z_nullable :: "(jsval \<Rightarrow> 'a option) \<Rightarrow> jsval \<Rightarrow> 'a option option" where
  "z_nullable f JNull = Some None"
| "z_nullable f v = map_option Some (f v)"

definition z_datetime :: "(string \<Rightarrow> bool) \<Rightarrow> jsval \<Rightarrow> string option" where
  "z_datetime dt = z_refine dt z_string"

definition paymentAcceptedSchema :: "(string \<Rightarrow> bool) \<Rightarrow> jsval \<Rightarrow> (string \<times> string \<times> string \<times> string) option" where
  "paymentAcceptedSchema dt = z_object (\<lambda>get. do {
     i \<leftarrow> z_string (get ''payment_id'');
     st \<leftarrow> z_string (get ''status'');
     ts \<leftarrow> z_datetime dt (get ''received_at'');
     dst \<leftarrow> z_string (get ''destination'');
     Some (i, st, ts, dst) })"

definition timestampsSchema :: "(string \<Rightarrow> bool) \<Rightarrow> jsval \<Rightarrow> (string \<times> string option list) option" where
  "timestampsSchema dt = z_object (\<lambda>get. do {
     created \<leftarrow> z_datetime dt (get ''created_at'');
     others \<leftarrow> those (map (\<lambda>k. z_nullable (z_datetime dt) (get k))
       [''validated_at'', ''canonicalized_at'', ''routed_at'', ''queued_at'', ''sent_at'', ''acked_at'', ''completed_at'']);
     Some (created, others) })"

definition paymentDetailSchema :: "(string \<Rightarrow> bool) \<Rightarrow> jsval \<Rightarrow> (string \<times> string \<times> string \<times> jsnum \<times> string) option" where
  "paymentDetailSchema dt = z_object (\<lambda>get. do {
     i \<leftarrow> z_string (get ''payment_id'');
     st \<leftarrow> z_string (get ''status'');
     src \<leftarrow> z_string (get ''origin'');
     dst \<leftarrow> z_nullable z_string (get ''destination'');
     amount \<leftarrow> z_number (get ''amount'');
     cur \<leftarrow> z_string (get ''currency'');
     others \<leftarrow> those (map (\<lambda>k. z_present (get k)) [''original'', ''canonical'', ''translated'', ''rail_ack'']);
     ts \<leftarrow> timestampsSchema dt (get ''timestamps'');
     Some (i, st, src, amount, cur) })"

section \<open>The declared acknowledgement\<close>

definition ackErrorSchema :: "jsval \<Rightarrow> (string \<times> string) option" where
  "ackErrorSchema = z_object (\<lambda>get. do {
     cd \<leftarrow> z_string (get ''code'');
     msg \<leftarrow> z_string (get ''message'');
     Some (cd, msg) })"

definition pacs002AckSchema :: "(string \<Rightarrow> bool) \<Rightarrow> jsval \<Rightarrow> (string \<times> string option \<times> string \<times> (string \<times> string) option \<times> string) option" where
  "pacs002AckSchema dt = z_object (\<lambda>get. do {
     i \<leftarrow> z_string (get ''payment_id'');
     tx \<leftarrow> z_optional z_string (get ''rail_tx_id'');
     st \<leftarrow> z_enum id [''ACCEPTED'', ''REJECTED'', ''ERROR''] (get ''status'');
     err \<leftarrow> z_optional ackErrorSchema (get ''error'');
     raw \<leftarrow> z_optional z_record (get ''raw_response'');
     ts \<leftarrow> z_datetime dt (get ''processed_at'');
     Some (i, tx, st, err, ts) })"

section \<open>Reading a number back\<close>

lemma digit_not_letter: "is_digit c \<Longrightarrow> lower_char c = c \<and> c \<noteq> CHR ''x'' \<and> c \<noteq> CHR ''o'' \<and> c \<noteq> CHR ''b''"
  by (auto simp: lower_char_def is_digit_def is_upper_def char_code_def)

lemma unsigned_literal_digits:
  assumes "list_all is_digit s" "s \<noteq> []"
  shows "unsigned_literal s = Some (num_of (of_int (digits_val s)), [])"
proof -
  have "\<not> startsWith s ''Infinity''" using assms not_digit_I by (cases s) auto
  then show ?thesis
    using assms(2) by (simp add: unsigned_literal_def takeWhile_digits [OF assms(1)] dropWhile_digits [OF assms(1)] exp_part_def)
qed

lemma Number_digits:
  assumes "list_all is_digit s" "s \<noteq> []"
  shows "Number_of_string s = num_of (of_int (digits_val s))"
proof -
  have d: "\<forall>c \<in> set s. is_digit c" using assms(1) by (simp add: list_all_iff)
  then have "\<not> is_space (hd s)" "\<not> is_space (last s)" using assms(2) not_digit_I by simp_all
  with assms(2) have t: "trim s = s" by (intro trim_ends)
  have two: "toLowerCase (take 2 s) \<noteq> [a, x]" if "x \<in> {CHR ''x'', CHR ''o'', CHR ''b''}" for a x
  proof
    assume "toLowerCase (take 2 s) = [a, x]"
    moreover have "toLowerCase (take 2 s) = take 2 s"
      using d digit_not_letter by (auto simp: toLowerCase_def intro!: map_idI dest: in_set_takeD)
    ultimately have "x \<in> set s" by (metis in_set_takeD list.set_intros)
    with d digit_not_letter that show False by blast
  qed
  obtain c r where s: "s = c # r" using assms(2) by (cases s) auto
  then have "signed_literal s = unsigned_literal s"
    using d not_digit_I [of c] by (simp add: signed_literal_def)
  then show ?thesis
    by (simp add: Number_of_string_def t Let_def two assms(2) unsigned_literal_digits [OF assms])
qed

lemma Number_show_nat: "0 \<le> n \<Longrightarrow> n \<le> 2 ^ 53 \<Longrightarrow> Number_of_string (show_nat n) = Fin (of_int n)"
  using Number_digits [OF show_nat_digits show_nat_nonempty, of n] by simp

section \<open>Properties\<close>

text \<open>A configuration within the bounds of the schema, and variables that say it.\<close>

definition config_ok :: "(string \<Rightarrow> bool) \<Rightarrow> service_env \<Rightarrow> bool" where
  "config_ok is_url e = ((\<exists>n. PORT e = Fin (of_int n) \<and> 0 < n) \<and> is_url (DATABASE_URL e) \<and> is_url (RABBITMQ_URL e) \<and>
     16 \<le> length (JWT_SECRET e) \<and> is_url (OTEL_EXPORTER_OTLP_ENDPOINT e) \<and> OTEL_SERVICE_NAME e \<noteq> [] \<and>
     LOG_LEVEL e \<in> {''fatal'', ''error'', ''warn'', ''info'', ''debug'', ''trace''} \<and>
     (case WEBHOOK_SECRET e of Some s \<Rightarrow> 16 \<le> length s | None \<Rightarrow> True))"

definition opt_var :: "string \<Rightarrow> string option \<Rightarrow> (string \<times> string) list" where
  "opt_var k v = (case v of Some s \<Rightarrow> [(k, s)] | None \<Rightarrow> [])"

definition config_vars :: "service_env \<Rightarrow> (string \<times> string) list" where
  "config_vars e = [(''NODE_ENV'', node_env_code (NODE_ENV e)), (''PORT'', case PORT e of Fin x \<Rightarrow> show_nat \<lfloor>x\<rfloor> | _ \<Rightarrow> []),
     (''DATABASE_URL'', DATABASE_URL e), (''RABBITMQ_URL'', RABBITMQ_URL e), (''JWT_SECRET'', JWT_SECRET e),
     (''OTEL_EXPORTER_OTLP_ENDPOINT'', OTEL_EXPORTER_OTLP_ENDPOINT e), (''OTEL_SERVICE_NAME'', OTEL_SERVICE_NAME e),
     (''LOG_LEVEL'', LOG_LEVEL e)] @ opt_var ''OPEN_EXCHANGE_RATES_APP_ID'' (OPEN_EXCHANGE_RATES_APP_ID e) @
     opt_var ''WEBHOOK_SECRET'' (WEBHOOK_SECRET e)"

lemma z_text_Some: "z_min n v = Some s \<longleftrightarrow> v = JStr s \<and> n \<le> length s" "z_url is_url v = Some s \<longleftrightarrow> v = JStr s \<and> is_url s"
  by (auto simp: z_min_def z_url_def z_refine_Some)

lemma z_other_Some:
  "z_default d f v = Some a \<Longrightarrow> a = d \<or> f v = Some a"
  "z_optional f v = Some r \<Longrightarrow> r = None \<or> (\<exists>a. r = Some a \<and> f v = Some a)"
  "z_enum cd xs v = Some x \<Longrightarrow> x \<in> set xs"
  by (auto simp: z_default_def z_optional_def z_enum_def find_Some_iff split: if_splits jsval.splits)

lemma z_port_Some: "z_port v = Some n \<longleftrightarrow> (\<exists>k. n = Fin (of_int k) \<and> 0 < k \<and> Number_val v = n)"
proof
  assume "z_port v = Some n"
  then have n: "Number_val v = n" "is_integer n" "num_lt (Fin 0) n" by (auto simp: z_port_def z_refine_Some split: if_splits)
  then obtain x where x: "n = Fin x" "x = of_int \<lfloor>x\<rfloor>" by (cases n) auto
  with n(3) have "0 < \<lfloor>x\<rfloor>" by (metis num_lt.simps(1) of_int_0_less_iff)
  with n(1) x show "\<exists>k. n = Fin (of_int k) \<and> 0 < k \<and> Number_val v = n" by metis
next
  assume "\<exists>k. n = Fin (of_int k) \<and> 0 < k \<and> Number_val v = n"
  then show "z_port v = Some n" by (auto simp: z_port_def z_refine_Some)
qed

lemma config_starts_ok:
  assumes "validateEnv is_url vars = Starts e"
  shows "config_ok is_url e"
proof -
  define get where "get k = (case map_of (map (\<lambda>(k, v). (k, JStr v)) vars) k of Some v \<Rightarrow> v | None \<Rightarrow> JUndef)" for k
  from assms have "envSchema is_url (process_object vars) = Some e"
    by (simp add: validateEnv_def split: option.splits)
  then have "z_default (Fin 8080) z_port (get ''PORT'') = Some (PORT e)"
    "z_url is_url (get ''DATABASE_URL'') = Some (DATABASE_URL e)" "z_url is_url (get ''RABBITMQ_URL'') = Some (RABBITMQ_URL e)"
    "z_min 16 (get ''JWT_SECRET'') = Some (JWT_SECRET e)"
    "z_url is_url (get ''OTEL_EXPORTER_OTLP_ENDPOINT'') = Some (OTEL_EXPORTER_OTLP_ENDPOINT e)"
    "z_default ''mipit-core'' (z_min 1) (get ''OTEL_SERVICE_NAME'') = Some (OTEL_SERVICE_NAME e)"
    "z_default ''info'' (z_enum id [''fatal'', ''error'', ''warn'', ''info'', ''debug'', ''trace'']) (get ''LOG_LEVEL'') = Some (LOG_LEVEL e)"
    "z_optional (z_min 16) (get ''WEBHOOK_SECRET'') = Some (WEBHOOK_SECRET e)"
    unfolding envSchema_def process_object_def z_object.simps get_def [symmetric]
    by (auto simp: bind_eq_Some_conv)
  note s = this
  have "PORT e = Fin (of_int 8080) \<or> z_port (get ''PORT'') = Some (PORT e)" using z_other_Some(1) [OF s(1)] by simp
  then have "\<exists>n. PORT e = Fin (of_int n) \<and> 0 < n" by (metis z_port_Some zero_less_numeral)
  moreover have "OTEL_SERVICE_NAME e \<noteq> []" using z_other_Some(1) [OF s(6)] by (auto simp: z_text_Some)
  moreover have "LOG_LEVEL e \<in> {''fatal'', ''error'', ''warn'', ''info'', ''debug'', ''trace''}"
    using z_other_Some(1) [OF s(7)] by (auto dest: z_other_Some(3))
  ultimately show ?thesis
    using s(2-5) z_other_Some(2) [OF s(8)] by (auto simp: config_ok_def z_text_Some)
qed

lemma node_env_read: "z_enum node_env_code [Development, Production, Test] (JStr (node_env_code n)) = Some n"
  by (cases n) (simp_all add: z_enum_def)

lemma level_read: "l \<in> {''fatal'', ''error'', ''warn'', ''info'', ''debug'', ''trace''} \<Longrightarrow>
    z_enum id [''fatal'', ''error'', ''warn'', ''info'', ''debug'', ''trace''] (JStr l) = Some l"
  by (auto simp: z_enum_def)

lemma present_read: "z_default d f (JStr s) = f (JStr s)" "z_optional f (JStr s) = map_option Some (f (JStr s))"
    "z_optional f JUndef = Some None"
  by (simp_all add: z_default_def z_optional_def)

lemma config_vars_start:
  assumes "config_ok is_url e" "num_le (PORT e) (Fin (2 ^ 53))"
  shows "validateEnv is_url (config_vars e) = Starts e"
proof -
  obtain n where n: "PORT e = Fin (of_int n)" "0 < n" using assms(1) by (auto simp: config_ok_def)
  have "n \<le> 2 ^ 53" using assms(2) by (simp add: n(1) num_le_def num_eq_def) linarith
  then have port: "z_port (JStr (show_nat n)) = Some (PORT e)"
    using n Number_show_nat [of n] by (simp add: z_port_Some)
  have shown: "(case PORT e of Fin x \<Rightarrow> show_nat \<lfloor>x\<rfloor> | _ \<Rightarrow> []) = show_nat n" by (simp add: n(1))
  have ok: "is_url (DATABASE_URL e)" "is_url (RABBITMQ_URL e)" "16 \<le> length (JWT_SECRET e)" "is_url (OTEL_EXPORTER_OTLP_ENDPOINT e)"
    "Suc 0 \<le> length (OTEL_SERVICE_NAME e)" "LOG_LEVEL e \<in> {''fatal'', ''error'', ''warn'', ''info'', ''debug'', ''trace''}"
    "case WEBHOOK_SECRET e of Some s \<Rightarrow> 16 \<le> length s | None \<Rightarrow> True"
    using assms(1) by (auto simp: config_ok_def Suc_le_eq)
  have "envSchema is_url (process_object (config_vars e)) = Some e"
    using ok(1-5,7) by (cases "OPEN_EXCHANGE_RATES_APP_ID e"; cases "WEBHOOK_SECRET e")
      (simp_all add: envSchema_def process_object_def config_vars_def opt_var_def present_read node_env_read level_read [OF ok(6)] port
        z_text_Some(1) [THEN iffD2] z_text_Some(2) [THEN iffD2] shown)
  then show ?thesis by (simp add: validateEnv_def)
qed

text \<open>
  C40: The configurations the service can start with are those within the bounds of the schema (the
  port a positive whole number, the secrets of 16 characters at least, the addresses URLs, ...), and
  each of them is reached by the variables that say it: read from them, it is the same.
\<close>

theorem configuration_roundtrip:
  assumes "num_le (PORT e) (Fin (2 ^ 53))"
  shows "(validateEnv is_url (config_vars e) = Starts e) = config_ok is_url e \<and>
    (\<forall>vars. validateEnv is_url vars = Starts e \<longrightarrow> config_ok is_url e)"
  using config_starts_ok config_vars_start assms by blast

definition sample_config :: service_env where
  "sample_config = \<lparr>NODE_ENV = Production, PORT = Fin 8080, DATABASE_URL = ''postgres://db/mipit'',
     RABBITMQ_URL = ''amqp://broker'', JWT_SECRET = ''0123456789abcdef'', OTEL_EXPORTER_OTLP_ENDPOINT = ''http://otel:4317'',
     OTEL_SERVICE_NAME = ''mipit-core'', LOG_LEVEL = ''info'', OPEN_EXCHANGE_RATES_APP_ID = None,
     WEBHOOK_SECRET = None\<rparr>"

lemma configuration_roundtrip_witness: "validateEnv (\<lambda>s. True) (config_vars sample_config) = Starts sample_config"
proof -
  have "num_le (PORT sample_config) (Fin (2 ^ 53))" by (simp add: sample_config_def num_le_def num_eq_def)
  moreover have "\<exists>n. PORT sample_config = Fin (of_int n) \<and> 0 < n"
    by (rule exI [of _ 8080]) (simp add: sample_config_def)
  then have "config_ok (\<lambda>s. True) sample_config" by (simp add: config_ok_def) (simp add: sample_config_def)
  ultimately show ?thesis using configuration_roundtrip by blast
qed

text \<open>
  No reply of the payment routes has the shape that the repository declares for it: whatever
  the payment, its detail fails the declared schema of the details, and the reply to a creation
  fails the declared schema of the accepted payments.
\<close>

theorem replies_break_their_schemas:
  "paymentDetailSchema dt (payment_detail p trail) = None \<and> paymentAcceptedSchema dt (buildPaymentResponse res) = None"
  by (auto simp: paymentDetailSchema_def payment_detail_def paymentAcceptedSchema_def buildPaymentResponse_def z_datetime_def
      z_refine_def bind_eq_None_conv split: option.splits)

text \<open>An acknowledgement of the declared shape has its status where the consumer does not look.\<close>

lemma declared_ack_refused:
  assumes "pacs002AckSchema dt v = Some a" "e_json_parse e content = Some v" "opt_prop v ''rail_ack'' = JUndef"
  shows "ack_handle hooked content e w = (Inr (Nack False), w)"
proof -
  from assms(1) have "\<not> is_nullish v" by (cases v) (auto simp: pacs002AckSchema_def is_nullish_def)
  with assms(2,3) show ?thesis by (simp add: ack_handle_run)
qed

section \<open>The messages of the broker\<close>

text \<open>The interfaces of \<open>src/messaging/consumer.ts\<close>, \<open>dlq-handler.ts\<close> and \<open>src/domain/models/rail-ack.ts\<close>.\<close>

definition RailAck :: ts_type where
  "RailAck = TObject
     [Opt ''rail_tx_id'' TString, Req ''status'' (TLit [''ACCEPTED'', ''REJECTED'', ''ERROR'']),
      Opt ''error'' (TObject [Req ''code'' TString, Req ''message'' TString]), Opt ''raw_response'' (TObject [])]"

definition PaymentAckMessage :: ts_type where
  "PaymentAckMessage = TObject
     [Req ''payment_id'' TString, Req ''trace_id'' TString, Req ''source_rail'' TString, Req ''adapter_id'' TString,
      Req ''instance_id'' TString, Req ''status'' (TLit [''ACKED_BY_RAIL'', ''REJECTED'', ''FAILED'']),
      Req ''rail_ack'' RailAck, Req ''latency_ms'' TNumber, Req ''processed_at'' TString]"

definition DlqMessage :: ts_type where
  "DlqMessage = TObject
     [Req ''payment_id'' TString, Req ''trace_id'' TString, Req ''destination_rail'' TString,
      Req ''retry_count'' TNumber, Req ''original_error'' TString, Req ''failed_at'' TString]"

text \<open>
  A message of the interface that names a payment gets past the checks of the consumer, and
  what its handling reads of it is there: it is acknowledged exactly when the answer is applied.
\<close>

lemma declared_ack_understood:
  assumes "has_type PaymentAckMessage v" "e_json_parse e content = Some v" "opt_prop v ''payment_id'' \<noteq> JStr []"
  shows "fst (ack_handle hooked content e w) = (case fst (ack_apply hooked v e w) of Inr _ \<Rightarrow> Inr Ack | Inl _ \<Rightarrow> Inr (Nack False))"
    "\<exists>source. as_string (opt_prop v ''source_rail'') = Inr source"
proof -
  have v: "is_obj v" "is_str (opt_prop v ''payment_id'')" "is_str (opt_prop v ''source_rail'')"
    "opt_prop (opt_prop v ''rail_ack'') ''status'' \<in> JStr ` {''ACCEPTED'', ''REJECTED'', ''ERROR''}"
    using assms(1) by (auto simp: PaymentAckMessage_def RailAck_def)
  then have t: "truthy (opt_prop v ''payment_id'')" "truthy (opt_prop (opt_prop v ''rail_ack'') ''status'')"
    using assms(3) by (cases "opt_prop v ''payment_id''"; auto)+
  have n: "\<not> is_nullish v" using v(1) by (cases v) (simp_all add: is_nullish_def)
  show "fst (ack_handle hooked content e w) = (case fst (ack_apply hooked v e w) of Inr _ \<Rightarrow> Inr Ack | Inl _ \<Rightarrow> Inr (Nack False))"
    using assms(2) n t by (simp add: ack_handle_run split: prod.split sum.split)
  show "\<exists>source. as_string (opt_prop v ''source_rail'') = Inr source" using v(3) by simp
qed

end
