(* ===== verification/StartUp.thy ===== *)
theory StartUp
  imports System Reconnect
begin

text \<open>
  The life of the process of \<open>src/index.ts\<close>: the steps of \<open>main\<close> in their order, the loss of
  the broker's connection and its replacement by the reconnector, and the shutdown a signal
  starts. The state says which of its resources are open and who uses which channel; the steps
  are a relation, because a connection can be lost at any moment.
\<close>

section \<open>The resources\<close>

text \<open>The steps of \<open>main\<close>, and those of \<open>shutdown\<close>.\<close>

datatype main_step = ConnectDb | ConnectBroker | DeclareTopology | BuildServer | StartAck | StartDlq
  | StartTimer | Listen | InstallSignals

datatype down_step = ClearTimer | CloseServer | CloseChannel | CloseConnection | EndPool | StopTelemetry

definition main_steps :: "main_step list" where
  "main_steps = [ConnectDb, ConnectBroker, DeclareTopology, BuildServer, StartAck, StartDlq, StartTimer, Listen, InstallSignals]"

definition shutdown_steps :: "down_step list" where
  "shutdown_steps = [ClearTimer, CloseServer, CloseChannel, CloseConnection, EndPool, StopTelemetry]"

text \<open>
  Connections to the broker are numbered as they are made, and each has one channel of the
  same number. \<open>co_channel\<close> is the constant \<open>channel\<close> of \<open>main\<close>, which the publisher and both
  consumers were given; \<open>co_todo\<close> and \<open>co_down\<close> what is left of \<open>main\<close> and of \<open>shutdown\<close>.
\<close>

record core =
  co_todo :: "main_step list"
  co_pool :: bool
  co_made :: nat
  co_conns :: "nat list"
  co_channels :: "nat list"
  co_channel :: "nat option"
  co_bindings :: "binding list"
  co_ack :: "nat option"
  co_dlq :: "nat option"
  co_timer :: bool
  co_listening :: bool
  co_signals :: bool
  co_down :: "down_step list option"
  co_exit :: "int option"

definition cold_start :: core where
  "cold_start = \<lparr>co_todo = main_steps, co_pool = False, co_made = 0, co_conns = [], co_channels = [], co_channel = None,
     co_bindings = [], co_ack = None, co_dlq = None, co_timer = False, co_listening = False, co_signals = False,
     co_down = None, co_exit = None\<rparr>"

definition open_connection :: "core \<Rightarrow> core" where
  "open_connection c = c\<lparr>co_made := Suc (co_made c), co_conns := co_made c # co_conns c, co_channels := co_made c # co_channels c\<rparr>"

fun main_effect :: "main_step \<Rightarrow> core \<Rightarrow> core" where
  "main_effect ConnectDb c = c\<lparr>co_pool := True\<rparr>"
| "main_effect ConnectBroker c = (open_connection c)\<lparr>co_channel := Some (co_made c)\<rparr>"
| "main_effect DeclareTopology c = c\<lparr>co_bindings := setupRabbitMQTopology (co_bindings c)\<rparr>"
| "main_effect BuildServer c = c"
| "main_effect StartAck c = c\<lparr>co_ack := co_channel c\<rparr>"
| "main_effect StartDlq c = c\<lparr>co_dlq := co_channel c\<rparr>"
| "main_effect StartTimer c = c\<lparr>co_timer := True\<rparr>"
| "main_effect Listen c = c\<lparr>co_listening := True\<rparr>"
| "main_effect InstallSignals c = c\<lparr>co_signals := True\<rparr>"

definition channel_open :: "core \<Rightarrow> bool" where
  "channel_open c = (case co_channel c of Some n \<Rightarrow> n \<in> set (co_channels c) | None \<Rightarrow> False)"

definition connection_open :: "core \<Rightarrow> bool" where
  "connection_open c = (case co_channel c of Some n \<Rightarrow> n \<in> set (co_conns c) | None \<Rightarrow> False)"

text \<open>Operations on a channel or a connection that is closed raise.\<close>

fun main_able :: "main_step \<Rightarrow> core \<Rightarrow> bool" where
  "main_able s c = (s \<in> {DeclareTopology, StartAck, StartDlq} \<longrightarrow> channel_open c)"

fun down_effect :: "down_step \<Rightarrow> core \<Rightarrow> core" where
  "down_effect ClearTimer c = c\<lparr>co_timer := False\<rparr>"
| "down_effect CloseServer c = c\<lparr>co_listening := False\<rparr>"
| "down_effect CloseChannel c = c\<lparr>co_channels := filter (\<lambda>n. co_channel c \<noteq> Some n) (co_channels c)\<rparr>"
| "down_effect CloseConnection c = c\<lparr>co_conns := filter (\<lambda>n. co_channel c \<noteq> Some n) (co_conns c),
     co_channels := filter (\<lambda>n. co_channel c \<noteq> Some n) (co_channels c)\<rparr>"
| "down_effect EndPool c = c\<lparr>co_pool := False\<rparr>"
| "down_effect StopTelemetry c = c"

fun down_able :: "down_step \<Rightarrow> core \<Rightarrow> bool" where
  "down_able CloseChannel c = channel_open c"
| "down_able CloseConnection c = connection_open c"
| "down_able _ c = True"

definition connection_lost :: "nat \<Rightarrow> core \<Rightarrow> core" where
  "connection_lost n c = c\<lparr>co_conns := filter (\<lambda>m. m \<noteq> n) (co_conns c), co_channels := filter (\<lambda>m. m \<noteq> n) (co_channels c)\<rparr>"

section \<open>The steps\<close>

text \<open>
  Whatever \<open>main\<close> awaits can fail, and then the process exits with 1; so it does when \<open>shutdown\<close>
  raises, since nobody awaits it. The reconnector replaces a lost connection by a new one on
  which it declares the topology, or fails to.
\<close>

inductive life_step :: "core \<Rightarrow> core \<Rightarrow> bool" where
  main_ok: "co_exit c = None \<Longrightarrow> co_todo c = s # ss \<Longrightarrow> main_able s c \<Longrightarrow> life_step c (main_effect s (c\<lparr>co_todo := ss\<rparr>))"
| main_fails: "co_exit c = None \<Longrightarrow> co_todo c = s # ss \<Longrightarrow> s \<notin> {StartTimer, InstallSignals} \<Longrightarrow>
    life_step c (c\<lparr>co_todo := [], co_exit := Some 1\<rparr>)"
| lost: "co_exit c = None \<Longrightarrow> n \<in> set (co_conns c) \<Longrightarrow> life_step c (connection_lost n c)"
| reconnected: "co_exit c = None \<Longrightarrow> co_channel c \<noteq> None \<Longrightarrow> \<not> connection_open c \<Longrightarrow>
    life_step c ((open_connection c)\<lparr>co_bindings := setupRabbitMQTopology (co_bindings c)\<rparr>)"
| reconnected_bare: "co_exit c = None \<Longrightarrow> co_channel c \<noteq> None \<Longrightarrow> \<not> connection_open c \<Longrightarrow> life_step c (open_connection c)"
| signal: "co_exit c = None \<Longrightarrow> co_signals c \<Longrightarrow> co_down c = None \<Longrightarrow> life_step c (c\<lparr>co_down := Some shutdown_steps\<rparr>)"
| down_ok: "co_exit c = None \<Longrightarrow> co_down c = Some (s # ss) \<Longrightarrow> down_able s c \<Longrightarrow>
    life_step c (down_effect s (c\<lparr>co_down := Some ss\<rparr>))"
| down_fails: "co_exit c = None \<Longrightarrow> co_down c = Some (s # ss) \<Longrightarrow> s \<noteq> ClearTimer \<Longrightarrow> life_step c (c\<lparr>co_exit := Some 1\<rparr>)"
| gone: "co_exit c = None \<Longrightarrow> co_down c = Some [] \<Longrightarrow> life_step c (c\<lparr>co_exit := Some 0\<rparr>)"

inductive_cases life_stepE: "life_step c c'"

inductive_simps exited_step: "life_step (c\<lparr>co_exit := Some k\<rparr>) c'"

abbreviation lives :: "core \<Rightarrow> core \<Rightarrow> bool" where
  "lives \<equiv> life_step\<^sup>*\<^sup>*"

text \<open>A process that has exited takes no more steps.\<close>

lemma exit_is_final: "lives c c' \<Longrightarrow> co_exit c = Some k \<Longrightarrow> c' = c"
  by (induction rule: converse_rtranclp_induct) (auto elim: life_stepE)

section \<open>What is up while requests are served\<close>

text \<open>
  What the steps of \<open>main\<close> that are done (\<open>up\<close>) have left, and what those of \<open>shutdown\<close>
  (\<open>off\<close>) have taken away.
\<close>

definition main_left :: "main_step list \<Rightarrow> core \<Rightarrow> bool" where
  "main_left up c = ((co_channel c = None \<longleftrightarrow> ConnectBroker \<notin> set up) \<and>
     (DeclareTopology \<in> set up \<longrightarrow> set topology \<subseteq> set (co_bindings c)) \<and>
     (StartAck \<in> set up \<longrightarrow> co_ack c = co_channel c) \<and> (StartDlq \<in> set up \<longrightarrow> co_dlq c = co_channel c) \<and>
     (co_signals c \<longleftrightarrow> InstallSignals \<in> set up) \<and>
     (\<forall>n. co_channel c = Some n \<longrightarrow> n < co_made c))"

definition held :: "main_step list \<Rightarrow> down_step list \<Rightarrow> core \<Rightarrow> bool" where
  "held up off c = ((co_pool c \<longleftrightarrow> ConnectDb \<in> set up \<and> EndPool \<notin> set off) \<and>
     (co_timer c \<longleftrightarrow> StartTimer \<in> set up \<and> ClearTimer \<notin> set off) \<and>
     (co_listening c \<longleftrightarrow> Listen \<in> set up \<and> CloseServer \<notin> set off) \<and>
     (CloseConnection \<in> set off \<longrightarrow> \<not> connection_open c))"

definition life_ok :: "core \<Rightarrow> bool" where
  "life_ok c = (co_exit c = Some 1 \<or> (\<exists>up off. main_steps = up @ co_todo c \<and> main_left up c \<and> held up off c \<and>
     (case co_down c of None \<Rightarrow> off = [] \<and> co_exit c = None
      | Some ss \<Rightarrow> shutdown_steps = off @ ss \<and> co_todo c = [] \<and> (co_exit c = None \<or> co_exit c = Some 0 \<and> ss = []))))"

lemma topology_set: "set (setupRabbitMQTopology bs) = set bs \<union> set topology"
  unfolding setupRabbitMQTopology_def bind_queue_set topology_def by simp

lemma cold_start_ok: "life_ok cold_start"
  unfolding life_ok_def
  by (intro disjI2 exI [of _ "[]"]) (simp add: cold_start_def main_left_def held_def)

text \<open>The positions of the steps in \<open>main\<close>.\<close>

lemma main_order:
  assumes "main_steps = up @ s # ss"
  shows "s \<notin> set up" "s = ConnectBroker \<Longrightarrow> set up = {ConnectDb}" "s \<in> {StartAck, StartDlq, Listen} \<Longrightarrow> ConnectBroker \<in> set up"
  using assms by (auto simp: main_steps_def Cons_eq_append_conv)

lemma signals_last: "main_steps = up @ ss \<Longrightarrow> InstallSignals \<in> set up \<Longrightarrow> ss = []"
  by (auto simp: main_steps_def Cons_eq_append_conv)

lemma setup_keeps: "set bs \<subseteq> set (setupRabbitMQTopology bs)" "set topology \<subseteq> set (setupRabbitMQTopology bs)"
  by (simp_all add: topology_set)

lemma main_left_effect:
  assumes "main_steps = up @ s # ss" "main_left up c"
  shows "main_left (up @ [s]) (main_effect s c)"
  using assms(2) main_order [OF assms(1)] topology_set [of "co_bindings c"]
  by (cases s) (auto simp: main_left_def open_connection_def)

lemma held_effect:
  assumes "main_steps = up @ s # ss" "held up [] c"
  shows "held (up @ [s]) [] (main_effect s c)"
  using assms(2) main_order(1) [OF assms(1)]
  by (cases s) (auto simp: held_def open_connection_def)

lemma main_left_down: "main_left up c \<Longrightarrow> main_left up (down_effect s c)"
  by (cases s) (auto simp: main_left_def)

lemma down_order:
  assumes "shutdown_steps = off @ s # ss"
  shows "s \<notin> set off" "s = CloseConnection \<Longrightarrow> CloseChannel \<in> set off"
  using assms by (auto simp: shutdown_steps_def Cons_eq_append_conv)

lemma held_down:
  assumes "shutdown_steps = off @ s # ss" "held up off c"
  shows "held up (off @ [s]) (down_effect s c)"
  using assms(2) down_order(1) [OF assms(1)]
  by (cases s) (auto simp: held_def connection_open_def split: option.splits)

lemma fields_kept:
  "main_left up (c\<lparr>co_todo := t\<rparr>) = main_left up c" "held up off (c\<lparr>co_todo := t\<rparr>) = held up off c"
  "main_left up (c\<lparr>co_down := d\<rparr>) = main_left up c" "held up off (c\<lparr>co_down := d\<rparr>) = held up off c"
  "main_left up (c\<lparr>co_exit := x\<rparr>) = main_left up c" "held up off (c\<lparr>co_exit := x\<rparr>) = held up off c"
  by (simp_all add: main_left_def held_def connection_open_def cong: option.case_cong)

lemma connections_change:
  "main_left up c \<Longrightarrow> main_left up (connection_lost n c)"
  "held up off c \<Longrightarrow> held up off (connection_lost n c)"
  "main_left up c \<Longrightarrow> main_left up (open_connection c)"
  "main_left up c \<Longrightarrow> held up off c \<Longrightarrow> held up off (open_connection c)"
  "main_left up c \<Longrightarrow> main_left up (c\<lparr>co_bindings := setupRabbitMQTopology (co_bindings c)\<rparr>)"
  "held up off (c\<lparr>co_bindings := bs\<rparr>) = held up off c"
  using setup_keeps [of "co_bindings c"]
  by (auto simp: main_left_def held_def connection_lost_def open_connection_def connection_open_def split: option.splits)

lemma life_ok_change:
  assumes "life_ok c" "co_todo c' = co_todo c" "co_down c' = co_down c" "co_exit c' = co_exit c"
    and "\<And>up. main_left up c \<Longrightarrow> main_left up c'" "\<And>up off. main_left up c \<Longrightarrow> held up off c \<Longrightarrow> held up off c'"
  shows "life_ok c'"
proof (cases "co_exit c = Some 1")
  case False
  with assms(1) obtain up off where o: "main_steps = up @ co_todo c" "main_left up c" "held up off c"
    "case co_down c of None \<Rightarrow> off = [] \<and> co_exit c = None
     | Some ss \<Rightarrow> shutdown_steps = off @ ss \<and> co_todo c = [] \<and> (co_exit c = None \<or> co_exit c = Some 0 \<and> ss = [])"
    unfolding life_ok_def by blast
  then show ?thesis
    unfolding life_ok_def assms(2-4) using assms(5) assms(6) by blast
qed (simp add: life_ok_def assms(4))

lemma life_ok_bindings: "life_ok c \<Longrightarrow> life_ok (c\<lparr>co_bindings := setupRabbitMQTopology (co_bindings c)\<rparr>)"
  by (rule life_ok_change) (simp_all add: connections_change)

lemma life_step_ok: "life_step c c' \<Longrightarrow> life_ok c \<Longrightarrow> life_ok c'"
proof (induction rule: life_step.induct)
  case (main_ok c s ss)
  then obtain up where up: "main_steps = up @ s # ss" "main_left up c" "held up [] c" "co_down c = None"
    by (auto simp: life_ok_def split: option.splits)
  let ?c = "main_effect s (c\<lparr>co_todo := ss\<rparr>)"
  have "main_left (up @ [s]) ?c" "held (up @ [s]) [] ?c"
    using main_left_effect [OF up(1)] held_effect [OF up(1)] up(2,3) by (simp_all add: fields_kept)
  moreover have "co_todo ?c = ss" "co_down ?c = None" "co_exit ?c = None"
    using main_ok up(4) by (cases s; simp add: open_connection_def)+
  ultimately show ?case using up(1) unfolding life_ok_def by (intro disjI2 exI [of _ "up @ [s]"] exI [of _ "[]"]) simp
next
  case (lost c n)
  from lost(3) show ?case
    by (rule life_ok_change) (simp_all add: connections_change, simp_all add: connection_lost_def)
next
  case (reconnected c)
  let ?d = "open_connection c"
  from reconnected(4) have "life_ok ?d"
    by (rule life_ok_change) (simp_all add: connections_change, simp_all add: open_connection_def)
  from life_ok_bindings [OF this] show ?case by (simp add: open_connection_def)
next
  case (reconnected_bare c)
  from reconnected_bare(4) show ?case
    by (rule life_ok_change) (simp_all add: connections_change, simp_all add: open_connection_def)
next
  case (down_ok c s ss)
  then obtain up off where o: "main_steps = up @ co_todo c" "main_left up c" "held up off c" "shutdown_steps = off @ s # ss" "co_todo c = []"
    by (auto simp: life_ok_def)
  let ?c = "down_effect s (c\<lparr>co_down := Some ss\<rparr>)"
  have "main_left up ?c" "held up (off @ [s]) ?c"
    using main_left_down held_down [OF o(4)] o(2,3) by (simp_all add: fields_kept)
  moreover have "co_todo ?c = []" "co_down ?c = Some ss" "co_exit ?c = None"
    using down_ok(1) o(5) by (cases s; simp)+
  ultimately show ?case using o(1,4,5) unfolding life_ok_def by (intro disjI2 exI [of _ up] exI [of _ "off @ [s]"]) simp
next
  case (signal c)
  then obtain up where o: "main_steps = up @ co_todo c" "main_left up c" "held up [] c"
    by (auto simp: life_ok_def)
  then have "co_todo c = []" using signal(2) signals_last by (simp add: main_left_def)
  with o signal(1) show ?case by (auto simp: life_ok_def fields_kept)
qed (auto simp: life_ok_def fields_kept split: option.splits)

lemma lives_ok: "lives c c' \<Longrightarrow> life_ok c \<Longrightarrow> life_ok c'"
  by (induction rule: rtranclp_induct) (auto dest: life_step_ok)

section \<open>Who uses which channel\<close>

definition wired :: "core \<Rightarrow> bool" where
  "wired c = (set (co_channels c) \<subseteq> set (co_conns c) \<and> co_ack c \<in> {None, co_channel c} \<and> co_dlq c \<in> {None, co_channel c})"

lemma wired_step:
  assumes "life_step c c'" "life_ok c" "wired c"
  shows "wired c'"
  using assms
proof (induction rule: life_step.induct)
  case (main_ok c s ss)
  show ?case
  proof (cases "s = ConnectBroker")
    case True
    from main_ok(1,2,4) obtain up where "main_steps = up @ s # ss" "main_left up c"
      by (auto simp: life_ok_def)
    then have "co_channel c = None" using main_order(1) True by (auto simp: main_left_def)
    with main_ok(5) True show ?thesis by (auto simp: wired_def open_connection_def)
  next
    case False
    with main_ok(5) show ?thesis by (cases s) (auto simp: wired_def)
  qed
next
  case (down_ok c s ss)
  then show ?case by (cases s) (auto simp: wired_def)
qed (auto simp: wired_def connection_lost_def open_connection_def)

lemma lives_wired: "lives c c' \<Longrightarrow> life_ok c \<Longrightarrow> wired c \<Longrightarrow> wired c'"
  by (induction rule: rtranclp_induct) (auto dest: wired_step lives_ok)

text \<open>The core of a connection that is gone: its number is in use and nothing of it is open.\<close>

definition cut_off :: "nat \<Rightarrow> core \<Rightarrow> bool" where
  "cut_off n c = (co_channel c = Some n \<and> n < co_made c \<and> n \<notin> set (co_conns c) \<and> n \<notin> set (co_channels c) \<and>
     co_ack c \<in> {None, Some n} \<and> co_dlq c \<in> {None, Some n} \<and> co_exit c \<noteq> Some 0 \<and> ConnectBroker \<notin> set (co_todo c) \<and>
     (\<forall>ss. co_down c = Some ss \<longrightarrow> CloseChannel \<in> set ss))"

lemma cut_off_step: "life_step c c' \<Longrightarrow> cut_off n c \<Longrightarrow> cut_off n c'"
proof (induction rule: life_step.induct)
  case (main_ok c s ss)
  then show ?case by (cases s) (auto simp: cut_off_def)
next
  case (down_ok c s ss)
  then show ?case by (cases s) (auto simp: cut_off_def channel_open_def)
qed (auto simp: cut_off_def connection_lost_def open_connection_def shutdown_steps_def)

lemma lives_cut_off: "lives c c' \<Longrightarrow> cut_off n c \<Longrightarrow> cut_off n c'"
  by (induction rule: rtranclp_induct) (auto dest: cut_off_step)

section \<open>Properties\<close>

text \<open>
  C12: However the start-up, losses of the broker and the shutdown interleave, a core that
  answers requests has its database, the declared topology and both consumers on the channel
  of its publisher; and a core that has exited with 0 has stopped answering, ended the
  database pool, cleared the timer and closed the connection it was started with.
\<close>

theorem serving_core_is_complete:
  assumes "lives cold_start c" "co_exit c \<noteq> Some 1"
  shows "(co_listening c \<longrightarrow> co_pool c \<and> set topology \<subseteq> set (co_bindings c) \<and>
      co_ack c = co_channel c \<and> co_dlq c = co_channel c \<and> co_channel c \<noteq> None) \<and>
    (co_exit c = Some 0 \<longrightarrow> \<not> co_listening c \<and> \<not> co_pool c \<and> \<not> co_timer c \<and> \<not> connection_open c)"
proof -
  obtain up off where o: "main_steps = up @ co_todo c" "main_left up c" "held up off c"
    "case co_down c of None \<Rightarrow> off = [] \<and> co_exit c = None
     | Some ss \<Rightarrow> shutdown_steps = off @ ss \<and> co_todo c = [] \<and> (co_exit c = None \<or> co_exit c = Some 0 \<and> ss = [])"
    using lives_ok [OF assms(1) cold_start_ok] assms(2) unfolding life_ok_def by blast
  have serving: "{ConnectDb, ConnectBroker, DeclareTopology, StartAck, StartDlq} \<subseteq> set up" if "Listen \<in> set up"
    using that o(1) by (auto simp: main_steps_def Cons_eq_append_conv)
  have ending: "EndPool \<notin> set off" if "CloseServer \<notin> set off"
    using that o(4) by (auto simp: shutdown_steps_def Cons_eq_append_conv split: option.splits)
  have "off = shutdown_steps" if "co_exit c = Some 0" using that o(4) by (auto split: option.splits)
  with o(2,3) serving ending show ?thesis
    by (auto simp: main_left_def held_def shutdown_steps_def)
qed

text \<open>
  C11: Once the connection of \<open>main\<close> is lost, the core never publishes or consumes again, although
  the reconnector makes new connections: the publisher and both consumers keep the channel of
  the lost one, which stays closed whatever happens, and a shutdown fails at closing it, so that
  the core never exits with 0.
\<close>

theorem lost_connection_is_final:
  assumes "lives cold_start c" "co_channel c = Some n" "n \<notin> set (co_conns c)" "co_down c = None" "co_exit c = None"
    and "lives c c'"
  shows "co_channel c' = Some n \<and> co_ack c' \<in> {None, Some n} \<and> co_dlq c' \<in> {None, Some n} \<and>
    n \<notin> set (co_channels c') \<and> \<not> channel_open c' \<and> co_exit c' \<noteq> Some 0"
proof -
  have "wired cold_start" by (simp add: wired_def cold_start_def)
  then have ok: "life_ok c" "wired c"
    using assms(1) cold_start_ok by (blast intro: lives_ok lives_wired)+
  then obtain up where up: "main_steps = up @ co_todo c" "main_left up c"
    using assms(5) unfolding life_ok_def by auto
  have "ConnectBroker \<in> set up" using up(2) assms(2) by (simp add: main_left_def)
  moreover have "set up \<inter> set (co_todo c) = {}"
    using arg_cong [OF up(1), of distinct] by (simp add: main_steps_def)
  ultimately have "ConnectBroker \<notin> set (co_todo c)" by blast
  with ok(2) up(2) assms(2-5) have "cut_off n c"
    unfolding cut_off_def wired_def main_left_def by auto
  from lives_cut_off [OF assms(6) this] show ?thesis by (simp add: cut_off_def channel_open_def)
qed

section \<open>A life\<close>

text \<open>The core after its start-up, and after the loss of the broker and a reconnection.\<close>

definition running_core :: core where
  "running_core = foldl (\<lambda>c s. main_effect s (c\<lparr>co_todo := tl (co_todo c)\<rparr>)) cold_start main_steps"

lemma start_up: "lives cold_start running_core"
proof -
  have step: "lives cold_start (main_effect s (c\<lparr>co_todo := ss\<rparr>))"
    if "lives cold_start c" "co_exit c = None" "co_todo c = s # ss" "main_able s c" for c s ss
    using that main_ok by (meson rtranclp.rtrancl_into_rtrancl)
  show ?thesis
    unfolding running_core_def main_steps_def foldl.simps
    by (intro step rtranclp.rtrancl_refl) (simp_all add: cold_start_def main_steps_def open_connection_def channel_open_def)
qed

lemma running_core_fields:
  "co_exit running_core = None" "co_down running_core = None" "co_channel running_core = Some 0" "co_conns running_core = [0]"
  "co_made running_core = 1" "co_listening running_core" "co_channels running_core = [0]" "co_ack running_core = Some 0"
  by (simp_all add: running_core_def main_steps_def cold_start_def open_connection_def)

lemma serving_core_is_complete_witness:
  "co_listening running_core \<and> co_pool running_core \<and> set topology \<subseteq> set (co_bindings running_core) \<and>
   co_ack running_core = co_channel running_core"
  using serving_core_is_complete [OF start_up] running_core_fields by simp

definition reconnected_core :: core where
  "reconnected_core = (open_connection (connection_lost 0 running_core))
     \<lparr>co_bindings := setupRabbitMQTopology (co_bindings (connection_lost 0 running_core))\<rparr>"

lemma reconnection: "lives cold_start (connection_lost 0 running_core)" "lives (connection_lost 0 running_core) reconnected_core"
proof -
  have "life_step running_core (connection_lost 0 running_core)"
    by (rule lost) (simp_all add: running_core_fields)
  with start_up show "lives cold_start (connection_lost 0 running_core)" by (rule rtranclp.rtrancl_into_rtrancl)
  have "life_step (connection_lost 0 running_core) reconnected_core"
    unfolding reconnected_core_def
    by (rule reconnected) (simp_all add: connection_lost_def connection_open_def running_core_fields)
  then show "lives (connection_lost 0 running_core) reconnected_core" by blast
qed

lemma lost_connection_is_final_witness:
  "co_conns reconnected_core = [1] \<and> co_channels reconnected_core = [1] \<and> \<not> channel_open reconnected_core"
  using lost_connection_is_final [OF reconnection(1) _ _ _ _ reconnection(2), of 0] running_core_fields
  by (simp add: reconnected_core_def connection_lost_def open_connection_def)
end
