(* ===== verification/ModuleState.thy ===== *)
theory ModuleState
  imports System
begin

text \<open>
  The state three modules keep in their own variables: the database pool of
  \<open>src/persistence/db.ts\<close>, the connection of \<open>src/messaging/rabbitmq.ts\<close> and the shared
  service of \<open>src/fx/fx-service.ts\<close>. What the driver of each answers is an argument; pools
  and connections are numbered as they are made. The lemmas say what the accessors return
  after every outcome, and which resource is forgotten while it is still open.
\<close>

section \<open>The database pool\<close>

datatype pool_outcome = PoolRefused | QueryFailed | PoolConnected

record db_module =
  db_pool :: "nat option"
  db_made :: nat
  db_open :: "nat list"

definition db_fresh :: db_module where
  "db_fresh = \<lparr>db_pool = None, db_made = 0, db_open = []\<rparr>"

definition db_failed :: js_error where
  "db_failed = PlainError ''connection failed''"

text \<open>The \<open>catch\<close> forgets the pool, and does not end it.\<close>

fun connectDb :: "pool_outcome \<Rightarrow> db_module \<Rightarrow> (js_error + nat) \<times> db_module" where
  "connectDb PoolRefused m = (Inl db_failed, m\<lparr>db_pool := None\<rparr>)"
| "connectDb QueryFailed m = (Inl db_failed,
     m\<lparr>db_pool := None, db_made := Suc (db_made m), db_open := db_made m # db_open m\<rparr>)"
| "connectDb PoolConnected m = (Inr (db_made m),
     m\<lparr>db_pool := Some (db_made m), db_made := Suc (db_made m), db_open := db_made m # db_open m\<rparr>)"

definition getPool :: "db_module \<Rightarrow> js_error + nat" where
  "getPool m = (case db_pool m of None \<Rightarrow> Inl (PlainError ''Database pool not initialized'') | Some n \<Rightarrow> Inr n)"

definition disconnectDb :: "bool \<Rightarrow> db_module \<Rightarrow> (js_error + unit) \<times> db_module" where
  "disconnectDb ends m = (case db_pool m of None \<Rightarrow> (Inr (), m)
     | Some n \<Rightarrow> if ends then (Inr (), m\<lparr>db_pool := None, db_open := filter (\<lambda>k. k \<noteq> n) (db_open m)\<rparr>)
         else (Inl db_failed, m))"

text \<open>Every pool that is open was made, and the one in use is open.\<close>

definition db_ok :: "db_module \<Rightarrow> bool" where
  "db_ok m = ((\<forall>n \<in> set (db_open m). n < db_made m) \<and> (\<forall>n. db_pool m = Some n \<longrightarrow> n \<in> set (db_open m)))"

lemma db_ok_kept: "db_ok db_fresh" "db_ok m \<Longrightarrow> db_ok (snd (connectDb x m))" "db_ok m \<Longrightarrow> db_ok (snd (disconnectDb b m))"
proof -
  show "db_ok m \<Longrightarrow> db_ok (snd (connectDb x m))" by (cases x) (auto simp: db_ok_def)
qed (auto simp: db_ok_def db_fresh_def disconnectDb_def split: option.split)

lemma pool_accessor:
  "connectDb x m = (r, m') \<Longrightarrow> getPool m' = (case r of Inr n \<Rightarrow> Inr n | Inl _ \<Rightarrow> Inl (PlainError ''Database pool not initialized''))"
  "disconnectDb b m = (Inr (), m') \<Longrightarrow> getPool m' = Inl (PlainError ''Database pool not initialized'')"
proof -
  show "connectDb x m = (r, m') \<Longrightarrow> getPool m' = (case r of Inr n \<Rightarrow> Inr n | Inl _ \<Rightarrow> Inl (PlainError ''Database pool not initialized''))"
    by (cases x) (auto simp: getPool_def)
qed (auto simp: getPool_def disconnectDb_def split: option.splits if_splits)

text \<open>
  A connection that fails after one that worked leaves the first pool open for good: nothing
  names it any more, and \<open>disconnectDb\<close> does nothing.
\<close>

lemma failed_connection_leaks_pool:
  assumes "db_ok m" "db_pool m = Some n"
  shows "n \<in> set (db_open (snd (disconnectDb True (snd (connectDb QueryFailed m)))))"
  using assms by (simp add: disconnectDb_def db_ok_def)

section \<open>The broker\<close>

text \<open>
  The broker cannot be reached, gives no channel, or refuses a declaration after \<open>k\<close> of the
  bindings; else everything is declared.
\<close>

datatype broker_outcome = NoBroker | NoChannel | DeclaredBindings nat

record broker_module =
  bm_connection :: "nat option"
  bm_channel :: "nat option"
  bm_made :: nat
  bm_bindings :: "binding list"

definition broker_failed :: js_error where
  "broker_failed = PlainError ''broker failed''"

fun connectRabbitMQ :: "broker_outcome \<Rightarrow> broker_module \<Rightarrow> (js_error + nat) \<times> broker_module" where
  "connectRabbitMQ NoBroker m = (Inl broker_failed, m)"
| "connectRabbitMQ NoChannel m = (Inl broker_failed, m\<lparr>bm_connection := Some (bm_made m), bm_made := Suc (bm_made m)\<rparr>)"
| "connectRabbitMQ (DeclaredBindings k) m =
    (let n = bm_made m;
         m1 = m\<lparr>bm_connection := Some n, bm_channel := Some n, bm_made := Suc n,
           bm_bindings := foldl bind_queue (bm_bindings m) (take k topology)\<rparr>
     in (if k < length topology then Inl broker_failed else Inr n, m1))"

definition getChannel :: "broker_module \<Rightarrow> js_error + nat" where
  "getChannel m = (case bm_channel m of None \<Rightarrow> Inl (PlainError ''RabbitMQ channel not initialized'') | Some n \<Rightarrow> Inr n)"

lemma channel_accessor:
  assumes "connectRabbitMQ x m = (Inr n, m')"
  shows "getChannel m' = Inr n \<and> set topology \<subseteq> set (bm_bindings m')"
proof (cases x)
  case (DeclaredBindings k)
  with assms show ?thesis
    by (auto simp: getChannel_def Let_def bind_queue_set split: if_splits)
qed (use assms in simp_all)

text \<open>
  The channel is set before the topology is declared: when a declaration is refused the
  accessor gives a channel all the same.
\<close>

lemma channel_before_topology:
  "fst (connectRabbitMQ (DeclaredBindings 0) m) = Inl broker_failed \<and>
   getChannel (snd (connectRabbitMQ (DeclaredBindings 0) m)) = Inr (bm_made m)"
  by (simp add: getChannel_def Let_def topology_def)

section \<open>The shared FX service\<close>

text \<open>
  The service made at the first call, by the application id of that moment; \<open>appId\<close> is the
  variable of the environment.
\<close>

definition getFxService :: "string option \<Rightarrow> string option option \<Rightarrow> string option \<times> string option option" where
  "getFxService appId inst = (case inst of None \<Rightarrow> (appId, Some appId) | Some a \<Rightarrow> (a, inst))"

lemma fx_service_is_shared:
  "getFxService a inst = (s, inst') \<Longrightarrow> getFxService b inst' = (s, inst')"
  by (auto simp: getFxService_def split: option.splits)

end
