(* ===== verification/Metrics.thy ===== *)
theory Metrics
  imports Messages Consumers
begin

text \<open>
  The metrics of \<open>src/observability/metrics.ts\<close> and where the translator, the route engine and
  the acknowledgement consumer record them. A computation with its metrics gives, besides its
  result, the list of the samples it handed to the metrics library, in order; the library
  itself only adds them up. Erasing the samples gives the computations of the other theories.
\<close>

section \<open>Samples\<close>

datatype sample =
    Inc string "(string \<times> string) list"
  | Observe string "(string \<times> string) list" jsnum

definition latency_buckets :: "jsnum list" where
  "latency_buckets = map Fin [5, 10, 25, 50, 100, 250, 500, 1000, 2500]"

definition recordPayment :: "string \<Rightarrow> string \<Rightarrow> string \<Rightarrow> sample" where
  "recordPayment status originRail destinationRail = Inc ''mipit_payments_total''
     [(''status'', status), (''origin_rail'', originRail), (''destination_rail'', destinationRail)]"

definition recordLatency :: "string \<Rightarrow> jsnum \<Rightarrow> sample" where
  "recordLatency stage durationMs = Observe ''mipit_payment_latency_ms'' [(''stage'', stage)] durationMs"

definition recordTranslationError :: "string \<Rightarrow> string \<Rightarrow> sample" where
  "recordTranslationError r errorType = Inc ''mipit_translation_errors_total'' [(''rail'', r), (''error_type'', errorType)]"

definition recordRoutingDecision :: "string \<Rightarrow> string \<Rightarrow> sample" where
  "recordRoutingDecision rule destinationRail = Inc ''mipit_routing_decisions_total''
     [(''rule'', rule), (''destination_rail'', destinationRail)]"

definition recordIdempotencyHit :: sample where
  "recordIdempotencyHit = Inc ''mipit_idempotency_hits_total'' []"

text \<open>The timer started when the clock of the process reads \<open>start\<close>, stopped at \<open>stop\<close>.\<close>

definition startLatencyTimer :: "string \<Rightarrow> jsnum \<Rightarrow> jsnum \<Rightarrow> sample" where
  "startLatencyTimer stage start stop = recordLatency stage (num_sub stop start)"

section \<open>Computations with their metrics\<close>

type_synonym 'a metered = "environment \<Rightarrow> world \<Rightarrow> ((js_error + 'a) \<times> sample list) \<times> world"

definition erase :: "'a metered \<Rightarrow> 'a io" where
  "erase m = (\<lambda>e w. map_prod fst id (m e w))"

definition metered :: "(js_error + 'a \<Rightarrow> sample list) \<Rightarrow> 'a io \<Rightarrow> 'a metered" where
  "metered samples m = (\<lambda>e w. case m e w of (r, w') \<Rightarrow> ((r, samples r), w'))"

lemma erase_metered [simp]: "erase (metered f m) = m"
  by (simp add: erase_def metered_def fun_eq_iff split: prod.split)

text \<open>The translator: its timer on both paths, and the error by its class.\<close>

definition translation_samples :: "string \<Rightarrow> string \<Rightarrow> jsnum \<Rightarrow> jsnum \<Rightarrow> js_error + 'a \<Rightarrow> sample list" where
  "translation_samples stage r start stop res = startLatencyTimer stage start stop #
     (case res of Inr _ \<Rightarrow> []
      | Inl x \<Rightarrow> [recordTranslationError r (if is_TranslationError x then ''validation'' else ''unexpected'')])"

definition metered_toCanonical :: "jsnum \<Rightarrow> jsnum \<Rightarrow> string \<Rightarrow> jsval \<Rightarrow> string \<Rightarrow> string option \<Rightarrow> canonical metered" where
  "metered_toCanonical start stop r payload pid trace =
     metered (translation_samples ''translation_to_canonical'' r start stop) (toCanonical r payload pid trace)"

definition metered_fromCanonical :: "jsnum \<Rightarrow> jsnum \<Rightarrow> string \<Rightarrow> canonical \<Rightarrow> jsval metered" where
  "metered_fromCanonical start stop r c =
     metered (translation_samples ''translation_from_canonical'' r start stop) (fromCanonical r c)"

text \<open>The route engine: its timer when the rules were loaded, and the decision when one matched.\<close>

definition metered_resolve :: "jsnum \<Rightarrow> jsnum \<Rightarrow> canonical \<Rightarrow> route_result metered" where
  "metered_resolve start stop c = (\<lambda>e w. case loadActiveRules e w of
     (Inl x, w1) \<Rightarrow> ((Inl x, []), w1)
   | (Inr rules, w1) \<Rightarrow>
       (case io_bind (sort_cached_rules rules) (\<lambda>sorted. first_match sorted c) e w1 of
          (Inl x, w2) \<Rightarrow> ((Inl x, []), w2)
        | (Inr None, w2) \<Rightarrow> ((Inl (no_rule_error c), [startLatencyTimer ''routing'' start stop]), w2)
        | (Inr (Some r), w2) \<Rightarrow> ((Inr \<lparr>rt_destination = rr_destination r, rt_ruleName = rr_name r\<rparr>,
            [startLatencyTimer ''routing'' start stop, recordRoutingDecision (rr_name r) (rr_destination r)]), w2)))"

text \<open>The consumer: the payment as counted when its acknowledgement was applied.\<close>

definition ack_sample :: "jsval \<Rightarrow> sample" where
  "ack_sample ack = (let source = to_string (opt_prop ack ''source_rail'') in
     recordPayment (status_code (final_status (opt_prop (opt_prop ack ''rail_ack'') ''status''))) source
       (if source = ''PIX'' then ''SPEI'' else ''PIX''))"

section \<open>Lemmas\<close>

lemma erased_translations:
  "erase (metered_toCanonical t0 t1 r p pid trace) = toCanonical r p pid trace"
  "erase (metered_fromCanonical t0 t1 r c) = fromCanonical r c"
  by (simp_all add: metered_toCanonical_def metered_fromCanonical_def)

lemma erased_resolve: "erase (metered_resolve t0 t1 c) = resolve c"
  by (auto simp: erase_def metered_resolve_def resolve_def io_bind_def io_throw_def io_return_def fun_eq_iff
      split: prod.split sum.split option.split)

text \<open>
  Whether an error is counted as a failed validation or as unexpected says nothing: the
  translations turn every error into one of the first kind, but for the TypeError of PIX.
\<close>

lemma error_types:
  assumes "metered_toCanonical t0 t1 r p pid trace e w = ((Inl x, samples), w')"
  shows "samples = [startLatencyTimer ''translation_to_canonical'' t0 t1, recordTranslationError r ''validation''] \<or>
    r = ''PIX'' \<and> x = TypeError"
proof -
  have "toCanonical r p pid trace e w = (Inl x, w')"
    "samples = translation_samples ''translation_to_canonical'' r t0 t1 (Inl x :: js_error + canonical)"
    using assms by (auto simp: metered_toCanonical_def metered_def split: prod.splits)
  with toCanonical_raises [OF this(1)] show ?thesis by (auto simp: translation_samples_def)
qed

text \<open>
  The label of the destination is one of two rails: an acknowledgement of any rail but PIX is
  counted as a payment to PIX.
\<close>

lemma ack_label:
  "opt_prop ack ''source_rail'' = JStr ''BRE_B'' \<Longrightarrow>
   \<exists>st. ack_sample ack = Inc ''mipit_payments_total''
     [(''status'', st), (''origin_rail'', ''BRE_B''), (''destination_rail'', ''PIX'')]"
  by (simp add: ack_sample_def recordPayment_def Let_def)

text \<open>Every resolution that has its rules observes the time once, and counts the rule it returns.\<close>

lemma routing_counted:
  assumes "metered_resolve t0 t1 c e w = ((Inr route, samples), w')"
  shows "samples = [startLatencyTimer ''routing'' t0 t1, recordRoutingDecision (rt_ruleName route) (rt_destination route)]"
  using assms by (auto simp: metered_resolve_def split: prod.splits sum.splits option.splits)

end
