(* ===== verification/Trail.thy ===== *)
theory Trail
  imports System
begin

text \<open>
  The audit trail along a run of the service: every event it holds is of one of the kinds the
  code records, made by the actor that records that kind, and names a payment that is stored.
  \<open>trail i\<close> is the relation an operation on the payment \<open>i\<close> keeps once that payment is there;
  the operations that have to find or create the payment first are handled by \<open>settles\<close>.
  The names \<open>src/domain/models/audit-event.ts\<close> declares are compared with what is recorded.
\<close>

section \<open>What is recorded\<close>

definition AUDIT_EVENT_TYPES :: "string list" where
  "AUDIT_EVENT_TYPES = [''STATUS_CHANGE'', ''CANONICAL_UPDATED'', ''ROUTE_DECISION'', ''TRANSLATION_COMPLETE'',
     ''ACK_RECEIVED'', ''VALIDATION_ERROR'', ''ROUTING_ERROR'', ''TRANSMISSION_ERROR'', ''RETRY_INITIATED'',
     ''PAYMENT_DUPLICATED'']"

definition AUDIT_ACTORS :: "string list" where
  "AUDIT_ACTORS = [''system'', ''system-validator'', ''system-router'', ''system-translator'', ''adapter-pix'',
     ''adapter-spei'', ''user'']"

text \<open>The kinds of events of the code with their actors; an acknowledgement is recorded under the name of its adapter.\<close>

definition recorded_kinds :: "(string \<times> string) list" where
  "recorded_kinds = [(''PAYMENT_RECEIVED'', ''system''), (''PAYMENT_VALIDATED'', ''system-validator''),
     (''CANONICAL_UPDATED'', ''system-translator''), (''NORMALIZATION_COMPLETE'', ''system''),
     (''ROUTE_DECISION'', ''system-router''), (''STATUS_CHANGE'', ''system''), (''PIPELINE_ERROR'', ''system-pipeline''),
     (''DEAD_LETTER'', ''dlq-handler''), (''COMPENSATION_STARTED'', ''compensation-service''),
     (''COMPENSATION_REVERSAL_REQUIRED'', ''compensation-service''), (''COMPENSATION_COMPLETED'', ''compensation-service''),
     (''COMPENSATION_FAILED'', ''compensation-service'')]"

definition recorded :: "string \<Rightarrow> string \<Rightarrow> bool" where
  "recorded ev actor = ((ev, actor) \<in> set recorded_kinds \<or> ev = ''ACK_RECEIVED'' \<and> take 8 actor = ''adapter-'')"

definition event_ok :: "world \<Rightarrow> audit_event \<Rightarrow> bool" where
  "event_ok w a = (payment_row w (ae_payment_id a) \<noteq> None \<and> recorded (ae_event_type a) (ae_actor a))"

definition trail_ok :: "world \<Rightarrow> bool" where
  "trail_ok w = list_all (event_ok w) (w_audit w)"

lemma recorded_names:
  "recorded ''PAYMENT_RECEIVED'' ''system''" "recorded ''PAYMENT_VALIDATED'' ''system-validator''"
  "recorded ''CANONICAL_UPDATED'' ''system-translator''" "recorded ''NORMALIZATION_COMPLETE'' ''system''"
  "recorded ''ROUTE_DECISION'' ''system-router''" "recorded ''STATUS_CHANGE'' ''system''"
  "recorded ''PIPELINE_ERROR'' ''system-pipeline''" "recorded ''DEAD_LETTER'' ''dlq-handler''"
  "recorded ''COMPENSATION_STARTED'' ''compensation-service''"
  "recorded ''COMPENSATION_REVERSAL_REQUIRED'' ''compensation-service''"
  "recorded ''COMPENSATION_COMPLETED'' ''compensation-service''"
  "recorded ''COMPENSATION_FAILED'' ''compensation-service''"
  "recorded ''ACK_RECEIVED'' (''adapter-'' @ s)"
  by (simp_all add: recorded_def recorded_kinds_def)

section \<open>Keeping the trail\<close>

definition known :: "world \<Rightarrow> string set" where
  "known w = p_id ` set (w_payments w)"

lemma known_row: "payment_row w i \<noteq> None \<longleftrightarrow> i \<in> known w"
  by (auto simp: payment_row_find known_def rows_find_def find_None_iff)

lemma event_ok_known: "event_ok w a = (ae_payment_id a \<in> known w \<and> recorded (ae_event_type a) (ae_actor a))"
  by (simp only: event_ok_def known_row)

text \<open>No payment is lost, and where the payments \<open>I\<close> were stored a good trail stays good.\<close>

definition trail_when :: "string set \<Rightarrow> world \<Rightarrow> world \<Rightarrow> bool" where
  "trail_when I w w' = (known w \<subseteq> known w' \<and> (I \<subseteq> known w \<longrightarrow> trail_ok w \<longrightarrow> trail_ok w'))"

text \<open>When the computation returns, the payment is stored.\<close>

definition stores :: "string \<Rightarrow> 'a io \<Rightarrow> bool" where
  "stores i m = (\<forall>e w a w'. m e w = (Inr a, w') \<longrightarrow> i \<in> known w')"

lemma trail_grows:
  assumes "known w \<subseteq> known w'" "w_audit w' = w_audit w @ evs" "I \<subseteq> known w \<Longrightarrow> list_all (event_ok w') evs"
  shows "trail_when I w w'"
  using assms by (auto simp: trail_when_def trail_ok_def event_ok_known list_all_iff)

lemma trail_same: "known w \<subseteq> known w' \<Longrightarrow> w_audit w' = w_audit w \<Longrightarrow> trail_when I w w'"
  by (rule trail_grows [where evs = "[]"]) simp_all

lemma trail_tables: "w_payments w' = w_payments w \<Longrightarrow> w_audit w' = w_audit w \<Longrightarrow> trail_when I w w'"
  by (rule trail_same) (simp_all add: known_def)

interpretation trail: io_relation "trail_when I" for I
proof
  show "trail_when I w w" for w by (simp add: trail_when_def)
  show "trail_when I u v \<Longrightarrow> trail_when I v w \<Longrightarrow> trail_when I u w" for u v w by (auto simp: trail_when_def)
  show "trail_when I w (tick w)" for w by (rule trail_tables) simp_all
qed

lemmas trail_rules [io_frame] = trail.rules

lemma quiet_trail: "io_keeps quiet m \<Longrightarrow> io_keeps (trail_when I) m"
  by (simp add: io_keeps_def quiet_def trail_tables)

lemma trail_found:
  assumes m: "io_keeps (trail_when I) m" and i: "stores i m" and f: "\<And>a. io_keeps (trail_when (insert i I)) (f a)"
  shows "io_keeps (trail_when I) (io_bind m f)"
  unfolding io_keeps_def
proof (intro allI)
  fix e w
  obtain r w1 where r: "m e w = (r, w1)" by fastforce
  with m have 1: "trail_when I w w1" by (auto dest: io_keepsD)
  show "trail_when I w (snd (io_bind m f e w))"
  proof (cases r)
    case (Inr a)
    with i r have "i \<in> known w1" by (auto simp: stores_def)
    moreover have "trail_when (insert i I) w1 (snd (f a e w1))" using f [of a] by (simp add: io_keeps_def)
    ultimately have "trail_when I w1 (snd (f a e w1))" by (simp add: trail_when_def)
    with 1 r Inr show ?thesis by (auto simp: io_bind_def intro: trail.trans)
  qed (use 1 r in \<open>simp add: io_bind_def\<close>)
qed

lemma stores_bind:
  assumes "stores i m" "\<And>a. io_keeps (trail_when I) (f a)"
  shows "stores i (io_bind m f)"
  unfolding stores_def
proof (intro allI impI)
  fix e w b w' assume "io_bind m f e w = (Inr b, w')"
  then obtain a w1 where a: "m e w = (Inr a, w1)" "f a e w1 = (Inr b, w')" by (auto simp: io_bind_Inr_iff)
  from a(1) assms(1) have "i \<in> known w1" by (auto simp: stores_def)
  with io_keepsD [OF assms(2) a(2)] show "i \<in> known w'" by (auto simp: trail_when_def)
qed

section \<open>The operations on the tables\<close>

lemma payment_update_trail:
  assumes "\<And>n p. p_id (f n p) = p_id p"
  shows "io_keeps (trail_when I) (payment_update i f)" "stores i (payment_update i f)"
proof -
  have "p_id ` set (rows_modify p_id i (f n) ps) = p_id ` set ps" for n ps
    unfolding rows_modify_def set_map image_image by (rule image_cong) (simp_all add: assms)
  then have "known (w\<lparr>w_payments := rows_modify p_id i (f n) (w_payments w)\<rparr>) = known w" for n w
    by (simp add: known_def)
  then show "io_keeps (trail_when I) (payment_update i f)"
    unfolding payment_update_def Let_def by (intro io_frame trail.query trail_same) simp_all
  show "stores i (payment_update i f)"
    unfolding stores_def known_row [symmetric] by (auto dest!: payment_updated [OF _ assms])
qed

lemma payment_updates_trail [io_frame]:
  "io_keeps (trail_when I) (payment_updateStatus i st)" "io_keeps (trail_when I) (payment_updateCanonical i c st)"
  "io_keeps (trail_when I) (payment_updateRoute i d rule st)" "io_keeps (trail_when I) (payment_updateTranslated i t)"
  "io_keeps (trail_when I) (payment_updateRailAck i a st)"
  unfolding payment_update_defs
  by (intro io_frame payment_update_trail; simp add: set_id)+

lemma updates_store: "stores i (payment_updateStatus i st)" "stores i (payment_updateRailAck i a st)"
  by (auto simp: stores_def known_row [symmetric] dest!: status_updated rail_ack_updated)

lemma payment_create_trail [io_frame]: "io_keeps (trail_when I) (payment_create np)"
  unfolding payment_create_def Let_def by (intro io_frame trail.query trail_same) (auto simp: known_def)

lemma create_stores: "np_id np = Some i \<Longrightarrow> i \<noteq> [] \<Longrightarrow> stores i (payment_create np)"
  by (auto simp: stores_def payment_create_def str_or_def io_bind_Inr_iff io_run db_query_def Let_def known_def payment_insert_def
      split: if_splits option.splits)

lemma audit_insert_trail: "recorded ev actor \<Longrightarrow> i \<in> I \<Longrightarrow> io_keeps (trail_when I) (audit_insert i ev actor detail trace)"
  unfolding audit_insert_def
  by (intro io_frame trail.query trail_grows) (auto simp: known_def event_ok_known)

lemma audit_logs_trail:
  "recorded ev actor \<Longrightarrow> i \<in> I \<Longrightarrow> io_keeps (trail_when I) (audit_log i ev actor detail trace)"
  "recorded ''ROUTE_DECISION'' actor \<Longrightarrow> i \<in> I \<Longrightarrow> io_keeps (trail_when I) (service_logRoutingDecision i d rule actor trace)"
  "recorded ev actor \<Longrightarrow> i \<in> I \<Longrightarrow> io_keeps (trail_when I) (service_logError i ev err actor trace)"
  unfolding audit_service_defs audit_logRoutingDecision_def audit_logError_def now_iso_def
  by (intro io_frame audit_insert_trail; assumption)+

lemma reads_trail [io_frame]:
  "io_keeps (trail_when I) (payment_findById i)" "io_keeps (trail_when I) (payment_findRecent n st r)"
  "io_keeps (trail_when I) (payment_findByStatuses ss n)" "io_keeps (trail_when I) (payment_findSince t)"
  "io_keeps (trail_when I) (audit_findByPaymentId i)" "io_keeps (trail_when I) (idem_findByKey k)"
  "io_keeps (trail_when I) (webhook_findByPaymentId i)" "io_keeps (trail_when I) (webhook_create i url events secret)"
  unfolding payment_findById_def payment_findRecent_def payment_findByStatuses_def payment_findSince_def
    audit_findByPaymentId_def idem_findByKey_def webhook_findByPaymentId_def webhook_create_def
  by (unfold Let_def) (intro io_frame trail.query; simp add: trail_tables)+

lemma keys_trail [io_frame]:
  "io_keeps (trail_when I) (idem_tryInsert k pid h t)" "io_keeps (trail_when I) (idem_updateResponse k st b)"
  unfolding idem_tryInsert_def idem_insert_row_def idem_updateResponse_def
  by (intro io_frame trail.query; auto simp: trail_tables split: option.split)+

lemma sends_trail [io_frame]:
  "io_keeps (trail_when I) (publishToAdapter r msg)" "io_keeps (trail_when I) (broadcastPaymentEvent ev)"
  "io_keeps (trail_when I) (send rep)" "io_keeps (trail_when I) (fireForPayment p)"
proof -
  show "io_keeps (trail_when I) (publishToAdapter r msg)"
    unfolding publishToAdapter_def channel_publish_def by (intro io_frame trail.query) (simp add: trail_tables)
  show "io_keeps (trail_when I) (broadcastPaymentEvent ev)"
    unfolding broadcastPaymentEvent_def by (intro trail.modify) (simp add: trail_tables)
  show "io_keeps (trail_when I) (send rep)" unfolding send_def by (intro io_frame)
  show "io_keeps (trail_when I) (fireForPayment p)"
    using fire_scope [of p] by (auto simp: io_keeps_def webhook_scope_def intro: trail_tables)
qed

section \<open>The operations of the components\<close>

lemmas quiet_calls_trail = translator_quiet [THEN quiet_trail] normalize_quiet [THEN quiet_trail]
  resolve_quiet [THEN quiet_trail] now_iso_quiet [THEN quiet_trail] translate_routes_quiet [THEN quiet_trail]

lemmas logs_trail = audit_logs_trail recorded_names insertI1

lemma intake_trail:
  assumes "pid \<noteq> []"
  shows "io_keeps (trail_when I) (pipeline_intake req key pid trace origin t)" "stores pid (pipeline_intake req key pid trace origin t)"
proof -
  have c: "stores pid (payment_create (pipeline_row req key pid trace origin t))"
    by (rule create_stores) (simp_all add: pipeline_row_def assms)
  show "io_keeps (trail_when I) (pipeline_intake req key pid trace origin t)"
    unfolding pipeline_intake_def
    by (rule trail_found [OF payment_create_trail c]) (intro io_frame quiet_calls_trail logs_trail)
  show "stores pid (pipeline_intake req key pid trace origin t)"
    unfolding pipeline_intake_def
    by (rule stores_bind [OF c, where I = "{pid}"]) (intro io_frame quiet_calls_trail logs_trail)
qed

lemma failed_trail: "io_keeps (trail_when I) (pipeline_failed pid trace err)"
proof -
  have "io_keeps (trail_when I) (io_then (payment_updateStatus pid (status_code FAILED))
        (service_logError pid ''PIPELINE_ERROR'' err ''system-pipeline'' (Some trace)))"
    unfolding io_then_def by (rule trail_found [OF payment_updates_trail(1) updates_store(1)]) (rule audit_logs_trail(3), intro recorded_names, simp)
  then show ?thesis unfolding pipeline_failed_def
    by (intro trail.andthen [OF trail.catch_error] trail.return trail.throw)
qed

lemma pipeline_trail: "pid \<noteq> [] \<Longrightarrow> io_keeps (trail_when I) (pipeline_run req key pid trace t)"
  unfolding pipeline_run_def pipeline_dispatch_def
  by (intro trail.bind trail.result trail.catch_error failed_trail trail_found [OF intake_trail])
    (assumption | intro io_frame quiet_calls_trail logs_trail)+

lemma execute_trail: "cx_paymentId cx \<noteq> Some [] \<Longrightarrow> io_keeps (trail_when I) (pipeline_execute req cx)"
  unfolding pipeline_execute_def
  by (cases "cx_paymentId cx") (auto simp: io_bind_assoc io_bind_return intro!: io_frame pipeline_trail)

lemma z_parse_trail [io_frame]: "(\<And>a. io_keeps (trail_when I) (k a)) \<Longrightarrow> io_keeps (trail_when I) (z_parse s v k)"
  unfolding z_parse_def by (auto intro!: io_frame split: sum.split)

lemma routes_trail [io_frame]:
  "io_keeps (trail_when I) (create_payment key trace body)"
  "io_keeps (trail_when I) (list_payments limit status r)"
  "io_keeps (trail_when I) (get_payment i)"
  "io_keeps (trail_when I) (register_webhook i body)"
  "io_keeps (trail_when I) (list_webhooks i)"
  unfolding create_payment_def create_with_key_def create_claimed_def list_payments_def get_payment_def
    register_webhook_def list_webhooks_def with_payment_def
  by (intro io_frame execute_trail; simp)+

lemma compensation_trail [io_frame]:
  "io_keeps (trail_when I) (compensate i)" "io_keeps (trail_when I) (compensateBatch n)"
proof -
  have log: "recorded ev ''compensation-service'' \<Longrightarrow> i \<in> J \<Longrightarrow> io_keeps (trail_when J) (compensation_log p i ev detail)" for J p i ev detail
    unfolding compensation_log_def by (rule audit_logs_trail)
  have found: "io_keeps (trail_when I) (compensate_found i p)" for i p
    unfolding compensate_found_def compensate_try_def
    by (rule trail_found [OF payment_updates_trail(1) updates_store(1)])
      (intro io_frame quiet_calls_trail log recorded_names insertI1)
  show c: "io_keeps (trail_when I) (compensate i)" for i
    unfolding compensate_def by (intro io_frame found)
  have "io_keeps (trail_when I) (compensate_each ps s f)" for ps s f
    by (induction ps s f rule: compensate_each.induct) (auto intro!: io_frame c)
  then show "io_keeps (trail_when I) (compensateBatch n)"
    unfolding compensateBatch_def by (auto intro!: io_frame split: prod.split)
qed

lemma consumers_trail [io_frame]:
  "io_keeps (trail_when I) (ack_handle hooked content)" "io_keeps (trail_when I) (dlq_handle content)"
proof -
  have ack: "io_keeps (trail_when I) (ack_apply hooked v)" for v
    unfolding ack_apply_def Let_def
    by (intro trail.bind [OF trail.result] trail_found [OF payment_updates_trail(5) updates_store(2)])
      (intro io_frame logs_trail)
  have dlq: "io_keeps (trail_when I) (dlq_apply v)" for v
    unfolding dlq_apply_def
    by (intro trail.bind [OF trail.result] trail_found [OF payment_updates_trail(1) updates_store(1)])
      (intro io_frame logs_trail)
  show "io_keeps (trail_when I) (ack_handle hooked content)" "io_keeps (trail_when I) (dlq_handle content)"
    unfolding ack_handle_def dlq_handle_def by (intro io_frame ack dlq)+
qed

lemma reports_trail [io_frame]:
  "io_keeps (trail_when I) (runReconciliation opts)"
  "io_keeps (trail_when I) (summary_route reg l)" "io_keeps (trail_when I) (limits_route l)"
  "io_keeps (trail_when I) (latency_route metric)" "io_keeps (trail_when I) (breakers_route reg)"
proof -
  have "io_keeps (trail_when I) (limiter_report l)" for l unfolding limiter_report_def
    by (auto intro!: io_frame split: prod.split)
  moreover have "io_keeps (trail_when I) summary_counts" unfolding summary_counts_def
    by (intro io_frame trail.query) (simp_all add: trail.refl)
  ultimately show "io_keeps (trail_when I) (summary_route reg l)" "io_keeps (trail_when I) (limits_route l)"
    unfolding summary_route_def limits_route_def
    by (auto intro!: io_frame quiet_calls_trail split: prod.split)
  show "io_keeps (trail_when I) (runReconciliation opts)" "io_keeps (trail_when I) (latency_route metric)"
    "io_keeps (trail_when I) (breakers_route reg)"
    unfolding runReconciliation_def latency_route_def breakers_route_def Let_def by (intro io_frame quiet_calls_trail)+
qed

lemma keeps_limiter_trail [io_frame]: "io_keeps (trail_when I) h \<Longrightarrow> io_keeps (trail_when I) (keeps_limiter p h)"
  unfolding keeps_limiter_def by (intro io_frame)

lemma endpoint_trail: "io_keeps (trail_when I) (endpoint_handler p r trace body)"
  by (cases r) (auto intro!: io_frame quiet_calls_trail split: prod.split
      simp: health_route_def token_route_def rails_route_def reconciliation_route_def compensate_route_def compensate_batch_route_def)

section \<open>Along a run\<close>

lemma run_endpoint_trail: "trail_when I (sv_world s) (sv_world (snd (run_endpoint q trace e s)))"
  using io_keepsD [OF endpoint_trail [of I "sv_process s" "hq_endpoint q" trace "hq_body q"]]
  by (auto simp: run_endpoint_def split: prod.split sum.split)

lemma serve_request_trail: "trail_when I (sv_world s) (sv_world (snd (serve_request limits q e s)))"
proof -
  obtain trace n where *: "serve_request limits q e s =
     (let s1 = s\<lparr>sv_world := (sv_world s)\<lparr>w_tick := n\<rparr>, sv_windows := snd (limit_request limits (hq_url q)
          (client_key (hq_ip q) (hq_forwarded q)) (e_now e (w_tick (sv_world s))) (sv_windows s))\<rparr> in
      case refused_by_hooks limits q e s of Some r \<Rightarrow> (r, s1) | None \<Rightarrow> run_endpoint q trace e s1)"
    using serve_request_cases by blast
  have "trail_when I (sv_world s) ((sv_world s)\<lparr>w_tick := n\<rparr>)" by (rule trail_tables) simp_all
  then show ?thesis
    by (auto simp: * Let_def split: option.split intro: trail.trans [OF _ run_endpoint_trail])
qed

lemma on_tables_trail: "io_keeps (trail_when I) m \<Longrightarrow> trail_when I (sv_world s) (sv_world (snd (on_tables m e s)))"
  by (auto simp: on_tables_def dest: io_keepsD split: prod.split)

lemma happens_trail: "trail_when I (sv_world s) (sv_world (snd (happens limits e h s)))"
proof (cases h)
  case (Requested q)
  then show ?thesis by (simp add: serve_request_trail)
next
  case TimerFired
  have "io_keeps (trail_when I) periodic_reconciliation" unfolding periodic_reconciliation_def by (intro io_frame)
  with TimerFired show ?thesis by (simp add: on_tables_trail)
qed (simp_all add: on_tables_trail consumers_trail)

lemma run_service_trail: "trail_when I (sv_world s) (sv_world (snd (run_service limits hs s)))"
proof (induction limits hs s rule: run_service.induct)
  case (2 limits e h hs s)
  show ?case
    using happens_trail [of I s limits e h] 2 by (auto simp: Let_def split: prod.split intro: trail.trans)
qed (simp add: trail.refl)

section \<open>The declared names\<close>

text \<open>Most kinds of events that are recorded are not among the declared types, and so are the names of some actors.\<close>

lemma recorded_beyond_declared:
  "filter (\<lambda>(ev, _). ev \<notin> set AUDIT_EVENT_TYPES) recorded_kinds = filter (\<lambda>(ev, _). ev \<notin> {''CANONICAL_UPDATED'', ''ROUTE_DECISION'', ''STATUS_CHANGE''}) recorded_kinds"
  "remdups (filter (\<lambda>a. a \<notin> set AUDIT_ACTORS) (map snd recorded_kinds)) = [''system-pipeline'', ''dlq-handler'', ''compensation-service'']"
  "''adapter-bre_b'' \<notin> set AUDIT_ACTORS"
  by (simp_all add: AUDIT_EVENT_TYPES_def AUDIT_ACTORS_def recorded_kinds_def)

section \<open>Properties\<close>

text \<open>
  C7: Whatever the service meets, in whatever order and with whatever queries rejected, its audit
  trail stays sound: every event names a payment that is stored (an event is only written once its
  payment has been created or found) and is of a kind the code records, by the actor that records it.
\<close>

theorem trail_stays_sound:
  assumes "trail_ok (sv_world s)"
  shows "trail_ok (sv_world (snd (run_service limits hs s)))"
  using run_service_trail [of "{}" s limits hs] assms by (simp add: trail_when_def)

lemma trail_stays_sound_witness:
  "trail_ok (sv_world (snd (run_service server_limits sample_happenings sample_server)))"
  by (rule trail_stays_sound) (simp add: sample_server_def queued_world_def trail_ok_def sample_world_def)

end
